(* ===== verification/Prelude.thy ===== *)
theory Prelude
  imports Main "HOL-Library.List_Lexorder" "HOL-Library.Char_ord"
begin

text \<open>
  What every component shares. A Go \<open>map[K]V\<close> is an association list with distinct keys; its
  order is the order in which a \<open>range\<close> over the map visits the entries, which Go leaves open, so
  a lemma about all such lists covers every visiting order. A Go string is a list of bytes
  (\<open>char\<close>); \<open>sort.Strings\<close> sorts by the byte-wise lexicographic order of List_Lexorder.
  A Go \<open>error\<close> result is an option or the left side of a sum. A \<open>time.Time\<close> is the number of
  nanoseconds since the zero time, so \<open>IsZero\<close> is equality with 0.
  The locale \<open>go_map\<close> states what the components use of a map; the locale \<open>step_system\<close> states what
  every stateful component has: a step function that keeps an invariant.
\<close>

named_theorems gostr \<comment> \<open>rewrite rules of the string functions\<close>
named_theorems gomap \<comment> \<open>rewrite rules of the map functions\<close>
named_theorems goerr_simps \<comment> \<open>unfoldings of the error constructors\<close>

type_synonym gotime = int
type_synonym duration = int
type_synonym bytes = string
type_synonym ('k, 'v) gomap = "('k \<times> 'v) list"

subsection \<open>Maps\<close>

definition mget :: "('k, 'v) gomap \<Rightarrow> 'k \<Rightarrow> 'v option" where
  "mget m k = map_of m k"

fun mput :: "'k \<Rightarrow> 'v \<Rightarrow> ('k, 'v) gomap \<Rightarrow> ('k, 'v) gomap" where
  "mput k v [] = [(k, v)]"
| "mput k v (p # ps) = (if fst p = k then (k, v) # ps else p # mput k v ps)"

definition mdel :: "'k \<Rightarrow> ('k, 'v) gomap \<Rightarrow> ('k, 'v) gomap" where
  "mdel k m = filter (\<lambda>p. fst p \<noteq> k) m"

abbreviation mkeys :: "('k, 'v) gomap \<Rightarrow> 'k list" where
  "mkeys m \<equiv> map fst m"

abbreviation wf_map :: "('k, 'v) gomap \<Rightarrow> bool" where
  "wf_map m \<equiv> distinct (mkeys m)"

text \<open>\<open>for k, v := range src { dst[k] = v }\<close>\<close>

fun mput_all :: "('k, 'v) gomap \<Rightarrow> ('k, 'v) gomap \<Rightarrow> ('k, 'v) gomap" where
  "mput_all [] dst = dst"
| "mput_all ((k, v) # src) dst = mput_all src (mput k v dst)"

lemma mget_simps [simp, gomap]:
  "mget [] k = None"
  "mget ((k', v) # m) k = (if k' = k then Some v else mget m k)"
  by (auto simp: mget_def)

lemma mget_mput [simp, gomap]: "mget (mput k v m) = (mget m)(k \<mapsto> v)"
  by (induction m) (auto simp: fun_eq_iff)

lemma mget_mdel [simp, gomap]: "mget (mdel k m) = (mget m)(k := None)"
  by (induction m) (auto simp: fun_eq_iff mdel_def)

lemma set_mkeys_mput [simp, gomap]: "fst ` set (mput k v m) = insert k (fst ` set m)"
  by (induction m) auto

lemma set_mkeys_mdel [simp, gomap]: "fst ` set (mdel k m) = fst ` set m - {k}"
  by (auto simp: mdel_def)

lemma wf_map_mput [simp]: "wf_map m \<Longrightarrow> wf_map (mput k v m)"
  by (induction m) auto

lemma wf_map_mdel [simp]: "wf_map m \<Longrightarrow> wf_map (mdel k m)"
  by (simp add: mdel_def distinct_map_filter)

lemma mget_None_iff [gomap]: "mget m k = None \<longleftrightarrow> k \<notin> fst ` set m"
  by (simp add: mget_def map_of_eq_None_iff)

lemma mget_notin [simp]: "k \<notin> fst ` set m \<Longrightarrow> mget m k = None"
  by (simp add: mget_None_iff)

lemma mget_Some_in: "mget m k = Some v \<Longrightarrow> (k, v) \<in> set m"
  by (simp add: mget_def map_of_SomeD)

lemma mget_Some_key: "mget m k = Some v \<Longrightarrow> k \<in> fst ` set m"
  by (force dest: mget_Some_in)

lemma mget_iff: "wf_map m \<Longrightarrow> mget m k = Some v \<longleftrightarrow> (k, v) \<in> set m"
  by (simp add: mget_def)

lemma in_mkeys_mget: "k \<in> fst ` set m \<longleftrightarrow> (\<exists>v. mget m k = Some v)"
  using mget_None_iff [of m k] by (metis not_None_eq)

lemma dom_mget: "dom (mget m) = fst ` set m"
proof -
  have "mget m = map_of m" by (simp add: fun_eq_iff mget_def)
  then show ?thesis by (simp add: dom_map_of_conv_image_fst)
qed

lemma find_Some_in: "find P xs = Some x \<Longrightarrow> P x \<and> x \<in> set xs"
  by (induction xs) (auto split: if_splits)

lemma mget_map_values: "mget (map (\<lambda>(k, v). (k, f k v)) m) k = map_option (f k) (mget m k)"
  by (induction m) (auto simp: mget_def)

lemma mkeys_map_values: "mkeys (map (\<lambda>(k, v). (k, f k v)) m) = mkeys m"
  by (simp add: comp_def split_beta)

locale go_map =
  fixes get :: "'m \<Rightarrow> 'k \<Rightarrow> 'v option"
    and put :: "'k \<Rightarrow> 'v \<Rightarrow> 'm \<Rightarrow> 'm"
    and del :: "'k \<Rightarrow> 'm \<Rightarrow> 'm"
    and keys :: "'m \<Rightarrow> 'k list"
    and ok :: "'m \<Rightarrow> bool"
  assumes get_put: "get (put k v m) = (get m)(k \<mapsto> v)"
    and get_del: "get (del k m) = (get m)(k := None)"
    and ok_put: "ok m \<Longrightarrow> ok (put k v m)"
    and ok_del: "ok m \<Longrightarrow> ok (del k m)"
    and keys_dom: "set (keys m) = dom (get m)"
    and keys_distinct: "ok m \<Longrightarrow> distinct (keys m)"
begin

text \<open>A loop that stores a computed entry for every element of a list.\<close>

lemma fold_put_get:
  "get (fold (\<lambda>x. put (f x) (g x)) xs m) = get m ++ map_of (rev (map (\<lambda>x. (f x, g x)) xs))"
proof (induction xs arbitrary: m)
  case Nil
  then show ?case by simp
next
  case (Cons x xs)
  then show ?case by (simp add: get_put map_add_upd_left map_add_def fun_eq_iff split: option.split)
qed

lemma fold_put_ok: "ok m \<Longrightarrow> ok (fold (\<lambda>x. put (f x) (g x)) xs m)"
  by (induction xs arbitrary: m) (auto simp: ok_put)

lemma get_put_other: "k \<noteq> k' \<Longrightarrow> get (put k v m) k' = get m k'"
  by (simp add: get_put)

lemma length_keys: "ok m \<Longrightarrow> length (keys m) = card (dom (get m))"
  by (metis distinct_card keys_distinct keys_dom)

end

interpretation gm: go_map mget mput mdel mkeys wf_map
proof unfold_locales
  fix m :: "('a, 'b) gomap"
  show "set (mkeys m) = dom (mget m)" by (simp add: dom_mget)
qed simp_all

lemma mput_all_fold: "mput_all src dst = fold (\<lambda>p. mput (fst p) (snd p)) src dst"
  by (induction src dst rule: mput_all.induct) auto

lemma mget_mput_all:
  "wf_map src \<Longrightarrow> mget (mput_all src dst) k = (case mget src k of Some v \<Rightarrow> Some v | None \<Rightarrow> mget dst k)"
proof (induction src dst rule: mput_all.induct)
  case (2 k' v src dst)
  then show ?case by (cases "k' = k") (simp_all split: option.split)
qed simp

lemma wf_map_mput_all [simp]: "wf_map dst \<Longrightarrow> wf_map (mput_all src dst)"
  unfolding mput_all_fold by (rule gm.fold_put_ok)

subsection \<open>A stateful component: a step that keeps an invariant\<close>

locale step_system =
  fixes step :: "'s \<Rightarrow> 'e \<Rightarrow> 's"
    and inv :: "'s \<Rightarrow> bool"
  assumes inv_step: "inv s \<Longrightarrow> inv (step s e)"
begin

lemma inv_run: "inv s \<Longrightarrow> inv (foldl step s es)"
  by (induction es arbitrary: s) (auto simp: inv_step)

lemma inv_prefix: "inv s \<Longrightarrow> inv (foldl step s (take n es))"
  by (rule inv_run)

end

text \<open>A component whose steps also never decrease a measure of progress.\<close>

locale monotone_system = step_system step inv
  for step :: "'s \<Rightarrow> 'e \<Rightarrow> 's" and inv :: "'s \<Rightarrow> bool" +
  fixes progress :: "'s \<Rightarrow> 'o::order"
  assumes progress_step: "inv s \<Longrightarrow> progress s \<le> progress (step s e)"
begin

lemma progress_run: "inv s \<Longrightarrow> progress s \<le> progress (foldl step s es)"
proof (induction es arbitrary: s)
  case Nil
  then show ?case by simp
next
  case (Cons e es)
  have "progress s \<le> progress (step s e)" using Cons.prems by (rule progress_step)
  also have "\<dots> \<le> progress (foldl step (step s e) es)"
    using Cons.IH Cons.prems inv_step by blast
  finally show ?case by simp
qed

end

subsection \<open>Strings\<close>

text \<open>\<open>strings.HasPrefix\<close>, \<open>strings.TrimPrefix\<close>, \<open>strings.HasSuffix\<close>, \<open>strings.TrimSuffix\<close>\<close>

fun has_prefix :: "string \<Rightarrow> string \<Rightarrow> bool" where
  "has_prefix s [] = True"
| "has_prefix [] (p # ps) = False"
| "has_prefix (c # s) (p # ps) = (c = p \<and> has_prefix s ps)"

definition trim_prefix :: "string \<Rightarrow> string \<Rightarrow> string" where
  "trim_prefix s p = (if has_prefix s p then drop (length p) s else s)"

definition has_suffix :: "string \<Rightarrow> string \<Rightarrow> bool" where
  "has_suffix s p = has_prefix (rev s) (rev p)"

definition trim_suffix :: "string \<Rightarrow> string \<Rightarrow> string" where
  "trim_suffix s p = (if has_suffix s p then take (length s - length p) s else s)"

text \<open>\<open>strings.Split(s, string(c))\<close> for a one-byte separator, and \<open>strings.Join\<close>\<close>

fun split_on :: "char \<Rightarrow> string \<Rightarrow> string list" where
  "split_on c [] = [[]]"
| "split_on c (x # xs) =
     (if x = c then [] # split_on c xs
      else (case split_on c xs of [] \<Rightarrow> [[x]] | w # ws \<Rightarrow> (x # w) # ws))"

fun join :: "string \<Rightarrow> string list \<Rightarrow> string" where
  "join sep [] = []"
| "join sep [w] = w"
| "join sep (w # v # ws) = w @ sep @ join sep (v # ws)"

lemma has_prefix_append [simp, gostr]: "has_prefix (p @ s) p"
  by (induction p) auto

lemma has_prefix_iff: "has_prefix s p \<longleftrightarrow> (\<exists>r. s = p @ r)"
  by (induction s p rule: has_prefix.induct) auto

lemma trim_prefix_append [simp, gostr]: "trim_prefix (p @ s) p = s"
  by (simp add: trim_prefix_def)

lemma has_suffix_append [simp, gostr]: "has_suffix (s @ p) p"
  by (simp add: has_suffix_def)

lemma has_suffix_iff: "has_suffix s p \<longleftrightarrow> (\<exists>r. s = r @ p)"
proof
  assume "has_suffix s p"
  then obtain r where "rev s = rev p @ r" by (auto simp: has_suffix_def has_prefix_iff)
  then have "s = rev r @ p" by (metis rev_append rev_rev_ident)
  then show "\<exists>r. s = r @ p" by blast
qed auto

lemma trim_suffix_append [simp, gostr]: "trim_suffix (s @ p) p = s"
  by (simp add: trim_suffix_def)

lemma split_on_neq_Nil [simp]: "split_on c s \<noteq> []"
  by (induction s) (auto split: list.split)

lemma split_on_no_sep: "c \<notin> set s \<Longrightarrow> split_on c s = [s]"
  by (induction s) auto

lemma split_on_append_sep: "c \<notin> set w \<Longrightarrow> split_on c (w @ c # s) = w # split_on c s"
  by (induction w) auto

lemma append_sep_inj: "c \<notin> set a \<Longrightarrow> c \<notin> set b \<Longrightarrow> a @ c # x = b @ c # y \<longleftrightarrow> a = b \<and> x = y"
proof (induction a arbitrary: b)
  case Nil
  then show ?case by (cases b) auto
next
  case (Cons d a)
  then show ?case by (cases b) auto
qed

lemma split_on_parts: "w \<in> set (split_on c s) \<Longrightarrow> c \<notin> set w"
  by (induction s arbitrary: w) (auto split: list.splits if_splits)

lemma join_split_on: "join [c] (split_on c s) = s"
proof (induction s)
  case Nil
  then show ?case by simp
next
  case (Cons x xs)
  obtain w ws where "split_on c xs = w # ws" by (cases "split_on c xs") auto
  with Cons show ?case by (cases ws) auto
qed

lemma join_append: "ws \<noteq> [] \<Longrightarrow> vs \<noteq> [] \<Longrightarrow> join sep (ws @ vs) = join sep ws @ sep @ join sep vs"
proof (induction sep ws rule: join.induct)
  case (2 sep w)
  then show ?case by (cases vs) auto
qed auto

lemma split_on_join:
  "ws \<noteq> [] \<Longrightarrow> (\<And>w. w \<in> set ws \<Longrightarrow> c \<notin> set w) \<Longrightarrow> split_on c (join [c] ws) = ws"
proof (induction "[c]" ws rule: join.induct)
  case (2 w)
  then show ?case by (simp add: split_on_no_sep)
next
  case (3 w v ws)
  then show ?case by (simp add: split_on_append_sep)
qed simp

text \<open>
  \<open>strings.TrimSpace\<close>: the white space of \<open>unicode.IsSpace\<close>, each in its UTF-8 encoding.
\<close>

definition space_encodings :: "string list" where
  "space_encodings =
     [[CHR 0x09], [CHR 0x0A], [CHR 0x0B], [CHR 0x0C], [CHR 0x0D], [CHR 0x20],
      [CHR 0xC2, CHR 0x85], [CHR 0xC2, CHR 0xA0], [CHR 0xE1, CHR 0x9A, CHR 0x80],
      [CHR 0xE2, CHR 0x80, CHR 0x80], [CHR 0xE2, CHR 0x80, CHR 0x81], [CHR 0xE2, CHR 0x80, CHR 0x82],
      [CHR 0xE2, CHR 0x80, CHR 0x83], [CHR 0xE2, CHR 0x80, CHR 0x84], [CHR 0xE2, CHR 0x80, CHR 0x85],
      [CHR 0xE2, CHR 0x80, CHR 0x86], [CHR 0xE2, CHR 0x80, CHR 0x87], [CHR 0xE2, CHR 0x80, CHR 0x88],
      [CHR 0xE2, CHR 0x80, CHR 0x89], [CHR 0xE2, CHR 0x80, CHR 0x8A], [CHR 0xE2, CHR 0x80, CHR 0xA8],
      [CHR 0xE2, CHR 0x80, CHR 0xA9], [CHR 0xE2, CHR 0x80, CHR 0xAF], [CHR 0xE2, CHR 0x81, CHR 0x9F],
      [CHR 0xE3, CHR 0x80, CHR 0x80]]"

function trim_left_by :: "string list \<Rightarrow> string \<Rightarrow> string" where
  "trim_left_by encs s =
     (case find (\<lambda>e. e \<noteq> [] \<and> has_prefix s e) encs of
        None \<Rightarrow> s
      | Some e \<Rightarrow> trim_left_by encs (drop (length e) s))"
  by pat_completeness auto
termination
proof (relation "measure (\<lambda>(encs, s). length s)", goal_cases)
  case (2 encs s e)
  then have "e \<noteq> []" "has_prefix s e" by (auto simp: find_Some_iff)
  then show ?case by (auto simp: has_prefix_iff)
qed simp

declare trim_left_by.simps [simp del]

definition trim_space :: "string \<Rightarrow> string" where
  "trim_space s =
     rev (trim_left_by (map rev space_encodings) (rev (trim_left_by space_encodings s)))"

lemma trim_left_by_no_enc: "(\<And>e. e \<in> set encs \<Longrightarrow> e \<noteq> [] \<Longrightarrow> \<not> has_prefix s e) \<Longrightarrow> trim_left_by encs s = s"
proof -
  assume a: "\<And>e. e \<in> set encs \<Longrightarrow> e \<noteq> [] \<Longrightarrow> \<not> has_prefix s e"
  then have "find (\<lambda>e. e \<noteq> [] \<and> has_prefix s e) encs = None" by (auto simp: find_None_iff)
  then show ?thesis by (simp add: trim_left_by.simps [of encs s])
qed

lemma trim_left_by_result: "e \<in> set encs \<Longrightarrow> e \<noteq> [] \<Longrightarrow> \<not> has_prefix (trim_left_by encs s) e"
proof (induction encs s rule: trim_left_by.induct)
  case (1 encs s)
  show ?case
  proof (cases "find (\<lambda>e. e \<noteq> [] \<and> has_prefix s e) encs")
    case None
    then have "trim_left_by encs s = s" by (simp add: trim_left_by.simps [of encs s])
    with None "1.prems" show ?thesis by (auto simp: find_None_iff)
  next
    case (Some e')
    with "1.IH" [OF Some] "1.prems" show ?thesis by (simp add: trim_left_by.simps [of encs s])
  qed
qed

lemma trim_left_by_suffix: "\<exists>r. s = r @ trim_left_by encs s"
proof (induction encs s rule: trim_left_by.induct)
  case (1 encs s)
  show ?case
  proof (cases "find (\<lambda>e. e \<noteq> [] \<and> has_prefix s e) encs")
    case None
    then show ?thesis by (simp add: trim_left_by.simps [of encs s])
  next
    case (Some e')
    then obtain r where r: "s = e' @ r" by (auto simp: find_Some_iff has_prefix_iff)
    from "1.IH" [OF Some] obtain q where "drop (length e') s = q @ trim_left_by encs (drop (length e') s)"
      by blast
    moreover from Some have "trim_left_by encs s = trim_left_by encs (drop (length e') s)"
      by (simp add: trim_left_by.simps [of encs s])
    ultimately have "s = (e' @ q) @ trim_left_by encs s" using r by simp
    then show ?thesis by blast
  qed
qed

lemma trim_space_Nil [simp, gostr]: "trim_space [] = []"
  by (simp add: trim_space_def trim_left_by_no_enc has_prefix_iff)

lemma trim_space_idem [simp]: "trim_space (trim_space s) = trim_space s"
proof -
  define u where "u = trim_left_by space_encodings s"
  have right: "trim_left_by (map rev space_encodings) (rev (trim_space s)) = rev (trim_space s)"
    by (rule trim_left_by_no_enc) (metis rev_rev_ident trim_left_by_result trim_space_def)
  obtain r where "rev u = r @ rev (trim_space s)"
    using trim_left_by_suffix [of "rev u" "map rev space_encodings"] by (auto simp: trim_space_def u_def)
  then have u: "u = trim_space s @ rev r" by (metis rev_append rev_rev_ident)
  have left: "trim_left_by space_encodings (trim_space s) = trim_space s"
  proof (rule trim_left_by_no_enc)
    fix e :: string assume e: "e \<in> set space_encodings" "e \<noteq> []"
    then have "\<not> has_prefix u e" unfolding u_def by (rule trim_left_by_result)
    then show "\<not> has_prefix (trim_space s) e" by (auto simp: u has_prefix_iff)
  qed
  show ?thesis by (subst trim_space_def) (simp add: left right)
qed

definition printable :: "char \<Rightarrow> bool" where
  "printable c \<longleftrightarrow> 32 < (of_char c :: nat) \<and> (of_char c :: nat) < 127"

lemma trim_space_printable: "list_all printable s \<Longrightarrow> trim_space s = s"
proof -
  assume s: "list_all printable s"
  have e: "\<not> printable (hd e) \<and> \<not> printable (last e)" if "e \<in> set space_encodings" for e
    using that by (auto simp: space_encodings_def printable_def)
  have no: "\<not> has_prefix t e" if "e \<noteq> []" "\<not> printable (hd e)" "list_all printable t" for t e
    using that by (cases e) (auto simp: has_prefix_iff)
  have "trim_left_by space_encodings s = s"
    by (rule trim_left_by_no_enc) (use e no s in blast)
  moreover have "trim_left_by (map rev space_encodings) (rev s) = rev s"
    by (rule trim_left_by_no_enc) (use e no s in \<open>auto simp: hd_rev\<close>)
  ultimately show ?thesis by (simp add: trim_space_def)
qed

subsection \<open>Numbers and quoting in messages\<close>

definition digit_char :: "nat \<Rightarrow> char" where
  "digit_char n = char_of (48 + n)"

fun show_nat :: "nat \<Rightarrow> string" where
  "show_nat n = (if n < 10 then [digit_char n] else show_nat (n div 10) @ [digit_char (n mod 10)])"

declare show_nat.simps [simp del]

definition show_int :: "int \<Rightarrow> string" where
  "show_int i = (if i < 0 then ''-'' @ show_nat (nat (- i)) else show_nat (nat i))"

lemma show_nat_neq_Nil [simp]: "show_nat n \<noteq> []"
  by (subst show_nat.simps) simp

lemma digit_char_inj: "a < 10 \<Longrightarrow> b < 10 \<Longrightarrow> digit_char a = digit_char b \<Longrightarrow> a = b"
proof -
  assume "a < 10" "b < 10" "digit_char a = digit_char b"
  then have "of_char (digit_char a) = (of_char (digit_char b) :: nat)" by simp
  with \<open>a < 10\<close> \<open>b < 10\<close> show "a = b" by (simp add: digit_char_def)
qed

lemma show_nat_inj: "show_nat a = show_nat b \<Longrightarrow> a = b"
proof (induction a arbitrary: b rule: show_nat.induct)
  case (1 a)
  show ?case
  proof (cases "a < 10")
    case True
    with "1.prems" have "show_nat b = [digit_char a]" by (simp add: show_nat.simps [of a])
    then have "b < 10" "digit_char b = digit_char a"
      by (auto simp: show_nat.simps [of b] split: if_splits)
    with True show ?thesis by (metis digit_char_inj)
  next
    case False
    with "1.prems" have eq: "show_nat b = show_nat (a div 10) @ [digit_char (a mod 10)]"
      by (simp add: show_nat.simps [of a])
    then have b: "\<not> b < 10" using show_nat_neq_Nil [of "a div 10"] by (auto simp: show_nat.simps [of b] simp del: show_nat_neq_Nil)
    with eq have "show_nat (a div 10) = show_nat (b div 10)" "digit_char (a mod 10) = digit_char (b mod 10)"
      by (simp_all add: show_nat.simps [of b])
    then have "a div 10 = b div 10" "a mod 10 = b mod 10"
      using "1.IH" [OF False] by (auto intro: digit_char_inj)
    then show ?thesis by (metis div_mult_mod_eq)
  qed
qed

text \<open>
  The \<open>%q\<close> verb (\<open>strconv.Quote\<close>): a double-quoted string with the ASCII escapes of Go. Bytes from
  0x80 on belong to multi-byte characters and are kept.
\<close>

definition hex_char :: "nat \<Rightarrow> char" where
  "hex_char n = (if n < 10 then char_of (48 + n) else char_of (87 + n))"

definition quote_char :: "char \<Rightarrow> string" where
  "quote_char c =
     (if c = CHR 0x22 then [CHR 0x5C, CHR 0x22]
      else if c = CHR 0x5C then [CHR 0x5C, CHR 0x5C]
      else if c = CHR 0x07 then [CHR 0x5C, CHR ''a'']
      else if c = CHR 0x08 then [CHR 0x5C, CHR ''b'']
      else if c = CHR 0x0C then [CHR 0x5C, CHR ''f'']
      else if c = CHR 0x0A then [CHR 0x5C, CHR ''n'']
      else if c = CHR 0x0D then [CHR 0x5C, CHR ''r'']
      else if c = CHR 0x09 then [CHR 0x5C, CHR ''t'']
      else if c = CHR 0x0B then [CHR 0x5C, CHR ''v'']
      else (let n = of_char c :: nat in
            if n < 32 \<or> n = 127
            then [CHR 0x5C, CHR ''x'', hex_char (n div 16), hex_char (n mod 16)]
            else [c]))"

definition quote :: "string \<Rightarrow> string" where
  "quote s = [CHR 0x22] @ concat (map quote_char s) @ [CHR 0x22]"

subsection \<open>Results\<close>

text \<open>
  \<open>if err := f(); err != nil { return err }\<close> in a sequence of checks, and the same for a call that
  also returns a value.
\<close>

fun or_err :: "'e option \<Rightarrow> 'e option \<Rightarrow> 'e option" where
  "or_err (Some e) r = Some e"
| "or_err None r = r"

fun ebind :: "'e + 'a \<Rightarrow> ('a \<Rightarrow> 'e + 'b) \<Rightarrow> 'e + 'b" where
  "ebind (Inl e) f = Inl e"
| "ebind (Inr a) f = f a"

definition guard_err :: "'e option \<Rightarrow> 'e + 'a \<Rightarrow> 'e + 'a" where
  "guard_err chk r = (case chk of Some e \<Rightarrow> Inl e | None \<Rightarrow> r)"

lemma or_err_None_iff [simp]: "or_err a b = None \<longleftrightarrow> a = None \<and> b = None"
  by (cases a) auto

lemma guard_err_simps [simp]:
  "guard_err None r = r"
  "guard_err (Some e) r = Inl e"
  by (simp_all add: guard_err_def)

lemma guard_err_Inr_iff [simp]: "guard_err chk r = Inr a \<longleftrightarrow> chk = None \<and> r = Inr a"
  by (cases chk) auto

lemma case_err_Inr: "(case chk of None \<Rightarrow> r | Some e \<Rightarrow> Inl e) = Inr v \<longleftrightarrow> chk = None \<and> r = Inr v"
  by (cases chk) auto

lemma ebind_Inr_iff [simp]: "ebind r f = Inr b \<longleftrightarrow> (\<exists>a. r = Inr a \<and> f a = Inr b)"
  by (cases r) auto

text \<open>The keys of a map in sorted order, as \<open>sort.Strings\<close> over a range of the map gives them.\<close>

definition sorted_keys :: "('k::linorder, 'v) gomap \<Rightarrow> 'k list" where
  "sorted_keys m = sort (mkeys m)"

lemma set_sorted_keys [simp, gomap]: "set (sorted_keys m) = fst ` set m"
  by (simp add: sorted_keys_def)

lemma distinct_sorted_keys [simp]: "wf_map m \<Longrightarrow> distinct (sorted_keys m)"
  by (simp add: sorted_keys_def)

lemma sorted_sorted_keys [simp]: "sorted (sorted_keys m)"
  by (simp add: sorted_keys_def)

end
