(* ===== verification/GoErr.thy ===== *)
theory GoErr
  imports Prelude
begin

text \<open>
  Errors (internal/apperror/error.go and the standard \<open>errors\<close> and \<open>fmt\<close> packages). An error is an
  \<open>apperror.Error\<close> (code, message, optional cause), an \<open>errors.New\<close> or \<open>fmt.Errorf\<close> value (its message
  and the errors it wraps with \<open>%w\<close>), or one of the sentinel values the program tests for with
  \<open>errors.Is\<close> (or, for \<open>http.MaxBytesError\<close>, with \<open>errors.As\<close>). \<open>err_is\<close> and \<open>err_as_app\<close> are \<open>errors.Is\<close> and \<open>errors.As\<close> on these trees.
\<close>

datatype code =
    CodeNotFound
  | CodeConflict
  | CodeValidation
  | CodeGitPush
  | CodeUnauthorized
  | CodeInternal

datatype sentinel =
    CtxCanceled
  | CtxDeadlineExceeded
  | OsErrNotExist
  | ErrCommitNotFound
  | ErrFileNotFoundAtCommit
  | NoErrAlreadyUpToDate
  | ErrEmptyCommit
  | ErrNonFastForwardUpdate
  | ErrEntryNotFound
  | ErrStopHistory
  | ObjErrFileNotFound
  | MaxBytesError

datatype goerr =
    AppErr code string "goerr option"
  | Errorf string "goerr list"
  | Sent sentinel

fun sentinel_msg :: "sentinel \<Rightarrow> string" where
  "sentinel_msg CtxCanceled = ''context canceled''"
| "sentinel_msg CtxDeadlineExceeded = ''context deadline exceeded''"
| "sentinel_msg OsErrNotExist = ''file does not exist''"
| "sentinel_msg ErrCommitNotFound = ''commit not found''"
| "sentinel_msg ErrFileNotFoundAtCommit = ''file not found at commit''"
| "sentinel_msg NoErrAlreadyUpToDate = ''already up-to-date''"
| "sentinel_msg ErrEmptyCommit = ''cannot create empty commit: clean working tree''"
| "sentinel_msg ErrNonFastForwardUpdate = ''non-fast-forward update''"
| "sentinel_msg ErrEntryNotFound = ''entry not found''"
| "sentinel_msg ErrStopHistory = ''stop history iteration''"
| "sentinel_msg ObjErrFileNotFound = ''file not found''"
| "sentinel_msg MaxBytesError = ''http: request body too large''"

text \<open>\<open>Error()\<close>: an application error shows its message only.\<close>

fun err_msg :: "goerr \<Rightarrow> string" where
  "err_msg (AppErr c m w) = m"
| "err_msg (Errorf m ws) = m"
| "err_msg (Sent s) = sentinel_msg s"

definition app_new :: "code \<Rightarrow> string \<Rightarrow> goerr" where
  "app_new c m = AppErr c m None"

definition app_wrap :: "code \<Rightarrow> string \<Rightarrow> goerr \<Rightarrow> goerr" where
  "app_wrap c m e = AppErr c m (Some e)"

text \<open>\<open>fmt.Errorf\<close> without \<open>%w\<close>, its message given in parts, and with one \<open>%w\<close> after a prefix.\<close>

definition errf :: "string list \<Rightarrow> goerr" where
  "errf parts = Errorf (concat parts) []"

definition wrapf :: "string list \<Rightarrow> goerr \<Rightarrow> goerr" where
  "wrapf parts e = Errorf (concat parts @ '': '' @ err_msg e) [e]"

fun err_is :: "sentinel \<Rightarrow> goerr \<Rightarrow> bool" where
  "err_is t (Sent s) \<longleftrightarrow> s = t"
| "err_is t (AppErr c m None) \<longleftrightarrow> False"
| "err_is t (AppErr c m (Some e)) \<longleftrightarrow> err_is t e"
| "err_is t (Errorf m ws) \<longleftrightarrow> list_ex (err_is t) ws"

fun first_some :: "'a option list \<Rightarrow> 'a option" where
  "first_some [] = None"
| "first_some (Some x # xs) = Some x"
| "first_some (None # xs) = first_some xs"

fun err_as_app :: "goerr \<Rightarrow> (code \<times> string) option" where
  "err_as_app (AppErr c m w) = Some (c, m)"
| "err_as_app (Errorf m ws) = first_some (map err_as_app ws)"
| "err_as_app (Sent s) = None"

lemma err_simps [goerr_simps]:
  "err_msg (app_new c m) = m"
  "err_msg (app_wrap c m e) = m"
  "err_as_app (app_new c m) = Some (c, m)"
  "err_as_app (app_wrap c m e) = Some (c, m)"
  "err_as_app (errf ps) = None"
  "err_as_app (wrapf ps e) = err_as_app e"
  "err_is t (app_new c m) = False"
  "err_is t (app_wrap c m e) = err_is t e"
  "err_is t (errf ps) = False"
  "err_is t (wrapf ps e) = err_is t e"
  by (cases "err_as_app e"; simp add: app_new_def app_wrap_def errf_def wrapf_def)+

declare goerr_simps [simp]

end
