(* ===== verification/Parser.thy ===== *)
theory Parser
  imports GoErr
begin

text \<open>
  internal/parser: the YAML structs (types.go), the schema envelope checks (validate.go) and the
  four parsers. The YAML library is a parameter, the record \<open>yaml_lib\<close>: \<open>yaml_node\<close> is
  \<open>yaml.Unmarshal\<close> into a \<open>yaml.Node\<close> and the \<open>dec_*\<close> fields are \<open>yaml.Unmarshal\<close> into the struct of
  that name. A nil Go map is \<open>None\<close>. Free-form config values (\<open>any\<close>) are the datatype \<open>cval\<close>.
\<close>

subsection \<open>Data\<close>

text \<open>
  The dynamic types a config value can have: what yaml.v3 and encoding/json (with UseNumber) build.
  A finite float is mantissa times a power of two.
\<close>

datatype gofloat = FNaN | FInf bool | FFin int int

datatype cval =
    CNil
  | CStr string
  | CBool bool
  | CInt int
  | CFloat gofloat
  | CNumber string
  | CSeq "cval list"
  | CMap "(string \<times> cval) list"

type_synonym cmap = "(string, cval) gomap"
type_synonym smap = "(string, string) gomap"

record service_metadata =
  md_service :: string
  md_org :: string
  md_project :: string
  md_updated_at :: string

record service_config =
  sc_version :: string
  sc_metadata :: service_metadata
  sc_config :: "cmap option"

record env_vars =
  ev_plain :: "smap option"
  ev_secret_refs :: "smap option"

record env_vars_config =
  ec_version :: string
  ec_metadata :: service_metadata
  ec_env :: env_vars

record k8s_secret =
  ks_name :: string
  ks_namespace :: string
  ks_key :: string

record secret_entry =
  se_id :: string
  se_description :: string
  se_k8s :: k8s_secret

record secrets_config =
  ss_version :: string
  ss_secrets :: "secret_entry list"

record defaults_config =
  dc_config :: "cmap option"
  dc_env :: env_vars

text \<open>\<open>len\<close> of and \<open>range\<close> over a possibly nil map.\<close>

definition nz :: "('k, 'v) gomap option \<Rightarrow> ('k, 'v) gomap" where
  "nz m = (case m of None \<Rightarrow> [] | Some xs \<Rightarrow> xs)"

lemma nz_simps [simp, gomap]:
  "nz None = []"
  "nz (Some m) = m"
  by (simp_all add: nz_def)

datatype ykind = DocumentNode | SequenceNode | MappingNode | ScalarNode | AliasNode

datatype ynode = YNode (nkind: ykind) (nvalue: string) (ncontent: "ynode list")

record yaml_lib =
  yaml_node :: "bytes \<Rightarrow> goerr + ynode"
  dec_config :: "bytes \<Rightarrow> goerr + service_config"
  dec_env_vars :: "bytes \<Rightarrow> goerr + env_vars_config"
  dec_secrets :: "bytes \<Rightarrow> goerr + secrets_config"
  dec_defaults :: "bytes \<Rightarrow> goerr + defaults_config"

subsection \<open>Node checks\<close>

definition show_strings :: "string list \<Rightarrow> string" where
  "show_strings ws = ''['' @ join '' '' ws @ '']''"

text \<open>The regular expression \<open>^[A-Za-z_][A-Za-z0-9_]*$\<close>\<close>

definition is_alpha :: "char \<Rightarrow> bool" where
  "is_alpha c = ((CHR ''A'' \<le> c \<and> c \<le> CHR ''Z'') \<or> (CHR ''a'' \<le> c \<and> c \<le> CHR ''z''))"

definition is_digit :: "char \<Rightarrow> bool" where
  "is_digit c = (CHR ''0'' \<le> c \<and> c \<le> CHR ''9'')"

definition valid_env_name_re :: "string \<Rightarrow> bool" where
  "valid_env_name_re s =
     (case s of
        [] \<Rightarrow> False
      | c # cs \<Rightarrow> (is_alpha c \<or> c = CHR ''_'') \<and>
                  list_all (\<lambda>d. is_alpha d \<or> is_digit d \<or> d = CHR ''_'') cs)"

definition require_mapping :: "string \<Rightarrow> string \<Rightarrow> ynode \<Rightarrow> goerr option" where
  "require_mapping file path n =
     (if nkind n \<noteq> MappingNode then Some (errf [file, '': '', path, '' must be a mapping'']) else None)"

definition require_scalar :: "string \<Rightarrow> string \<Rightarrow> ynode \<Rightarrow> goerr option" where
  "require_scalar file path n =
     (if nkind n \<noteq> ScalarNode then Some (errf [file, '': '', path, '' must be a scalar'']) else None)"

fun child_in :: "ynode list \<Rightarrow> string \<Rightarrow> ynode option" where
  "child_in (k # v # rest) key = (if nvalue k = key then Some v else child_in rest key)"
| "child_in _ key = None"

definition child :: "ynode \<Rightarrow> string \<Rightarrow> ynode option" where
  "child n key = child_in (ncontent n) key"

fun mapping_keys_loop ::
  "string \<Rightarrow> string \<Rightarrow> string list \<Rightarrow> string list \<Rightarrow> ynode list \<Rightarrow> goerr option" where
  "mapping_keys_loop file path allowed seen (k # v # rest) =
     (if nkind k \<noteq> ScalarNode then Some (errf [file, '': '', path, '' key must be a scalar''])
      else if nvalue k \<in> set seen
        then Some (errf [file, '': duplicate key '', quote (nvalue k), '' in '', path])
      else if nvalue k \<notin> set allowed
        then Some (errf [file, '': unknown field '', nvalue k, '' in '', path,
                         ''; allowed fields: '', join '', '' (sort (remdups allowed))])
      else mapping_keys_loop file path allowed (nvalue k # seen) rest)"
| "mapping_keys_loop file path allowed seen _ = None"

definition validate_mapping_keys :: "string \<Rightarrow> ynode \<Rightarrow> string \<Rightarrow> string list \<Rightarrow> goerr option" where
  "validate_mapping_keys file n path allowed =
     (if odd (length (ncontent n))
      then Some (errf [file, '': '', path, '' mapping has unbalanced key/value pairs''])
      else mapping_keys_loop file path allowed [] (ncontent n))"

fun string_map_loop :: "string \<Rightarrow> string \<Rightarrow> string list \<Rightarrow> ynode list \<Rightarrow> goerr option" where
  "string_map_loop file path seen (k # v # rest) =
     (if nkind k \<noteq> ScalarNode then Some (errf [file, '': '', path, '' key must be a scalar''])
      else if nvalue k \<in> set seen
        then Some (errf [file, '': duplicate key '', quote (nvalue k), '' in '', path])
      else if \<not> valid_env_name_re (nvalue k)
        then Some (errf [file, '': '', path, '' key '', quote (nvalue k),
                         '' must be a valid environment variable name''])
      else if nkind v \<noteq> ScalarNode
        then Some (errf [file, '': '', path, ''.'', nvalue k, '' value must be a scalar''])
      else string_map_loop file path (nvalue k # seen) rest)"
| "string_map_loop file path seen _ = None"

definition validate_string_map :: "string \<Rightarrow> string \<Rightarrow> ynode option \<Rightarrow> goerr option" where
  "validate_string_map file path n =
     (case n of
        None \<Rightarrow> None
      | Some n \<Rightarrow>
          or_err (require_mapping file path n)
            (if odd (length (ncontent n))
             then Some (errf [file, '': '', path, '' mapping has unbalanced key/value pairs''])
             else string_map_loop file path [] (ncontent n)))"

text \<open>\<open>if node := child(n, key); node != nil { require(node) }\<close> over a list of keys\<close>

fun scalars_at :: "string \<Rightarrow> string \<Rightarrow> ynode \<Rightarrow> string list \<Rightarrow> goerr option" where
  "scalars_at file prefix n [] = None"
| "scalars_at file prefix n (key # keys) =
     or_err (case child n key of None \<Rightarrow> None | Some c \<Rightarrow> require_scalar file (prefix @ key) c)
       (scalars_at file prefix n keys)"

definition validate_env_vars_block :: "string \<Rightarrow> string \<Rightarrow> ynode option \<Rightarrow> goerr option" where
  "validate_env_vars_block file path n =
     (case n of
        None \<Rightarrow> None
      | Some n \<Rightarrow>
          or_err (require_mapping file path n)
         (or_err (validate_mapping_keys file n path [''plain'', ''secret_refs''])
         (or_err (validate_string_map file (path @ ''.'' @ ''plain'') (child n ''plain''))
            (validate_string_map file (path @ ''.'' @ ''secret_refs'') (child n ''secret_refs'')))))"

definition validate_metadata_schema :: "string \<Rightarrow> ynode option \<Rightarrow> goerr option" where
  "validate_metadata_schema file n =
     (case n of
        None \<Rightarrow> None
      | Some n \<Rightarrow>
          or_err (require_mapping file ''metadata'' n)
         (or_err (validate_mapping_keys file n ''metadata''
                    [''service'', ''org'', ''project'', ''updated_at''])
            (scalars_at file ''metadata.'' n [''service'', ''org'', ''project'', ''updated_at''])))"

definition root_mapping :: "'x yaml_lib_scheme \<Rightarrow> string \<Rightarrow> bytes \<Rightarrow> goerr + ynode" where
  "root_mapping L file data =
     (case yaml_node L data of
        Inl e \<Rightarrow> Inl (wrapf [''parse '', file] e)
      | Inr doc \<Rightarrow>
          (case ncontent doc of
             [] \<Rightarrow> Inl (errf [file, '': document must be a mapping''])
           | root # _ \<Rightarrow>
               if nkind root \<noteq> MappingNode
               then Inl (errf [file, '': document must be a mapping''])
               else Inr root))"

subsection \<open>Schemas\<close>

definition validate_config_schema :: "'x yaml_lib_scheme \<Rightarrow> bytes \<Rightarrow> goerr option" where
  "validate_config_schema L data =
     (case root_mapping L ''config.yaml'' data of
        Inl e \<Rightarrow> Some e
      | Inr root \<Rightarrow>
          or_err (validate_mapping_keys ''config.yaml'' root ''root'' [''version'', ''metadata'', ''config''])
         (or_err (validate_metadata_schema ''config.yaml'' (child root ''metadata''))
         (or_err (scalars_at ''config.yaml'' [] root [''version''])
            (case child root ''config'' of
               None \<Rightarrow> None
             | Some n \<Rightarrow> require_mapping ''config.yaml'' ''config'' n))))"

definition validate_env_vars_schema :: "'x yaml_lib_scheme \<Rightarrow> bytes \<Rightarrow> goerr option" where
  "validate_env_vars_schema L data =
     (case root_mapping L ''env_vars.yaml'' data of
        Inl e \<Rightarrow> Some e
      | Inr root \<Rightarrow>
          or_err (validate_mapping_keys ''env_vars.yaml'' root ''root'' [''version'', ''metadata'', ''env_vars''])
         (or_err (validate_metadata_schema ''env_vars.yaml'' (child root ''metadata''))
         (or_err (scalars_at ''env_vars.yaml'' [] root [''version''])
            (validate_env_vars_block ''env_vars.yaml'' ''env_vars'' (child root ''env_vars'')))))"

definition validate_secret_item :: "nat \<Rightarrow> ynode \<Rightarrow> goerr option" where
  "validate_secret_item i item =
     (let path = ''secrets['' @ show_nat i @ '']'' in
      or_err (require_mapping ''secrets.yaml'' path item)
     (or_err (validate_mapping_keys ''secrets.yaml'' item path [''id'', ''description'', ''k8s_secret''])
     (or_err (scalars_at ''secrets.yaml'' (path @ ''.'') item [''id'', ''description''])
        (case child item ''k8s_secret'' of
           None \<Rightarrow> None
         | Some k8s \<Rightarrow>
             (let k8s_path = path @ ''.k8s_secret'' in
              or_err (require_mapping ''secrets.yaml'' k8s_path k8s)
             (or_err (validate_mapping_keys ''secrets.yaml'' k8s k8s_path [''name'', ''namespace'', ''key''])
                (scalars_at ''secrets.yaml'' (k8s_path @ ''.'') k8s [''name'', ''namespace'', ''key''])))))))"

fun validate_secret_items :: "nat \<Rightarrow> ynode list \<Rightarrow> goerr option" where
  "validate_secret_items i [] = None"
| "validate_secret_items i (item # items) =
     or_err (validate_secret_item i item) (validate_secret_items (Suc i) items)"

definition validate_secrets_schema :: "'x yaml_lib_scheme \<Rightarrow> bytes \<Rightarrow> goerr option" where
  "validate_secrets_schema L data =
     (case root_mapping L ''secrets.yaml'' data of
        Inl e \<Rightarrow> Some e
      | Inr root \<Rightarrow>
          or_err (validate_mapping_keys ''secrets.yaml'' root ''root'' [''version'', ''secrets''])
         (or_err (scalars_at ''secrets.yaml'' [] root [''version''])
            (case child root ''secrets'' of
               None \<Rightarrow> None
             | Some secrets \<Rightarrow>
                 if nkind secrets \<noteq> SequenceNode
                 then Some (errf [''secrets.yaml: secrets must be a sequence''])
                 else validate_secret_items 0 (ncontent secrets))))"

definition validate_defaults_schema :: "'x yaml_lib_scheme \<Rightarrow> bytes \<Rightarrow> goerr option" where
  "validate_defaults_schema L data =
     (case root_mapping L ''_defaults/common.yaml'' data of
        Inl e \<Rightarrow> Some e
      | Inr root \<Rightarrow>
          or_err (validate_mapping_keys ''_defaults/common.yaml'' root ''root'' [''config'', ''env_vars''])
         (or_err (case child root ''config'' of
                    None \<Rightarrow> None
                  | Some n \<Rightarrow> require_mapping ''_defaults/common.yaml'' ''config'' n)
            (validate_env_vars_block ''_defaults/common.yaml'' ''env_vars'' (child root ''env_vars''))))"

subsection \<open>Field checks and parsers\<close>

definition validate_metadata :: "string \<Rightarrow> service_metadata \<Rightarrow> goerr option" where
  "validate_metadata file m =
     (let missing = (if md_service m = [] then [''metadata.service''] else [])
                  @ (if md_org m = [] then [''metadata.org''] else [])
                  @ (if md_project m = [] then [''metadata.project''] else [])
      in if missing \<noteq> []
         then Some (errf [file, '': missing required field(s): '', show_strings missing])
         else None)"

definition validate_secret_entry :: "nat \<Rightarrow> secret_entry \<Rightarrow> goerr option" where
  "validate_secret_entry i e =
     (let missing = (if se_id e = [] then [''id''] else [])
                  @ (if ks_name (se_k8s e) = [] then [''k8s_secret.name''] else [])
                  @ (if ks_namespace (se_k8s e) = [] then [''k8s_secret.namespace''] else [])
                  @ (if ks_key (se_k8s e) = [] then [''k8s_secret.key''] else [])
      in if missing \<noteq> []
         then Some (errf [''secrets.yaml: entry '', show_nat i, '' missing required field(s): '',
                          show_strings missing])
         else None)"

definition parse_config :: "'x yaml_lib_scheme \<Rightarrow> bytes \<Rightarrow> goerr + service_config" where
  "parse_config L data =
     guard_err (validate_config_schema L data)
       (case dec_config L data of
          Inl e \<Rightarrow> Inl (wrapf [''parse config.yaml''] e)
        | Inr cfg \<Rightarrow> guard_err (validate_metadata ''config.yaml'' (sc_metadata cfg)) (Inr cfg))"

definition parse_env_vars :: "'x yaml_lib_scheme \<Rightarrow> bytes \<Rightarrow> goerr + env_vars_config" where
  "parse_env_vars L data =
     guard_err (validate_env_vars_schema L data)
       (case dec_env_vars L data of
          Inl e \<Rightarrow> Inl (wrapf [''parse env_vars.yaml''] e)
        | Inr cfg \<Rightarrow> guard_err (validate_metadata ''env_vars.yaml'' (ec_metadata cfg)) (Inr cfg))"

fun secret_entries_loop :: "(string, nat) gomap \<Rightarrow> nat \<Rightarrow> secret_entry list \<Rightarrow> goerr option" where
  "secret_entries_loop seen i [] = None"
| "secret_entries_loop seen i (e # es) =
     or_err (validate_secret_entry i e)
       (case mget seen (se_id e) of
          Some prev \<Rightarrow>
            Some (errf [''secrets.yaml: duplicate secret id '', quote (se_id e), '' (entries '',
                        show_nat prev, '' and '', show_nat i, '')''])
        | None \<Rightarrow> secret_entries_loop (mput (se_id e) i seen) (Suc i) es)"

definition parse_secrets :: "'x yaml_lib_scheme \<Rightarrow> bytes \<Rightarrow> goerr + secrets_config" where
  "parse_secrets L data =
     guard_err (validate_secrets_schema L data)
       (case dec_secrets L data of
          Inl e \<Rightarrow> Inl (wrapf [''parse secrets.yaml''] e)
        | Inr cfg \<Rightarrow> guard_err (secret_entries_loop [] 0 (ss_secrets cfg)) (Inr cfg))"

definition parse_defaults :: "'x yaml_lib_scheme \<Rightarrow> bytes \<Rightarrow> goerr + defaults_config" where
  "parse_defaults L data =
     guard_err (validate_defaults_schema L data)
       (case dec_defaults L data of
          Inl e \<Rightarrow> Inl (wrapf [''parse _defaults/common.yaml''] e)
        | Inr cfg \<Rightarrow> Inr cfg)"

subsection \<open>What the checks accept\<close>

fun pairs :: "'a list \<Rightarrow> ('a \<times> 'a) list" where
  "pairs (k # v # rest) = (k, v) # pairs rest"
| "pairs _ = []"

abbreviation key_names :: "ynode list \<Rightarrow> string list" where
  "key_names c \<equiv> map (\<lambda>p. nvalue (fst p)) (pairs c)"

lemma mapping_keys_loop_None:
  "mapping_keys_loop file path allowed seen c = None \<longleftrightarrow>
     (\<forall>p \<in> set (pairs c). nkind (fst p) = ScalarNode) \<and> distinct (key_names c) \<and>
     set (key_names c) \<subseteq> set allowed - set seen"
  by (induction "file" "path" "allowed" "seen" "c" rule: mapping_keys_loop.induct) auto

lemma string_map_loop_None:
  "string_map_loop file path seen c = None \<longleftrightarrow>
     (\<forall>p \<in> set (pairs c). nkind (fst p) = ScalarNode \<and> nkind (snd p) = ScalarNode \<and>
        valid_env_name_re (nvalue (fst p))) \<and>
     distinct (key_names c) \<and> set (key_names c) \<inter> set seen = {}"
  by (induction "file" "path" "seen" "c" rule: string_map_loop.induct) auto

lemma child_in_map_of: "child_in c key = map_of (map (\<lambda>p. (nvalue (fst p), snd p)) (pairs c)) key"
  by (induction c key rule: child_in.induct) auto

text \<open>validate_mapping_keys accepts a node exactly when its children pair up, every key is a scalar, no key
  occurs twice and every key is one of the allowed fields.\<close>

theorem mapping_keys_exact:
  "validate_mapping_keys file n path allowed = None \<longleftrightarrow>
     even (length (ncontent n)) \<and>
     list_all (\<lambda>p. nkind (fst p) = ScalarNode) (pairs (ncontent n)) \<and>
     distinct (key_names (ncontent n)) \<and> set (key_names (ncontent n)) \<subseteq> set allowed"
  by (auto simp: validate_mapping_keys_def mapping_keys_loop_None list_all_iff)

text \<open>On a mapping that validate_mapping_keys accepts, child finds exactly the one pair with that key: the field
  the schema checked is the only field of that name, so nothing is shadowed.\<close>

theorem child_unique_in_valid_mapping:
  assumes "validate_mapping_keys file n path allowed = None"
  shows "child n key = Some v \<longleftrightarrow> (\<exists>k. (k, v) \<in> set (pairs (ncontent n)) \<and> nvalue k = key)"
proof -
  let ?kv = "map (\<lambda>p. (nvalue (fst p), snd p)) (pairs (ncontent n))"
  from assms have "distinct (key_names (ncontent n))"
    by (simp add: validate_mapping_keys_def mapping_keys_loop_None split: if_splits)
  then have "distinct (map fst ?kv)" by (simp add: comp_def)
  then have "map_of ?kv key = Some v \<longleftrightarrow> (key, v) \<in> set ?kv" by simp
  then show ?thesis by (force simp: child_def child_in_map_of)
qed

theorem child_unique_witness:
  "child (YNode MappingNode [] [YNode ScalarNode ''id'' [], YNode ScalarNode ''x'' []]) ''id''
     = Some (YNode ScalarNode ''x'' [])"
  using child_unique_in_valid_mapping
    [of "''f''" "YNode MappingNode [] [YNode ScalarNode ''id'' [], YNode ScalarNode ''x'' []]" "''p''"
       "[''id'']" "''id''" "YNode ScalarNode ''x'' []"]
  by (simp add: validate_mapping_keys_def)

definition complete_entry :: "secret_entry \<Rightarrow> bool" where
  "complete_entry e \<longleftrightarrow>
     se_id e \<noteq> [] \<and> ks_name (se_k8s e) \<noteq> [] \<and> ks_namespace (se_k8s e) \<noteq> [] \<and> ks_key (se_k8s e) \<noteq> []"

lemma validate_secret_entry_None: "validate_secret_entry i e = None \<longleftrightarrow> complete_entry e"
  by (auto simp: validate_secret_entry_def complete_entry_def Let_def)

lemma secret_entries_loop_None:
  "secret_entries_loop seen i es = None \<longleftrightarrow>
     (\<forall>e \<in> set es. complete_entry e) \<and> distinct (map se_id es) \<and> se_id ` set es \<inter> fst ` set seen = {}"
proof (induction seen i es rule: secret_entries_loop.induct)
  case (2 seen i e es)
  show ?case
  proof (cases "mget seen (se_id e)")
    case None
    with 2 [OF None] show ?thesis by (auto simp: validate_secret_entry_None mget_None_iff)
  next
    case (Some prev)
    then show ?thesis by (auto simp: validate_secret_entry_None dest: mget_Some_key)
  qed
qed simp

text \<open>parse_secrets succeeds with a configuration exactly when the schema check passes, the decoder yields it,
  every entry has a complete pointer (id, name, namespace, key) and no id occurs twice.\<close>

theorem parse_secrets_exact:
  "parse_secrets L data = Inr cfg \<longleftrightarrow>
     validate_secrets_schema L data = None \<and> dec_secrets L data = Inr cfg \<and>
     list_all complete_entry (ss_secrets cfg) \<and> distinct (map se_id (ss_secrets cfg))"
  by (cases "dec_secrets L data") (auto simp: parse_secrets_def secret_entries_loop_None list_all_iff)

text \<open>An env_vars block that passes validate_env_vars_block has, in each of plain and secret_refs, pairwise distinct
  keys that are valid environment variable names, all with scalar values.\<close>

theorem env_vars_block_names:
  assumes "validate_env_vars_block file path (Some n) = None"
    and "field \<in> {''plain'', ''secret_refs''}" and "child n field = Some m"
  shows "nkind m = MappingNode \<and> distinct (key_names (ncontent m)) \<and>
     (\<forall>p \<in> set (pairs (ncontent m)). valid_env_name_re (nvalue (fst p)) \<and> nkind (snd p) = ScalarNode)"
proof -
  from assms have "validate_string_map file (path @ ''.'' @ field) (Some m) = None"
    by (auto simp: validate_env_vars_block_def)
  then show ?thesis
    by (auto simp: validate_string_map_def require_mapping_def string_map_loop_None split: if_splits)
qed

theorem env_vars_block_names_witness:
  "distinct (key_names [YNode ScalarNode ''A'' [], YNode ScalarNode ''1'' []])"
proof -
  let ?m = "YNode MappingNode [] [YNode ScalarNode ''A'' [], YNode ScalarNode ''1'' []]"
  let ?n = "YNode MappingNode [] [YNode ScalarNode ''plain'' [], ?m]"
  have "validate_env_vars_block ''f'' ''env_vars'' (Some ?n) = None"
    by (simp add: validate_env_vars_block_def require_mapping_def validate_mapping_keys_def
        validate_string_map_def child_def valid_env_name_re_def is_alpha_def)
  from env_vars_block_names [OF this, of "''plain''" ?m] show ?thesis
    by (simp add: child_def)
qed

end
