(* ===== verification/Paths.thy ===== *)
theory Paths
  imports GoErr
begin

text \<open>
  The layout of the config repository: the \<open>path/filepath\<close> functions the program uses (on Linux,
  where ToSlash and FromSlash are the identity), the service paths and their classification in
  internal/store/store.go and internal/gitops/repo.go, and the name checks that keep request
  fields from being read as paths.
\<close>

subsection \<open>path/filepath\<close>

abbreviation slash :: char where
  "slash \<equiv> CHR ''/''"

text \<open>The components of \<open>filepath.Clean\<close>, the kept ones in reverse.\<close>

fun clean_comps :: "bool \<Rightarrow> string list \<Rightarrow> string list \<Rightarrow> string list" where
  "clean_comps rooted acc [] = rev acc"
| "clean_comps rooted acc (w # ws) =
     (if w = [] \<or> w = ''.'' then clean_comps rooted acc ws
      else if w = ''..'' then
        (case acc of
           [] \<Rightarrow> if rooted then clean_comps rooted [] ws else clean_comps rooted [''..''] ws
         | a # as \<Rightarrow> if a = ''..'' then clean_comps rooted (''..'' # acc) ws
                    else clean_comps rooted as ws)
      else clean_comps rooted (w # acc) ws)"

definition path_clean :: "string \<Rightarrow> string" where
  "path_clean s =
     (let rooted = has_prefix s ''/'';
          c = join ''/'' (clean_comps rooted [] (split_on slash s))
      in if rooted then slash # c else if c = [] then ''.'' else c)"

definition path_join :: "string list \<Rightarrow> string" where
  "path_join es =
     (case dropWhile (\<lambda>e. e = []) es of [] \<Rightarrow> [] | es' \<Rightarrow> path_clean (join ''/'' es'))"

text \<open>\<open>strings.Trim(s, "/")\<close>\<close>

definition trim_slashes :: "string \<Rightarrow> string" where
  "trim_slashes s = rev (dropWhile (\<lambda>c. c = slash) (rev (dropWhile (\<lambda>c. c = slash) s)))"

definition plain_comp :: "string \<Rightarrow> bool" where
  "plain_comp w \<longleftrightarrow> w \<noteq> [] \<and> w \<noteq> ''.'' \<and> w \<noteq> ''..'' \<and> slash \<notin> set w"

lemma clean_comps_plain: "list_all plain_comp ws \<Longrightarrow> clean_comps rooted acc ws = rev acc @ ws"
  by (induction ws arbitrary: acc) (auto simp: plain_comp_def)

lemma split_on_join_plain: "ws \<noteq> [] \<Longrightarrow> list_all plain_comp ws \<Longrightarrow> split_on slash (join ''/'' ws) = ws"
  by (rule split_on_join) (auto simp: list_all_iff plain_comp_def)

lemma join_head:
  "ws \<noteq> [] \<Longrightarrow> list_all plain_comp ws \<Longrightarrow> \<exists>c r. join ''/'' ws = c # r \<and> c \<noteq> slash"
  by (cases ws; cases "tl ws"; cases "hd ws") (auto simp: plain_comp_def)

lemma join_last:
  "ws \<noteq> [] \<Longrightarrow> list_all plain_comp ws \<Longrightarrow> \<exists>c r. rev (join ''/'' ws) = c # r \<and> c \<noteq> slash"
proof (induction "''/''" ws rule: join.induct)
  case (2 w)
  then show ?case by (cases w rule: rev_cases) (auto simp: plain_comp_def)
next
  case (3 w v ws)
  then show ?case by fastforce
qed simp

text \<open>A path of plain components is already clean.\<close>

lemma path_clean_plain:
  assumes "ws \<noteq> []" and "list_all plain_comp ws"
  shows "path_clean (join ''/'' ws) = join ''/'' ws"
proof -
  obtain c r where "join ''/'' ws = c # r" "c \<noteq> slash" using join_head [OF assms] by blast
  then have "\<not> has_prefix (join ''/'' ws) ''/''" "join ''/'' ws \<noteq> []" by simp_all
  moreover have "split_on slash (join ''/'' ws) = ws" by (rule split_on_join_plain [OF assms])
  moreover have "clean_comps False [] ws = ws" using assms(2) by (simp add: clean_comps_plain)
  ultimately show ?thesis by (simp only: path_clean_def Let_def if_False)
qed

lemma trim_slashes_plain:
  assumes "ws \<noteq> []" and "list_all plain_comp ws"
  shows "trim_slashes (join ''/'' ws) = join ''/'' ws"
proof -
  obtain c r where 1: "join ''/'' ws = c # r" "c \<noteq> slash" using join_head [OF assms] by blast
  obtain d q where 2: "rev (join ''/'' ws) = d # q" "d \<noteq> slash" using join_last [OF assms] by blast
  from 1 have "dropWhile (\<lambda>c. c = slash) (join ''/'' ws) = join ''/'' ws" by simp
  moreover from 2 have "dropWhile (\<lambda>c. c = slash) (rev (join ''/'' ws)) = rev (join ''/'' ws)" by simp
  ultimately show ?thesis by (simp add: trim_slashes_def)
qed

subsection \<open>Name checks\<close>

definition is_alnum :: "char \<Rightarrow> bool" where
  "is_alnum c = ((CHR ''A'' \<le> c \<and> c \<le> CHR ''Z'') \<or> (CHR ''a'' \<le> c \<and> c \<le> CHR ''z'') \<or>
                 (CHR ''0'' \<le> c \<and> c \<le> CHR ''9''))"

text \<open>\<open>^[a-zA-Z0-9][a-zA-Z0-9._-]*$\<close>\<close>

definition valid_name_re :: "string \<Rightarrow> bool" where
  "valid_name_re s =
     (case s of
        [] \<Rightarrow> False
      | c # cs \<Rightarrow> is_alnum c \<and> list_all (\<lambda>d. is_alnum d \<or> d = CHR ''.'' \<or> d = CHR ''_'' \<or> d = CHR ''-'') cs)"

definition is_lower_alnum :: "char \<Rightarrow> bool" where
  "is_lower_alnum c = ((CHR ''a'' \<le> c \<and> c \<le> CHR ''z'') \<or> (CHR ''0'' \<le> c \<and> c \<le> CHR ''9''))"

text \<open>\<open>^[a-z0-9]([-a-z0-9]*[a-z0-9])?$\<close>\<close>

definition valid_k8s_dns_label_re :: "string \<Rightarrow> bool" where
  "valid_k8s_dns_label_re s =
     (s \<noteq> [] \<and> is_lower_alnum (hd s) \<and> is_lower_alnum (last s) \<and>
      list_all (\<lambda>c. is_lower_alnum c \<or> c = CHR ''-'') s)"

definition validate_name :: "string \<Rightarrow> string \<Rightarrow> goerr option" where
  "validate_name field v =
     (if \<not> valid_name_re v
      then Some (app_new CodeValidation (field @ '' '' @ quote v @ '' contains invalid characters''))
      else None)"

definition validate_k8s_dns_label :: "string \<Rightarrow> string \<Rightarrow> goerr option" where
  "validate_k8s_dns_label field v =
     (if v = [] \<or> 63 < length v \<or> \<not> valid_k8s_dns_label_re v
      then Some (app_new CodeValidation (field @ '' '' @ quote v @ '' must be a Kubernetes DNS label''))
      else None)"

fun all_labels :: "string \<Rightarrow> string list \<Rightarrow> goerr option" where
  "all_labels field [] = None"
| "all_labels field (p # ps) = or_err (validate_k8s_dns_label field p) (all_labels field ps)"

definition validate_k8s_dns_subdomain :: "string \<Rightarrow> string \<Rightarrow> goerr option" where
  "validate_k8s_dns_subdomain field v =
     (if v = [] \<or> 253 < length v
      then Some (app_new CodeValidation (field @ '' '' @ quote v @ '' must be a Kubernetes DNS subdomain''))
      else all_labels field (split_on (CHR ''.'') v))"

lemma is_alnum_chars: "\<not> is_alnum (CHR ''/'')" "\<not> is_alnum (CHR ''.'')" "\<not> is_alnum (CHR ''_'')"
  by (simp_all add: is_alnum_def)

lemma is_lower_alnum_alnum: "is_lower_alnum c \<Longrightarrow> is_alnum c"
  by (auto simp: is_lower_alnum_def is_alnum_def)

lemma valid_name_plain: "valid_name_re s \<Longrightarrow> plain_comp s"
proof (cases s)
  case (Cons c cs)
  assume "valid_name_re s"
  with Cons have c: "is_alnum c" "list_all (\<lambda>d. is_alnum d \<or> d = CHR ''.'' \<or> d = CHR ''_'' \<or> d = CHR ''-'') cs"
    by (auto simp: valid_name_re_def)
  then have "slash \<notin> set s" using Cons is_alnum_chars by (auto simp: list_all_iff)
  with c Cons is_alnum_chars show ?thesis by (auto simp: plain_comp_def)
qed (simp add: valid_name_re_def)

lemma valid_name_no_slash: "valid_name_re s \<Longrightarrow> slash \<notin> set s"
  using valid_name_plain by (simp add: plain_comp_def)

lemma validate_name_None [simp]: "validate_name f v = None \<longleftrightarrow> valid_name_re v"
  by (simp add: validate_name_def)

lemma all_labels_None: "all_labels f ps = None \<longleftrightarrow> (\<forall>p \<in> set ps. validate_k8s_dns_label f p = None)"
  by (induction ps) auto

lemma dns_label_plain: "validate_k8s_dns_label f v = None \<Longrightarrow> plain_comp v"
proof -
  assume "validate_k8s_dns_label f v = None"
  then have v: "v \<noteq> []" "is_lower_alnum (hd v)" "list_all (\<lambda>c. is_lower_alnum c \<or> c = CHR ''-'') v"
    by (auto simp: validate_k8s_dns_label_def valid_k8s_dns_label_re_def split: if_splits)
  from v(3) have "slash \<notin> set v" by (auto simp: list_all_iff is_lower_alnum_def)
  with v(1,2) show ?thesis by (auto simp: plain_comp_def is_lower_alnum_def)
qed

lemma dns_subdomain_None:
  "validate_k8s_dns_subdomain f v = None \<longleftrightarrow>
     v \<noteq> [] \<and> length v \<le> 253 \<and> (\<forall>p \<in> set (split_on (CHR ''.'') v). validate_k8s_dns_label f p = None)"
  by (simp add: validate_k8s_dns_subdomain_def all_labels_None linorder_not_less)

lemma dns_subdomain_plain: "validate_k8s_dns_subdomain f v = None \<Longrightarrow> plain_comp v"
proof -
  assume "validate_k8s_dns_subdomain f v = None"
  then have ne: "v \<noteq> []" and parts: "\<And>p. p \<in> set (split_on (CHR ''.'') v) \<Longrightarrow> validate_k8s_dns_label f p = None"
    by (simp_all add: dns_subdomain_None)
  have "validate_k8s_dns_label f [] \<noteq> None" by (simp add: validate_k8s_dns_label_def)
  with parts [of "[]"] have "[] \<notin> set (split_on (CHR ''.'') v)" by (intro notI) simp
  then have "v \<noteq> ''.''" "v \<noteq> ''..''" by auto
  moreover have "slash \<notin> set v"
  proof
    assume "slash \<in> set v"
    then have "slash \<in> set (join ''.'' (split_on (CHR ''.'') v))" by (simp add: join_split_on)
    moreover have "set (join ''.'' ws) \<subseteq> {CHR ''.''} \<union> \<Union> (set ` set ws)" for ws
      by (induction "''.''" ws rule: join.induct) auto
    ultimately have "slash \<in> {CHR ''.''} \<union> \<Union> (set ` set (split_on (CHR ''.'') v))" by (rule subsetD [rotated])
    then obtain p where "p \<in> set (split_on (CHR ''.'') v)" "slash \<in> set p" by auto
    with parts [of p] dns_label_plain [of f p] show False by (simp add: plain_comp_def)
  qed
  ultimately show ?thesis using ne by (simp add: plain_comp_def)
qed

subsection \<open>Service paths\<close>

text \<open>\<open>ServiceKey.String()\<close>\<close>

definition service_key :: "string \<Rightarrow> string \<Rightarrow> string \<Rightarrow> string" where
  "service_key org project service = org @ ''/'' @ project @ ''/'' @ service"

definition service_path :: "string \<Rightarrow> string \<Rightarrow> string \<Rightarrow> string" where
  "service_path org project service =
     ''configs'' @ ''/orgs/'' @ org @ ''/projects/'' @ project @ ''/services/'' @ service"

text \<open>\<open>serviceConfigRoot\<close> of gitops\<close>

definition service_config_root :: "string \<Rightarrow> string \<Rightarrow> string \<Rightarrow> string" where
  "service_config_root org project service =
     join ''/'' [''configs'', ''orgs'', org, ''projects'', project, ''services'', service]"

definition service_relative_path :: "string \<Rightarrow> string \<Rightarrow> string option" where
  "service_relative_path svc_path manifest_path =
     (let prefix = svc_path @ ''/'' in
      if \<not> has_prefix manifest_path prefix then None else Some (trim_prefix manifest_path prefix))"

text \<open>\<open>classifyPath\<close>: the service key and the file type.\<close>

definition orgs_prefix :: string where
  "orgs_prefix = ''configs/orgs/''"

definition classify_path :: "string \<Rightarrow> (string \<times> string) option" where
  "classify_path path =
     (if \<not> has_prefix path orgs_prefix then None
      else
        (let rest = drop (length orgs_prefix) path;
             parts = split_on slash rest
         in if length parts < 6 \<or> parts ! 1 \<noteq> ''projects'' \<or> parts ! 3 \<noteq> ''services'' then None
            else
              (let org = parts ! 0; proj = parts ! 2; svc = parts ! 4; file = parts ! 5 in
               if file = ''sealed-secrets'' \<or> has_prefix file ''_'' then None
               else if file = ''config.yaml'' then Some (service_key org proj svc, ''config'')
               else if file = ''env_vars.yaml'' then Some (service_key org proj svc, ''env_vars'')
               else if file = ''secrets.yaml'' then Some (service_key org proj svc, ''secrets'')
               else None)))"

datatype defaults_scope = ScopeGlobal | ScopeOrg | ScopeProject

record defaults_source =
  ds_scope :: defaults_scope
  ds_org :: string
  ds_project :: string
  ds_path :: string
  ds_has_config :: bool
  ds_has_env_vars :: bool

definition classify_defaults_path :: "string \<Rightarrow> defaults_source option" where
  "classify_defaults_path path =
     (let parts = split_on slash path in
      if length parts = 3 \<and> parts ! 0 = ''configs'' \<and> parts ! 1 = ''_defaults'' \<and> parts ! 2 = ''common.yaml''
      then Some \<lparr>ds_scope = ScopeGlobal, ds_org = [], ds_project = [], ds_path = path,
                 ds_has_config = False, ds_has_env_vars = False\<rparr>
      else if length parts = 5 \<and> parts ! 0 = ''configs'' \<and> parts ! 1 = ''orgs'' \<and> parts ! 3 = ''_defaults'' \<and>
              parts ! 4 = ''common.yaml'' \<and> parts ! 2 \<noteq> []
      then Some \<lparr>ds_scope = ScopeOrg, ds_org = parts ! 2, ds_project = [], ds_path = path,
                 ds_has_config = False, ds_has_env_vars = False\<rparr>
      else if length parts = 7 \<and> parts ! 0 = ''configs'' \<and> parts ! 1 = ''orgs'' \<and> parts ! 3 = ''projects'' \<and>
              parts ! 5 = ''_defaults'' \<and> parts ! 6 = ''common.yaml'' \<and> parts ! 2 \<noteq> [] \<and> parts ! 4 \<noteq> []
      then Some \<lparr>ds_scope = ScopeProject, ds_org = parts ! 2, ds_project = parts ! 4, ds_path = path,
                 ds_has_config = False, ds_has_env_vars = False\<rparr>
      else None)"

datatype file_kind = FileConfig | FileEnvVars | FileSecrets | FileSealedSecret

record file_change =
  fc_path :: string
  fc_kind :: file_kind

text \<open>\<open>ClassifyServiceFileChange\<close> of gitops\<close>

definition classify_service_file_change ::
  "string \<Rightarrow> string \<Rightarrow> string \<Rightarrow> string \<Rightarrow> file_change option" where
  "classify_service_file_change repo_path org project service =
     (let repo_path = trim_slashes (path_clean repo_path);
          root = service_config_root org project service @ ''/''
      in if \<not> has_prefix repo_path root \<or> trim_prefix repo_path root = [] then None
         else
           (let rel = trim_prefix repo_path root in
            if rel = ''config.yaml'' then Some \<lparr>fc_path = rel, fc_kind = FileConfig\<rparr>
            else if rel = ''env_vars.yaml'' then Some \<lparr>fc_path = rel, fc_kind = FileEnvVars\<rparr>
            else if rel = ''secrets.yaml'' then Some \<lparr>fc_path = rel, fc_kind = FileSecrets\<rparr>
            else if has_prefix rel ''sealed-secrets/'' then Some \<lparr>fc_path = rel, fc_kind = FileSealedSecret\<rparr>
            else None))"

text \<open>\<open>serviceRelativeRepoPath\<close> of gitops\<close>

definition service_relative_repo_path :: "string \<Rightarrow> string \<Rightarrow> string \<Rightarrow> string \<Rightarrow> string option" where
  "service_relative_repo_path repo_path org project service =
     (let repo_path = trim_slashes (path_clean repo_path);
          root = service_config_root org project service @ ''/''
      in if has_prefix repo_path root \<and> trim_prefix repo_path root \<noteq> []
         then Some (trim_prefix repo_path root) else None)"

subsection \<open>What the classifiers accept\<close>

lemma service_config_root_path: "service_config_root org project service = service_path org project service"
  by (simp add: service_config_root_def service_path_def)

lemma split_service_path:
  assumes "slash \<notin> set o'" and "slash \<notin> set p" and "slash \<notin> set s"
  shows "split_on slash (service_path o' p s @ ''/'' @ r) =
    [''configs'', ''orgs'', o', ''projects'', p, ''services'', s] @ split_on slash r"
proof -
  have "split_on slash (s @ slash # r) = s # split_on slash r"
    "\<And>x. split_on slash (p @ slash # x) = p # split_on slash x"
    "\<And>x. split_on slash (o' @ slash # x) = o' # split_on slash x"
    using assms by (simp_all add: split_on_append_sep)
  then show ?thesis by (simp add: service_path_def)
qed

lemma length_ge_6: "\<not> length xs < 6 \<Longrightarrow> \<exists>a b c d e f r. xs = a # b # c # d # e # f # r"
  by (simp add: not_less numeral_eq_Suc Suc_le_length_iff) blast

definition file_type_of :: "string \<Rightarrow> string option" where
  "file_type_of f =
     (if f = ''config.yaml'' then Some ''config'' else if f = ''env_vars.yaml'' then Some ''env_vars''
      else if f = ''secrets.yaml'' then Some ''secrets'' else None)"

lemma classify_path_rest:
  assumes "split_on slash rest = a # b # c # d # e # f # rs"
  shows "classify_path (orgs_prefix @ rest) =
    (if b = ''projects'' \<and> d = ''services'' then map_option (Pair (service_key a c e)) (file_type_of f) else None)"
  using assms by (simp add: classify_path_def Let_def file_type_of_def)

lemma classify_path_short:
  assumes "length (split_on slash rest) < 6"
  shows "classify_path (orgs_prefix @ rest) = None"
  using assms by (simp add: classify_path_def Let_def)

lemma classify_path_parts:
  "classify_path path = Some (key, t) \<longleftrightarrow>
     (\<exists>rest a c e f rs. path = orgs_prefix @ rest \<and>
        split_on slash rest = [a, ''projects'', c, ''services'', e, f] @ rs \<and>
        key = service_key a c e \<and> file_type_of f = Some t)"
  (is "?L \<longleftrightarrow> ?R")
proof
  assume L: ?L
  then have "has_prefix path orgs_prefix" by (simp add: classify_path_def split: if_splits)
  then obtain rest where path: "path = orgs_prefix @ rest" unfolding has_prefix_iff by blast
  with L classify_path_short have "\<not> length (split_on slash rest) < 6" by fastforce
  then obtain a b c d e f rs where ps: "split_on slash rest = a # b # c # d # e # f # rs"
    using length_ge_6 by blast
  from L show ?R
    unfolding path classify_path_rest [OF ps] using ps by (auto split: if_splits)
next
  assume ?R
  then show ?L by (auto simp: classify_path_rest)
qed

lemma service_path_rest:
  "service_path o' p s @ ''/'' @ r = orgs_prefix @ join ''/'' [o', ''projects'', p, ''services'', s, r]"
  by (simp add: service_path_def orgs_prefix_def)

lemma split_service_rest:
  assumes "slash \<notin> set o'" and "slash \<notin> set p" and "slash \<notin> set s"
  shows "split_on slash (join ''/'' [o', ''projects'', p, ''services'', s, r]) =
    [o', ''projects'', p, ''services'', s] @ split_on slash r"
proof -
  have "split_on slash (s @ slash # r) = s # split_on slash r"
    "\<And>x. split_on slash (p @ slash # x) = p # split_on slash x"
    "\<And>x. split_on slash (o' @ slash # x) = o' # split_on slash x"
    using assms by (simp_all add: split_on_append_sep)
  then show ?thesis by simp
qed

lemma classify_service_path:
  assumes "slash \<notin> set o'" and "slash \<notin> set p" and "slash \<notin> set s"
    and "split_on slash r = f # rs"
  shows "classify_path (service_path o' p s @ ''/'' @ r) =
    map_option (Pair (service_key o' p s)) (file_type_of f)"
  unfolding service_path_rest
  using split_service_rest [OF assms(1-3), of r] assms(4) by (simp add: classify_path_rest del: join.simps)

definition kind_of :: "string \<Rightarrow> file_kind option" where
  "kind_of f =
     (if f = ''config.yaml'' then Some FileConfig else if f = ''env_vars.yaml'' then Some FileEnvVars
      else if f = ''secrets.yaml'' then Some FileSecrets else None)"

lemma classify_change_rel:
  assumes "trim_slashes (path_clean q) = (service_config_root o' p s @ ''/'') @ r" and "r \<noteq> []"
  shows "classify_service_file_change q o' p s =
    (case kind_of r of
       Some k \<Rightarrow> Some \<lparr>fc_path = r, fc_kind = k\<rparr>
     | None \<Rightarrow> if has_prefix r ''sealed-secrets/''
               then Some \<lparr>fc_path = r, fc_kind = FileSealedSecret\<rparr> else None)"
proof -
  define root where "root = service_config_root o' p s @ ''/''"
  have "trim_slashes (path_clean q) = root @ r" using assms(1) by (simp only: root_def)
  then show ?thesis
    unfolding classify_service_file_change_def Let_def root_def [symmetric]
    using assms(2) by (simp add: kind_of_def)
qed

lemma classify_change_plain:
  assumes "list_all plain_comp [o', p, s]" and "rs \<noteq> []" and "list_all plain_comp rs"
  shows "classify_service_file_change (service_path o' p s @ ''/'' @ join ''/'' rs) o' p s =
    (case kind_of (join ''/'' rs) of
       Some k \<Rightarrow> Some \<lparr>fc_path = join ''/'' rs, fc_kind = k\<rparr>
     | None \<Rightarrow> if has_prefix (join ''/'' rs) ''sealed-secrets/''
               then Some \<lparr>fc_path = join ''/'' rs, fc_kind = FileSealedSecret\<rparr> else None)"
proof -
  let ?ws = "[''configs'', ''orgs'', o', ''projects'', p, ''services'', s] @ rs"
  have j: "service_path o' p s @ ''/'' @ join ''/'' rs = join ''/'' ?ws"
    using assms(2) by (cases rs) (simp_all add: service_path_def)
  have plain: "list_all plain_comp ?ws" using assms by (simp add: plain_comp_def)
  have "trim_slashes (path_clean (join ''/'' ?ws)) = join ''/'' ?ws"
    using path_clean_plain [OF _ plain] trim_slashes_plain [OF _ plain] by (metis append_Cons list.discI)
  then have t: "trim_slashes (path_clean (service_path o' p s @ ''/'' @ join ''/'' rs)) =
      (service_path o' p s @ ''/'') @ join ''/'' rs"
    unfolding j [symmetric] by simp
  have "join ''/'' rs \<noteq> []" using join_head [OF assms(2,3)] by auto
  with t show ?thesis
    by (intro classify_change_rel) (simp_all only: service_config_root_path not_False_eq_True)
qed

text \<open>For org, project and service names that are plain path components, the store's classifyPath and the Git
  layer's ClassifyServiceFileChange both recognise config.yaml, env_vars.yaml and secrets.yaml directly under
  ServicePath, as the same kind of file of the same service.\<close>

theorem classifiers_agree_on_service_files:
  assumes "plain_comp o'" and "plain_comp p" and "plain_comp s"
    and "(f, t, k) \<in> {(''config.yaml'', ''config'', FileConfig), (''env_vars.yaml'', ''env_vars'', FileEnvVars),
                      (''secrets.yaml'', ''secrets'', FileSecrets)}"
  shows "classify_path (service_path o' p s @ ''/'' @ f) = Some (service_key o' p s, t) \<and>
    classify_service_file_change (service_path o' p s @ ''/'' @ f) o' p s = Some \<lparr>fc_path = f, fc_kind = k\<rparr>"
proof -
  from assms(4) have f: "plain_comp f" "file_type_of f = Some t" "kind_of f = Some k"
    by (auto simp: plain_comp_def file_type_of_def kind_of_def)
  then have "split_on slash f = [f]" by (simp add: plain_comp_def split_on_no_sep)
  then have "classify_path (service_path o' p s @ ''/'' @ f) = Some (service_key o' p s, t)"
    using assms(1-3) f by (subst classify_service_path) (auto simp: plain_comp_def)
  moreover have "classify_service_file_change (service_path o' p s @ ''/'' @ join ''/'' [f]) o' p s =
      Some \<lparr>fc_path = join ''/'' [f], fc_kind = k\<rparr>"
    by (subst classify_change_plain) (use assms f in simp_all)
  ultimately show ?thesis by simp
qed

theorem classifiers_agree_witness:
  "classify_path (service_path ''o'' ''p'' ''s'' @ ''/'' @ ''config.yaml'') = Some (service_key ''o'' ''p'' ''s'', ''config'')"
  using classifiers_agree_on_service_files [of "''o''" "''p''" "''s''" "''config.yaml''" "''config''" FileConfig]
  by (simp add: plain_comp_def)

text \<open>A file below a directory that is itself named config.yaml is still read by the store as the service's
  config.yaml, because classifyPath only bounds the number of path parts from below, while the Git layer does not
  recognise it as a service file.\<close>

theorem nested_config_path_divergence:
  assumes "plain_comp o'" and "plain_comp p" and "plain_comp s" and "plain_comp x"
  shows "classify_path (service_path o' p s @ ''/'' @ join ''/'' [''config.yaml'', x]) = Some (service_key o' p s, ''config'') \<and>
    classify_service_file_change (service_path o' p s @ ''/'' @ join ''/'' [''config.yaml'', x]) o' p s = None"
proof -
  have "split_on slash (join ''/'' [''config.yaml'', x]) = [''config.yaml'', x]"
    using assms(4) by (intro split_on_join_plain) (simp_all add: plain_comp_def)
  then have "classify_path (service_path o' p s @ ''/'' @ join ''/'' [''config.yaml'', x]) =
      Some (service_key o' p s, ''config'')"
    using assms by (subst classify_service_path) (simp_all add: plain_comp_def file_type_of_def)
  moreover have "classify_service_file_change (service_path o' p s @ ''/'' @ join ''/'' [''config.yaml'', x]) o' p s = None"
    by (subst classify_change_plain) (use assms in \<open>simp_all add: plain_comp_def kind_of_def\<close>)
  ultimately show ?thesis by simp
qed

theorem nested_config_path_witness:
  "classify_service_file_change (service_path ''o'' ''p'' ''s'' @ ''/'' @ join ''/'' [''config.yaml'', ''x'']) ''o'' ''p'' ''s'' = None"
  using nested_config_path_divergence [of "''o''" "''p''" "''s''" "''x''"] by (simp add: plain_comp_def)

lemma split_service_key:
  "slash \<notin> set a \<Longrightarrow> slash \<notin> set p \<Longrightarrow> split_on slash (service_key a p s) = a # p # split_on slash s"
  by (simp add: service_key_def split_on_append_sep)

text \<open>On names without a slash ServiceKey.String is injective, so two services never share a snapshot entry.\<close>

theorem service_key_injective:
  assumes "slash \<notin> set o1" "slash \<notin> set p1" "slash \<notin> set o2" "slash \<notin> set p2"
    and "service_key o1 p1 s1 = service_key o2 p2 s2"
  shows "o1 = o2 \<and> p1 = p2 \<and> s1 = s2"
proof -
  from split_service_key [OF assms(1,2), of s1] split_service_key [OF assms(3,4), of s2] assms(5)
  have eq: "o1 = o2" "p1 = p2" "split_on slash s1 = split_on slash s2" by simp_all
  then have "s1 = s2" by (metis join_split_on)
  with eq show ?thesis by simp
qed

theorem service_key_injective_witness: "service_key ''a'' ''b'' ''c'' \<noteq> service_key ''a'' ''b'' ''d''"
  using service_key_injective [of "''a''" "''b''" "''a''" "''b''" "''c''" "''d''"] by auto

lemma split_orgs_prefix: "split_on slash (orgs_prefix @ rest) = ''configs'' # ''orgs'' # split_on slash rest"
  by (simp add: orgs_prefix_def)

lemma service_path_no_defaults: "classify_path path \<noteq> None \<Longrightarrow> classify_defaults_path path = None"
proof -
  assume "classify_path path \<noteq> None"
  then obtain key t where "classify_path path = Some (key, t)" by auto
  then obtain rest a c e f rs where path: "path = orgs_prefix @ rest"
    and sp: "split_on slash rest = [a, ''projects'', c, ''services'', e, f] @ rs"
    unfolding classify_path_parts by blast
  then have "8 \<le> length (split_on slash path)" by (simp add: split_orgs_prefix)
  then show "classify_defaults_path path = None"
    by (simp add: classify_defaults_path_def Let_def)
qed

text \<open>No path is both a defaults file and a service file, so the order in which the reload tries the two
  classifiers does not matter.\<close>

theorem defaults_and_service_paths_disjoint:
  "classify_defaults_path path = None \<or> classify_path path = None"
  using service_path_no_defaults by blast

end
