(* ===== verification/Inherit.thy ===== *)
theory Inherit
  imports Parser Paths
begin

text \<open>
  The data of a service (internal/store/types.go) and the inheritance of defaults
  (internal/store/store.go): the index of \<open>_defaults/common.yaml\<close> files, the deep merge of config
  maps and the merge of env vars over the layers global, org, project, service. \<open>go_lib\<close> extends the
  YAML library by the other library functions the store calls: the serialisers of the YAML library,
  hex-encoded SHA-256, and RFC 3339 timestamps.
\<close>

subsection \<open>Data\<close>

record go_lib = yaml_lib +
  enc_config :: "service_config \<Rightarrow> goerr + bytes"
  enc_env_vars :: "env_vars_config \<Rightarrow> goerr + bytes"
  enc_secrets :: "secrets_config \<Rightarrow> goerr + bytes"
  dec_seal_meta :: "bytes \<Rightarrow> goerr + (string \<times> string)"
  sha256_hex :: "bytes \<Rightarrow> string"
  parse_rfc3339 :: "string \<Rightarrow> gotime option"
  format_rfc3339 :: "gotime \<Rightarrow> string"

record service_data =
  sd_config :: "service_config option"
  sd_env_vars :: "env_vars_config option"
  sd_secrets :: "secrets_config option"
  sd_updated_at :: gotime
  sd_inherited_sources :: "defaults_source list"
  sd_inherited_config :: "service_config option"
  sd_inherited_env_vars :: "env_vars_config option"
  sd_config_rv :: string
  sd_env_vars_rv :: string
  sd_config_digest :: string
  sd_env_vars_digest :: string

definition empty_service_data :: service_data where
  "empty_service_data =
     \<lparr>sd_config = None, sd_env_vars = None, sd_secrets = None, sd_updated_at = 0,
      sd_inherited_sources = [], sd_inherited_config = None, sd_inherited_env_vars = None,
      sd_config_rv = [], sd_env_vars_rv = [], sd_config_digest = [], sd_env_vars_digest = []\<rparr>"

record defaults_entry =
  de_source :: defaults_source
  de_config :: defaults_config

record defaults_index =
  di_global :: "defaults_entry option"
  di_org :: "(string, defaults_entry) gomap"
  di_project :: "(string, defaults_entry) gomap"

definition new_defaults_index :: defaults_index where
  "new_defaults_index = \<lparr>di_global = None, di_org = [], di_project = []\<rparr>"

subsection \<open>Config maps\<close>

fun deep_copy_config_value :: "cval \<Rightarrow> cval"
  and copy_config_map :: "cmap \<Rightarrow> cmap"
  and copy_config_seq :: "cval list \<Rightarrow> cval list" where
  "deep_copy_config_value (CMap m) = CMap (copy_config_map m)"
| "deep_copy_config_value (CSeq xs) = CSeq (copy_config_seq xs)"
| "deep_copy_config_value v = v"
| "copy_config_map [] = []"
| "copy_config_map ((k, v) # m) = (k, deep_copy_config_value v) # copy_config_map m"
| "copy_config_seq [] = []"
| "copy_config_seq (v # vs) = deep_copy_config_value v # copy_config_seq vs"

text \<open>\<open>deepMergeMap\<close> and the loop over the override in it.\<close>

function (sequential) deep_merge_map :: "cmap \<Rightarrow> cmap \<Rightarrow> cmap"
  and merge_entries :: "cmap \<Rightarrow> cmap \<Rightarrow> cmap" where
  "deep_merge_map base override = merge_entries (copy_config_map base) override"
| "merge_entries result [] = result"
| "merge_entries result ((key, CNil) # rest) = merge_entries (mdel key result) rest"
| "merge_entries result ((key, CMap om) # rest) =
     (case mget result key of
        Some (CMap bm) \<Rightarrow> merge_entries (mput key (CMap (deep_merge_map bm om)) result) rest
      | _ \<Rightarrow> merge_entries (mput key (deep_copy_config_value (CMap om)) result) rest)"
| "merge_entries result ((key, v) # rest) = merge_entries (mput key (deep_copy_config_value v) result) rest"
  by pat_completeness auto
termination
  by (relation "measure (case_sum (\<lambda>(b, ov). Suc (size_list (size_prod (\<lambda>_. 0) size) ov))
                                  (\<lambda>(r, ov). size_list (size_prod (\<lambda>_. 0) size) ov))") auto

subsection \<open>Environment variables\<close>

definition copy_env_vars :: "env_vars \<Rightarrow> env_vars" where
  "copy_env_vars src =
     \<lparr>ev_plain = Some (mput_all (nz (ev_plain src)) []),
      ev_secret_refs = Some (mput_all (nz (ev_secret_refs src)) [])\<rparr>"

definition merge_env_vars :: "env_vars \<Rightarrow> env_vars \<Rightarrow> env_vars" where
  "merge_env_vars base override =
     (let merged = copy_env_vars base in
      \<lparr>ev_plain = Some (mput_all (nz (ev_plain override)) (nz (ev_plain merged))),
       ev_secret_refs = Some (mput_all (nz (ev_secret_refs override)) (nz (ev_secret_refs merged)))\<rparr>)"

definition has_env_vars :: "env_vars \<Rightarrow> bool" where
  "has_env_vars env = (0 < length (nz (ev_plain env)) \<or> 0 < length (nz (ev_secret_refs env)))"

subsection \<open>Defaults\<close>

text \<open>\<open>parseAndStoreDefaults\<close>: whether the path was a defaults file, the parse error, and the index.\<close>

definition parse_and_store_defaults ::
  "'x yaml_lib_scheme \<Rightarrow> string \<Rightarrow> bytes \<Rightarrow> defaults_index \<Rightarrow> (bool \<times> goerr option) \<times> defaults_index" where
  "parse_and_store_defaults L path raw di =
     (case classify_defaults_path path of
        None \<Rightarrow> ((False, None), di)
      | Some source \<Rightarrow>
          (case parse_defaults L raw of
             Inl e \<Rightarrow> ((True, Some e), di)
           | Inr cfg \<Rightarrow>
               (let source = source\<lparr>ds_has_config := 0 < length (nz (dc_config cfg)),
                                   ds_has_env_vars := has_env_vars (dc_env cfg)\<rparr>;
                    entry = \<lparr>de_source = source, de_config = cfg\<rparr>
                in ((True, None),
                    (case ds_scope source of
                       ScopeGlobal \<Rightarrow> di\<lparr>di_global := Some entry\<rparr>
                     | ScopeOrg \<Rightarrow> di\<lparr>di_org := mput (ds_org source) entry (di_org di)\<rparr>
                     | ScopeProject \<Rightarrow>
                         di\<lparr>di_project := mput (ds_org source @ ''/'' @ ds_project source) entry (di_project di)\<rparr>)))))"

definition defaults_entries_for :: "string \<Rightarrow> string \<Rightarrow> defaults_index \<Rightarrow> defaults_entry list" where
  "defaults_entries_for org project di =
     (case di_global di of None \<Rightarrow> [] | Some e \<Rightarrow> [e]) @
     (case mget (di_org di) org of None \<Rightarrow> [] | Some e \<Rightarrow> [e]) @
     (case mget (di_project di) (org @ ''/'' @ project) of None \<Rightarrow> [] | Some e \<Rightarrow> [e])"

fun merge_default_configs :: "bool \<Rightarrow> cmap \<Rightarrow> defaults_entry list \<Rightarrow> bool \<times> cmap" where
  "merge_default_configs has merged [] = (has, merged)"
| "merge_default_configs has merged (e # es) =
     (if length (nz (dc_config (de_config e))) = 0 then merge_default_configs has merged es
      else merge_default_configs True (deep_merge_map merged (nz (dc_config (de_config e)))) es)"

definition inherited_config_for ::
  "string \<Rightarrow> string \<Rightarrow> string \<Rightarrow> service_data \<Rightarrow> defaults_entry list \<Rightarrow> service_config option" where
  "inherited_config_for org project service sd defaults =
     (let (has, merged) = merge_default_configs (sd_config sd \<noteq> None) [] defaults;
          merged = (case sd_config sd of
                      None \<Rightarrow> merged
                    | Some c \<Rightarrow> deep_merge_map merged (nz (sc_config c)))
      in if \<not> has then None
         else (case sd_config sd of
                 Some c \<Rightarrow> Some \<lparr>sc_version = sc_version c, sc_metadata = sc_metadata c, sc_config = Some merged\<rparr>
               | None \<Rightarrow> Some \<lparr>sc_version = [],
                               sc_metadata = \<lparr>md_service = service, md_org = org, md_project = project,
                                              md_updated_at = []\<rparr>,
                               sc_config = Some merged\<rparr>))"

fun merge_default_envs :: "bool \<Rightarrow> env_vars \<Rightarrow> defaults_entry list \<Rightarrow> bool \<times> env_vars" where
  "merge_default_envs has merged [] = (has, merged)"
| "merge_default_envs has merged (e # es) =
     (if \<not> has_env_vars (dc_env (de_config e)) then merge_default_envs has merged es
      else merge_default_envs True (merge_env_vars merged (dc_env (de_config e))) es)"

definition inherited_env_vars_for ::
  "string \<Rightarrow> string \<Rightarrow> string \<Rightarrow> service_data \<Rightarrow> defaults_entry list \<Rightarrow> env_vars_config option" where
  "inherited_env_vars_for org project service sd defaults =
     (let (has, merged) = merge_default_envs (sd_env_vars sd \<noteq> None)
                            \<lparr>ev_plain = Some [], ev_secret_refs = Some []\<rparr> defaults;
          merged = (case sd_env_vars sd of None \<Rightarrow> merged | Some c \<Rightarrow> merge_env_vars merged (ec_env c))
      in if \<not> has then None
         else (case sd_env_vars sd of
                 Some c \<Rightarrow> Some \<lparr>ec_version = ec_version c, ec_metadata = ec_metadata c, ec_env = merged\<rparr>
               | None \<Rightarrow> Some \<lparr>ec_version = [],
                               ec_metadata = \<lparr>md_service = service, md_org = org, md_project = project,
                                              md_updated_at = []\<rparr>,
                               ec_env = merged\<rparr>))"

definition apply_inherited_fields ::
  "string \<Rightarrow> string \<Rightarrow> string \<Rightarrow> service_data \<Rightarrow> defaults_index \<Rightarrow> service_data" where
  "apply_inherited_fields org project service sd di =
     (let entries = defaults_entries_for org project di in
      sd\<lparr>sd_inherited_sources := map de_source entries,
         sd_inherited_config := inherited_config_for org project service sd entries,
         sd_inherited_env_vars := inherited_env_vars_for org project service sd entries\<rparr>)"

definition apply_defaults_inheritance ::
  "(string, service_data) gomap \<Rightarrow> defaults_index \<Rightarrow> (string, service_data) gomap" where
  "apply_defaults_inheritance data di =
     map (\<lambda>(key, sd).
            (key, (case split_on slash key of
                     [org, project, service] \<Rightarrow> apply_inherited_fields org project service sd di
                   | _ \<Rightarrow> sd))) data"

definition apply_metadata_updated_at :: "'x go_lib_scheme \<Rightarrow> service_data \<Rightarrow> string \<Rightarrow> service_data" where
  "apply_metadata_updated_at L sd ts =
     (if ts = [] then sd
      else (case parse_rfc3339 L ts of
              None \<Rightarrow> sd
            | Some t \<Rightarrow>
                if sd_updated_at sd = 0 \<or> sd_updated_at sd < t then sd\<lparr>sd_updated_at := t\<rparr> else sd))"

subsection \<open>Deep merge\<close>

text \<open>Well-formed config values: every map in them, at any depth, has distinct keys.\<close>

fun wf_cval :: "cval \<Rightarrow> bool"
  and wf_cmap :: "cmap \<Rightarrow> bool"
  and wf_cseq :: "cval list \<Rightarrow> bool" where
  "wf_cval (CMap m) = wf_cmap m"
| "wf_cval (CSeq xs) = wf_cseq xs"
| "wf_cval _ = True"
| "wf_cmap [] = True"
| "wf_cmap ((k, v) # m) = (k \<notin> fst ` set m \<and> wf_cval v \<and> wf_cmap m)"
| "wf_cseq [] = True"
| "wf_cseq (v # vs) = (wf_cval v \<and> wf_cseq vs)"

lemma deep_copy_id [simp]:
  "deep_copy_config_value v = v"
  "copy_config_map m = m"
  "copy_config_seq vs = vs"
  by (induction v and m and vs rule: deep_copy_config_value_copy_config_map_copy_config_seq.induct) auto

lemma wf_cmap_iff: "wf_cmap m \<longleftrightarrow> wf_map m \<and> (\<forall>p \<in> set m. wf_cval (snd p))"
  by (induction m) force+

lemma wf_cmap_mget: "wf_cmap m \<Longrightarrow> mget m k = Some v \<Longrightarrow> wf_cval v"
  by (auto simp: wf_cmap_iff dest!: mget_Some_in)

lemma set_mput_subset: "set (mput k v m) \<subseteq> insert (k, v) (set m)"
  by (induction m) auto

lemma wf_cmap_mput: "wf_cmap m \<Longrightarrow> wf_cval v \<Longrightarrow> wf_cmap (mput k v m)"
  using set_mput_subset [of k v m] by (fastforce simp: wf_cmap_iff)

lemma wf_cmap_mdel: "wf_cmap m \<Longrightarrow> wf_cmap (mdel k m)"
  unfolding wf_cmap_iff using wf_map_mdel [of m k] by (auto simp: mdel_def)

lemma merge_wf:
  assumes "wf_cmap base" and "wf_cmap override"
  shows "wf_cmap (deep_merge_map base override)"
proof -
  have "wf_cmap b \<Longrightarrow> wf_cmap ov \<Longrightarrow> wf_cmap (deep_merge_map b ov)"
    and "wf_cmap r \<Longrightarrow> wf_cmap ov \<Longrightarrow> wf_cmap (merge_entries r ov)" for b r ov
  proof (induction b ov and r ov rule: deep_merge_map_merge_entries.induct)
    case (4 result key om rest)
    show ?case
    proof (cases "mget result key")
      case (Some v)
      with 4 wf_cmap_mget [of result key v] show ?thesis
        by (cases v) (auto simp: wf_cmap_mput)
    next
      case None
      with 4 show ?thesis by (simp add: wf_cmap_mput)
    qed
  qed (simp_all add: wf_cmap_mput wf_cmap_mdel)
  with assms show ?thesis by blast
qed

text \<open>The value of one key after a merge, as the documentation of the merge states it.\<close>

fun merged_value :: "cval option \<Rightarrow> cval option \<Rightarrow> cval option" where
  "merged_value b None = b"
| "merged_value b (Some CNil) = None"
| "merged_value (Some (CMap bm)) (Some (CMap om)) = Some (CMap (deep_merge_map bm om))"
| "merged_value b (Some v) = Some v"

lemma merge_entries_get:
  "wf_map ov \<Longrightarrow> mget (merge_entries r ov) k = merged_value (mget r k) (mget ov k)"
proof (induction ov arbitrary: r)
  case Nil
  then show ?case by simp
next
  case (Cons p ov)
  obtain key v where p: "p = (key, v)" by (cases p)
  have k: "key = k \<Longrightarrow> mget ov k = None" using Cons.prems p by auto
  show ?case
  proof (cases v)
    case (CMap om)
    show ?thesis
    proof (cases "\<exists>bm. mget r key = Some (CMap bm)")
      case True
      then obtain bm where "mget r key = Some (CMap bm)" by blast
      with Cons p CMap k show ?thesis by (auto simp del: deep_merge_map.simps)
    next
      case False
      then have "merge_entries r (p # ov) = merge_entries (mput key (CMap om) r) ov"
        by (auto simp: p CMap split: option.split cval.split)
      moreover have "merged_value (mget r key) (Some (CMap om)) = Some (CMap om)"
        using False by (cases "mget r key"; cases "the (mget r key)") auto
      ultimately show ?thesis using Cons p CMap k by auto
    qed
  qed (use Cons p k in auto)
qed

lemma merge_key_value:
  "wf_map override \<Longrightarrow> mget (deep_merge_map base override) k = merged_value (mget base k) (mget override k)"
  using merge_entries_get [of override] by simp



text \<open>Reading a value at a path of keys; a scalar set at a path; a path about which a map says nothing.\<close>

fun lookup_path :: "cmap \<Rightarrow> string list \<Rightarrow> cval option" where
  "lookup_path m [] = None"
| "lookup_path m [k] = mget m k"
| "lookup_path m (k # k' # ks) = (case mget m k of Some (CMap m') \<Rightarrow> lookup_path m' (k' # ks) | _ \<Rightarrow> None)"

fun is_leaf :: "cval \<Rightarrow> bool" where
  "is_leaf (CMap m) = False"
| "is_leaf CNil = False"
| "is_leaf _ = True"

fun silent :: "cmap \<Rightarrow> string list \<Rightarrow> bool" where
  "silent m [] = True"
| "silent m [k] = (mget m k = None)"
| "silent m (k # k' # ks) =
     (case mget m k of None \<Rightarrow> True | Some (CMap m') \<Rightarrow> silent m' (k' # ks) | _ \<Rightarrow> False)"

lemma silent_lookup: "silent m ks \<Longrightarrow> lookup_path m ks = None"
  by (induction m ks rule: silent.induct) (auto split: option.splits cval.splits)

lemma merge_leaf_wins:
  "wf_cmap ov \<Longrightarrow> lookup_path ov ks = Some v \<Longrightarrow> is_leaf v \<Longrightarrow>
   lookup_path (deep_merge_map base ov) ks = Some v"
proof (induction ov ks arbitrary: base rule: lookup_path.induct)
  case (2 m k)
  then have "merged_value (mget base k) (Some v) = Some v" by (cases v) auto
  with 2 show ?case by (simp add: merge_key_value wf_cmap_iff del: deep_merge_map.simps)
next
  case (3 m k k' ks)
  then obtain om where om: "mget m k = Some (CMap om)" "lookup_path om (k' # ks) = Some v"
    by (auto split: option.splits cval.splits)
  with 3 have IH: "lookup_path (deep_merge_map b om) (k' # ks) = Some v" for b
    using wf_cmap_mget by fastforce
  have wf: "wf_map m" using 3 by (simp add: wf_cmap_iff)
  show ?case
  proof (cases "\<exists>bm. mget base k = Some (CMap bm)")
    case True
    with om IH wf show ?thesis by (auto simp: merge_key_value simp del: deep_merge_map.simps)
  next
    case False
    then have "merged_value (mget base k) (Some (CMap om)) = Some (CMap om)"
      by (cases "mget base k"; cases "the (mget base k)") auto
    with om wf show ?thesis by (simp add: merge_key_value del: deep_merge_map.simps)
  qed
qed simp

lemma merge_silent_keeps:
  "wf_cmap ov \<Longrightarrow> silent ov ks \<Longrightarrow> lookup_path (deep_merge_map base ov) ks = lookup_path base ks"
proof (induction ov ks arbitrary: base rule: silent.induct)
  case (2 m k)
  then show ?case by (simp add: merge_key_value wf_cmap_iff del: deep_merge_map.simps)
next
  case (3 m k k' ks)
  have wf: "wf_map m" using 3 by (simp add: wf_cmap_iff)
  show ?case
  proof (cases "mget m k")
    case None
    with wf show ?thesis by (simp add: merge_key_value del: deep_merge_map.simps)
  next
    case (Some v)
    with 3 obtain om where om: "v = CMap om" "silent om (k' # ks)" by (auto split: cval.splits)
    have IH: "lookup_path (deep_merge_map b om) (k' # ks) = lookup_path b (k' # ks)" for b
      using 3 Some om wf_cmap_mget by fastforce
    show ?thesis
    proof (cases "\<exists>bm. mget base k = Some (CMap bm)")
      case True
      with om IH wf Some show ?thesis by (auto simp: merge_key_value simp del: deep_merge_map.simps)
    next
      case False
      then have "merged_value (mget base k) (Some (CMap om)) = Some (CMap om)"
          "lookup_path base (k # k' # ks) = None"
        by (cases "mget base k"; cases "the (mget base k)"; auto)+
      with om wf Some silent_lookup show ?thesis
        by (simp add: merge_key_value del: deep_merge_map.simps)
    qed
  qed
qed simp

text \<open>Where the override map and the base disagree on kind, a null nested in the override is kept as a null in the
  result: only a null whose whole path of parents are maps in the base deletes anything.\<close>

theorem nested_null_survives:
  assumes "wf_map override" and "mget override k = Some (CMap om)" and "mget om k' = Some CNil"
    and "mget base k = None"
  shows "lookup_path (deep_merge_map base override) [k, k'] = Some CNil"
  using assms by (simp add: merge_key_value del: deep_merge_map.simps)

theorem nested_null_survives_witness:
  "lookup_path (deep_merge_map [] [(''a'', CMap [(''b'', CNil)])]) [''a'', ''b''] = Some CNil"
  by (rule nested_null_survives [where om = "[(''b'', CNil)]"]) simp_all

subsection \<open>Layers\<close>

definition config_layers :: "service_data \<Rightarrow> defaults_entry list \<Rightarrow> cmap list" where
  "config_layers sd entries =
     map (\<lambda>e. nz (dc_config (de_config e))) entries @
     (case sd_config sd of None \<Rightarrow> [] | Some c \<Rightarrow> [nz (sc_config c)])"

lemma deep_merge_Nil [simp]: "deep_merge_map m [] = m"
  by simp

lemma merge_default_configs_eq:
  "merge_default_configs has m es =
     (has \<or> (\<exists>e \<in> set es. nz (dc_config (de_config e)) \<noteq> []),
      foldl deep_merge_map m (map (\<lambda>e. nz (dc_config (de_config e))) es))"
  by (induction has m es rule: merge_default_configs.induct) (auto simp del: deep_merge_map.simps)

lemma inherited_config_eq:
  "map_option sc_config (inherited_config_for org project service sd es) =
     (if sd_config sd = None \<and> (\<forall>l \<in> set (config_layers sd es). l = []) then None
      else Some (Some (foldl deep_merge_map [] (config_layers sd es))))"
  by (auto simp: inherited_config_for_def merge_default_configs_eq config_layers_def Let_def
      simp del: deep_merge_map.simps split: option.split)

lemma foldl_merge_wf: "wf_cmap m \<Longrightarrow> list_all wf_cmap ls \<Longrightarrow> wf_cmap (foldl deep_merge_map m ls)"
  by (induction ls arbitrary: m) (auto simp: merge_wf simp del: deep_merge_map.simps)

lemma foldl_merge_silent:
  "list_all wf_cmap ls \<Longrightarrow> list_all (\<lambda>l. silent l ks) ls \<Longrightarrow>
   lookup_path (foldl deep_merge_map m ls) ks = lookup_path m ks"
  by (induction ls arbitrary: m) (auto simp: merge_silent_keeps simp del: deep_merge_map.simps)

text \<open>C19: Nearest layer wins: in the inherited config of a service, over the layers global, org, project and service, a
  scalar or array that some layer sets at a path is the effective value there when no later layer says anything about
  that path.\<close>

theorem nearest_config_layer_wins:
  assumes "config_layers sd es = before @ layer # after"
    and "list_all wf_cmap (before @ layer # after)"
    and "lookup_path layer ks = Some v" and "is_leaf v"
    and "list_all (\<lambda>l. silent l ks) after"
  shows "\<exists>c m. inherited_config_for org project service sd es = Some c \<and> sc_config c = Some m \<and>
    lookup_path m ks = Some v"
proof -
  let ?m = "foldl deep_merge_map [] (config_layers sd es)"
  have "layer \<noteq> []" using assms(3) by (induction layer ks rule: lookup_path.induct) auto
  with assms(1) have "map_option sc_config (inherited_config_for org project service sd es) = Some (Some ?m)"
    by (simp add: inherited_config_eq del: foldl_append)
  then obtain c where "inherited_config_for org project service sd es = Some c" "sc_config c = Some ?m" by auto
  moreover have "lookup_path ?m ks = Some v"
  proof -
    have wf: "list_all wf_cmap before" "wf_cmap layer" "list_all wf_cmap after" using assms(2) by simp_all
    have wf0: "wf_cmap (foldl deep_merge_map [] before)" by (rule foldl_merge_wf) (simp_all add: wf)
    have "lookup_path (deep_merge_map (foldl deep_merge_map [] before) layer) ks = Some v"
      using wf0 wf(2) assms(3,4) by (simp add: merge_leaf_wins del: deep_merge_map.simps)
    then show ?thesis
      using foldl_merge_silent [OF wf(3) assms(5)] by (simp add: assms(1) del: deep_merge_map.simps)
  qed
  ultimately show ?thesis by blast
qed

definition sample_defaults :: "cmap \<Rightarrow> env_vars \<Rightarrow> defaults_entry" where
  "sample_defaults m env =
     \<lparr>de_source = \<lparr>ds_scope = ScopeGlobal, ds_org = [], ds_project = [], ds_path = [],
                   ds_has_config = True, ds_has_env_vars = True\<rparr>,
      de_config = \<lparr>dc_config = Some m, dc_env = env\<rparr>\<rparr>"

theorem nearest_config_layer_wins_witness:
  "\<exists>c m. inherited_config_for ''o'' ''p'' ''s'' empty_service_data
       [sample_defaults [(''a'', CInt 1)] \<lparr>ev_plain = None, ev_secret_refs = None\<rparr>,
        sample_defaults [(''a'', CInt 2)] \<lparr>ev_plain = None, ev_secret_refs = None\<rparr>] = Some c \<and>
     sc_config c = Some m \<and> lookup_path m [''a''] = Some (CInt 2)"
  by (rule nearest_config_layer_wins [of _ _ "[[(''a'', CInt 1)]]" "[(''a'', CInt 2)]" "[]"])
    (simp_all add: config_layers_def sample_defaults_def empty_service_data_def)

definition env_layers :: "(env_vars \<Rightarrow> smap option) \<Rightarrow> service_data \<Rightarrow> defaults_entry list \<Rightarrow> smap list" where
  "env_layers field sd entries =
     map (\<lambda>e. nz (field (dc_env (de_config e)))) entries @
     (case sd_env_vars sd of None \<Rightarrow> [] | Some c \<Rightarrow> [nz (field (ec_env c))])"

text \<open>The value of a key in the last layer that has it.\<close>

definition nearest :: "smap list \<Rightarrow> string \<Rightarrow> string option" where
  "nearest layers k = first_some (map (\<lambda>m. mget m k) (rev layers))"

lemma first_some_append: "first_some (xs @ ys) = (case first_some xs of Some x \<Rightarrow> Some x | None \<Rightarrow> first_some ys)"
  by (induction xs rule: first_some.induct) auto

lemma nearest_snoc: "nearest (ls @ [l]) k = (case mget l k of Some v \<Rightarrow> Some v | None \<Rightarrow> nearest ls k)"
  by (cases "mget l k") (simp_all add: nearest_def)

definition wf_env :: "env_vars \<Rightarrow> bool" where
  "wf_env env \<longleftrightarrow> wf_map (nz (ev_plain env)) \<and> wf_map (nz (ev_secret_refs env))"

lemma merge_env_vars_get:
  assumes "wf_env base" and "wf_env ov"
  shows "mget (nz (ev_plain (merge_env_vars base ov))) k =
      (case mget (nz (ev_plain ov)) k of Some v \<Rightarrow> Some v | None \<Rightarrow> mget (nz (ev_plain base)) k)"
    and "mget (nz (ev_secret_refs (merge_env_vars base ov))) k =
      (case mget (nz (ev_secret_refs ov)) k of Some v \<Rightarrow> Some v | None \<Rightarrow> mget (nz (ev_secret_refs base)) k)"
    and "wf_env (merge_env_vars base ov)"
  using assms
  by (auto simp: merge_env_vars_def copy_env_vars_def wf_env_def mget_mput_all Let_def split: option.split)

lemma merge_default_envs_inv:
  assumes "list_all (\<lambda>e. wf_env (dc_env (de_config e))) es" and "wf_env m"
    and "\<And>k. mget (nz (ev_plain m)) k = nearest ps k" and "\<And>k. mget (nz (ev_secret_refs m)) k = nearest rs k"
  shows "wf_env (snd (merge_default_envs has m es)) \<and>
    mget (nz (ev_plain (snd (merge_default_envs has m es)))) k =
      nearest (ps @ map (\<lambda>e. nz (ev_plain (dc_env (de_config e)))) es) k \<and>
    mget (nz (ev_secret_refs (snd (merge_default_envs has m es)))) k =
      nearest (rs @ map (\<lambda>e. nz (ev_secret_refs (dc_env (de_config e)))) es) k"
  using assms
proof (induction es arbitrary: has m ps rs)
  case Nil
  then show ?case by simp
next
  case (Cons e es)
  let ?env = "dc_env (de_config e)"
  have step: "ps @ map f (e # es) = (ps @ [f e]) @ map f es" for ps :: "smap list" and f by simp
  show ?case
  proof (cases "has_env_vars ?env")
    case True
    have "wf_env ?env" using Cons.prems(1) by simp
    note m = merge_env_vars_get [OF Cons.prems(2) this]
    show ?thesis
      unfolding step using True Cons.prems(1) m
      by (simp del: append_assoc, intro Cons.IH) (simp_all add: nearest_snoc Cons.prems(3,4) split: option.split)
  next
    case False
    then have "nz (ev_plain ?env) = []" "nz (ev_secret_refs ?env) = []" by (auto simp: has_env_vars_def)
    with Cons.prems False show ?thesis
      unfolding step by (simp del: append_assoc, intro Cons.IH) (simp_all add: nearest_snoc)
  qed
qed

text \<open>In the inherited env vars of a service, plain and secret_refs are each overlaid key by key: the value of a key
  is the one of the nearest layer (service, then project, org, global) that has it, independently in the two maps.\<close>

theorem nearest_env_layer_wins:
  assumes "inherited_env_vars_for org project service sd es = Some c"
    and "list_all (\<lambda>e. wf_env (dc_env (de_config e))) es"
    and "\<And>ev. sd_env_vars sd = Some ev \<Longrightarrow> wf_env (ec_env ev)"
  shows "mget (nz (ev_plain (ec_env c))) k = nearest (env_layers ev_plain sd es) k \<and>
    mget (nz (ev_secret_refs (ec_env c))) k = nearest (env_layers ev_secret_refs sd es) k"
proof -
  let ?e0 = "\<lparr>ev_plain = Some [], ev_secret_refs = Some []\<rparr>"
  let ?r = "merge_default_envs (sd_env_vars sd \<noteq> None) ?e0 es"
  have "wf_env ?e0" "\<And>k. mget (nz (ev_plain ?e0)) k = nearest [] k" "\<And>k. mget (nz (ev_secret_refs ?e0)) k = nearest [] k"
    by (simp_all add: wf_env_def nearest_def)
  note base = merge_default_envs_inv [OF assms(2) this, where has = "sd_env_vars sd \<noteq> None"]
  show ?thesis
  proof (cases "sd_env_vars sd")
    case None
    with assms(1) have "ec_env c = snd ?r"
      by (auto simp: inherited_env_vars_for_def Let_def split: prod.splits if_splits)
    with base None show ?thesis by (simp add: env_layers_def)
  next
    case (Some ev)
    with assms(1) have "ec_env c = merge_env_vars (snd ?r) (ec_env ev)"
      by (auto simp: inherited_env_vars_for_def Let_def split: prod.splits if_splits)
    moreover from base have "wf_env (snd ?r)" by blast
    ultimately show ?thesis
      using base assms(3) [OF Some]
      by (simp add: env_layers_def nearest_snoc merge_env_vars_get Some del: merge_default_envs.simps
          split: option.split)
  qed
qed

theorem nearest_env_layer_wins_witness:
  "\<exists>c. inherited_env_vars_for ''o'' ''p'' ''s'' empty_service_data
       [sample_defaults [] \<lparr>ev_plain = Some [(''A'', ''1'')], ev_secret_refs = None\<rparr>,
        sample_defaults [] \<lparr>ev_plain = Some [(''A'', ''2'')], ev_secret_refs = Some [(''A'', ''ref'')]\<rparr>] = Some c \<and>
     mget (nz (ev_plain (ec_env c))) ''A'' = Some ''2'' \<and> mget (nz (ev_secret_refs (ec_env c))) ''A'' = Some ''ref''"
proof -
  let ?es = "[sample_defaults [] \<lparr>ev_plain = Some [(''A'', ''1'')], ev_secret_refs = None\<rparr>,
              sample_defaults [] \<lparr>ev_plain = Some [(''A'', ''2'')], ev_secret_refs = Some [(''A'', ''ref'')]\<rparr>]"
  obtain c where c: "inherited_env_vars_for ''o'' ''p'' ''s'' empty_service_data ?es = Some c"
    by (simp add: inherited_env_vars_for_def sample_defaults_def empty_service_data_def has_env_vars_def Let_def
        split: prod.split)
  have "list_all (\<lambda>e. wf_env (dc_env (de_config e))) ?es" by (simp add: sample_defaults_def wf_env_def)
  from nearest_env_layer_wins [OF c this, of "''A''"] c show ?thesis
    by (simp add: empty_service_data_def env_layers_def sample_defaults_def nearest_def)
qed

end
