(* ===== verification/Sealed.thy ===== *)
theory Sealed
  imports Parser Paths
begin

text \<open>
  internal/secret: the adapter types (types.go), the deterministic SealedSecret generator (sealed.go)
  with the encryption label and the checks of encrypt.go, and the Kubernetes applier (apply.go).
  Cryptography, the YAML encoder and the Kubernetes client are parameters; calls that reach outside
  the process thread the outside world \<open>'w\<close>. A context is the function that reads \<open>ctx.Err()\<close> from
  that world. A \<open>secret.Value\<close> is the bytes it retains.
\<close>

type_synonym secret_value = bytes
type_synonym 'w ctx = "'w \<Rightarrow> goerr option"

definition new_value :: "bytes \<Rightarrow> secret_value" where
  "new_value data = data"

definition destroy_value :: "secret_value \<Rightarrow> secret_value" where
  "destroy_value v = []"

record seal_request =
  sr_org :: string
  sr_project :: string
  sr_service :: string
  sr_namespace :: string
  sr_name :: string
  sr_data :: "(string, secret_value) gomap"

record sealed_manifest =
  sm_namespace :: string
  sm_name :: string
  sm_path :: string
  sm_yaml :: bytes

record audit_event =
  ae_at :: gotime
  ae_action :: string
  ae_result :: string
  ae_org :: string
  ae_project :: string
  ae_service :: string
  ae_secret_ids :: "string list"

record encrypt_request =
  er_namespace :: string
  er_name :: string
  er_key :: string
  er_scope :: string
  er_value :: secret_value

subsection \<open>Checks\<close>

definition validate_path_segment :: "string \<Rightarrow> string \<Rightarrow> goerr option" where
  "validate_path_segment field v =
     (if v = [] then Some (errf [''secret '', field, '' is required''])
      else if v = ''.'' \<or> v = ''..'' \<or> CHR ''/'' \<in> set v \<or> CHR 0x5C \<in> set v
      then Some (errf [''secret '', field, '' '', quote v, '' contains invalid path characters''])
      else None)"

definition scope_strict :: string where "scope_strict = ''strict''"
definition scope_namespace_wide :: string where "scope_namespace_wide = ''namespace-wide''"
definition scope_cluster_wide :: string where "scope_cluster_wide = ''cluster-wide''"

definition normalize_seal_scope :: "string \<Rightarrow> goerr + string" where
  "normalize_seal_scope scope =
     (let s = trim_space scope in
      if s = [] \<or> s = scope_strict then Inr scope_strict
      else if s = scope_namespace_wide then Inr scope_namespace_wide
      else if s = scope_cluster_wide then Inr scope_cluster_wide
      else Inl (errf [''sealed secret scope must be one of '', quote scope_strict, '', '', quote scope_namespace_wide,
                      '', or '', quote scope_cluster_wide, '', got '', quote scope]))"

text \<open>The label the ciphertext is bound to: what a SealedSecret may be renamed or moved to.\<close>

definition sealed_secret_encryption_label :: "string \<Rightarrow> string \<Rightarrow> string \<Rightarrow> bytes" where
  "sealed_secret_encryption_label namespace name scope =
     (if scope = scope_cluster_wide then []
      else if scope = scope_namespace_wide then namespace
      else namespace @ ''/'' @ name)"

subsection \<open>Manifest generation\<close>

text \<open>The nodes the generator builds: plain or double-quoted scalars, and mappings.\<close>

datatype onode = OScalar bool string | OMapping "onode list"

definition scalar :: "string \<Rightarrow> onode" where "scalar v = OScalar False v"
definition quoted_scalar :: "string \<Rightarrow> onode" where "quoted_scalar v = OScalar True v"
definition mapping :: "onode list \<Rightarrow> onode" where "mapping nodes = OMapping nodes"

definition scope_annotations :: "string \<Rightarrow> onode list" where
  "scope_annotations scope =
     (if scope = scope_namespace_wide then [scalar ''sealedsecrets.bitnami.com/namespace-wide'', quoted_scalar ''true'']
      else if scope = scope_cluster_wide then [scalar ''sealedsecrets.bitnami.com/cluster-wide'', quoted_scalar ''true'']
      else [])"

definition sealed_secret_root :: "string \<Rightarrow> string \<Rightarrow> string \<Rightarrow> (string \<times> string) list \<Rightarrow> onode" where
  "sealed_secret_root namespace name scope encrypted =
     (let annotations = scope_annotations scope;
          metadata = [scalar ''name'', quoted_scalar name, scalar ''namespace'', quoted_scalar namespace] @
            (if 0 < length annotations then [scalar ''annotations'', mapping annotations] else []);
          encrypted_nodes = concat (map (\<lambda>(k, v). [scalar k, quoted_scalar v]) encrypted)
      in mapping
          [scalar ''apiVersion'', scalar ''bitnami.com/v1alpha1'',
           scalar ''kind'', scalar ''SealedSecret'',
           scalar ''metadata'', mapping metadata,
           scalar ''spec'', mapping
             [scalar ''encryptedData'', mapping encrypted_nodes,
              scalar ''template'', mapping
                [scalar ''metadata'', mapping
                   [scalar ''name'', quoted_scalar name, scalar ''namespace'', quoted_scalar namespace],
                 scalar ''type'', scalar ''Opaque'']]])"

text \<open>The YAML encoder with indent 2: \<open>Encode\<close> and \<open>Close\<close> of one document.\<close>

definition encode_sealed_secret_yaml ::
  "(onode \<Rightarrow> goerr + bytes) \<Rightarrow> string \<Rightarrow> string \<Rightarrow> string \<Rightarrow> (string \<times> string) list \<Rightarrow> goerr + bytes" where
  "encode_sealed_secret_yaml enc namespace name scope encrypted =
     (case enc (sealed_secret_root namespace name scope encrypted) of
        Inl e \<Rightarrow> Inl (wrapf [''encode sealed secret yaml''] e)
      | Inr raw \<Rightarrow> Inr (trim_suffix raw (''...'' @ [CHR 0x0A])))"

definition sealed_secret_path :: "seal_request \<Rightarrow> string" where
  "sealed_secret_path req =
     path_join [''configs'', ''orgs'', sr_org req, ''projects'', sr_project req, ''services'', sr_service req,
                ''sealed-secrets'', sr_namespace req, sr_name req @ ''.yaml'']"

fun validate_keys :: "string list \<Rightarrow> goerr option" where
  "validate_keys [] = None"
| "validate_keys (k # ks) = or_err (validate_path_segment ''key'' k) (validate_keys ks)"

fun encrypt_keys ::
  "(encrypt_request \<Rightarrow> 'w \<Rightarrow> (goerr + string) \<times> 'w) \<Rightarrow> string \<Rightarrow> seal_request \<Rightarrow> string list \<Rightarrow> 'w \<Rightarrow>
   (goerr + (string \<times> string) list) \<times> 'w" where
  "encrypt_keys encrypt scope req [] w = (Inr [], w)"
| "encrypt_keys encrypt scope req (k # ks) w =
     (let (r, w) = encrypt \<lparr>er_namespace = sr_namespace req, er_name = sr_name req, er_key = k, er_scope = scope,
                            er_value = (case mget (sr_data req) k of Some v \<Rightarrow> v | None \<Rightarrow> [])\<rparr> w;
          at = [''encrypt sealed secret key '', sr_namespace req, ''/'', sr_name req, ''/'', k]
      in case r of
           Inl e \<Rightarrow> (Inl (wrapf at e), w)
         | Inr ciphertext \<Rightarrow>
             if ciphertext = [] then (Inl (errf (at @ ['': empty ciphertext''])), w)
             else (case encrypt_keys encrypt scope req ks w of
                     (Inl e, w) \<Rightarrow> (Inl e, w)
                   | (Inr kvs, w) \<Rightarrow> (Inr ((k, ciphertext) # kvs), w)))"

definition seal ::
  "(onode \<Rightarrow> goerr + bytes) \<Rightarrow> (encrypt_request \<Rightarrow> 'w \<Rightarrow> (goerr + string) \<times> 'w) \<Rightarrow> string \<Rightarrow> 'w ctx \<Rightarrow>
   seal_request \<Rightarrow> 'w \<Rightarrow> (goerr + sealed_manifest) \<times> 'w" where
  "seal enc encrypt scope ctx req w =
     (case or_err (ctx w) (or_err (validate_path_segment ''org'' (sr_org req))
            (or_err (validate_path_segment ''project'' (sr_project req))
            (or_err (validate_path_segment ''service'' (sr_service req))
            (or_err (validate_path_segment ''namespace'' (sr_namespace req))
            (or_err (validate_path_segment ''name'' (sr_name req))
            (or_err (if length (sr_data req) = 0
                     then Some (errf [''at least one secret data key is required'']) else None)
                    (validate_keys (mkeys (sr_data req))))))))) of
        Some e \<Rightarrow> (Inl e, w)
      | None \<Rightarrow>
          (case encrypt_keys encrypt scope req (sorted_keys (sr_data req)) w of
             (Inl e, w) \<Rightarrow> (Inl e, w)
           | (Inr encrypted, w) \<Rightarrow>
               (case encode_sealed_secret_yaml enc (sr_namespace req) (sr_name req) scope encrypted of
                  Inl e \<Rightarrow> (Inl e, w)
                | Inr raw \<Rightarrow>
                    (Inr \<lparr>sm_namespace = sr_namespace req, sm_name = sr_name req,
                          sm_path = sealed_secret_path req, sm_yaml = raw\<rparr>, w))))"

text \<open>\<open>PublicKeyEncryptor.Encrypt\<close>: the key lookup and \<open>HybridEncrypt\<close> with base64 are parameters.\<close>

definition public_key_encrypt ::
  "(string \<Rightarrow> string \<Rightarrow> 'w \<Rightarrow> (goerr + 'pk option) \<times> 'w) \<Rightarrow> ('pk \<Rightarrow> bytes \<Rightarrow> bytes \<Rightarrow> 'w \<Rightarrow> (goerr + bytes) \<times> 'w) \<Rightarrow>
   (bytes \<Rightarrow> string) \<Rightarrow> string \<Rightarrow> string \<Rightarrow> 'w ctx \<Rightarrow> encrypt_request \<Rightarrow> 'w \<Rightarrow> (goerr + string) \<times> 'w" where
  "public_key_encrypt public_key hybrid_encrypt base64 cns cname ctx req w =
     (case or_err (ctx w) (or_err (validate_path_segment ''namespace'' (er_namespace req))
            (or_err (validate_path_segment ''name'' (er_name req))
                    (validate_path_segment ''key'' (er_key req)))) of
        Some e \<Rightarrow> (Inl e, w)
      | None \<Rightarrow>
          (case normalize_seal_scope (er_scope req) of
             Inl e \<Rightarrow> (Inl e, w)
           | Inr scope \<Rightarrow>
               (case public_key cns cname w of
                  (Inl e, w) \<Rightarrow> (Inl (wrapf [''lookup sealed secret public key '', cns, ''/'', cname] e), w)
                | (Inr None, w) \<Rightarrow>
                    (Inl (errf [''lookup sealed secret public key '', cns, ''/'', cname, '': empty public key'']), w)
                | (Inr (Some pk), w) \<Rightarrow>
                    (case hybrid_encrypt pk (er_value req)
                            (sealed_secret_encryption_label (er_namespace req) (er_name req) scope) w of
                       (Inl e, w) \<Rightarrow>
                         (Inl (wrapf [''encrypt sealed secret value '', er_namespace req, ''/'', er_name req, ''/'',
                                      er_key req] e), w)
                     | (Inr ciphertext, w) \<Rightarrow> (Inr (base64 ciphertext), w)))))"

subsection \<open>Applying a manifest to Kubernetes\<close>

datatype gvk = GVK string string string

definition sealed_secret_gvk :: gvk where
  "sealed_secret_gvk = GVK ''bitnami.com'' ''v1alpha1'' ''SealedSecret''"

fun show_gvk :: "gvk \<Rightarrow> string" where
  "show_gvk (GVK g version kind) = g @ ''/'' @ version @ '', Kind='' @ kind"

text \<open>An unstructured object: the metadata the applier reads and writes, and everything else of it.\<close>

record 'x k8s_object =
  ko_gvk :: gvk
  ko_namespace :: string
  ko_name :: string
  ko_resource_version :: string
  ko_finalizers :: "string list"
  ko_labels :: "smap option"
  ko_annotations :: "smap option"
  ko_payload :: 'x

text \<open>The dynamic client on the sealedsecrets resource of a namespace, and the object decoding of the library.\<close>

record ('w, 'x) kube =
  kube_get :: "string \<Rightarrow> string \<Rightarrow> 'w \<Rightarrow> (goerr + 'x k8s_object) \<times> 'w"
  kube_create :: "string \<Rightarrow> 'x k8s_object \<Rightarrow> 'w \<Rightarrow> goerr option \<times> 'w"
  kube_update :: "string \<Rightarrow> 'x k8s_object \<Rightarrow> 'w \<Rightarrow> goerr option \<times> 'w"
  kube_is_not_found :: "goerr \<Rightarrow> bool"
  kube_to_json :: "bytes \<Rightarrow> goerr + bytes"
  kube_unmarshal :: "bytes \<Rightarrow> goerr + 'x k8s_object"

definition merge_string_maps :: "smap option \<Rightarrow> smap option \<Rightarrow> smap option" where
  "merge_string_maps existing ours =
     (if length (nz existing) = 0 \<and> length (nz ours) = 0 then None
      else Some (mput_all (nz ours) (mput_all (nz existing) [])))"

definition merge_existing_metadata :: "'x k8s_object \<Rightarrow> 'x k8s_object \<Rightarrow> 'x k8s_object" where
  "merge_existing_metadata obj existing =
     (let obj = obj\<lparr>ko_resource_version := ko_resource_version existing\<rparr>;
          obj = (if 0 < length (ko_finalizers existing)
                 then obj\<lparr>ko_finalizers := ko_finalizers existing\<rparr> else obj);
          obj = (case merge_string_maps (ko_labels existing) (ko_labels obj) of
                   None \<Rightarrow> obj | Some m \<Rightarrow> obj\<lparr>ko_labels := Some m\<rparr>)
      in (case merge_string_maps (ko_annotations existing) (ko_annotations obj) of
            None \<Rightarrow> obj | Some m \<Rightarrow> obj\<lparr>ko_annotations := Some m\<rparr>))"

definition sealed_secret_object_from_manifest ::
  "('w, 'x) kube \<Rightarrow> sealed_manifest \<Rightarrow> goerr + 'x k8s_object" where
  "sealed_secret_object_from_manifest K manifest =
     (if sm_namespace manifest = [] then Inl (errf [''sealed manifest namespace is required''])
      else if sm_name manifest = [] then Inl (errf [''sealed manifest name is required''])
      else if length (sm_yaml manifest) = 0 then Inl (errf [''sealed manifest yaml is required''])
      else (case kube_to_json K (sm_yaml manifest) of
              Inl e \<Rightarrow> Inl (wrapf [''decode sealed manifest yaml''] e)
            | Inr raw \<Rightarrow>
                (case kube_unmarshal K raw of
                   Inl e \<Rightarrow> Inl (wrapf [''unmarshal sealed manifest yaml''] e)
                 | Inr obj \<Rightarrow>
                     if ko_gvk obj \<noteq> sealed_secret_gvk
                     then Inl (errf [''sealed manifest kind must be '', show_gvk sealed_secret_gvk, '', got '',
                                     show_gvk (ko_gvk obj)])
                     else if ko_namespace obj \<noteq> sm_namespace manifest
                     then Inl (errf [''sealed manifest namespace mismatch: manifest='', quote (sm_namespace manifest),
                                     '' yaml='', quote (ko_namespace obj)])
                     else if ko_name obj \<noteq> sm_name manifest
                     then Inl (errf [''sealed manifest name mismatch: manifest='', quote (sm_name manifest),
                                     '' yaml='', quote (ko_name obj)])
                     else Inr (obj\<lparr>ko_gvk := sealed_secret_gvk\<rparr>))))"

definition apply_sealed_secret ::
  "('w, 'x) kube \<Rightarrow> 'w ctx \<Rightarrow> sealed_manifest \<Rightarrow> 'w \<Rightarrow> goerr option \<times> 'w" where
  "apply_sealed_secret K ctx manifest w =
     (case ctx w of
        Some e \<Rightarrow> (Some e, w)
      | None \<Rightarrow>
          (case sealed_secret_object_from_manifest K manifest of
             Inl e \<Rightarrow> (Some e, w)
           | Inr obj \<Rightarrow>
               (let ns = sm_namespace manifest;
                    at = [ns, ''/'', sm_name manifest];
                    (existing, w) = kube_get K ns (sm_name manifest) w
                in case existing of
                     Inl e \<Rightarrow>
                       if kube_is_not_found K e
                       then (case kube_create K ns obj w of
                               (None, w) \<Rightarrow> (None, w)
                             | (Some e, w) \<Rightarrow> (Some (wrapf (''apply sealed secret '' # at) e), w))
                       else (Some (wrapf (''get sealed secret '' # at) e), w)
                   | Inr ex \<Rightarrow>
                       (case kube_update K ns (merge_existing_metadata obj ex) w of
                          (None, w) \<Rightarrow> (None, w)
                        | (Some e, w) \<Rightarrow> (Some (wrapf (''apply sealed secret '' # at) e), w)))))"

subsection \<open>Properties\<close>

lemma validate_path_segment_None:
  "validate_path_segment field v = None \<longleftrightarrow> plain_comp v \<and> CHR 0x5C \<notin> set v"
  by (auto simp: validate_path_segment_def plain_comp_def)

lemma validate_keys_None: "validate_keys ks = None \<longleftrightarrow> list_all (\<lambda>k. plain_comp k \<and> CHR 0x5C \<notin> set k) ks"
  by (induction ks) (auto simp: validate_path_segment_None)

lemma encrypt_keys_ok:
  "encrypt_keys encrypt scope req ks w = (Inr kvs, w') \<Longrightarrow>
   map fst kvs = ks \<and> list_all (\<lambda>p. snd p \<noteq> []) kvs"
  by (induction ks arbitrary: w kvs w')
    (auto simp: Let_def split: prod.splits sum.splits if_splits)

lemma plain_comp_yaml: "plain_comp n \<Longrightarrow> plain_comp (n @ ''.yaml'')"
  by (cases n) (auto simp: plain_comp_def)

lemma sealed_secret_path_plain:
  assumes "list_all plain_comp [sr_org req, sr_project req, sr_service req, sr_namespace req, sr_name req]"
  shows "sealed_secret_path req =
    service_path (sr_org req) (sr_project req) (sr_service req) @ ''/sealed-secrets/'' @ sr_namespace req @ ''/'' @
    sr_name req @ ''.yaml''"
proof -
  let ?ws = "[''configs'', ''orgs'', sr_org req, ''projects'', sr_project req, ''services'', sr_service req,
    ''sealed-secrets'', sr_namespace req, sr_name req @ ''.yaml'']"
  have p: "list_all plain_comp ?ws" using assms plain_comp_yaml [of "sr_name req"]
    by (simp add: plain_comp_def)
  have "sealed_secret_path req = join ''/'' ?ws"
    unfolding sealed_secret_path_def path_join_def
    using path_clean_plain [OF _ p] by simp
  then show ?thesis by (simp add: service_path_def)
qed

text \<open>When sealing succeeds, the manifest is for the requested namespace and name, its path is
  sealed-secrets/<namespace>/<name>.yaml inside the directory of the requested service (so no field of the request can
  move it elsewhere), and its encryptedData lists each requested key exactly once, in sorted order, with a
  non-empty ciphertext.\<close>

theorem seal_result:
  assumes "seal enc encrypt scope ctx req w = (Inr m, w')"
  shows "sm_namespace m = sr_namespace req \<and> sm_name m = sr_name req \<and>
    sm_path m = service_path (sr_org req) (sr_project req) (sr_service req) @ ''/sealed-secrets/'' @
      sr_namespace req @ ''/'' @ sr_name req @ ''.yaml'' \<and>
    (\<exists>encrypted. map fst encrypted = sorted_keys (sr_data req) \<and> list_all (\<lambda>p. snd p \<noteq> []) encrypted \<and>
       encode_sealed_secret_yaml enc (sr_namespace req) (sr_name req) scope encrypted = Inr (sm_yaml m))"
proof -
  from assms have "list_all plain_comp [sr_org req, sr_project req, sr_service req, sr_namespace req, sr_name req]"
    by (auto simp: seal_def validate_path_segment_None split: option.splits)
  note path = sealed_secret_path_plain [OF this]
  obtain encrypted w1 raw where e: "encrypt_keys encrypt scope req (sorted_keys (sr_data req)) w = (Inr encrypted, w1)"
    and y: "encode_sealed_secret_yaml enc (sr_namespace req) (sr_name req) scope encrypted = Inr raw"
    and m: "m = \<lparr>sm_namespace = sr_namespace req, sm_name = sr_name req, sm_path = sealed_secret_path req, sm_yaml = raw\<rparr>"
    using assms unfolding seal_def by (simp split: option.splits prod.splits sum.splits del: or_err.simps)
  have "sm_yaml m = raw" by (simp add: m)
  with y encrypt_keys_ok [OF e]
  have ex: "\<exists>encrypted. map fst encrypted = sorted_keys (sr_data req) \<and> list_all (\<lambda>p. snd p \<noteq> []) encrypted \<and>
       encode_sealed_secret_yaml enc (sr_namespace req) (sr_name req) scope encrypted = Inr (sm_yaml m)"
    by (intro exI [of _ encrypted]) simp
  have ids: "sm_namespace m = sr_namespace req" "sm_name m = sr_name req" "sm_path m = sealed_secret_path req"
    by (simp_all add: m)
  show ?thesis
    by (rule conjI [OF ids(1)], rule conjI [OF ids(2)], rule conjI [OF ids(3) [unfolded path]], rule ex)
qed

theorem seal_result_witness:
  "\<exists>m w'. seal (\<lambda>_. Inr ''y'') (\<lambda>_ w. (Inr ''c'', w)) scope_strict (\<lambda>_. None)
      \<lparr>sr_org = ''o'', sr_project = ''p'', sr_service = ''s'', sr_namespace = ''ns'', sr_name = ''n'',
       sr_data = [(''k'', ''v'')]\<rparr> () = (Inr m, w') \<and>
    sm_path m = service_path ''o'' ''p'' ''s'' @ ''/sealed-secrets/'' @ ''ns'' @ ''/'' @ ''n'' @ ''.yaml''"
proof -
  let ?req = "\<lparr>sr_org = ''o'', sr_project = ''p'', sr_service = ''s'', sr_namespace = ''ns'', sr_name = ''n'',
    sr_data = [(''k'', ''v'')]\<rparr>"
  obtain m w' where m: "seal (\<lambda>_. Inr ''y'') (\<lambda>_ w. (Inr ''c'', w)) scope_strict (\<lambda>_. None) ?req () = (Inr m, w')"
    by (simp add: seal_def validate_path_segment_def encode_sealed_secret_yaml_def sorted_keys_def)
  from seal_result [OF m] have "sm_path m =
    service_path ''o'' ''p'' ''s'' @ ''/sealed-secrets/'' @ ''ns'' @ ''/'' @ ''n'' @ ''.yaml''" by (simp only: seal_request.simps)
  with m show ?thesis by (intro exI conjI)
qed

text \<open>Under the strict scope the encryption label determines the namespace and the name of the secret, so a
  ciphertext sealed for one secret never decrypts as another.\<close>

theorem strict_label_injective:
  assumes "validate_path_segment ''namespace'' ns = None" and "validate_path_segment ''namespace'' ns' = None"
    and "sealed_secret_encryption_label ns name scope_strict = sealed_secret_encryption_label ns' name' scope_strict"
  shows "ns = ns' \<and> name = name'"
proof -
  have "slash \<notin> set ns" "slash \<notin> set ns'" using assms(1,2) by (simp_all add: validate_path_segment_None plain_comp_def)
  moreover have "ns @ slash # name = ns' @ slash # name'"
    using assms(3) by (simp add: sealed_secret_encryption_label_def scope_strict_def scope_cluster_wide_def
        scope_namespace_wide_def)
  ultimately show ?thesis by (simp add: append_sep_inj)
qed

theorem strict_label_injective_witness: "(''a'' :: string) = ''a'' \<and> (''b'' :: string) = ''b''"
  by (rule strict_label_injective) (simp_all add: validate_path_segment_def)

lemma merge_string_maps_get:
  assumes "wf_map (nz existing)" and "wf_map (nz ours)"
  shows "mget (nz (merge_string_maps existing ours)) k =
    (case mget (nz ours) k of Some v \<Rightarrow> Some v | None \<Rightarrow> mget (nz existing) k)"
  using assms by (auto simp: merge_string_maps_def mget_mput_all split: option.split)

text \<open>Updating a live SealedSecret keeps what other actors attached to it: labels and annotations the manifest does
  not set keep their live value and the manifest's own keys win; live finalizers and the resource version are
  carried over; the identity and the payload are the manifest's.\<close>

theorem update_preserves_operator_metadata:
  assumes "wf_map (nz (ko_labels obj))" and "wf_map (nz (ko_labels ex))"
    and "wf_map (nz (ko_annotations obj))" and "wf_map (nz (ko_annotations ex))"
  shows "mget (nz (ko_labels (merge_existing_metadata obj ex))) k =
      (case mget (nz (ko_labels obj)) k of Some v \<Rightarrow> Some v | None \<Rightarrow> mget (nz (ko_labels ex)) k) \<and>
    mget (nz (ko_annotations (merge_existing_metadata obj ex))) k =
      (case mget (nz (ko_annotations obj)) k of Some v \<Rightarrow> Some v | None \<Rightarrow> mget (nz (ko_annotations ex)) k) \<and>
    ko_finalizers (merge_existing_metadata obj ex) =
      (if ko_finalizers ex = [] then ko_finalizers obj else ko_finalizers ex) \<and>
    ko_resource_version (merge_existing_metadata obj ex) = ko_resource_version ex \<and>
    ko_namespace (merge_existing_metadata obj ex) = ko_namespace obj \<and>
    ko_name (merge_existing_metadata obj ex) = ko_name obj \<and>
    ko_payload (merge_existing_metadata obj ex) = ko_payload obj"
  using merge_string_maps_get [OF assms(2,1), of k] merge_string_maps_get [OF assms(4,3), of k]
  by (auto simp: merge_existing_metadata_def Let_def merge_string_maps_def split: option.splits)

definition sample_object :: "string list \<Rightarrow> smap \<Rightarrow> unit k8s_object" where
  "sample_object fin labels =
     \<lparr>ko_gvk = sealed_secret_gvk, ko_namespace = ''ns'', ko_name = ''n'', ko_resource_version = ''7'',
      ko_finalizers = fin, ko_labels = Some labels, ko_annotations = None, ko_payload = ()\<rparr>"

theorem update_preserves_operator_metadata_witness:
  "mget (nz (ko_labels (merge_existing_metadata (sample_object [] [(''a'', ''1'')])
      (sample_object [''f''] [(''a'', ''2''), (''team'', ''x'')])))) ''team'' = Some ''x''"
  using update_preserves_operator_metadata
    [of "sample_object [] [(''a'', ''1'')]" "sample_object [''f''] [(''a'', ''2''), (''team'', ''x'')]" "''team''"]
  by (simp add: sample_object_def)

end
