(* ===== verification/SecretWrites.thy ===== *)
theory SecretWrites
  imports Sealed Inherit "HOL-Library.Product_Lexorder" "HOL-Library.Multiset"
begin

text \<open>
  The secret part of an admin write (internal/store/store.go): the checks of the requested writes,
  their audit ids, the merge of new pointers into the service's secrets.yaml with fresh logical ids,
  and the calls of the sealer and of the applier for every Kubernetes Secret of the request.
\<close>

subsection \<open>Requests\<close>

record secret_write =
  sw_namespace :: string
  sw_data :: "(string, secret_value) gomap"

type_synonym secret_writes = "(string, secret_write) gomap"

fun validate_write_keys :: "string list \<Rightarrow> goerr option" where
  "validate_write_keys [] = None"
| "validate_write_keys (k # ks) = or_err (validate_name ''secret key'' k) (validate_write_keys ks)"

fun validate_writes_loop :: "secret_writes \<Rightarrow> goerr option" where
  "validate_writes_loop [] = None"
| "validate_writes_loop ((name, write) # rest) =
     or_err (validate_k8s_dns_subdomain ''secret name'' name)
       (or_err (validate_k8s_dns_label ''secret namespace'' (sw_namespace write))
         (or_err (if length (sw_data write) = 0
                  then Some (app_new CodeValidation (''secret '' @ sw_namespace write @ ''/'' @ name @ '' data is required''))
                  else None)
           (or_err (validate_write_keys (mkeys (sw_data write))) (validate_writes_loop rest))))"

definition validate_secret_writes :: "secret_writes \<Rightarrow> goerr + bool" where
  "validate_secret_writes writes =
     (if length writes = 0 then Inr False
      else (case validate_writes_loop writes of Some e \<Rightarrow> Inl e | None \<Rightarrow> Inr True))"

definition destroy_secret_writes :: "secret_writes \<Rightarrow> secret_writes" where
  "destroy_secret_writes writes =
     map (\<lambda>(name, write). (name, write\<lparr>sw_data := map (\<lambda>(k, v). (k, destroy_value v)) (sw_data write)\<rparr>)) writes"

definition sorted_secret_names :: "secret_writes \<Rightarrow> string list" where
  "sorted_secret_names writes = sorted_keys writes"

definition sorted_secret_data_keys :: "(string, secret_value) gomap \<Rightarrow> string list" where
  "sorted_secret_data_keys data = sorted_keys data"

text \<open>Indexing a map yields the zero value for a missing key.\<close>

definition write_of :: "secret_writes \<Rightarrow> string \<Rightarrow> secret_write" where
  "write_of writes name =
     (case mget writes name of Some w \<Rightarrow> w | None \<Rightarrow> \<lparr>sw_namespace = [], sw_data = []\<rparr>)"

definition secret_write_audit_ids :: "secret_writes \<Rightarrow> string list" where
  "secret_write_audit_ids writes =
     map (\<lambda>name. sw_namespace (write_of writes name) @ ''/'' @ name) (sorted_secret_names writes)"

subsection \<open>Merging pointers into secrets.yaml\<close>

datatype secret_pointer = SecretPointer (sp_namespace: string) (sp_name: string) (sp_key: string)

definition entry_pointer :: "secret_entry \<Rightarrow> secret_pointer" where
  "entry_pointer e = SecretPointer (ks_namespace (se_k8s e)) (ks_name (se_k8s e)) (ks_key (se_k8s e))"

type_synonym merge_state = "(secret_pointer, secret_entry) gomap \<times> (string, secret_pointer) gomap"

text \<open>The loop \<open>for i := 2; ; i++\<close>: the first numbered id that is free.\<close>

lemma numbered_ids_finite: "finite {j. base @ ''-'' @ show_nat j \<in> fst ` set (m :: (string, 'v) gomap)}"
proof (rule inj_on_finite [of "\<lambda>j. base @ ''-'' @ show_nat j" _ "fst ` set m"])
  show "inj_on (\<lambda>j. base @ ''-'' @ show_nat j) {j. base @ ''-'' @ show_nat j \<in> fst ` set m}"
    by (auto intro!: inj_onI dest: show_nat_inj)
qed auto

function numbered_secret_id :: "string \<Rightarrow> nat \<Rightarrow> (string, secret_pointer) gomap \<Rightarrow> string" where
  "numbered_secret_id base i id_in_use =
     (let new_id = base @ ''-'' @ show_nat i in
      case mget id_in_use new_id of
        None \<Rightarrow> new_id
      | Some _ \<Rightarrow> numbered_secret_id base (Suc i) id_in_use)"
  by pat_completeness auto
termination
proof (relation "measure (\<lambda>(base, i, m). card {j. i \<le> j \<and> base @ ''-'' @ show_nat j \<in> fst ` set m})", goal_cases)
  case (2 base i m new_id p)
  have "{j. Suc i \<le> j \<and> base @ ''-'' @ show_nat j \<in> fst ` set m}
      \<subset> {j. i \<le> j \<and> base @ ''-'' @ show_nat j \<in> fst ` set m}"
  proof -
    have "i \<in> {j. i \<le> j \<and> base @ ''-'' @ show_nat j \<in> fst ` set m}"
      using 2 by (auto dest: mget_Some_key)
    moreover have "i \<notin> {j. Suc i \<le> j \<and> base @ ''-'' @ show_nat j \<in> fst ` set m}" by simp
    moreover have "{j. Suc i \<le> j \<and> base @ ''-'' @ show_nat j \<in> fst ` set m}
        \<subseteq> {j. i \<le> j \<and> base @ ''-'' @ show_nat j \<in> fst ` set m}" by (intro Collect_mono) simp
    ultimately show ?thesis by blast
  qed
  moreover have "finite {j. i \<le> j \<and> base @ ''-'' @ show_nat j \<in> fst ` set m}"
    by (rule finite_subset [OF _ numbered_ids_finite [of base m]]) blast
  ultimately show ?case by (simp add: psubset_card_mono)
qed simp

declare numbered_secret_id.simps [simp del]

definition unique_secret_id :: "string \<Rightarrow> string \<Rightarrow> string \<Rightarrow> (string, secret_pointer) gomap \<Rightarrow> string" where
  "unique_secret_id namespace name key id_in_use =
     (let candidates = [key, name @ ''-'' @ key, namespace @ ''-'' @ name @ ''-'' @ key] in
      case find (\<lambda>c. mget id_in_use c = None) candidates of
        Some c \<Rightarrow> c
      | None \<Rightarrow> numbered_secret_id (last candidates) 2 id_in_use)"

definition index_entry :: "merge_state \<Rightarrow> secret_entry \<Rightarrow> merge_state" where
  "index_entry st e =
     (mput (entry_pointer e) e (fst st),
      if se_id e \<noteq> [] then mput (se_id e) (entry_pointer e) (snd st) else snd st)"

definition new_entry :: "secret_pointer \<Rightarrow> string \<Rightarrow> secret_entry" where
  "new_entry ptr new_id =
     \<lparr>se_id = new_id, se_description = [],
      se_k8s = \<lparr>ks_name = sp_name ptr, ks_namespace = sp_namespace ptr, ks_key = sp_key ptr\<rparr>\<rparr>"

definition merge_pointer :: "merge_state \<Rightarrow> secret_pointer \<Rightarrow> merge_state" where
  "merge_pointer st ptr =
     (if mget (fst st) ptr \<noteq> None then st
      else (let new_id = unique_secret_id (sp_namespace ptr) (sp_name ptr) (sp_key ptr) (snd st)
            in (mput ptr (new_entry ptr new_id) (fst st), mput new_id ptr (snd st))))"

definition merge_writes :: "secret_writes \<Rightarrow> merge_state \<Rightarrow> merge_state" where
  "merge_writes writes st =
     foldl (\<lambda>st name.
              let write = write_of writes name in
              foldl (\<lambda>st key. merge_pointer st (SecretPointer (sw_namespace write) name key)) st
                (sorted_secret_data_keys (sw_data write)))
       st (sorted_secret_names writes)"

text \<open>The comparison of \<open>sort.Slice\<close>: by id, namespace, name and key.\<close>

definition entry_order :: "secret_entry \<Rightarrow> string \<times> string \<times> string \<times> string" where
  "entry_order e = (se_id e, ks_namespace (se_k8s e), ks_name (se_k8s e), ks_key (se_k8s e))"

definition merge_secret_entries :: "secrets_config option \<Rightarrow> secret_writes \<Rightarrow> secret_entry list" where
  "merge_secret_entries existing writes =
     (let st = (case existing of None \<Rightarrow> ([], []) | Some sec \<Rightarrow> foldl index_entry ([], []) (ss_secrets sec));
          (by_pointer, id_in_use) = merge_writes writes st
      in sort_key entry_order (map snd by_pointer))"

subsection \<open>Sealing and applying\<close>

record 'w secret_deps =
  dep_sealer :: "(seal_request \<Rightarrow> 'w \<Rightarrow> (goerr + sealed_manifest) \<times> 'w) option"
  dep_applier :: "(sealed_manifest \<Rightarrow> 'w \<Rightarrow> goerr option \<times> 'w) option"
  dep_auditor :: "(audit_event \<Rightarrow> 'w \<Rightarrow> goerr option \<times> 'w) option"

text \<open>\<open>Dependencies.WithDefaults\<close>: a missing auditor becomes the no-op auditor.\<close>

definition noop_auditor :: "audit_event \<Rightarrow> 'w \<Rightarrow> goerr option \<times> 'w" where
  "noop_auditor ev w = (None, w)"

definition with_defaults :: "'w secret_deps \<Rightarrow> 'w secret_deps" where
  "with_defaults d = (if dep_auditor d = None then d\<lparr>dep_auditor := Some noop_auditor\<rparr> else d)"

fun build_sealed_loop ::
  "(seal_request \<Rightarrow> 'w \<Rightarrow> (goerr + sealed_manifest) \<times> 'w) \<Rightarrow> string \<Rightarrow> string \<Rightarrow> string \<Rightarrow> secret_writes \<Rightarrow>
   string list \<Rightarrow> 'w \<Rightarrow> (goerr + sealed_manifest list) \<times> 'w" where
  "build_sealed_loop sealer org project service writes [] w = (Inr [], w)"
| "build_sealed_loop sealer org project service writes (name # names) w =
     (let write = write_of writes name;
          data = map (\<lambda>k. (k, case mget (sw_data write) k of Some v \<Rightarrow> v | None \<Rightarrow> [])) (sorted_secret_data_keys (sw_data write))
      in case sealer \<lparr>sr_org = org, sr_project = project, sr_service = service,
                      sr_namespace = sw_namespace write, sr_name = name, sr_data = data\<rparr> w of
           (Inl e, w) \<Rightarrow> (Inl (app_wrap CodeInternal (''seal secret '' @ sw_namespace write @ ''/'' @ name) e), w)
         | (Inr m, w) \<Rightarrow>
             (case build_sealed_loop sealer org project service writes names w of
                (Inl e, w) \<Rightarrow> (Inl e, w)
              | (Inr ms, w) \<Rightarrow> (Inr (m # ms), w)))"

definition build_sealed_manifests ::
  "(seal_request \<Rightarrow> 'w \<Rightarrow> (goerr + sealed_manifest) \<times> 'w) \<Rightarrow> string \<Rightarrow> string \<Rightarrow> string \<Rightarrow> secret_writes \<Rightarrow>
   'w \<Rightarrow> (goerr + sealed_manifest list) \<times> 'w" where
  "build_sealed_manifests sealer org project service writes w =
     build_sealed_loop sealer org project service writes (sorted_secret_names writes) w"

fun apply_loop ::
  "(sealed_manifest \<Rightarrow> 'w \<Rightarrow> goerr option \<times> 'w) \<Rightarrow> sealed_manifest list \<Rightarrow> string list \<Rightarrow> 'w \<Rightarrow> string list \<times> 'w" where
  "apply_loop applier [] errs w = (errs, w)"
| "apply_loop applier (m # ms) errs w =
     (let (r, w) = applier m w in
      case r of
        None \<Rightarrow> apply_loop applier ms errs w
      | Some e \<Rightarrow>
          apply_loop applier ms
            (errs @ [''apply sealed secret '' @ sm_namespace m @ ''/'' @ sm_name m @ '': '' @ err_msg e]) w)"

definition apply_sealed_manifests ::
  "(sealed_manifest \<Rightarrow> 'w \<Rightarrow> goerr option \<times> 'w) \<Rightarrow> sealed_manifest list \<Rightarrow> 'w \<Rightarrow> goerr option \<times> 'w" where
  "apply_sealed_manifests applier manifests w =
     (let (errs, w) = apply_loop applier manifests [] w in
      (if 0 < length errs then Some (errf [join ''; '' errs]) else None, w))"

subsection \<open>Properties of the merge\<close>

lemma numbered_secret_id_fresh: "numbered_secret_id base i ids \<notin> fst ` set ids"
proof (induction base i ids rule: numbered_secret_id.induct)
  case (1 base i ids)
  then show ?case
    by (cases "mget ids (base @ ''-'' @ show_nat i)")
      (simp_all add: numbered_secret_id.simps [of base i] mget_None_iff)
qed

lemma unique_secret_id_fresh: "unique_secret_id namespace name key ids \<notin> fst ` set ids"
  using numbered_secret_id_fresh
  by (auto simp: unique_secret_id_def Let_def mget_None_iff split: option.splits if_splits)

lemma numbered_secret_id_nonempty: "numbered_secret_id base i ids \<noteq> []"
proof (induction base i ids rule: numbered_secret_id.induct)
  case (1 base i ids)
  then show ?case
    by (cases "mget ids (base @ ''-'' @ show_nat i)") (simp_all add: numbered_secret_id.simps [of base i])
qed

lemma unique_secret_id_nonempty: "key \<noteq> [] \<Longrightarrow> unique_secret_id namespace name key ids \<noteq> []"
  by (auto simp: unique_secret_id_def Let_def numbered_secret_id_nonempty split: option.splits if_splits)

text \<open>The pointers of a request, in the order in which the nested loops visit them.\<close>

definition requested_pointers :: "secret_writes \<Rightarrow> secret_pointer list" where
  "requested_pointers writes =
     concat (map (\<lambda>name. map (SecretPointer (sw_namespace (write_of writes name)) name)
                    (sorted_secret_data_keys (sw_data (write_of writes name))))
               (sorted_secret_names writes))"

lemma foldl_concat_map: "foldl (\<lambda>st x. foldl (\<lambda>st y. f st (g x y)) st (h x)) st xs =
    foldl f st (concat (map (\<lambda>x. map (g x) (h x)) xs))"
  by (induction xs arbitrary: st) (simp_all add: foldl_map)

lemma merge_writes_pointers: "merge_writes writes st = foldl merge_pointer st (requested_pointers writes)"
  unfolding merge_writes_def requested_pointers_def Let_def
  by (rule foldl_concat_map)

text \<open>
  The state of the merge: distinct pointers, each mapped to an entry of that pointer, and every id of
  an entry recorded as in use.
\<close>

definition merge_inv :: "merge_state \<Rightarrow> bool" where
  "merge_inv st \<longleftrightarrow> wf_map (fst st) \<and>
     (\<forall>p \<in> set (fst st). entry_pointer (snd p) = fst p \<and> (se_id (snd p) \<noteq> [] \<longrightarrow> se_id (snd p) \<in> fst ` set (snd st)))"

lemma mput_set: "wf_map m \<Longrightarrow> set (mput k v m) = insert (k, v) {p \<in> set m. fst p \<noteq> k}"
  by (induction m) force+

lemma merge_inv_put:
  assumes "merge_inv st" and "entry_pointer e = p" and "fst ` set (snd st) \<subseteq> fst ` set ids'"
    and "se_id e \<noteq> [] \<Longrightarrow> se_id e \<in> fst ` set ids'"
  shows "merge_inv (mput p e (fst st), ids')"
proof -
  have wf: "wf_map (fst st)" using assms(1) by (simp add: merge_inv_def)
  have "entry_pointer (snd q) = fst q \<and> (se_id (snd q) \<noteq> [] \<longrightarrow> se_id (snd q) \<in> fst ` set ids')"
    if "q \<in> set (mput p e (fst st))" for q
  proof (cases "q = (p, e)")
    case False
    with that have "q \<in> set (fst st)" by (simp add: mput_set [OF wf])
    with assms(1,3) show ?thesis unfolding merge_inv_def by blast
  qed (use assms(2,4) in simp)
  with wf show ?thesis by (simp add: merge_inv_def del: set_mkeys_mput)
qed

lemma entry_pointer_new [simp]: "entry_pointer (new_entry ptr i) = ptr" "se_id (new_entry ptr i) = i"
  by (simp_all add: entry_pointer_def new_entry_def)

interpretation index_sys: step_system index_entry merge_inv
  by unfold_locales (unfold index_entry_def, rule merge_inv_put, auto)

interpretation merge_sys: step_system merge_pointer merge_inv
proof unfold_locales
  fix st ptr
  assume inv: "merge_inv st"
  show "merge_inv (merge_pointer st ptr)"
  proof (cases "mget (fst st) ptr")
    case None
    then show ?thesis
      unfolding merge_pointer_def Let_def by (simp, intro merge_inv_put [OF inv]) auto
  qed (simp add: merge_pointer_def inv)
qed

text \<open>What is indexed stays as it is, new entries are added under the written pointers only.\<close>

lemma merge_pointer_get:
  "mget (fst (merge_pointer st q)) p =
     (if p = q \<and> mget (fst st) q = None
      then Some (new_entry q (unique_secret_id (sp_namespace q) (sp_name q) (sp_key q) (snd st)))
      else mget (fst st) p)"
  by (auto simp: merge_pointer_def Let_def)

lemma merge_pointers_keep: "mget (fst st) p = Some e \<Longrightarrow> mget (fst (foldl merge_pointer st ps)) p = Some e"
proof (induction ps arbitrary: st)
  case (Cons q ps)
  then show ?case by (auto simp: merge_pointer_get intro!: Cons.IH)
qed simp

lemma merge_pointers_dom:
  "mget (fst (foldl merge_pointer st ps)) p = None \<longleftrightarrow> mget (fst st) p = None \<and> p \<notin> set ps"
  by (induction ps arbitrary: st) (auto simp: merge_pointer_get)

lemma merge_pointers_noop:
  "\<forall>p \<in> set ps. mget (fst st) p \<noteq> None \<Longrightarrow> foldl merge_pointer st ps = st"
  by (induction ps arbitrary: st) (auto simp: merge_pointer_def)

text \<open>Among entries with the same pointer the last one is indexed.\<close>

lemma index_existing_get:
  "mget (fst (foldl index_entry st es)) p =
     (case find (\<lambda>e. entry_pointer e = p) (rev es) of Some e \<Rightarrow> Some e | None \<Rightarrow> mget (fst st) p)"
proof (induction es rule: rev_induct)
  case (snoc e es)
  then show ?case by (simp add: index_entry_def)
qed simp

text \<open>Distinct entries have distinct, non-empty ids.\<close>

definition ids_unique :: "merge_state \<Rightarrow> bool" where
  "ids_unique st \<longleftrightarrow> merge_inv st \<and>
     (\<forall>p \<in> set (fst st). se_id (snd p) \<noteq> [] \<and> (\<forall>q \<in> set (fst st). se_id (snd p) = se_id (snd q) \<longrightarrow> p = q))"

lemma ids_unique_merge_pointer:
  assumes "ids_unique st" and "sp_key ptr \<noteq> []"
  shows "ids_unique (merge_pointer st ptr)"
proof (cases "mget (fst st) ptr")
  case None
  let ?i = "unique_secret_id (sp_namespace ptr) (sp_name ptr) (sp_key ptr) (snd st)"
  let ?st = "(mput ptr (new_entry ptr ?i) (fst st), mput ?i ptr (snd st))"
  have st: "merge_pointer st ptr = ?st" using None by (simp add: merge_pointer_def Let_def)
  have inv: "merge_inv st" using assms(1) by (simp add: ids_unique_def)
  then have "merge_inv ?st" unfolding st [symmetric] by (rule merge_sys.inv_step)
  moreover have "se_id (snd p) \<noteq> ?i" if "p \<in> set (fst st)" for p
    using that inv unique_secret_id_fresh [of "sp_namespace ptr" "sp_name ptr" "sp_key ptr" "snd st"]
      unique_secret_id_nonempty [OF assms(2), of "sp_namespace ptr" "sp_name ptr" "snd st"]
    unfolding merge_inv_def by metis
  moreover have "set (fst ?st) = insert (ptr, new_entry ptr ?i) {p \<in> set (fst st). fst p \<noteq> ptr}"
    using inv by (simp add: mput_set merge_inv_def)
  moreover have "?i \<noteq> []" by (rule unique_secret_id_nonempty [OF assms(2)])
  ultimately show ?thesis
    using assms(1) unfolding st ids_unique_def by (intro conjI ballI impI) (force simp del: set_mkeys_mput)+
qed (use assms in \<open>simp add: merge_pointer_def\<close>)

lemma ids_unique_merge_pointers:
  "ids_unique st \<Longrightarrow> \<forall>p \<in> set ps. sp_key p \<noteq> [] \<Longrightarrow> ids_unique (foldl merge_pointer st ps)"
  by (induction ps arbitrary: st) (simp_all add: ids_unique_merge_pointer)

lemma merge_inv_empty [simp]: "merge_inv ([], [])"
  by (simp add: merge_inv_def)

lemma index_existing_values:
  "merge_inv st \<Longrightarrow> q \<in> set (fst (foldl index_entry st es)) \<Longrightarrow> q \<in> set (fst st) \<or> snd q \<in> set es"
proof (induction es rule: rev_induct)
  case (snoc e es)
  have "merge_inv (foldl index_entry st es)" using snoc.prems(1) by (rule index_sys.inv_run)
  then have "wf_map (fst (foldl index_entry st es))" by (simp add: merge_inv_def)
  with snoc show ?case by (auto simp: index_entry_def [of "foldl index_entry st es"] mput_set)
qed simp

lemma ids_unique_existing:
  assumes "distinct (map se_id es)" and "\<forall>e \<in> set es. se_id e \<noteq> []"
  shows "ids_unique (foldl index_entry ([], []) es)"
proof -
  let ?st = "foldl index_entry ([], []) es"
  have inv: "merge_inv ?st" by (rule index_sys.inv_run) simp
  have val: "snd q \<in> set es" if "q \<in> set (fst ?st)" for q
    using index_existing_values [OF merge_inv_empty that] by simp
  have "p = q" if "p \<in> set (fst ?st)" "q \<in> set (fst ?st)" "se_id (snd p) = se_id (snd q)" for p q
  proof -
    have "snd p = snd q" using assms(1) val [OF that(1)] val [OF that(2)] that(3) by (auto simp: distinct_map inj_on_def)
    moreover from inv that(1,2) have "entry_pointer (snd p) = fst p" "entry_pointer (snd q) = fst q"
      unfolding merge_inv_def by blast+
    ultimately show "p = q" by (simp add: prod_eq_iff)
  qed
  with inv val assms(2) show ?thesis unfolding ids_unique_def by blast
qed

definition existing_entries :: "secrets_config option \<Rightarrow> secret_entry list" where
  "existing_entries existing = (case existing of None \<Rightarrow> [] | Some sec \<Rightarrow> ss_secrets sec)"

lemma merge_secret_entries_eq:
  "merge_secret_entries existing writes =
     sort_key entry_order (map snd (fst (foldl merge_pointer (foldl index_entry ([], []) (existing_entries existing))
                                           (requested_pointers writes))))"
  by (simp add: merge_secret_entries_def merge_writes_pointers existing_entries_def Let_def split_beta split: option.split)

lemma validate_write_keys_None: "validate_write_keys ks = None \<longleftrightarrow> list_all valid_name_re ks"
  by (induction ks) simp_all

definition valid_write :: "string \<times> secret_write \<Rightarrow> bool" where
  "valid_write p \<longleftrightarrow> validate_k8s_dns_subdomain ''secret name'' (fst p) = None \<and>
     validate_k8s_dns_label ''secret namespace'' (sw_namespace (snd p)) = None \<and>
     sw_data (snd p) \<noteq> [] \<and> list_all valid_name_re (mkeys (sw_data (snd p)))"

lemma validate_writes_loop_None: "validate_writes_loop writes = None \<longleftrightarrow> list_all valid_write writes"
  by (induction writes rule: validate_writes_loop.induct) (auto simp: valid_write_def validate_write_keys_None)

lemma validate_secret_writes_iff:
  "validate_secret_writes writes = Inr b \<longleftrightarrow> list_all valid_write writes \<and> (b \<longleftrightarrow> writes \<noteq> [])"
  by (auto simp: validate_secret_writes_def validate_writes_loop_None [symmetric] simp del: not_None_eq
      split: option.split)

text \<open>The pointers a valid request asks for: all complete.\<close>

lemma requested_pointers_complete:
  assumes "list_all valid_write writes" and "p \<in> set (requested_pointers writes)"
  shows "sp_namespace p \<noteq> [] \<and> sp_name p \<noteq> [] \<and> sp_key p \<noteq> []"
proof -
  from assms(2) obtain name where n: "name \<in> fst ` set writes" and p: "sp_namespace p = sw_namespace (write_of writes name)"
    "sp_name p = name" "sp_key p \<in> fst ` set (sw_data (write_of writes name))"
    by (force simp: requested_pointers_def sorted_secret_names_def sorted_secret_data_keys_def)
  then obtain w where w: "mget writes name = Some w" unfolding in_mkeys_mget by blast
  then have "valid_write (name, w)" using assms(1) by (auto simp: list_all_iff dest: mget_Some_in)
  with p w show ?thesis
    by (auto simp: valid_write_def write_of_def validate_k8s_dns_label_def validate_k8s_dns_subdomain_def valid_name_re_def
        list_all_iff split: if_splits list.splits)
qed

lemma mput_new: "k \<notin> fst ` set m \<Longrightarrow> mput k v m = m @ [(k, v)]"
  by (induction m) auto

text \<open>The pointers after the merge, whatever was in the file.\<close>

lemma merge_result:
  fixes existing writes
  defines "st \<equiv> foldl merge_pointer (foldl index_entry ([], []) (existing_entries existing)) (requested_pointers writes)"
  shows "merge_inv st"
    and "set (merge_secret_entries existing writes) = snd ` set (fst st)"
    and "mset (merge_secret_entries existing writes) = mset (map snd (fst st))"
    and "entry_pointer ` set (merge_secret_entries existing writes) =
      entry_pointer ` set (existing_entries existing) \<union> set (requested_pointers writes)"
    and "distinct (map entry_pointer (merge_secret_entries existing writes))"
    and "sorted (map entry_order (merge_secret_entries existing writes))"
    and "e \<in> set (merge_secret_entries existing writes) \<Longrightarrow> mget (fst st) (entry_pointer e) = Some e"
proof -
  let ?es = "existing_entries existing" and ?ps = "requested_pointers writes"
  let ?init = "foldl index_entry ([], []) ?es"
  let ?out = "merge_secret_entries existing writes"
  have out: "?out = sort_key entry_order (map snd (fst st))" unfolding st_def by (rule merge_secret_entries_eq)
  show inv: "merge_inv st"
    unfolding st_def by (intro merge_sys.inv_run index_sys.inv_run merge_inv_empty)
  then have wf: "wf_map (fst st)" and ptr: "\<And>q. q \<in> set (fst st) \<Longrightarrow> entry_pointer (snd q) = fst q"
    unfolding merge_inv_def by blast+
  show set_out: "set ?out = snd ` set (fst st)" by (simp add: out)
  show perm: "mset ?out = mset (map snd (fst st))" by (simp add: out)
  have old: "mget (fst ?init) p \<noteq> None \<longleftrightarrow> p \<in> entry_pointer ` set ?es" for p
    by (auto simp: index_existing_get find_None_iff split: option.split dest!: find_Some_in)
  have "entry_pointer ` set ?out = fst ` set (fst st)"
    unfolding set_out image_image using ptr by (rule image_cong [OF refl])
  also have "\<dots> = entry_pointer ` set ?es \<union> set ?ps"
  proof (rule set_eqI)
    fix p
    show "p \<in> fst ` set (fst st) \<longleftrightarrow> p \<in> entry_pointer ` set ?es \<union> set ?ps"
      using merge_pointers_dom [of ?init ?ps p] old [of p] mget_None_iff [of "fst st" p]
      unfolding Un_iff st_def by argo
  qed
  finally show "entry_pointer ` set ?out = entry_pointer ` set ?es \<union> set ?ps" .
  have "distinct (map entry_pointer (map snd (fst st)))"
    using wf ptr by (simp add: comp_def cong: map_cong)
  with perm show "distinct (map entry_pointer ?out)" by (metis mset_map mset_eq_imp_distinct_iff)
  show "sorted (map entry_order ?out)" by (simp add: out)
  show "mget (fst st) (entry_pointer e) = Some e" if "e \<in> set ?out"
    using that set_out ptr mget_iff [OF wf] by (metis (no_types, lifting) imageE prod.collapse)
qed

text \<open>C22: The merged secrets.yaml keeps every pointer it had and has every pointer the write asks for, each exactly once;
  an entry of a pointer that was already there is one of the old entries, unchanged; ids stay pairwise distinct and
  non-empty, so the result passes the entry checks of ParseSecrets again; and the entries are sorted.\<close>

theorem merge_secret_entries_correct:
  assumes "\<forall>e \<in> set (existing_entries existing). complete_entry e"
    and "distinct (map se_id (existing_entries existing))"
    and "validate_secret_writes writes = Inr b"
  shows "entry_pointer ` set (merge_secret_entries existing writes) =
      entry_pointer ` set (existing_entries existing) \<union> set (requested_pointers writes) \<and>
    distinct (map entry_pointer (merge_secret_entries existing writes)) \<and>
    (\<forall>e \<in> set (merge_secret_entries existing writes).
       entry_pointer e \<in> entry_pointer ` set (existing_entries existing) \<longrightarrow> e \<in> set (existing_entries existing)) \<and>
    secret_entries_loop [] 0 (merge_secret_entries existing writes) = None \<and>
    sorted (map entry_order (merge_secret_entries existing writes))"
proof -
  let ?es = "existing_entries existing" and ?ps = "requested_pointers writes"
  let ?init = "foldl index_entry ([], []) ?es"
  let ?st = "foldl merge_pointer ?init ?ps"
  let ?out = "merge_secret_entries existing writes"
  note res = merge_result [where existing = existing and writes = writes]
  have valid: "list_all valid_write writes" using assms(3) by (simp add: validate_secret_writes_iff)
  have init: "ids_unique ?init"
    using assms(1) by (intro ids_unique_existing [OF assms(2)]) (auto simp: complete_entry_def)
  have uniq: "ids_unique ?st"
    using requested_pointers_complete [OF valid] by (intro ids_unique_merge_pointers [OF init]) blast
  then have "distinct (map se_id (map snd (fst ?st)))"
    using res(1) unfolding ids_unique_def merge_inv_def by (auto simp: distinct_map inj_on_def)
  then have ids: "distinct (map se_id ?out)" using res(3) by (metis mset_map mset_eq_imp_distinct_iff)
  have keep: "e \<in> set ?es" if "e \<in> set ?out" "entry_pointer e \<in> entry_pointer ` set ?es" for e
  proof -
    from that(2) have "mget (fst ?init) (entry_pointer e) \<noteq> None"
      by (auto simp: index_existing_get find_None_iff split: option.split)
    then obtain e' where e': "mget (fst ?init) (entry_pointer e) = Some e'" by blast
    then have "mget (fst ?st) (entry_pointer e) = Some e'" by (rule merge_pointers_keep)
    with res(7) [OF that(1)] have "e' = e" by simp
    with mget_Some_in [OF e'] index_existing_values [OF merge_inv_empty, of "(entry_pointer e, e)" ?es]
    show ?thesis by simp
  qed
  have "complete_entry e" if "e \<in> set ?out" for e
  proof -
    from that have id: "se_id e \<noteq> []" using uniq res(2) by (auto simp: ids_unique_def)
    have "entry_pointer e \<in> entry_pointer ` set ?es \<or> entry_pointer e \<in> set ?ps" using that res(4) by blast
    then show ?thesis
    proof
      assume "entry_pointer e \<in> set ?ps"
      from requested_pointers_complete [OF valid this] id show ?thesis
        by (simp add: complete_entry_def entry_pointer_def)
    qed (use keep [OF that] assms(1) in blast)
  qed
  then have "secret_entries_loop [] 0 ?out = None" using ids by (simp add: secret_entries_loop_None)
  with res(4,5,6) keep show ?thesis by blast
qed

definition sample_entry :: "string \<Rightarrow> string \<Rightarrow> secret_entry" where
  "sample_entry i key =
     \<lparr>se_id = i, se_description = ''d'', se_k8s = \<lparr>ks_name = ''db'', ks_namespace = ''ns'', ks_key = key\<rparr>\<rparr>"

definition sample_write :: "secret_writes" where
  "sample_write = [(''db'', \<lparr>sw_namespace = ''ns'', sw_data = [(''user'', ''u''), (''pw'', ''x'')]\<rparr>)]"

lemma sample_write_valid: "validate_secret_writes sample_write = Inr True"
  by (simp add: validate_secret_writes_iff sample_write_def valid_write_def validate_k8s_dns_label_def
      validate_k8s_dns_subdomain_def valid_k8s_dns_label_re_def is_lower_alnum_def valid_name_re_def is_alnum_def)

theorem merge_secret_entries_correct_witness:
  "secret_entries_loop [] 0
     (merge_secret_entries (Some \<lparr>ss_version = ''1'', ss_secrets = [sample_entry ''pw'' ''user'']\<rparr>) sample_write) = None"
  using merge_secret_entries_correct
    [of "Some \<lparr>ss_version = ''1'', ss_secrets = [sample_entry ''pw'' ''user'']\<rparr>", OF _ _ sample_write_valid]
  by (simp add: existing_entries_def complete_entry_def sample_entry_def)

text \<open>Writing the same secrets again changes nothing: merging a write into the result of merging it gives that result
  back, so a repeated request leaves secrets.yaml as it is.\<close>

theorem merge_secret_entries_idempotent:
  "merge_secret_entries (Some \<lparr>ss_version = v, ss_secrets = merge_secret_entries existing writes\<rparr>) writes =
   merge_secret_entries existing writes"
proof -
  let ?out = "merge_secret_entries existing writes"
  note res = merge_result [where existing = existing and writes = writes]
  have idx: "fst (foldl index_entry ([], []) es) = map (\<lambda>e. (entry_pointer e, e)) es"
    if "distinct (map entry_pointer es)" for es
    using that
  proof (induction es rule: rev_induct)
    case (snoc e es)
    then show ?case by (simp add: index_entry_def [of "foldl index_entry ([], []) es"] mput_new image_image)
  qed simp
  have "foldl merge_pointer (foldl index_entry ([], []) ?out) (requested_pointers writes) =
      foldl index_entry ([], []) ?out"
  proof (rule merge_pointers_noop)
    show "\<forall>p \<in> set (requested_pointers writes). mget (fst (foldl index_entry ([], []) ?out)) p \<noteq> None"
      unfolding mget_None_iff idx [OF res(5)] using res(4) by (auto simp: image_image)
  qed
  then have "merge_secret_entries (Some \<lparr>ss_version = v, ss_secrets = ?out\<rparr>) writes =
      sort_key entry_order (map snd (fst (foldl index_entry ([], []) ?out)))"
    by (simp only: merge_secret_entries_eq [of "Some _"] existing_entries_def option.case secrets_config.simps)
  also have "\<dots> = sort_key entry_order ?out"
    unfolding idx [OF res(5)] map_map comp_def snd_conv map_ident ..
  also have "\<dots> = ?out" using res(6) by (rule sort_key_id_if_sorted)
  finally show ?thesis .
qed

text \<open>secrets.yaml may list one Kubernetes Secret key under two ids (ParseSecrets only rejects equal ids), but any
  admin secret write to the service drops all but the last of them: the other logical id disappears from the file,
  although the request does not touch it.\<close>

theorem merge_drops_alias_id:
  assumes "existing_entries existing = xs @ alias # ys @ last_entry # zs"
    and "entry_pointer alias = entry_pointer last_entry"
    and "distinct (map se_id (existing_entries existing))"
  shows "alias \<notin> set (merge_secret_entries existing writes)"
proof
  let ?es = "existing_entries existing"
  let ?init = "foldl index_entry ([], []) ?es"
  assume in_out: "alias \<in> set (merge_secret_entries existing writes)"
  have "\<exists>e. find (\<lambda>e. entry_pointer e = entry_pointer alias) (rev zs @ [last_entry]) = Some e \<and> e \<in> set (last_entry # zs)"
    using assms(2) find_None_iff [of "\<lambda>e. entry_pointer e = entry_pointer alias" "rev zs @ [last_entry]"]
    by (cases "find (\<lambda>e. entry_pointer e = entry_pointer alias) (rev zs @ [last_entry])") (auto dest: find_Some_in)
  then obtain e where e: "find (\<lambda>e. entry_pointer e = entry_pointer alias) (rev zs @ [last_entry]) = Some e"
    "e \<in> set (last_entry # zs)" by blast
  have "find P (us @ vs) = Some x" if "find P us = Some x" for P us vs and x :: secret_entry
    using that by (induction us) (auto split: if_splits)
  from this [OF e(1), of "rev ys @ alias # rev xs"]
  have "mget (fst ?init) (entry_pointer alias) = Some e"
    unfolding index_existing_get by (simp only: assms(1)) simp
  then have "mget (fst (foldl merge_pointer ?init (requested_pointers writes))) (entry_pointer alias) = Some e"
    by (rule merge_pointers_keep)
  with merge_result(7) [OF in_out] have "e = alias" by simp
  with e(2) assms(1,3) show False by auto
qed

theorem merge_drops_alias_id_witness:
  "sample_entry ''a'' ''user'' \<notin>
     set (merge_secret_entries (Some \<lparr>ss_version = ''1'', ss_secrets = [sample_entry ''a'' ''user'', sample_entry ''b'' ''user'']\<rparr>)
            sample_write)"
  by (rule merge_drops_alias_id [of _ "[]" _ "[]" "sample_entry ''b'' ''user''" "[]"])
    (simp_all add: existing_entries_def sample_entry_def entry_pointer_def)

end
