(* ===== verification/Store.thy ===== *)
theory Store
  imports SecretWrites
begin

text \<open>
  The in-memory config store (internal/store/store.go, types.go): the snapshot it serves, the outcome
  of the last reload, and the generation of the version-changed channel (how often it was closed). The
  git repository is the interface \<open>GitRepo\<close>, a record of functions that thread the outside world
  \<open>'w\<close>; the clock and the contexts read that world too. This theory holds the reload and the reads.
\<close>

subsection \<open>State and interfaces\<close>

record snapshot =
  sn_data :: "(string, service_data) gomap"
  sn_version :: string

record reload_state =
  rl_at :: gotime
  rl_err :: "goerr option"

record store =
  st_snapshot :: snapshot
  st_last_reload :: "reload_state option"
  st_watch_gen :: nat

record service_history_entry =
  he_version :: string
  he_message :: string
  he_author :: string
  he_timestamp :: gotime
  he_files_changed :: "file_change list"

record service_file_content =
  fo_path :: string
  fo_kind :: file_kind
  fo_data :: bytes

text \<open>
  A commit builder gets a reader of the pulled work tree and yields the files to write and the value it
  stores in the caller's variable, which the caller reads on success: \<open>gr_commit_and_push_func\<close> returns the
  last value stored beside the hash.
  \<open>gr_snapshot\<close> returns the files in the order of the walk, \<open>gr_history\<close> the entries newest first and the
  error that ends the iteration when the callback does not stop it.
\<close>

type_synonym file_reader = "string \<Rightarrow> goerr + bytes"
type_synonym commit_file_builder = "file_reader \<Rightarrow> goerr + ((string, bytes) gomap \<times> string list)"

record 'w git_repo =
  gr_clone_or_open :: "'w \<Rightarrow> goerr option \<times> 'w"
  gr_pull :: "'w \<Rightarrow> (goerr + string \<times> bool) \<times> 'w"
  gr_commit_and_push :: "string \<Rightarrow> (string, bytes) gomap \<Rightarrow> 'w \<Rightarrow> (goerr + string) \<times> 'w"
  gr_commit_and_push_func :: "string \<Rightarrow> commit_file_builder \<Rightarrow> 'w \<Rightarrow> ((goerr + string) \<times> string list) \<times> 'w"
  gr_delete_and_push :: "string \<Rightarrow> string list \<Rightarrow> 'w \<Rightarrow> (goerr + string \<times> string list) \<times> 'w"
  gr_restore_and_push ::
    "string \<Rightarrow> string \<Rightarrow> string \<Rightarrow> string \<Rightarrow> (string, bytes) gomap \<Rightarrow> 'w \<Rightarrow> (goerr + string \<times> string list) \<times> 'w"
  gr_snapshot :: "'w \<Rightarrow> (goerr + string \<times> (string \<times> bytes) list) \<times> 'w"
  gr_read_file_at_commit :: "string \<Rightarrow> string \<Rightarrow> 'w \<Rightarrow> (goerr + bytes) \<times> 'w"
  gr_read_service_files_at_commit ::
    "string \<Rightarrow> string \<Rightarrow> string \<Rightarrow> string \<Rightarrow> 'w \<Rightarrow> (goerr + service_file_content list) \<times> 'w"
  gr_history :: "string \<Rightarrow> string \<Rightarrow> string \<Rightarrow> 'w \<Rightarrow> (service_history_entry list \<times> goerr option) \<times> 'w"

record 'w store_env =
  en_git :: "'w git_repo"
  en_deps :: "'w secret_deps"
  en_lib :: go_lib
  en_now :: "'w \<Rightarrow> gotime \<times> 'w"

definition new_snapshot :: "(string, service_data) gomap \<Rightarrow> string \<Rightarrow> snapshot" where
  "new_snapshot data version = \<lparr>sn_data = data, sn_version = version\<rparr>"

definition new_store :: store where
  "new_store = \<lparr>st_snapshot = new_snapshot [] [], st_last_reload = None, st_watch_gen = 0\<rparr>"

definition head_version :: "store \<Rightarrow> string" where
  "head_version s = sn_version (st_snapshot s)"

definition is_degraded :: "store \<Rightarrow> bool" where
  "is_degraded s = (case st_last_reload s of None \<Rightarrow> False | Some rs \<Rightarrow> rl_err rs \<noteq> None)"

subsection \<open>Reload\<close>

definition digest_bytes :: "go_lib \<Rightarrow> bytes \<Rightarrow> string" where
  "digest_bytes L raw = sha256_hex L raw"

definition parse_and_store ::
  "go_lib \<Rightarrow> string \<Rightarrow> bytes \<Rightarrow> (string, service_data) gomap \<Rightarrow> goerr option \<times> (string, service_data) gomap" where
  "parse_and_store L path raw data =
     (case classify_path path of
        None \<Rightarrow> (None, data)
      | Some (key, file_type) \<Rightarrow>
          (let sd = (case mget data key of Some sd \<Rightarrow> sd | None \<Rightarrow> empty_service_data);
               data = mput key sd data
           in if file_type = ''config'' then
                (case parse_config L raw of
                   Inl e \<Rightarrow> (Some (wrapf [''parse config.yaml''] e), data)
                 | Inr cfg \<Rightarrow>
                     (None, mput key (apply_metadata_updated_at L
                        (sd\<lparr>sd_config := Some cfg, sd_config_digest := digest_bytes L raw\<rparr>)
                        (md_updated_at (sc_metadata cfg))) data))
              else if file_type = ''env_vars'' then
                (case parse_env_vars L raw of
                   Inl e \<Rightarrow> (Some (wrapf [''parse env_vars.yaml''] e), data)
                 | Inr ev \<Rightarrow>
                     (None, mput key (apply_metadata_updated_at L
                        (sd\<lparr>sd_env_vars := Some ev, sd_env_vars_digest := digest_bytes L raw\<rparr>)
                        (md_updated_at (ec_metadata ev))) data))
              else if file_type = ''secrets'' then
                (case parse_secrets L raw of
                   Inl e \<Rightarrow> (Some (wrapf [''parse secrets.yaml''] e), data)
                 | Inr sec \<Rightarrow> (None, mput key (sd\<lparr>sd_secrets := Some sec\<rparr>) data))
              else (None, data)))"

text \<open>The callback of the walk over all files: data, defaults and the parse errors so far.\<close>

fun load_files ::
  "go_lib \<Rightarrow> (string \<times> bytes) list \<Rightarrow> (string, service_data) gomap \<times> defaults_index \<times> string list \<Rightarrow>
   (string, service_data) gomap \<times> defaults_index \<times> string list" where
  "load_files L [] st = st"
| "load_files L ((path, raw) # files) (data, defaults, errs) =
     (case parse_and_store_defaults L path raw defaults of
        ((True, perr), defaults) \<Rightarrow>
          load_files L files (data, defaults,
            case perr of None \<Rightarrow> errs | Some e \<Rightarrow> errs @ [path @ '': '' @ err_msg e])
      | ((False, _), defaults) \<Rightarrow>
          (case parse_and_store L path raw data of
             (None, data) \<Rightarrow> load_files L files (data, defaults, errs)
           | (Some e, data) \<Rightarrow> load_files L files (data, defaults, errs @ [path @ '': '' @ err_msg e])))"

definition next_resource_version ::
  "bool \<Rightarrow> string \<Rightarrow> string \<Rightarrow> service_data option \<Rightarrow> (service_data \<Rightarrow> bool) \<Rightarrow> (service_data \<Rightarrow> string) \<Rightarrow>
   (service_data \<Rightarrow> string) \<Rightarrow> string" where
  "next_resource_version present digest version prev prev_present prev_digest prev_version =
     (case prev of
        None \<Rightarrow> version
      | Some p \<Rightarrow>
          if present then
            (if prev_present p \<and> digest \<noteq> [] \<and> digest = prev_digest p \<and> prev_version p \<noteq> []
             then prev_version p else version)
          else if \<not> prev_present p \<and> prev_version p \<noteq> [] then prev_version p
          else version)"

definition apply_resource_versions ::
  "store \<Rightarrow> (string, service_data) gomap \<Rightarrow> string \<Rightarrow> (string, service_data) gomap" where
  "apply_resource_versions s data version =
     map (\<lambda>(key, sd).
        let prev = mget (sn_data (st_snapshot s)) key in
        (key, sd\<lparr>sd_config_rv := next_resource_version (sd_config sd \<noteq> None) (sd_config_digest sd) version prev
                                  (\<lambda>d. sd_config d \<noteq> None) sd_config_digest sd_config_rv,
                 sd_env_vars_rv := next_resource_version (sd_env_vars sd \<noteq> None) (sd_env_vars_digest sd) version prev
                                  (\<lambda>d. sd_env_vars d \<noteq> None) sd_env_vars_digest sd_env_vars_rv\<rparr>)) data"

definition fallback_updated_at :: "gotime \<Rightarrow> (string, service_data) gomap \<Rightarrow> (string, service_data) gomap" where
  "fallback_updated_at now data =
     map (\<lambda>(key, sd). (key, if sd_updated_at sd = 0 then sd\<lparr>sd_updated_at := now\<rparr> else sd)) data"

definition notify_version_change :: "store \<Rightarrow> store" where
  "notify_version_change s = s\<lparr>st_watch_gen := Suc (st_watch_gen s)\<rparr>"

definition reload_unlocked :: "'w store_env \<Rightarrow> store \<Rightarrow> 'w \<Rightarrow> goerr option \<times> store \<times> 'w" where
  "reload_unlocked E s w =
     (case gr_snapshot (en_git E) w of
        (Inl e, w) \<Rightarrow>
          (let reload_err = wrapf [''repo snapshot''] e; (now, w) = en_now E w in
           (Some reload_err, s\<lparr>st_last_reload := Some \<lparr>rl_at = now, rl_err = Some reload_err\<rparr>\<rparr>, w))
      | (Inr (hash, files), w) \<Rightarrow>
          (let (data, defaults, parse_errors) = load_files (en_lib E) files ([], new_defaults_index, []) in
           if 0 < length parse_errors then
             (let reload_err = errf [''refusing to swap snapshot: '', show_nat (length parse_errors),
                                     '' file(s) failed to parse: '', join ''; '' parse_errors];
                  (now, w) = en_now E w
              in (Some reload_err, s\<lparr>st_last_reload := Some \<lparr>rl_at = now, rl_err = Some reload_err\<rparr>\<rparr>, w))
           else
             (let (now, w) = en_now E w;
                  data = fallback_updated_at now data;
                  data = apply_defaults_inheritance data defaults;
                  data = apply_resource_versions s data hash;
                  prev_version = head_version s;
                  (at, w) = en_now E w;
                  s = s\<lparr>st_snapshot := new_snapshot data hash,
                        st_last_reload := Some \<lparr>rl_at = at, rl_err = None\<rparr>\<rparr>;
                  s = (if hash \<noteq> prev_version then notify_version_change s else s)
              in (None, s, w))))"

definition resource_version_of :: "service_data \<Rightarrow> string \<Rightarrow> string \<Rightarrow> string" where
  "resource_version_of d resource fallback =
     (if resource = ''config'' \<and> sd_config_rv d \<noteq> [] then sd_config_rv d
      else if resource = ''env_vars'' \<and> sd_env_vars_rv d \<noteq> [] then sd_env_vars_rv d
      else fallback)"

text \<open>\<open>reload\<close> differs from \<open>reloadUnlocked\<close> only in taking the writers' lock.\<close>

definition reload :: "'w store_env \<Rightarrow> store \<Rightarrow> 'w \<Rightarrow> goerr option \<times> store \<times> 'w" where
  "reload E s w = reload_unlocked E s w"

definition load_from_repo :: "'w store_env \<Rightarrow> store \<Rightarrow> 'w \<Rightarrow> goerr option \<times> store \<times> 'w" where
  "load_from_repo E s w =
     (case gr_clone_or_open (en_git E) w of
        (Some e, w) \<Rightarrow> (Some (wrapf [''clone/open repo''] e), s, w)
      | (None, w) \<Rightarrow>
          (case gr_pull (en_git E) w of
             (Inl e, w) \<Rightarrow>
               if err_is CtxCanceled e \<or> err_is CtxDeadlineExceeded e
               then (Some (wrapf [''initial pull''] e), s, w)
               else reload E s w
           | (Inr _, w) \<Rightarrow> reload E s w))"

definition refresh_from_repo :: "'w store_env \<Rightarrow> store \<Rightarrow> 'w \<Rightarrow> (bool \<times> goerr option) \<times> store \<times> 'w" where
  "refresh_from_repo E s w =
     (case gr_pull (en_git E) w of
        (Inl e, w) \<Rightarrow> ((False, Some e), s, w)
      | (Inr (hash, updated), w) \<Rightarrow>
          if \<not> updated then ((False, None), s, w)
          else (case reload E s w of
                  (Some e, s, w) \<Rightarrow> ((False, Some e), s, w)
                | (None, s, w) \<Rightarrow> ((True, None), s, w)))"

definition reload_from_repo :: "'w store_env \<Rightarrow> store \<Rightarrow> 'w \<Rightarrow> (bool \<times> goerr option) \<times> store \<times> 'w" where
  "reload_from_repo E s w =
     (case gr_pull (en_git E) w of
        (Inl e, w) \<Rightarrow> ((False, Some e), s, w)
      | (Inr (hash, pull_updated), w) \<Rightarrow>
          (let prev_version = head_version s; was_degraded = is_degraded s in
           case reload E s w of
             (Some e, s, w) \<Rightarrow> ((False, Some e), s, w)
           | (None, s, w) \<Rightarrow> ((pull_updated \<or> head_version s \<noteq> prev_version \<or> was_degraded, None), s, w)))"

definition reload_outcome :: "bool \<Rightarrow> goerr option \<Rightarrow> string" where
  "reload_outcome updated err =
     (if err \<noteq> None then ''error'' else if updated then ''updated'' else ''unchanged'')"

subsection \<open>Reads\<close>

record store_status =
  ss_status_version :: string
  ss_services_loaded :: nat
  ss_last_reload_at :: gotime
  ss_is_degraded :: bool
  ss_last_reload_error :: string

record service_info =
  si_name :: string
  si_has_config :: bool
  si_has_env_vars :: bool
  si_has_secrets :: bool
  si_updated_at :: gotime

definition not_found :: "string \<Rightarrow> string \<Rightarrow> string \<Rightarrow> goerr" where
  "not_found org project service =
     app_new CodeNotFound (''service not found: '' @ org @ ''/'' @ project @ ''/'' @ service)"

definition get_config :: "store \<Rightarrow> string \<Rightarrow> string \<Rightarrow> string \<Rightarrow> goerr + service_data" where
  "get_config s org project service =
     (case mget (sn_data (st_snapshot s)) (service_key org project service) of
        None \<Rightarrow> Inl (not_found org project service)
      | Some d \<Rightarrow> Inr d)"

text \<open>\<open>ResourceVersion\<close>: the token (or the error) and the loaded HEAD of the same snapshot.\<close>

definition resource_version ::
  "store \<Rightarrow> string \<Rightarrow> string \<Rightarrow> string \<Rightarrow> string \<Rightarrow> (goerr + string) \<times> string" where
  "resource_version s org project service resource =
     (let snap = st_snapshot s in
      case mget (sn_data snap) (service_key org project service) of
        None \<Rightarrow> (Inl (not_found org project service), sn_version snap)
      | Some d \<Rightarrow>
          (let version = resource_version_of d resource (sn_version snap);
               version = (if version = [] then sn_version snap else version)
           in (Inr version, sn_version snap)))"

definition status_info :: "store \<Rightarrow> store_status" where
  "status_info s =
     (let si = \<lparr>ss_status_version = head_version s, ss_services_loaded = length (sn_data (st_snapshot s)),
                ss_last_reload_at = 0, ss_is_degraded = False, ss_last_reload_error = []\<rparr>
      in case st_last_reload s of
           None \<Rightarrow> si
         | Some rs \<Rightarrow>
             (let si = si\<lparr>ss_last_reload_at := rl_at rs\<rparr> in
              case rl_err rs of
                None \<Rightarrow> si
              | Some e \<Rightarrow> si\<lparr>ss_is_degraded := True, ss_last_reload_error := err_msg e\<rparr>))"

text \<open>The sorted keys of a set built in a loop.\<close>

definition keys_of :: "string list \<Rightarrow> string list" where
  "keys_of seen = sorted_keys (fold (\<lambda>k. mput k ()) seen [])"

definition list_orgs :: "store \<Rightarrow> string list" where
  "list_orgs s = keys_of (map (\<lambda>key. hd (split_on slash key)) (mkeys (sn_data (st_snapshot s))))"

definition list_projects :: "store \<Rightarrow> string \<Rightarrow> string list" where
  "list_projects s org =
     keys_of (map (\<lambda>key. hd (split_on slash (drop (length (org @ ''/'')) key)))
        (filter (\<lambda>key. has_prefix key (org @ ''/'')) (mkeys (sn_data (st_snapshot s)))))"

definition list_services :: "store \<Rightarrow> string \<Rightarrow> string \<Rightarrow> service_info list" where
  "list_services s org project =
     (let prefix = org @ ''/'' @ project @ ''/'' in
      sort_key si_name
        (map (\<lambda>(key, d). \<lparr>si_name = drop (length prefix) key, si_has_config = sd_config d \<noteq> None,
                           si_has_env_vars = sd_env_vars d \<noteq> None, si_has_secrets = sd_secrets d \<noteq> None,
                           si_updated_at = sd_updated_at d\<rparr>)
          (filter (\<lambda>p. has_prefix (fst p) prefix) (sn_data (st_snapshot s)))))"

subsection \<open>Historical reads\<close>

definition historical_read_error :: "string \<Rightarrow> goerr \<Rightarrow> goerr" where
  "historical_read_error what e =
     (if err_is ErrCommitNotFound e then app_wrap CodeNotFound ''historical version not found'' e
      else app_wrap CodeInternal (''read historical '' @ what) e)"

definition historical_checks ::
  "store \<Rightarrow> 'w ctx \<Rightarrow> string \<Rightarrow> string \<Rightarrow> string \<Rightarrow> string \<Rightarrow> 'w \<Rightarrow> goerr option" where
  "historical_checks s ctx org project service version w =
     or_err (if version = [] then Some (app_new CodeValidation ''version is required'') else None)
       (or_err (case get_config s org project service of Inl e \<Rightarrow> Some e | Inr _ \<Rightarrow> None) (ctx w))"

definition get_config_at_version ::
  "'w store_env \<Rightarrow> store \<Rightarrow> 'w ctx \<Rightarrow> string \<Rightarrow> string \<Rightarrow> string \<Rightarrow> string \<Rightarrow> 'w \<Rightarrow> (goerr + service_data) \<times> 'w" where
  "get_config_at_version E s ctx org project service version w =
     (case historical_checks s ctx org project service version w of
        Some e \<Rightarrow> (Inl e, w)
      | None \<Rightarrow>
          (case gr_read_file_at_commit (en_git E) version (service_path org project service @ ''/config.yaml'') w of
             (Inl e, w) \<Rightarrow>
               (if err_is ErrFileNotFoundAtCommit e then Inr (empty_service_data\<lparr>sd_config_rv := version\<rparr>)
                else Inl (historical_read_error ''config.yaml'' e), w)
           | (Inr raw, w) \<Rightarrow>
               (case parse_config (en_lib E) raw of
                  Inl e \<Rightarrow> (Inl (app_wrap CodeInternal ''parse historical config.yaml'' e), w)
                | Inr cfg \<Rightarrow>
                    (Inr (apply_metadata_updated_at (en_lib E)
                       (empty_service_data\<lparr>sd_config := Some cfg, sd_config_rv := version,
                                           sd_config_digest := digest_bytes (en_lib E) raw\<rparr>)
                       (md_updated_at (sc_metadata cfg))), w))))"

definition get_env_vars_at_version ::
  "'w store_env \<Rightarrow> store \<Rightarrow> 'w ctx \<Rightarrow> string \<Rightarrow> string \<Rightarrow> string \<Rightarrow> string \<Rightarrow> 'w \<Rightarrow> (goerr + service_data) \<times> 'w" where
  "get_env_vars_at_version E s ctx org project service version w =
     (case historical_checks s ctx org project service version w of
        Some e \<Rightarrow> (Inl e, w)
      | None \<Rightarrow>
          (case gr_read_file_at_commit (en_git E) version (service_path org project service @ ''/env_vars.yaml'') w of
             (Inl e, w) \<Rightarrow>
               (if err_is ErrFileNotFoundAtCommit e then Inr (empty_service_data\<lparr>sd_env_vars_rv := version\<rparr>)
                else Inl (historical_read_error ''env_vars.yaml'' e), w)
           | (Inr raw, w) \<Rightarrow>
               (case parse_env_vars (en_lib E) raw of
                  Inl e \<Rightarrow> (Inl (app_wrap CodeInternal ''parse historical env_vars.yaml'' e), w)
                | Inr ev \<Rightarrow>
                    (Inr (apply_metadata_updated_at (en_lib E)
                       (empty_service_data\<lparr>sd_env_vars := Some ev, sd_env_vars_rv := version,
                                           sd_env_vars_digest := digest_bytes (en_lib E) raw\<rparr>)
                       (md_updated_at (ec_metadata ev))), w))))"

definition defaults_paths :: "string \<Rightarrow> string \<Rightarrow> string list" where
  "defaults_paths org project =
     [''configs/_defaults/common.yaml'',
      ''configs/orgs/'' @ org @ ''/_defaults/common.yaml'',
      ''configs/orgs/'' @ org @ ''/projects/'' @ project @ ''/_defaults/common.yaml'']"

fun defaults_at_loop ::
  "'w store_env \<Rightarrow> string \<Rightarrow> string list \<Rightarrow> defaults_index \<Rightarrow> 'w \<Rightarrow> (goerr + defaults_index) \<times> 'w" where
  "defaults_at_loop E version [] di w = (Inr di, w)"
| "defaults_at_loop E version (path # paths) di w =
     (case gr_read_file_at_commit (en_git E) version path w of
        (Inl e, w) \<Rightarrow>
          if err_is ErrFileNotFoundAtCommit e then defaults_at_loop E version paths di w
          else (Inl (historical_read_error ''defaults'' e), w)
      | (Inr raw, w) \<Rightarrow>
          (case parse_and_store_defaults (en_lib E) path raw di of
             ((_, Some e), di) \<Rightarrow> (Inl (app_wrap CodeInternal (''parse historical '' @ path) e), w)
           | ((_, None), di) \<Rightarrow> defaults_at_loop E version paths di w))"

definition defaults_at_version ::
  "'w store_env \<Rightarrow> string \<Rightarrow> string \<Rightarrow> string \<Rightarrow> 'w \<Rightarrow> (goerr + defaults_index) \<times> 'w" where
  "defaults_at_version E version org project w =
     defaults_at_loop E version (defaults_paths org project) new_defaults_index w"

text \<open>The inherited variants overlay the defaults of the same commit.\<close>

definition overlay_at_version ::
  "'w store_env \<Rightarrow> 'w ctx \<Rightarrow> string \<Rightarrow> string \<Rightarrow> string \<Rightarrow> string \<Rightarrow> (goerr + service_data) \<times> 'w \<Rightarrow>
   (goerr + service_data) \<times> 'w" where
  "overlay_at_version E ctx org project service version r =
     (case r of
        (Inl e, w) \<Rightarrow> (Inl e, w)
      | (Inr d, w) \<Rightarrow>
          (case ctx w of
             Some e \<Rightarrow> (Inl e, w)
           | None \<Rightarrow>
               (case defaults_at_version E version org project w of
                  (Inl e, w) \<Rightarrow> (Inl e, w)
                | (Inr defaults, w) \<Rightarrow> (Inr (apply_inherited_fields org project service d defaults), w))))"

definition get_inherited_config_at_version ::
  "'w store_env \<Rightarrow> store \<Rightarrow> 'w ctx \<Rightarrow> string \<Rightarrow> string \<Rightarrow> string \<Rightarrow> string \<Rightarrow> 'w \<Rightarrow> (goerr + service_data) \<times> 'w" where
  "get_inherited_config_at_version E s ctx org project service version w =
     overlay_at_version E ctx org project service version
       (get_config_at_version E s ctx org project service version w)"

definition get_inherited_env_vars_at_version ::
  "'w store_env \<Rightarrow> store \<Rightarrow> 'w ctx \<Rightarrow> string \<Rightarrow> string \<Rightarrow> string \<Rightarrow> string \<Rightarrow> 'w \<Rightarrow> (goerr + service_data) \<times> 'w" where
  "get_inherited_env_vars_at_version E s ctx org project service version w =
     overlay_at_version E ctx org project service version
       (get_env_vars_at_version E s ctx org project service version w)"

end
