(* ===== verification/Samples.thy ===== *)
theory Samples
  imports Store
begin

text \<open>
  Concrete library functions and a concrete repository, on which the witnesses evaluate: a library
  whose documents always pass the schema checks and whose config carries the raw text, and a git
  repository kept in memory as the list of its commits, newest first.
\<close>

definition sample_metadata :: service_metadata where
  "sample_metadata = \<lparr>md_service = ''s'', md_org = ''o'', md_project = ''p'', md_updated_at = []\<rparr>"

definition sample_config :: "string \<Rightarrow> service_config" where
  "sample_config raw = \<lparr>sc_version = ''1'', sc_metadata = sample_metadata, sc_config = Some [(''raw'', CStr raw)]\<rparr>"

definition raw_of :: "service_config \<Rightarrow> string" where
  "raw_of c = (case sc_config c of Some [(k, CStr raw)] \<Rightarrow> raw | _ \<Rightarrow> ''other'')"

definition sample_lib :: go_lib where
  "sample_lib =
     \<lparr>yaml_node = (\<lambda>raw. Inr (YNode DocumentNode [] [YNode MappingNode [] []])),
      dec_config = (\<lambda>raw. Inr (sample_config raw)),
      dec_env_vars = (\<lambda>raw. Inr \<lparr>ec_version = ''1'', ec_metadata = sample_metadata,
                                 ec_env = \<lparr>ev_plain = Some [(''RAW'', raw)], ev_secret_refs = None\<rparr>\<rparr>),
      dec_secrets = (\<lambda>raw. Inr \<lparr>ss_version = ''1'', ss_secrets = []\<rparr>),
      dec_defaults = (\<lambda>raw. Inr \<lparr>dc_config = None, dc_env = \<lparr>ev_plain = None, ev_secret_refs = None\<rparr>\<rparr>),
      enc_config = (\<lambda>c. Inr (raw_of c)),
      enc_env_vars = (\<lambda>c. Inr ''env''),
      enc_secrets = (\<lambda>c. Inr ''secrets''),
      dec_seal_meta = (\<lambda>raw. Inr ([], [])),
      sha256_hex = (\<lambda>raw. ''x'' @ raw),
      parse_rfc3339 = (\<lambda>s. None),
      format_rfc3339 = (\<lambda>t. [])\<rparr>"

type_synonym mem_commit = "string \<times> (string, bytes) gomap"

definition mem_files :: "mem_commit list \<Rightarrow> (string, bytes) gomap" where
  "mem_files cs = (case cs of [] \<Rightarrow> [] | c # _ \<Rightarrow> snd c)"

definition mem_head :: "mem_commit list \<Rightarrow> string" where
  "mem_head cs = (case cs of [] \<Rightarrow> ''0'' | c # _ \<Rightarrow> fst c)"

definition mem_commit_files :: "(string, bytes) gomap \<Rightarrow> mem_commit list \<Rightarrow> string \<times> mem_commit list" where
  "mem_commit_files files cs =
     (let h = CHR ''c'' # replicate (length cs) (CHR ''i'') in (h, (h, files) # cs))"

definition mem_repo :: "mem_commit list git_repo" where
  "mem_repo =
     \<lparr>gr_clone_or_open = (\<lambda>w. (None, w)),
      gr_pull = (\<lambda>w. (Inr (mem_head w, False), w)),
      gr_commit_and_push = (\<lambda>msg files w.
        (let (h, w) = mem_commit_files (mput_all files (mem_files w)) w in (Inr h, w))),
      gr_commit_and_push_func = (\<lambda>msg build w.
        (case build (\<lambda>p. case mget (mem_files w) p of None \<Rightarrow> Inl (Sent OsErrNotExist) | Some d \<Rightarrow> Inr d) of
           Inl e \<Rightarrow> ((Inl e, []), w)
         | Inr (files, v) \<Rightarrow>
             (let (h, w) = mem_commit_files (mput_all files (mem_files w)) w in ((Inr h, v), w)))),
      gr_delete_and_push = (\<lambda>msg paths w.
        (let deleted = filter (\<lambda>p. mget (mem_files w) p \<noteq> None) paths;
             (h, w) = mem_commit_files (fold mdel paths (mem_files w)) w
         in (Inr (h, deleted), w))),
      gr_restore_and_push = (\<lambda>msg org project service files w.
        (let (h, w) = mem_commit_files (mput_all files (mem_files w)) w in (Inr (h, []), w))),
      gr_snapshot = (\<lambda>w. (Inr (mem_head w, mem_files w), w)),
      gr_read_file_at_commit = (\<lambda>h p w.
        (case mget w h of
           None \<Rightarrow> Inl (Sent ErrCommitNotFound)
         | Some fs \<Rightarrow> (case mget fs p of None \<Rightarrow> Inl (Sent ErrFileNotFoundAtCommit) | Some d \<Rightarrow> Inr d), w)),
      gr_read_service_files_at_commit = (\<lambda>h org project service w.
        (case mget w h of
           None \<Rightarrow> Inl (Sent ErrCommitNotFound)
         | Some fs \<Rightarrow>
             Inr (map (\<lambda>(c, d). \<lparr>fo_path = fc_path c, fo_kind = fc_kind c, fo_data = d\<rparr>)
               (List.map_filter (\<lambda>(p, d). map_option (\<lambda>c. (c, d)) (classify_service_file_change p org project service)) fs)), w)),
      gr_history = (\<lambda>org project service w.
        ((map (\<lambda>(h, fs). \<lparr>he_version = h, he_message = [], he_author = [], he_timestamp = 0, he_files_changed = []\<rparr>) w,
          None), w))\<rparr>"

definition sample_env :: "mem_commit list store_env" where
  "sample_env =
     \<lparr>en_git = mem_repo, en_deps = \<lparr>dep_sealer = None, dep_applier = None, dep_auditor = None\<rparr>,
      en_lib = sample_lib, en_now = (\<lambda>w. (1, w))\<rparr>"

definition sample_path :: string where
  "sample_path = service_path ''o'' ''p'' ''s'' @ ''/config.yaml''"

lemma classify_sample_path: "classify_path sample_path = Some (service_key ''o'' ''p'' ''s'', ''config'')"
  unfolding sample_path_def using classify_service_path [of "''o''" "''p''" "''s''" "''config.yaml''"]
  by (simp add: split_on_no_sep file_type_of_def)

lemma sample_parse_config: "parse_config sample_lib raw = Inr (sample_config raw)"
  by (simp add: parse_config_def sample_lib_def validate_config_schema_def root_mapping_def
      validate_mapping_keys_def validate_metadata_schema_def child_def sample_config_def
      validate_metadata_def sample_metadata_def)

end
