(* ===== verification/StoreReload.thy ===== *)
theory StoreReload
  imports Samples
begin

text \<open>
  What a reload serves: it swaps the snapshot all or nothing, the data it installs is that of the
  files of the commit, resource versions name the commit that introduced the current payload, and the
  listings agree with the reads.
\<close>

subsection \<open>Loading the files\<close>

text \<open>The parse that a file of the repository must pass.\<close>

definition service_file_ok :: "go_lib \<Rightarrow> string \<Rightarrow> bytes \<Rightarrow> bool" where
  "service_file_ok L t raw =
     (if t = ''config'' then \<not> isl (parse_config L raw)
      else if t = ''env_vars'' then \<not> isl (parse_env_vars L raw)
      else \<not> isl (parse_secrets L raw))"

definition repo_file_ok :: "go_lib \<Rightarrow> string \<times> bytes \<Rightarrow> bool" where
  "repo_file_ok L f \<longleftrightarrow>
     (classify_defaults_path (fst f) \<noteq> None \<longrightarrow> \<not> isl (parse_defaults L (snd f))) \<and>
     (\<forall>key t. classify_path (fst f) = Some (key, t) \<longrightarrow> service_file_ok L t (snd f))"

text \<open>The last file of a service of some type, in the order of the walk.\<close>

definition file_for :: "(string \<times> bytes) list \<Rightarrow> string \<Rightarrow> string \<Rightarrow> bytes option" where
  "file_for files key t = map_option snd (find (\<lambda>f. classify_path (fst f) = Some (key, t)) (rev files))"

lemma file_for_snoc:
  "file_for (files @ [f]) key t = (if classify_path (fst f) = Some (key, t) then Some (snd f) else file_for files key t)"
  by (simp add: file_for_def)

lemma file_for_Nil [simp]: "file_for [] key t = None"
  by (simp add: file_for_def)

lemma load_files_append: "load_files L (xs @ ys) st = load_files L ys (load_files L xs st)"
proof (induction xs arbitrary: st)
  case (Cons f xs)
  obtain data di errs path raw where "st = (data, di, errs)" "f = (path, raw)" by (cases st; cases f) auto
  with Cons show ?case by (auto split: prod.split bool.split option.split)
qed simp

definition loaded :: "go_lib \<Rightarrow> (string \<times> bytes) list \<Rightarrow> (string, service_data) gomap \<times> defaults_index \<times> string list" where
  "loaded L files = load_files L files ([], new_defaults_index, [])"

lemma loaded_snoc: "loaded L (files @ [f]) = load_files L [f] (loaded L files)"
  by (simp add: loaded_def load_files_append)

lemma file_type_of_cases: "classify_path path = Some (key, t) \<Longrightarrow> t = ''config'' \<or> t = ''env_vars'' \<or> t = ''secrets''"
  by (auto simp: classify_path_parts file_type_of_def split: if_splits)

text \<open>The effect of one file on the data map.\<close>

lemma parse_and_store_result:
  assumes "classify_path path = Some (key, t)"
  shows "(fst (parse_and_store L path raw data) = None) = service_file_ok L t raw"
    and "k \<noteq> key \<Longrightarrow> mget (snd (parse_and_store L path raw data)) k = mget data k"
    and "wf_map data \<Longrightarrow> wf_map (snd (parse_and_store L path raw data))"
  using assms by (auto simp: parse_and_store_def Let_def service_file_ok_def
      dest!: file_type_of_cases split: sum.split)

lemma updated_at_fields [simp]:
  "sd_config (apply_metadata_updated_at L sd ts) = sd_config sd"
  "sd_env_vars (apply_metadata_updated_at L sd ts) = sd_env_vars sd"
  "sd_secrets (apply_metadata_updated_at L sd ts) = sd_secrets sd"
  "sd_config_digest (apply_metadata_updated_at L sd ts) = sd_config_digest sd"
  "sd_env_vars_digest (apply_metadata_updated_at L sd ts) = sd_env_vars_digest sd"
  by (auto simp: apply_metadata_updated_at_def split: option.split)

text \<open>The data of a service is that of its last files.\<close>

definition matches_files :: "go_lib \<Rightarrow> (string \<times> bytes) list \<Rightarrow> string \<Rightarrow> service_data \<Rightarrow> bool" where
  "matches_files L files key sd \<longleftrightarrow>
     sd_config sd = map_option (\<lambda>raw. projr (parse_config L raw)) (file_for files key ''config'') \<and>
     sd_env_vars sd = map_option (\<lambda>raw. projr (parse_env_vars L raw)) (file_for files key ''env_vars'') \<and>
     sd_secrets sd = map_option (\<lambda>raw. projr (parse_secrets L raw)) (file_for files key ''secrets'') \<and>
     sd_config_digest sd = (case file_for files key ''config'' of None \<Rightarrow> [] | Some raw \<Rightarrow> digest_bytes L raw) \<and>
     sd_env_vars_digest sd = (case file_for files key ''env_vars'' of None \<Rightarrow> [] | Some raw \<Rightarrow> digest_bytes L raw)"

definition has_files :: "(string \<times> bytes) list \<Rightarrow> string \<Rightarrow> bool" where
  "has_files files key \<longleftrightarrow> (\<exists>f \<in> set files. \<exists>t. classify_path (fst f) = Some (key, t))"

definition data_ok :: "go_lib \<Rightarrow> (string \<times> bytes) list \<Rightarrow> (string, service_data) gomap \<Rightarrow> bool" where
  "data_ok L files data \<longleftrightarrow> wf_map data \<and>
     (\<forall>key. case mget data key of None \<Rightarrow> \<not> has_files files key
                                | Some sd \<Rightarrow> has_files files key \<and> matches_files L files key sd)"

lemma data_okD:
  assumes "data_ok L files data"
  shows "wf_map data" and "mget data key = None \<Longrightarrow> \<not> has_files files key"
    and "mget data key = Some sd \<Longrightarrow> has_files files key \<and> matches_files L files key sd"
  using assms by (auto simp: data_ok_def dest: spec [of _ key] split: option.splits)

lemma data_ok_skip: "data_ok L files data \<Longrightarrow> classify_path (fst f) = None \<Longrightarrow> data_ok L (files @ [f]) data"
proof -
  assume d: "data_ok L files data" and c: "classify_path (fst f) = None"
  have "has_files (files @ [f]) = has_files files" using c by (auto simp: has_files_def)
  moreover have "file_for (files @ [f]) = file_for files" using c by (simp add: fun_eq_iff file_for_snoc)
  ultimately show ?thesis using d unfolding data_ok_def matches_files_def by (simp only: simp_thms)
qed

lemma matches_files_none: "\<not> has_files files key \<Longrightarrow> matches_files L files key empty_service_data"
proof -
  assume "\<not> has_files files key"
  then have "file_for files key t = None" for t by (auto simp: file_for_def has_files_def find_None_iff)
  then show ?thesis by (simp add: matches_files_def empty_service_data_def)
qed

lemma parse_and_store_data_ok:
  assumes "data_ok L files data" and "classify_path path = Some (key, t)" and "service_file_ok L t raw"
  shows "data_ok L (files @ [(path, raw)]) (snd (parse_and_store L path raw data))"
proof -
  let ?files = "files @ [(path, raw)]" and ?data = "snd (parse_and_store L path raw data)"
  have wf: "wf_map ?data" using assms(1,2) by (simp add: data_ok_def parse_and_store_result)
  have other: "case mget ?data k of None \<Rightarrow> \<not> has_files ?files k
      | Some sd \<Rightarrow> has_files ?files k \<and> matches_files L ?files k sd" if "k \<noteq> key" for k
  proof -
    have "mget ?data k = mget data k" using assms(2) that by (rule parse_and_store_result)
    moreover have "file_for ?files k t' = file_for files k t'" for t'
      using assms(2) that by (auto simp: file_for_snoc)
    moreover have "has_files ?files k = has_files files k" using assms(2) that by (auto simp: has_files_def)
    moreover have "case mget data k of None \<Rightarrow> \<not> has_files files k
      | Some sd \<Rightarrow> has_files files k \<and> matches_files L files k sd" using assms(1) by (simp add: data_ok_def)
    ultimately show ?thesis by (cases "mget data k") (simp_all add: matches_files_def)
  qed
  let ?sd = "case mget data key of Some sd \<Rightarrow> sd | None \<Rightarrow> empty_service_data"
  have old: "matches_files L files key ?sd"
  proof (cases "mget data key")
    case None
    with assms(1) have "\<not> has_files files key" by (rule data_okD)
    with None show ?thesis by (simp add: matches_files_none)
  next
    case (Some sd)
    with data_okD(3) [OF assms(1) Some] show ?thesis by simp
  qed
  have "\<exists>sd. mget ?data key = Some sd \<and> matches_files L ?files key sd"
    using file_type_of_cases [OF assms(2)] assms(2,3) old
    by (elim disjE)
      (auto simp: parse_and_store_def Let_def service_file_ok_def matches_files_def file_for_snoc
        split: sum.splits)
  moreover have "has_files ?files key" using assms(2) by (auto simp: has_files_def)
  ultimately have this_key: "case mget ?data key of None \<Rightarrow> \<not> has_files ?files key
      | Some sd \<Rightarrow> has_files ?files key \<and> matches_files L ?files key sd" by auto
  show ?thesis unfolding data_ok_def
  proof (intro conjI allI)
    fix k
    show "case mget ?data k of None \<Rightarrow> \<not> has_files ?files k
      | Some sd \<Rightarrow> has_files ?files k \<and> matches_files L ?files k sd"
      using other this_key by (cases "k = key") (simp_all only:)
  qed (rule wf)
qed

lemma loaded_step:
  "loaded L (files @ [f]) =
     (let (data, di, errs) = loaded L files;
          d = parse_and_store_defaults L (fst f) (snd f) di;
          p = parse_and_store L (fst f) (snd f) data
      in if fst (fst d) then
           (data, snd d, case snd (fst d) of None \<Rightarrow> errs | Some e \<Rightarrow> errs @ [fst f @ '': '' @ err_msg e])
         else (snd p, snd d, case fst p of None \<Rightarrow> errs | Some e \<Rightarrow> errs @ [fst f @ '': '' @ err_msg e]))"
proof -
  obtain data di errs where l: "loaded L files = (data, di, errs)" by (cases "loaded L files") auto
  obtain path raw where f: "f = (path, raw)" by (cases f)
  show ?thesis unfolding loaded_snoc l f
    by (auto simp: Let_def split: prod.split bool.split option.split)
qed

lemma parse_and_store_defaults_result:
  "fst (fst (parse_and_store_defaults L path raw di)) = (classify_defaults_path path \<noteq> None)"
  "(snd (fst (parse_and_store_defaults L path raw di)) = None) =
     (classify_defaults_path path \<noteq> None \<longrightarrow> \<not> isl (parse_defaults L raw))"
  by (auto simp: parse_and_store_defaults_def Let_def split: option.splits sum.splits)

lemma parse_and_store_unclassified:
  "classify_path path = None \<Longrightarrow> parse_and_store L path raw data = (None, data)"
  by (simp add: parse_and_store_def)

text \<open>The errors are those of the files that do not parse; without errors the data is that of the files.\<close>

lemma loaded_ok:
  "(snd (snd (loaded L files)) = [] \<longleftrightarrow> (\<forall>f \<in> set files. repo_file_ok L f)) \<and>
   (snd (snd (loaded L files)) = [] \<longrightarrow> data_ok L files (fst (loaded L files)))"
proof (induction files rule: rev_induct)
  case Nil
  show ?case by (simp add: loaded_def data_ok_def has_files_def)
next
  case (snoc f files)
  obtain data di errs where l: "loaded L files = (data, di, errs)" by (cases "loaded L files") auto
  note step = loaded_step [of L files f, unfolded l Let_def prod.case]
  note IH = snoc.IH [unfolded l, simplified]
  show ?case
  proof (cases "classify_path (fst f)")
    case None
    note data_ok_skip [OF _ None, of L files data]
    with IH None show ?thesis
      by (auto simp: step parse_and_store_defaults_result parse_and_store_unclassified repo_file_ok_def
          split: option.split)
         (metis option.distinct(1) parse_and_store_defaults_result(2))+
  next
    case (Some kt)
    obtain key t where kt: "classify_path (fst f) = Some (key, t)" using Some by (cases kt) auto
    have nd: "classify_defaults_path (fst f) = None" using kt by (intro service_path_no_defaults) simp
    have ok: "data_ok L (files @ [f]) (snd (parse_and_store L (fst f) (snd f) data))"
      if "data_ok L files data" "service_file_ok L t (snd f)"
      using parse_and_store_data_ok [OF that(1) kt that(2)] by simp
    have r: "repo_file_ok L f \<longleftrightarrow> service_file_ok L t (snd f)" by (simp add: repo_file_ok_def nd kt)
    have e: "(fst (parse_and_store L (fst f) (snd f) data) = None) = service_file_ok L t (snd f)"
      by (rule parse_and_store_result(1) [OF kt])
    show ?thesis
    proof (cases "service_file_ok L t (snd f)")
      case True
      with e have "fst (parse_and_store L (fst f) (snd f) data) = None" by simp
      with IH ok True r show ?thesis by (simp add: step parse_and_store_defaults_result nd)
    next
      case False
      with e obtain e' where "fst (parse_and_store L (fst f) (snd f) data) = Some e'" by auto
      with False r show ?thesis by (simp add: step parse_and_store_defaults_result nd)
    qed
  qed
qed

subsection \<open>Reload\<close>

text \<open>The data a reload installs.\<close>

definition served_data :: "go_lib \<Rightarrow> store \<Rightarrow> (string \<times> bytes) list \<Rightarrow> gotime \<Rightarrow> string \<Rightarrow> (string, service_data) gomap" where
  "served_data L s files now hash =
     apply_resource_versions s
       (apply_defaults_inheritance (fallback_updated_at now (fst (loaded L files))) (fst (snd (loaded L files)))) hash"

lemma reload_ok:
  assumes "gr_snapshot (en_git E) w = (Inr (hash, files), w1)" and "\<forall>f \<in> set files. repo_file_ok (en_lib E) f"
  obtains now w2 at w3 where "en_now E w1 = (now, w2)" and "en_now E w2 = (at, w3)"
    and "reload_unlocked E s w =
      (None, s\<lparr>st_snapshot := new_snapshot (served_data (en_lib E) s files now hash) hash,
              st_last_reload := Some \<lparr>rl_at = at, rl_err = None\<rparr>,
              st_watch_gen := (if hash \<noteq> head_version s then Suc (st_watch_gen s) else st_watch_gen s)\<rparr>, w3)"
proof -
  obtain data di where l: "loaded (en_lib E) files = (data, di, [])"
    using assms(2) loaded_ok [of "en_lib E" files] by (cases "loaded (en_lib E) files") auto
  obtain now w2 where 1: "en_now E w1 = (now, w2)" by (cases "en_now E w1")
  obtain at w3 where 2: "en_now E w2 = (at, w3)" by (cases "en_now E w2")
  have "reload_unlocked E s w =
      (None, s\<lparr>st_snapshot := new_snapshot (served_data (en_lib E) s files now hash) hash,
              st_last_reload := Some \<lparr>rl_at = at, rl_err = None\<rparr>,
              st_watch_gen := (if hash \<noteq> head_version s then Suc (st_watch_gen s) else st_watch_gen s)\<rparr>, w3)"
    using assms(1) l 1 2
    by (simp add: reload_unlocked_def loaded_def served_data_def Let_def notify_version_change_def)
  with 1 2 show ?thesis by (rule that)
qed

lemma reload_bad_file:
  assumes "gr_snapshot (en_git E) w = (Inr (hash, files), w1)" and "\<not> (\<forall>f \<in> set files. repo_file_ok (en_lib E) f)"
  shows "\<exists>e at w2. reload_unlocked E s w = (Some e, s\<lparr>st_last_reload := Some \<lparr>rl_at = at, rl_err = Some e\<rparr>\<rparr>, w2)"
proof -
  obtain data di err errs where l: "loaded (en_lib E) files = (data, di, err # errs)"
    using assms(2) loaded_ok [of "en_lib E" files] by (cases "loaded (en_lib E) files"; cases "snd (snd (loaded (en_lib E) files))") auto
  obtain now w2 where 1: "en_now E w1 = (now, w2)" by (cases "en_now E w1")
  show ?thesis using assms(1) l 1
    by (simp add: reload_unlocked_def loaded_def Let_def) (rule exI, rule refl)
qed

lemma reload_snapshot_error:
  assumes "gr_snapshot (en_git E) w = (Inl e, w1)"
  shows "\<exists>e at w2. reload_unlocked E s w = (Some e, s\<lparr>st_last_reload := Some \<lparr>rl_at = at, rl_err = Some e\<rparr>\<rparr>, w2)"
  using assms by (cases "en_now E w1") (simp add: reload_unlocked_def Let_def, rule exI, rule refl)

text \<open>A reload either swaps the snapshot or leaves everything but the outcome as it was.\<close>

lemma reload_cases:
  obtains (ok) hash files w1 now at w2 where "gr_snapshot (en_git E) w = (Inr (hash, files), w1)"
      and "\<forall>f \<in> set files. repo_file_ok (en_lib E) f"
      and "reload_unlocked E s w =
        (None, s\<lparr>st_snapshot := new_snapshot (served_data (en_lib E) s files now hash) hash,
                st_last_reload := Some \<lparr>rl_at = at, rl_err = None\<rparr>,
                st_watch_gen := (if hash \<noteq> head_version s then Suc (st_watch_gen s) else st_watch_gen s)\<rparr>, w2)"
  | (failed) e at w2 where "\<not> (\<exists>hash files w1. gr_snapshot (en_git E) w = (Inr (hash, files), w1) \<and>
        (\<forall>f \<in> set files. repo_file_ok (en_lib E) f))"
      and "reload_unlocked E s w = (Some e, s\<lparr>st_last_reload := Some \<lparr>rl_at = at, rl_err = Some e\<rparr>\<rparr>, w2)"
proof (cases "gr_snapshot (en_git E) w")
  case (Pair r w1)
  show ?thesis
  proof (cases r)
    case (Inl e)
    with Pair reload_snapshot_error [of E w e w1 s] show ?thesis by (auto intro: failed)
  next
    case (Inr hf)
    obtain hash files where hf: "hf = (hash, files)" by (cases hf)
    show ?thesis
    proof (cases "\<forall>f \<in> set files. repo_file_ok (en_lib E) f")
      case True
      from Pair Inr hf have g: "gr_snapshot (en_git E) w = (Inr (hash, files), w1)" by simp
      from reload_ok [OF g True, of s] show ?thesis by (metis ok [OF g True])
    next
      case False
      from Pair Inr hf have g: "gr_snapshot (en_git E) w = (Inr (hash, files), w1)" by simp
      from reload_bad_file [OF g False, of s] g False show ?thesis by (auto intro: failed)
    qed
  qed
qed

text \<open>C1: A reload is fail-closed and all or nothing: when the repository cannot be snapshotted or any recognised file
  does not parse it returns an error, the served snapshot and the watch generation stay exactly as they were and the
  store is marked degraded with that error; otherwise it returns no error, the head is the commit's and the store
  is not degraded.\<close>

theorem reload_all_or_nothing:
  "case reload_unlocked E s w of
     (Some e, s', w') \<Rightarrow>
       \<not> (\<exists>hash files w1. gr_snapshot (en_git E) w = (Inr (hash, files), w1) \<and> list_all (repo_file_ok (en_lib E)) files) \<and>
       st_snapshot s' = st_snapshot s \<and> st_watch_gen s' = st_watch_gen s \<and>
       is_degraded s' \<and> ss_last_reload_error (status_info s') = err_msg e
   | (None, s', w') \<Rightarrow>
       (\<exists>hash files w1. gr_snapshot (en_git E) w = (Inr (hash, files), w1) \<and> list_all (repo_file_ok (en_lib E)) files \<and>
         head_version s' = hash) \<and> \<not> is_degraded s'"
proof (cases rule: reload_cases [where E = E and s = s and w = w])
  case (ok hash files w1 now at w2)
  from ok(1,2) show ?thesis unfolding ok(3) by (simp add: head_version_def new_snapshot_def is_degraded_def list_all_iff)
next
  case (failed e at w2)
  then show ?thesis by (simp add: is_degraded_def status_info_def Let_def list_all_iff)
qed

subsection \<open>What is served\<close>

definition with_fallback :: "gotime \<Rightarrow> service_data \<Rightarrow> service_data" where
  "with_fallback now sd = (if sd_updated_at sd = 0 then sd\<lparr>sd_updated_at := now\<rparr> else sd)"

definition with_defaults_of :: "defaults_index \<Rightarrow> string \<Rightarrow> service_data \<Rightarrow> service_data" where
  "with_defaults_of di key sd =
     (case split_on slash key of
        [org, project, service] \<Rightarrow> apply_inherited_fields org project service sd di | _ \<Rightarrow> sd)"

definition with_versions :: "store \<Rightarrow> string \<Rightarrow> string \<Rightarrow> service_data \<Rightarrow> service_data" where
  "with_versions s version key sd =
     (let prev = mget (sn_data (st_snapshot s)) key in
      sd\<lparr>sd_config_rv := next_resource_version (sd_config sd \<noteq> None) (sd_config_digest sd) version prev
                                  (\<lambda>d. sd_config d \<noteq> None) sd_config_digest sd_config_rv,
         sd_env_vars_rv := next_resource_version (sd_env_vars sd \<noteq> None) (sd_env_vars_digest sd) version prev
                                  (\<lambda>d. sd_env_vars d \<noteq> None) sd_env_vars_digest sd_env_vars_rv\<rparr>)"

lemma pass_maps:
  "fallback_updated_at now data = map (\<lambda>(k, sd). (k, with_fallback now sd)) data"
  "apply_defaults_inheritance data di = map (\<lambda>(k, sd). (k, with_defaults_of di k sd)) data"
  "apply_resource_versions s data version = map (\<lambda>(k, sd). (k, with_versions s version k sd)) data"
  by (simp_all add: fallback_updated_at_def apply_defaults_inheritance_def apply_resource_versions_def
      with_fallback_def with_defaults_of_def with_versions_def Let_def split_beta)

lemma served_data_get:
  "mget (served_data L s files now hash) key =
     map_option (\<lambda>sd. with_versions s hash key (with_defaults_of (fst (snd (loaded L files))) key (with_fallback now sd)))
       (mget (fst (loaded L files)) key)"
  by (simp add: served_data_def pass_maps mget_map_values option.map_comp comp_def
      mget_map_values [where f = "\<lambda>k v. with_fallback now v"] del: map_map)

lemma served_data_keys: "mkeys (served_data L s files now hash) = mkeys (fst (loaded L files))"
  by (simp add: served_data_def pass_maps mkeys_map_values mkeys_map_values [where f = "\<lambda>k v. with_fallback now v"]
      del: map_map)

lemma pass_fields [simp]:
  "sd_config (with_versions s v k sd) = sd_config sd"
  "sd_env_vars (with_versions s v k sd) = sd_env_vars sd"
  "sd_secrets (with_versions s v k sd) = sd_secrets sd"
  "sd_config_digest (with_versions s v k sd) = sd_config_digest sd"
  "sd_env_vars_digest (with_versions s v k sd) = sd_env_vars_digest sd"
  "sd_inherited_config (with_versions s v k sd) = sd_inherited_config sd"
  "sd_inherited_env_vars (with_versions s v k sd) = sd_inherited_env_vars sd"
  "sd_config (with_defaults_of di k sd) = sd_config sd"
  "sd_env_vars (with_defaults_of di k sd) = sd_env_vars sd"
  "sd_secrets (with_defaults_of di k sd) = sd_secrets sd"
  "sd_config_digest (with_defaults_of di k sd) = sd_config_digest sd"
  "sd_env_vars_digest (with_defaults_of di k sd) = sd_env_vars_digest sd"
  "sd_config (with_fallback now sd) = sd_config sd"
  "sd_env_vars (with_fallback now sd) = sd_env_vars sd"
  "sd_secrets (with_fallback now sd) = sd_secrets sd"
  "sd_config_digest (with_fallback now sd) = sd_config_digest sd"
  "sd_env_vars_digest (with_fallback now sd) = sd_env_vars_digest sd"
  by (simp_all add: with_versions_def with_defaults_of_def with_fallback_def apply_inherited_fields_def Let_def
      split: list.split)

lemma served_service:
  assumes "gr_snapshot (en_git E) w = (Inr (hash, files), w1)" and "reload_unlocked E s w = (None, s', w')"
  shows "case get_config s' org project service of
     Inl e \<Rightarrow> e = not_found org project service \<and> \<not> has_files files (service_key org project service)
   | Inr sd \<Rightarrow> has_files files (service_key org project service) \<and>
       matches_files (en_lib E) files (service_key org project service) sd"
proof (cases rule: reload_cases [where E = E and s = s and w = w])
  case (ok hash' files' w1' now at w2)
  let ?L = "en_lib E" and ?key = "service_key org project service"
  from ok(1) assms(1) have h: "hash' = hash" "files' = files" by simp_all
  have data: "data_ok ?L files (fst (loaded ?L files))" using ok(2) loaded_ok [of ?L files] by (simp add: h)
  have s': "sn_data (st_snapshot s') = served_data ?L s files now hash"
    using ok(3) assms(2) by (simp add: h new_snapshot_def)
  show ?thesis
  proof (cases "mget (fst (loaded ?L files)) ?key")
    case None
    with data_okD(2) [OF data None] show ?thesis by (simp add: get_config_def s' served_data_get)
  next
    case (Some sd)
    with data_okD(3) [OF data Some] show ?thesis
      by (simp add: get_config_def s' served_data_get matches_files_def)
  qed
qed (use assms(2) in simp)

lemma inherited_from:
  "sd_config sd = sd_config sd' \<Longrightarrow> inherited_config_for org project service sd es = inherited_config_for org project service sd' es"
  "sd_env_vars sd = sd_env_vars sd' \<Longrightarrow> inherited_env_vars_for org project service sd es = inherited_env_vars_for org project service sd' es"
proof -
  show "inherited_config_for org project service sd es = inherited_config_for org project service sd' es"
    if e: "sd_config sd = sd_config sd'" unfolding inherited_config_for_def e ..
  show "inherited_env_vars_for org project service sd es = inherited_env_vars_for org project service sd' es"
    if e: "sd_env_vars sd = sd_env_vars sd'" unfolding inherited_env_vars_for_def e ..
qed

lemma with_defaults_inherited:
  assumes "slash \<notin> set org" and "slash \<notin> set project" and "slash \<notin> set service"
  shows "sd_inherited_config (with_defaults_of di (service_key org project service) sd) =
      inherited_config_for org project service sd (defaults_entries_for org project di)"
    and "sd_inherited_env_vars (with_defaults_of di (service_key org project service) sd) =
      inherited_env_vars_for org project service sd (defaults_entries_for org project di)"
  using split_service_key [OF assms(1,2), of service] split_on_no_sep [OF assms(3)]
  by (simp_all add: with_defaults_of_def apply_inherited_fields_def Let_def)

lemma served_inherited:
  assumes "reload_unlocked E s w = (None, s', w')" and "gr_snapshot (en_git E) w = (Inr (hash, files), w1)"
    and "slash \<notin> set org" and "slash \<notin> set project" and "slash \<notin> set service"
    and "get_config s' org project service = Inr sd"
  shows "sd_inherited_config sd =
      inherited_config_for org project service sd (defaults_entries_for org project (fst (snd (loaded (en_lib E) files)))) \<and>
    sd_inherited_env_vars sd =
      inherited_env_vars_for org project service sd (defaults_entries_for org project (fst (snd (loaded (en_lib E) files))))"
proof (cases rule: reload_cases [where E = E and s = s and w = w])
  case (ok hash' files' w1' now at w2)
  from ok(1) assms(2) have h: "hash' = hash" "files' = files" by simp_all
  let ?di = "fst (snd (loaded (en_lib E) files))" and ?key = "service_key org project service"
  from ok(3) assms(1,6) obtain sd0 where
    "sd = with_versions s hash ?key (with_defaults_of ?di ?key (with_fallback now sd0))"
    by (auto simp: h get_config_def new_snapshot_def served_data_get split: option.splits)
  then show ?thesis
    using inherited_from [of sd "with_fallback now sd0"]
    by (simp add: with_defaults_inherited [OF assms(3-5)])
qed (use assms(1) in simp)

text \<open>C2: After a successful reload the store serves exactly what the commit holds: a service is found exactly when the
  commit has a recognised file for its key; its config, env vars and secrets (and the digests that drive the resource
  versions) are the parses of its files, absent where the file is absent; and its inherited config and env vars are the
  overlay of the defaults of the same commit.\<close>

theorem reload_serves_commit:
  assumes "gr_snapshot (en_git E) w = (Inr (hash, files), w1)" and "reload_unlocked E s w = (None, s', w')"
    and "slash \<notin> set org" and "slash \<notin> set project" and "slash \<notin> set service"
  shows "case get_config s' org project service of
     Inl e \<Rightarrow> e = not_found org project service \<and> \<not> has_files files (service_key org project service)
   | Inr sd \<Rightarrow> has_files files (service_key org project service) \<and>
       matches_files (en_lib E) files (service_key org project service) sd \<and>
       sd_inherited_config sd =
         inherited_config_for org project service sd (defaults_entries_for org project (fst (snd (loaded (en_lib E) files)))) \<and>
       sd_inherited_env_vars sd =
         inherited_env_vars_for org project service sd (defaults_entries_for org project (fst (snd (loaded (en_lib E) files))))"
  using served_service [OF assms(1,2), of org project service] served_inherited [OF assms(2,1,3-5)]
  by (auto split: sum.splits)

lemma sample_file_ok: "repo_file_ok sample_lib (sample_path, raw)"
  using service_path_no_defaults [of sample_path]
  by (simp add: repo_file_ok_def classify_sample_path service_file_ok_def sample_parse_config)

lemma sample_snapshot: "gr_snapshot (en_git sample_env) [(h, fs)] = (Inr (h, fs), [(h, fs)])"
  by (simp add: sample_env_def mem_repo_def mem_head_def mem_files_def)

lemma sample_env_lib [simp]: "en_lib sample_env = sample_lib"
  by (simp add: sample_env_def)

theorem reload_serves_commit_witness:
  "\<exists>s' w' sd. reload_unlocked sample_env new_store [(''c1'', [(sample_path, ''a'')])] = (None, s', w') \<and>
     get_config s' ''o'' ''p'' ''s'' = Inr sd \<and> sd_config sd = Some (sample_config ''a'')"
proof -
  let ?files = "[(sample_path, ''a'')]" and ?key = "service_key ''o'' ''p'' ''s''"
  obtain s' w' where r: "reload_unlocked sample_env new_store [(''c1'', ?files)] = (None, s', w')"
    by (rule reload_ok [OF sample_snapshot, of ?files]) (simp_all add: sample_file_ok)
  have f: "has_files ?files ?key" "file_for ?files ?key ''config'' = Some ''a''"
    using classify_sample_path by (auto simp: has_files_def file_for_def)
  from reload_serves_commit [OF sample_snapshot r, of "''o''" "''p''" "''s''"] f(1)
  obtain sd where "get_config s' ''o'' ''p'' ''s'' = Inr sd" "matches_files sample_lib ?files ?key sd"
    by (cases "get_config s' ''o'' ''p'' ''s''") simp_all
  with r f(2) show ?thesis by (auto simp: matches_files_def sample_parse_config)
qed

subsection \<open>Resource versions\<close>

definition do_reload :: "store \<Rightarrow> 'w store_env \<times> 'w \<Rightarrow> store" where
  "do_reload s Ew = fst (snd (reload_unlocked (fst Ew) s (snd Ew)))"

definition serves_config :: "store \<Rightarrow> string \<Rightarrow> string \<Rightarrow> string \<Rightarrow> bool" where
  "serves_config s key digest rv \<longleftrightarrow>
     (\<exists>sd. mget (sn_data (st_snapshot s)) key = Some sd \<and> sd_config sd \<noteq> None \<and> sd_config_digest sd = digest \<and>
        sd_config_rv sd = rv)"

text \<open>The repository is at commit h, all of it parses, and the config of the service has the digest.\<close>

definition commit_has_config :: "'w store_env \<Rightarrow> 'w \<Rightarrow> string \<Rightarrow> string \<Rightarrow> string \<Rightarrow> bool" where
  "commit_has_config E w h key digest \<longleftrightarrow>
     (\<exists>files w1 raw. gr_snapshot (en_git E) w = (Inr (h, files), w1) \<and> (\<forall>f \<in> set files. repo_file_ok (en_lib E) f) \<and>
        file_for files key ''config'' = Some raw \<and> digest_bytes (en_lib E) raw = digest)"

text \<open>A reload that fails, or loads a commit in which the config of the service has the digest.\<close>

definition keeps_config :: "string \<Rightarrow> string \<Rightarrow> 'w store_env \<times> 'w \<Rightarrow> bool" where
  "keeps_config key digest Ew \<longleftrightarrow>
     fst (reload_unlocked (fst Ew) new_store (snd Ew)) \<noteq> None \<or>
     (\<exists>h. commit_has_config (fst Ew) (snd Ew) h key digest)"

lemma with_versions_rv:
  "sd_config_rv (with_versions s h key sd) =
     next_resource_version (sd_config sd \<noteq> None) (sd_config_digest sd) h (mget (sn_data (st_snapshot s)) key)
       (\<lambda>d. sd_config d \<noteq> None) sd_config_digest sd_config_rv"
  by (simp add: with_versions_def Let_def)

lemma loaded_config:
  assumes "commit_has_config E w h key digest"
  obtains sd now at w2 files where
    "sd_config sd \<noteq> None" and "sd_config_digest sd = digest"
    and "mget (served_data (en_lib E) s files now h) key = Some (with_versions s h key sd)"
    and "reload_unlocked E s w =
      (None, s\<lparr>st_snapshot := new_snapshot (served_data (en_lib E) s files now h) h,
              st_last_reload := Some \<lparr>rl_at = at, rl_err = None\<rparr>,
              st_watch_gen := (if h \<noteq> head_version s then Suc (st_watch_gen s) else st_watch_gen s)\<rparr>, w2)"
proof -
  let ?L = "en_lib E"
  from assms obtain files w1 raw where g: "gr_snapshot (en_git E) w = (Inr (h, files), w1)"
    and ok: "\<forall>f \<in> set files. repo_file_ok ?L f" and f: "file_for files key ''config'' = Some raw" "digest_bytes ?L raw = digest"
    by (auto simp: commit_has_config_def)
  from reload_ok [OF g ok, of s] obtain now at w2 where r: "reload_unlocked E s w =
      (None, s\<lparr>st_snapshot := new_snapshot (served_data ?L s files now h) h,
              st_last_reload := Some \<lparr>rl_at = at, rl_err = None\<rparr>,
              st_watch_gen := (if h \<noteq> head_version s then Suc (st_watch_gen s) else st_watch_gen s)\<rparr>, w2)" by metis
  have data: "data_ok ?L files (fst (loaded ?L files))" using ok loaded_ok [of ?L files] by simp
  have "has_files files key" using f(1) by (auto simp: file_for_def has_files_def dest!: find_Some_in)
  with data_okD(2) [OF data] obtain sd where sd: "mget (fst (loaded ?L files)) key = Some sd" by blast
  with data_okD(3) [OF data sd] f have "sd_config sd \<noteq> None" "sd_config_digest sd = digest"
    by (simp_all add: matches_files_def)
  then show ?thesis by (intro that [OF _ _ _ r]) (simp_all add: served_data_get sd)
qed

lemma reload_new_rv:
  assumes "commit_has_config E w h key digest" and "\<And>rv. \<not> serves_config s key digest rv"
  shows "serves_config (do_reload s (E, w)) key digest h"
proof -
  from assms(1) obtain sd now at w2 files where sd: "sd_config sd \<noteq> None" "sd_config_digest sd = digest"
    and m: "mget (served_data (en_lib E) s files now h) key = Some (with_versions s h key sd)"
    and r: "reload_unlocked E s w =
      (None, s\<lparr>st_snapshot := new_snapshot (served_data (en_lib E) s files now h) h,
              st_last_reload := Some \<lparr>rl_at = at, rl_err = None\<rparr>,
              st_watch_gen := (if h \<noteq> head_version s then Suc (st_watch_gen s) else st_watch_gen s)\<rparr>, w2)"
    by (rule loaded_config [where s = s])
  have "sd_config_rv (with_versions s h key sd) = h"
  proof (cases "mget (sn_data (st_snapshot s)) key")
    case (Some p)
    with assms(2) [of "sd_config_rv p"] have "\<not> (sd_config p \<noteq> None \<and> digest = sd_config_digest p)"
      by (auto simp: serves_config_def)
    with Some sd show ?thesis unfolding with_versions_rv next_resource_version_def by auto
  qed (simp add: with_versions_rv next_resource_version_def)
  with m sd show ?thesis by (simp add: serves_config_def do_reload_def r new_snapshot_def)
qed

lemma reload_keeps_rv:
  assumes "serves_config s key digest rv" and "digest \<noteq> []" and "rv \<noteq> []" and "keeps_config key digest (E, w)"
  shows "serves_config (do_reload s (E, w)) key digest rv"
proof (cases "\<exists>h. commit_has_config E w h key digest")
  case True
  then obtain h where "commit_has_config E w h key digest" ..
  then obtain sd now at w2 files where sd: "sd_config sd \<noteq> None" "sd_config_digest sd = digest"
    and m: "mget (served_data (en_lib E) s files now h) key = Some (with_versions s h key sd)"
    and r: "reload_unlocked E s w =
      (None, s\<lparr>st_snapshot := new_snapshot (served_data (en_lib E) s files now h) h,
              st_last_reload := Some \<lparr>rl_at = at, rl_err = None\<rparr>,
              st_watch_gen := (if h \<noteq> head_version s then Suc (st_watch_gen s) else st_watch_gen s)\<rparr>, w2)"
    by (rule loaded_config [where s = s])
  have "sd_config_rv (with_versions s h key sd) = rv"
    using assms(1-3) sd unfolding with_versions_rv next_resource_version_def by (auto simp: serves_config_def)
  with m sd show ?thesis by (simp add: serves_config_def do_reload_def r new_snapshot_def)
next
  case False
  with assms(4) have "fst (reload_unlocked E new_store w) \<noteq> None" by (simp add: keeps_config_def)
  then have "\<not> (\<exists>hash files w1. gr_snapshot (en_git E) w = (Inr (hash, files), w1) \<and>
      (\<forall>f \<in> set files. repo_file_ok (en_lib E) f))"
    by (cases rule: reload_cases [where E = E and s = new_store and w = w]) auto
  then have "st_snapshot (do_reload s (E, w)) = st_snapshot s"
    by (cases rule: reload_cases [where E = E and s = s and w = w]) (auto simp: do_reload_def)
  with assms(1) show ?thesis by (simp add: serves_config_def)
qed

lemma reloads_keep_rv:
  "serves_config s key digest rv \<Longrightarrow> digest \<noteq> [] \<Longrightarrow> rv \<noteq> [] \<Longrightarrow> list_all (keeps_config key digest) later \<Longrightarrow>
   serves_config (foldl do_reload s later) key digest rv"
  by (induction later arbitrary: s) (auto simp: reload_keeps_rv)

text \<open>C9: A service's config resource version names the commit that introduced the config it serves: if a reload brings
  the commit h with a config whose digest the store did not serve for that service before, and every later reload
  fails or loads a commit with the same config, then the resource version stays h, however many other commits (env var
  changes, other services) were loaded in between.\<close>

theorem resource_version_names_introducing_commit:
  assumes "\<And>rv. \<not> serves_config (foldl do_reload s earlier) key digest rv"
    and "commit_has_config E w h key digest" and "digest \<noteq> []" and "h \<noteq> []"
    and "list_all (keeps_config key digest) later"
  shows "serves_config (foldl do_reload s (earlier @ (E, w) # later)) key digest h"
  using reloads_keep_rv [OF reload_new_rv [OF assms(2,1)] assms(3,4,5)] by simp

lemma sample_digest: "digest_bytes sample_lib raw = ''x'' @ raw"
  by (simp add: digest_bytes_def sample_lib_def)

lemma sample_has_config:
  "commit_has_config sample_env [(h, [(sample_path, raw)])] h (service_key ''o'' ''p'' ''s'') (''x'' @ raw)"
  unfolding commit_has_config_def
  by (intro exI conjI, rule sample_snapshot)
    (simp_all add: sample_file_ok file_for_def classify_sample_path sample_digest)

theorem resource_version_names_introducing_commit_witness:
  "serves_config (foldl do_reload new_store
      ([] @ (sample_env, [(''c1'', [(sample_path, ''a'')])]) # [(sample_env, [(''c2'', [(sample_path, ''a'')])])]))
     (service_key ''o'' ''p'' ''s'') ''xa'' ''c1''"
proof (rule resource_version_names_introducing_commit)
  show "commit_has_config sample_env [(''c1'', [(sample_path, ''a'')])] ''c1'' (service_key ''o'' ''p'' ''s'') ''xa''"
    using sample_has_config [of "''c1''" "''a''"] by simp
  show "list_all (keeps_config (service_key ''o'' ''p'' ''s'') ''xa'') [(sample_env, [(''c2'', [(sample_path, ''a'')])])]"
    using sample_has_config [of "''c2''" "''a''"] by (auto simp: keeps_config_def)
qed (simp_all add: serves_config_def new_store_def new_snapshot_def)

subsection \<open>Listings\<close>

text \<open>Every key of a snapshot is the key of three slash-free names.\<close>

definition keys_ok :: "(string, service_data) gomap \<Rightarrow> bool" where
  "keys_ok data \<longleftrightarrow> wf_map data \<and>
     (\<forall>key \<in> fst ` set data. \<exists>a b c. key = service_key a b c \<and> slash \<notin> set a \<and> slash \<notin> set b \<and> slash \<notin> set c)"

lemma has_files_key: "has_files files key \<Longrightarrow> \<exists>a b c. key = service_key a b c \<and> slash \<notin> set a \<and> slash \<notin> set b \<and> slash \<notin> set c"
proof -
  assume "has_files files key"
  then obtain f t where "classify_path (fst f) = Some (key, t)" by (auto simp: has_files_def)
  then obtain rest a c e g rs where sp: "split_on slash rest = [a, ''projects'', c, ''services'', e, g] @ rs"
    and key: "key = service_key a c e" unfolding classify_path_parts by blast
  have "slash \<notin> set x" if "x \<in> set (split_on slash rest)" for x using that by (rule split_on_parts)
  with sp key show ?thesis by (intro exI [of _ a] exI [of _ c] exI [of _ e]) simp
qed

lemma reload_keys_ok:
  assumes "reload_unlocked E s w = (None, s', w')"
  shows "keys_ok (sn_data (st_snapshot s'))"
proof (cases rule: reload_cases [where E = E and s = s and w = w])
  case (ok hash files w1 now at w2)
  let ?data = "fst (loaded (en_lib E) files)"
  have data: "data_ok (en_lib E) files ?data" using ok(2) loaded_ok [of "en_lib E" files] by simp
  have "sn_data (st_snapshot s') = served_data (en_lib E) s files now hash"
    using ok(3) assms by (simp add: new_snapshot_def)
  then have keys: "mkeys (sn_data (st_snapshot s')) = mkeys ?data" by (simp add: served_data_keys)
  have "has_files files key" if "key \<in> fst ` set ?data" for key
    using that data_okD(3) [OF data] unfolding in_mkeys_mget by blast
  moreover have "fst ` set (sn_data (st_snapshot s')) = fst ` set ?data" using keys by (metis set_map)
  ultimately show ?thesis unfolding keys_ok_def using keys data_okD(1) [OF data] has_files_key by metis
qed (use assms in simp)

lemma set_keys_of [simp]: "set (keys_of xs) = set xs"
proof -
  have "fst ` set (fold (\<lambda>k. mput k ()) xs m) = set xs \<union> fst ` set m" for m :: "(string, unit) gomap"
    by (induction xs arbitrary: m) auto
  then show ?thesis by (simp add: keys_of_def)
qed

lemma sorted_keys_of: "sorted (keys_of xs) \<and> distinct (keys_of xs)"
proof -
  have "wf_map (fold (\<lambda>k. mput k ()) xs m)" if "wf_map m" for m :: "(string, unit) gomap"
    using that by (induction xs arbitrary: m) auto
  then show ?thesis by (simp add: keys_of_def)
qed

lemma get_config_found: "(\<exists>d. get_config s a b c = Inr d) \<longleftrightarrow> service_key a b c \<in> fst ` set (sn_data (st_snapshot s))"
  unfolding get_config_def in_mkeys_mget by (auto split: option.split)

lemma service_key_hd: "slash \<notin> set a \<Longrightarrow> hd (split_on slash (service_key a b c)) = a"
  by (simp add: service_key_def split_on_append_sep)

lemma service_key_prefix:
  assumes "slash \<notin> set a" and "slash \<notin> set org"
  shows "has_prefix (service_key a b c) (org @ ''/'') \<longleftrightarrow> a = org"
  using append_sep_inj [OF assms, of "b @ slash # c"] by (auto simp: has_prefix_iff service_key_def)

lemma service_key_prefix2:
  assumes "slash \<notin> set a" and "slash \<notin> set org" and "slash \<notin> set b" and "slash \<notin> set project"
  shows "has_prefix (service_key a b c) (org @ ''/'' @ project @ ''/'') \<longleftrightarrow> a = org \<and> b = project"
proof -
  have "has_prefix (service_key a b c) (org @ ''/'' @ project @ ''/'') \<longleftrightarrow>
      (\<exists>r. a @ slash # (b @ slash # c) = org @ slash # (project @ slash # r))"
    by (simp add: has_prefix_iff service_key_def)
  also have "\<dots> \<longleftrightarrow> (\<exists>r. a = org \<and> b = project \<and> c = r)"
    by (simp only: append_sep_inj [OF assms(1,2)] append_sep_inj [OF assms(3,4)])
  finally show ?thesis by simp
qed

lemma keys_okD:
  "keys_ok data \<Longrightarrow> key \<in> fst ` set data \<Longrightarrow>
   \<exists>a b c. key = service_key a b c \<and> slash \<notin> set a \<and> slash \<notin> set b \<and> slash \<notin> set c"
  unfolding keys_ok_def by blast

lemma list_orgs_iff:
  assumes "keys_ok (sn_data (st_snapshot s))"
  shows "x \<in> set (list_orgs s) \<longleftrightarrow> slash \<notin> set x \<and> (\<exists>b c d. slash \<notin> set b \<and> get_config s x b c = Inr d)" (is "?L \<longleftrightarrow> ?R")
proof
  assume ?L
  then obtain key where "key \<in> fst ` set (sn_data (st_snapshot s))" "x = hd (split_on slash key)"
    by (auto simp: list_orgs_def)
  moreover from keys_okD [OF assms this(1)] obtain a b c
    where k: "key = service_key a b c" "slash \<notin> set a" "slash \<notin> set b" by blast
  ultimately have "x = a" "\<exists>d. get_config s a b c = Inr d" using get_config_found [of s a b c] by (simp_all add: service_key_hd)
  with k show ?R by blast
next
  assume ?R
  then obtain b c where x: "slash \<notin> set x" and k: "service_key x b c \<in> fst ` set (sn_data (st_snapshot s))"
    using get_config_found [of s] by blast
  from k have "hd (split_on slash (service_key x b c)) \<in> set (list_orgs s)"
    unfolding list_orgs_def set_keys_of set_map by (rule imageI)
  with x show ?L by (simp add: service_key_hd)
qed

lemma list_projects_iff:
  assumes "keys_ok (sn_data (st_snapshot s))" and "slash \<notin> set org"
  shows "x \<in> set (list_projects s org) \<longleftrightarrow> slash \<notin> set x \<and> (\<exists>c d. get_config s org x c = Inr d)" (is "?L \<longleftrightarrow> ?R")
proof -
  have rest: "hd (split_on slash (drop (length (org @ ''/'')) (service_key org b c))) = b" if "slash \<notin> set b" for b c
    using that by (simp add: service_key_def split_on_append_sep)
  show ?thesis
  proof
    assume ?L
    then obtain key where key: "key \<in> fst ` set (sn_data (st_snapshot s))" "has_prefix key (org @ ''/'')"
      and x: "x = hd (split_on slash (drop (length (org @ ''/'')) key))"
      unfolding list_projects_def set_keys_of set_map set_filter by blast
    from keys_okD [OF assms(1) key(1)] obtain a b c where k: "key = service_key a b c" "slash \<notin> set a" "slash \<notin> set b" by blast
    then have "a = org" using service_key_prefix [OF k(2) assms(2), of b c] key(2) by simp
    with k x rest key(1) get_config_found [of s org b c] show ?R by auto
  next
    assume ?R
    then obtain c where x: "slash \<notin> set x" and k: "service_key org x c \<in> fst ` set (sn_data (st_snapshot s))"
      using get_config_found [of s] by blast
    have "has_prefix (service_key org x c) (org @ ''/'')" by (simp only: service_key_prefix [OF assms(2,2)])
    with k have "hd (split_on slash (drop (length (org @ ''/'')) (service_key org x c))) \<in> set (list_projects s org)"
      unfolding list_projects_def set_keys_of set_map set_filter by (intro imageI CollectI conjI)
    then show ?L unfolding rest [OF x] .
  qed
qed

definition info_of :: "string \<Rightarrow> service_data \<Rightarrow> service_info" where
  "info_of name d =
     \<lparr>si_name = name, si_has_config = sd_config d \<noteq> None, si_has_env_vars = sd_env_vars d \<noteq> None,
      si_has_secrets = sd_secrets d \<noteq> None, si_updated_at = sd_updated_at d\<rparr>"

lemma list_services_iff:
  assumes "keys_ok (sn_data (st_snapshot s))" and "slash \<notin> set org" and "slash \<notin> set project"
  shows "i \<in> set (list_services s org project) \<longleftrightarrow>
    (\<exists>d. get_config s org project (si_name i) = Inr d \<and> i = info_of (si_name i) d)" (is "?L \<longleftrightarrow> ?R")
proof -
  let ?data = "sn_data (st_snapshot s)" and ?pre = "org @ ''/'' @ project @ ''/''"
  have wf: "wf_map ?data" using assms(1) by (simp add: keys_ok_def)
  have rest: "drop (length ?pre) (service_key org project c) = c" for c by (simp add: service_key_def)
  have svc: "set (list_services s org project) =
      (\<lambda>(key, d). info_of (drop (length ?pre) key) d) ` {p \<in> set ?data. has_prefix (fst p) ?pre}"
    by (simp add: list_services_def info_of_def Let_def)
  show ?thesis
  proof
    assume ?L
    then obtain key d where kd: "(key, d) \<in> set ?data" "has_prefix key ?pre" "i = info_of (drop (length ?pre) key) d"
      unfolding svc by auto
    from kd(1) have "key \<in> fst ` set ?data" by force
    from keys_okD [OF assms(1) this] obtain a b c where k: "key = service_key a b c" "slash \<notin> set a" "slash \<notin> set b" by blast
    then have "a = org \<and> b = project"
      using service_key_prefix2 [OF k(2) assms(2) k(3) assms(3), of c] kd(2) by simp
    with k(1) kd(1,3) have "i = info_of (drop (length ?pre) (service_key org project c)) d"
      and "mget ?data (service_key org project c) = Some d" using mget_iff [OF wf] by blast+
    then have "i = info_of c d" "mget ?data (service_key org project c) = Some d" unfolding rest by blast+
    then show ?R by (simp add: get_config_def info_of_def)
  next
    assume ?R
    then obtain d where d: "mget ?data (service_key org project (si_name i)) = Some d" "i = info_of (si_name i) d"
      by (auto simp: get_config_def split: option.splits)
    have "has_prefix (service_key org project (si_name i)) ?pre"
      by (simp only: service_key_prefix2 [OF assms(2,2,3,3)])
    with mget_Some_in [OF d(1)] have "info_of (drop (length ?pre) (service_key org project (si_name i))) d
        \<in> set (list_services s org project)"
      unfolding svc by (intro image_eqI [where x = "(service_key org project (si_name i), d)"]) simp_all
    with d(2) show ?L unfolding rest by argo
  qed
qed

text \<open>The listings agree with the reads: on a snapshot whose keys are those of slash-free names, which is what every
  successful reload installs, an org is listed exactly when some service of it can be read, a project exactly when some
  service of it in that org can be read, and a service exactly when it can be read, with the presence flags of what is
  read; each listing is sorted.\<close>

theorem listings_agree_with_reads:
  assumes "keys_ok (sn_data (st_snapshot s))" and "slash \<notin> set org" and "slash \<notin> set project"
  shows "(x \<in> set (list_orgs s) \<longleftrightarrow> slash \<notin> set x \<and> (\<exists>b c d. slash \<notin> set b \<and> get_config s x b c = Inr d)) \<and>
    (x \<in> set (list_projects s org) \<longleftrightarrow> slash \<notin> set x \<and> (\<exists>c d. get_config s org x c = Inr d)) \<and>
    (i \<in> set (list_services s org project) \<longleftrightarrow>
       (\<exists>d. get_config s org project (si_name i) = Inr d \<and> i = info_of (si_name i) d)) \<and>
    sorted (list_orgs s) \<and> sorted (list_projects s org) \<and> sorted (map si_name (list_services s org project))"
  using list_orgs_iff [OF assms(1)] list_projects_iff [OF assms(1,2)] list_services_iff [OF assms] sorted_keys_of
  by (simp add: list_orgs_def list_projects_def list_services_def Let_def)

definition sample_snapshot_store :: store where
  "sample_snapshot_store =
     new_store\<lparr>st_snapshot := new_snapshot [(service_key ''o'' ''p'' ''s'', empty_service_data)] ''c1''\<rparr>"

theorem listings_agree_with_reads_witness: "''p'' \<in> set (list_projects sample_snapshot_store ''o'')"
proof -
  have "keys_ok (sn_data (st_snapshot sample_snapshot_store))"
    by (simp add: sample_snapshot_store_def new_snapshot_def keys_ok_def)
      (intro exI [of _ "''o''"] exI [of _ "''p''"] exI [of _ "''s''"], simp)
  from listings_agree_with_reads [OF this, of "''o''" "''p''" "''p''"]
  have "''p'' \<in> set (list_projects sample_snapshot_store ''o'') \<longleftrightarrow>
      (\<exists>c d. get_config sample_snapshot_store ''o'' ''p'' c = Inr d)" by simp
  moreover have "get_config sample_snapshot_store ''o'' ''p'' ''s'' = Inr empty_service_data"
    by (simp add: get_config_def sample_snapshot_store_def new_snapshot_def)
  ultimately show ?thesis by blast
qed

end
