(* ===== verification/Changes.thy ===== *)
theory Changes
  imports StoreReload
begin

text \<open>
  The admin writes of the store (internal/store/store.go): \<open>ApplyChanges\<close> with its commit builder,
  its audit event and the destruction of the plaintext, and \<open>DeleteChanges\<close>. A write returns its
  result, the secret values of the request as they are afterwards, the store and the outside world.
\<close>

subsection \<open>Requests and results\<close>

record change_request =
  cr_org :: string
  cr_project :: string
  cr_service :: string
  cr_config :: "cmap option"
  cr_env_vars :: "env_vars option"
  cr_secrets :: secret_writes
  cr_message :: string

record change_result =
  ch_version :: string
  ch_updated_at :: gotime
  ch_files :: "string list"
  ch_apply_failed :: bool
  ch_apply_error :: string
  ch_reload_failed :: bool
  ch_reload_error :: string

record delete_result =
  dr_version :: string
  dr_updated_at :: gotime
  dr_deleted_files :: "string list"
  dr_reload_failed :: bool
  dr_reload_error :: string

subsection \<open>ApplyChanges\<close>

definition check_service_names :: "string \<Rightarrow> string \<Rightarrow> string \<Rightarrow> goerr option" where
  "check_service_names org project service =
     or_err (if org = [] \<or> project = [] \<or> service = []
             then Some (app_new CodeValidation ''org, project and service are required'') else None)
       (or_err (validate_name ''org'' org)
         (or_err (validate_name ''project'' project) (validate_name ''service'' service)))"

definition secret_write_audit_result :: "change_result \<Rightarrow> string" where
  "secret_write_audit_result r =
     (if ch_apply_failed r \<and> ch_reload_failed r then ''apply_and_reload_failed''
      else if ch_apply_failed r then ''apply_failed''
      else if ch_reload_failed r then ''reload_failed''
      else ''success'')"

definition record_secret_audit :: "'w store_env \<Rightarrow> audit_event \<Rightarrow> 'w \<Rightarrow> 'w" where
  "record_secret_audit E event w =
     (let (event, w) = (if ae_at event = 0 then (let (now, w) = en_now E w in (event\<lparr>ae_at := now\<rparr>, w))
                        else (event, w))
      in case dep_auditor (en_deps E) of None \<Rightarrow> w | Some audit \<Rightarrow> snd (audit event w))"

definition read_existing_secrets :: "go_lib \<Rightarrow> file_reader \<Rightarrow> string \<Rightarrow> goerr + secrets_config option" where
  "read_existing_secrets L reader path =
     (case reader path of
        Inl e \<Rightarrow> if err_is OsErrNotExist e then Inr None
                 else Inl (app_wrap CodeInternal ''read existing secrets.yaml'' e)
      | Inr raw \<Rightarrow>
          (case parse_secrets L raw of
             Inl e \<Rightarrow> Inl (app_wrap CodeValidation ''parse existing secrets.yaml'' e)
           | Inr sec \<Rightarrow> Inr (Some sec)))"

definition change_metadata :: "'w store_env \<Rightarrow> change_request \<Rightarrow> gotime \<Rightarrow> service_metadata" where
  "change_metadata E req now =
     \<lparr>md_service = cr_service req, md_org = cr_org req, md_project = cr_project req,
      md_updated_at = format_rfc3339 (en_lib E) now\<rparr>"

text \<open>The config.yaml and env_vars.yaml of the request: the files by path, and their service-relative names.\<close>

definition config_file ::
  "'w store_env \<Rightarrow> change_request \<Rightarrow> gotime \<Rightarrow> goerr + ((string, bytes) gomap \<times> string list)" where
  "config_file E req now =
     (case cr_config req of
        None \<Rightarrow> Inr ([], [])
      | Some m \<Rightarrow>
          (case enc_config (en_lib E) \<lparr>sc_version = ''1'', sc_metadata = change_metadata E req now, sc_config = Some m\<rparr> of
             Inl e \<Rightarrow> Inl (app_wrap CodeInternal ''marshal config.yaml'' e)
           | Inr data \<Rightarrow>
               Inr ([(path_join [service_path (cr_org req) (cr_project req) (cr_service req), ''config.yaml''], data)],
                    [''config.yaml''])))"

definition base_files ::
  "'w store_env \<Rightarrow> change_request \<Rightarrow> gotime \<Rightarrow> goerr + ((string, bytes) gomap \<times> string list)" where
  "base_files E req now =
     ebind (config_file E req now) (\<lambda>(files, written).
       case cr_env_vars req of
         None \<Rightarrow> Inr (files, written)
       | Some ev \<Rightarrow>
           (case enc_env_vars (en_lib E) \<lparr>ec_version = ''1'', ec_metadata = change_metadata E req now, ec_env = ev\<rparr> of
              Inl e \<Rightarrow> Inl (app_wrap CodeInternal ''marshal env_vars.yaml'' e)
            | Inr data \<Rightarrow>
                Inr (mput (path_join [service_path (cr_org req) (cr_project req) (cr_service req), ''env_vars.yaml'']) data files,
                     written @ [''env_vars.yaml''])))"

fun manifest_files ::
  "string \<Rightarrow> sealed_manifest list \<Rightarrow> (string, bytes) gomap \<times> string list \<Rightarrow>
   goerr + ((string, bytes) gomap \<times> string list)" where
  "manifest_files svc_path [] st = Inr st"
| "manifest_files svc_path (m # ms) (files, written) =
     (case service_relative_path svc_path (sm_path m) of
        None \<Rightarrow> Inl (app_new CodeInternal (''sealed manifest path '' @ quote (sm_path m) @ '' is outside service path''))
      | Some rel \<Rightarrow> manifest_files svc_path ms (mput (sm_path m) (sm_yaml m) files, written @ [rel]))"

text \<open>The builder that \<open>CommitAndPushFunc\<close> calls on the pulled work tree, once per attempt.\<close>

definition secrets_builder ::
  "'w store_env \<Rightarrow> change_request \<Rightarrow> (string, bytes) gomap \<times> string list \<Rightarrow> sealed_manifest list \<Rightarrow> commit_file_builder" where
  "secrets_builder E req base manifests reader =
     (let svc_path = service_path (cr_org req) (cr_project req) (cr_service req);
          path = path_join [svc_path, ''secrets.yaml'']
      in ebind (read_existing_secrets (en_lib E) reader path) (\<lambda>existing.
           case enc_secrets (en_lib E) \<lparr>ss_version = ''1'', ss_secrets = merge_secret_entries existing (cr_secrets req)\<rparr> of
             Inl e \<Rightarrow> Inl (app_wrap CodeInternal ''marshal secrets.yaml'' e)
           | Inr data \<Rightarrow>
               manifest_files svc_path manifests
                 (mput path data (mput_all (fst base) []), snd base @ [''secrets.yaml''])))"

text \<open>
  After the commit: the manifests are applied, the snapshot is reloaded; neither failure undoes the
  write, both are reported in the result.
\<close>

definition finish_change ::
  "'w store_env \<Rightarrow> sealed_manifest list \<Rightarrow> change_result \<Rightarrow> store \<Rightarrow> 'w \<Rightarrow> change_result \<times> store \<times> 'w" where
  "finish_change E manifests result s w =
     (let (result, w) =
            (if 0 < length manifests then
               (case dep_applier (en_deps E) of
                  None \<Rightarrow> (result, w)
                | Some applier \<Rightarrow>
                    (case apply_sealed_manifests applier manifests w of
                       (None, w) \<Rightarrow> (result, w)
                     | (Some e, w) \<Rightarrow> (result\<lparr>ch_apply_failed := True, ch_apply_error := err_msg e\<rparr>, w)))
             else (result, w))
      in case reload_unlocked E s w of
           (None, s, w) \<Rightarrow> (result, s, w)
         | (Some e, s, w) \<Rightarrow> (result\<lparr>ch_reload_failed := True, ch_reload_error := err_msg e\<rparr>, s, w))"

definition change_message :: "change_request \<Rightarrow> string" where
  "change_message req =
     (if cr_message req = [] then ''update config for '' @ cr_org req @ ''/'' @ cr_project req @ ''/'' @ cr_service req
      else cr_message req)"

text \<open>The part under the writers' lock; the second result is the audit result.\<close>

definition commit_change ::
  "'w store_env \<Rightarrow> change_request \<Rightarrow> (seal_request \<Rightarrow> 'w \<Rightarrow> (goerr + sealed_manifest) \<times> 'w) option \<Rightarrow> store \<Rightarrow> 'w \<Rightarrow>
   (goerr + change_result) \<times> string \<times> store \<times> 'w" where
  "commit_change E req sealer s w =
     (let (now, w) = en_now E w;
          result = (\<lambda>hash written. \<lparr>ch_version = hash, ch_updated_at = now, ch_files = written, ch_apply_failed = False,
                      ch_apply_error = [], ch_reload_failed = False, ch_reload_error = []\<rparr>)
      in case base_files E req now of
           Inl e \<Rightarrow> (Inl e, ''failure'', s, w)
         | Inr base \<Rightarrow>
             (case sealer of
                None \<Rightarrow>
                  (case gr_commit_and_push (en_git E) (change_message req) (fst base) w of
                     (Inl e, w) \<Rightarrow> (Inl e, [], s, w)
                   | (Inr hash, w) \<Rightarrow>
                       (let (r, s, w) = finish_change E [] (result hash (snd base)) s w in (Inr r, [], s, w)))
              | Some sl \<Rightarrow>
                  (case build_sealed_manifests sl (cr_org req) (cr_project req) (cr_service req) (cr_secrets req) w of
                     (Inl e, w) \<Rightarrow> (Inl e, ''seal_failed'', s, w)
                   | (Inr manifests, w) \<Rightarrow>
                       (case gr_commit_and_push_func (en_git E) (change_message req)
                               (secrets_builder E req base manifests) w of
                          ((Inl e, _), w) \<Rightarrow> (Inl e, ''commit_failed'', s, w)
                        | ((Inr hash, written), w) \<Rightarrow>
                            (let (r, s, w) = finish_change E manifests (result hash written) s w
                             in (Inr r, secret_write_audit_result r, s, w))))))"

definition apply_changes ::
  "'w store_env \<Rightarrow> change_request \<Rightarrow> store \<Rightarrow> 'w \<Rightarrow> (goerr + change_result) \<times> secret_writes \<times> store \<times> 'w" where
  "apply_changes E req s w =
     (case check_service_names (cr_org req) (cr_project req) (cr_service req) of
        Some e \<Rightarrow> (Inl e, cr_secrets req, s, w)
      | None \<Rightarrow>
          (let destroyed = (if 0 < length (cr_secrets req) then destroy_secret_writes (cr_secrets req)
                            else cr_secrets req)
           in case validate_secret_writes (cr_secrets req) of
                Inl e \<Rightarrow> (Inl e, destroyed, s, w)
              | Inr has_secrets \<Rightarrow>
                  if cr_config req = None \<and> cr_env_vars req = None \<and> \<not> has_secrets
                  then (Inl (app_new CodeValidation ''at least one of config, env_vars, or secrets must be provided''),
                        destroyed, s, w)
                  else if \<not> has_secrets then
                    (let (r, _, s, w) = commit_change E req None s w in (r, destroyed, s, w))
                  else
                    (let (r, audit_result, s, w) =
                           (case dep_sealer (en_deps E) of
                              None \<Rightarrow> (Inl (app_new CodeValidation ''secret sealer is not configured''),
                                       ''configuration_error'', s, w)
                            | Some sealer \<Rightarrow>
                                if dep_applier (en_deps E) = None
                                then (Inl (app_new CodeValidation ''secret applier is not configured''),
                                      ''configuration_error'', s, w)
                                else commit_change E req (Some sealer) s w);
                         w = record_secret_audit E
                               \<lparr>ae_at = 0, ae_action = ''secret_admin_write'', ae_result = audit_result,
                                ae_org = cr_org req, ae_project = cr_project req, ae_service = cr_service req,
                                ae_secret_ids = secret_write_audit_ids (cr_secrets req)\<rparr> w
                     in (r, destroyed, s, w))))"

subsection \<open>DeleteChanges\<close>

definition delete_paths :: "string \<Rightarrow> string \<Rightarrow> string \<Rightarrow> string list" where
  "delete_paths org project service =
     (let svc_path = service_path org project service in
      [path_join [svc_path, ''config.yaml''], path_join [svc_path, ''env_vars.yaml''],
       path_join [svc_path, ''secrets.yaml''], path_join [svc_path, ''sealed-secrets'']])"

definition delete_changes ::
  "'w store_env \<Rightarrow> string \<Rightarrow> string \<Rightarrow> string \<Rightarrow> store \<Rightarrow> 'w \<Rightarrow> (goerr + delete_result) \<times> store \<times> 'w" where
  "delete_changes E org project service s w =
     (case check_service_names org project service of
        Some e \<Rightarrow> (Inl e, s, w)
      | None \<Rightarrow>
          (case gr_delete_and_push (en_git E) (''delete config for '' @ org @ ''/'' @ project @ ''/'' @ service)
                  (delete_paths org project service) w of
             (Inl e, w) \<Rightarrow> (Inl e, s, w)
           | (Inr (hash, deleted_paths), w) \<Rightarrow>
               (let svc_root = service_path org project service @ ''/'';
                    deleted_files = map (\<lambda>p. trim_prefix p svc_root) deleted_paths;
                    (now, w) = en_now E w;
                    result = \<lparr>dr_version = hash, dr_updated_at = now, dr_deleted_files = deleted_files,
                              dr_reload_failed = False, dr_reload_error = []\<rparr>
                in case reload_unlocked E s w of
                     (None, s, w) \<Rightarrow> (Inr result, s, w)
                   | (Some e, s, w) \<Rightarrow>
                       (Inr (result\<lparr>dr_reload_failed := True, dr_reload_error := err_msg e\<rparr>), s, w))))"

end
