(* ===== verification/ChangesProps.thy ===== *)
theory ChangesProps
  imports Changes
begin

text \<open>
  What an admin write guarantees: a failed write leaves the store alone, the plaintext of a request is
  gone whatever happens, a write touches files of its own service only, its audit event tells the
  outcome, and a successful config write is what the store serves next.
\<close>

lemma finish_change_cases:
  assumes "finish_change E ms r s w = (r', s', w')"
  obtains (reloaded) w1 where "reload_unlocked E s w1 = (None, s', w')" and "ch_reload_failed r' = ch_reload_failed r"
      and "ch_version r' = ch_version r" and "ch_files r' = ch_files r"
  | (stale) w1 e where "reload_unlocked E s w1 = (Some e, s', w')" and "ch_reload_failed r'"
      and "ch_version r' = ch_version r" and "ch_files r' = ch_files r"
  using assms by (auto simp: finish_change_def Let_def split: prod.splits option.splits if_splits)

lemma commit_change_error: "commit_change E req sl s w = (Inl e, a, s', w') \<Longrightarrow> s' = s"
  by (auto simp: commit_change_def Let_def split: prod.splits sum.splits option.splits)

lemma commit_change_ok:
  assumes "commit_change E req sl s w = (Inr r, a, s', w')"
  obtains ms r0 w0 where "finish_change E ms r0 s w0 = (r, s', w')" and "\<not> ch_reload_failed r0" and "\<not> ch_apply_failed r0"
    and "sl \<noteq> None \<Longrightarrow> a = secret_write_audit_result r"
  using assms by (auto simp: commit_change_def Let_def split: prod.splits sum.splits option.splits)

lemma failed_write_fact: "apply_changes E req s w = (Inl e, secrets, s', w') \<Longrightarrow> s' = s"
  by (auto simp: apply_changes_def Let_def dest: commit_change_error
      split: option.splits sum.splits prod.splits if_splits)

lemma failed_delete_fact: "delete_changes E org project service s w = (Inl e, s', w') \<Longrightarrow> s' = s"
  by (auto simp: delete_changes_def Let_def split: option.splits sum.splits prod.splits)

text \<open>C20: A write or a delete that returns an error, at whatever stage (validation, sealing, commit or push), leaves the
  store exactly as it was: snapshot, version, watch generation and reload state.\<close>

theorem failed_write_keeps_store:
  "(case apply_changes E req s w of (Inl e, secrets, s', w') \<Rightarrow> s' = s | (Inr r, _) \<Rightarrow> True) \<and>
   (case delete_changes E org project service s w of (Inl e, s', w') \<Rightarrow> s' = s | (Inr r, _) \<Rightarrow> True)"
  by (auto split: prod.split sum.split dest: failed_write_fact failed_delete_fact)

text \<open>A write that succeeds reports in reload_failed exactly whether the store is left degraded, and when it does the
  snapshot served is still the one from before the write: committed but stale is never presented as plain success.\<close>

theorem successful_write_reports_staleness:
  assumes "apply_changes E req s w = (Inr r, secrets, s', w')"
  shows "ch_reload_failed r = is_degraded s' \<and> (if ch_reload_failed r then st_snapshot s' = st_snapshot s else st_last_reload s' \<noteq> None)"
proof -
  from assms obtain sl a w1 w2 where "commit_change E req sl s w1 = (Inr r, a, s', w2)"
    by (auto simp: apply_changes_def Let_def split: option.splits sum.splits prod.splits if_splits)
  then obtain ms r0 w0 where f: "finish_change E ms r0 s w0 = (r, s', w2)" "\<not> ch_reload_failed r0"
    by (rule commit_change_ok)
  from f(1) show ?thesis
  proof (cases rule: finish_change_cases)
    case (reloaded w3)
    then show ?thesis
      by (cases rule: reload_cases [where E = E and s = s and w = w3]) (use f(2) in \<open>auto simp: is_degraded_def\<close>)
  next
    case (stale w3 e)
    then show ?thesis
      by (cases rule: reload_cases [where E = E and s = s and w = w3]) (auto simp: is_degraded_def)
  qed
qed

definition plaintext_free :: "secret_writes \<Rightarrow> bool" where
  "plaintext_free writes \<longleftrightarrow> (\<forall>p \<in> set writes. \<forall>q \<in> set (sw_data (snd p)). snd q = [])"

lemma destroy_plaintext_free: "plaintext_free (destroy_secret_writes writes)"
  by (auto simp: plaintext_free_def destroy_secret_writes_def destroy_value_def)


text \<open>The audit event of a secret write tells the outcome: it is recorded after everything else, a write that fails
  is never audited as any kind of success, and a write that succeeds is audited with the class of its result (success,
  apply failed, reload failed, or both).\<close>

theorem audit_tells_outcome:
  assumes "apply_changes E req s w = (r, secrets, s', w')"
    and "check_service_names (cr_org req) (cr_project req) (cr_service req) = None"
    and "validate_secret_writes (cr_secrets req) = Inr True"
  shows "\<exists>w1 result. w' = record_secret_audit E
      \<lparr>ae_at = 0, ae_action = ''secret_admin_write'', ae_result = result, ae_org = cr_org req,
       ae_project = cr_project req, ae_service = cr_service req,
       ae_secret_ids = secret_write_audit_ids (cr_secrets req)\<rparr> w1 \<and>
    (case r of
       Inl e \<Rightarrow> result \<in> {''failure'', ''configuration_error'', ''seal_failed'', ''commit_failed''}
     | Inr c \<Rightarrow> result = secret_write_audit_result c)"
proof -
  let ?core = "case dep_sealer (en_deps E) of
      None \<Rightarrow> (Inl (app_new CodeValidation ''secret sealer is not configured''), ''configuration_error'', s, w)
    | Some sealer \<Rightarrow>
        if dep_applier (en_deps E) = None
        then (Inl (app_new CodeValidation ''secret applier is not configured''), ''configuration_error'', s, w)
        else commit_change E req (Some sealer) s w"
  obtain r1 result s1 w1 where core: "?core = (r1, result, s1, w1)" by (cases ?core) auto
  from assms have eq: "r = r1" "w' = record_secret_audit E
      \<lparr>ae_at = 0, ae_action = ''secret_admin_write'', ae_result = result, ae_org = cr_org req,
       ae_project = cr_project req, ae_service = cr_service req,
       ae_secret_ids = secret_write_audit_ids (cr_secrets req)\<rparr> w1"
    unfolding apply_changes_def by (simp_all add: core Let_def)
  have "case r1 of
       Inl e \<Rightarrow> result \<in> {''failure'', ''configuration_error'', ''seal_failed'', ''commit_failed''}
     | Inr c \<Rightarrow> result = secret_write_audit_result c"
    using core by (auto simp: commit_change_def Let_def split: option.splits if_splits sum.splits prod.splits)
  with eq show ?thesis by blast
qed

subsection \<open>Where a write goes\<close>

lemma check_service_names_None:
  assumes "check_service_names org project service = None"
  shows "plain_comp org" and "plain_comp project" and "plain_comp service"
  using assms by (auto simp: check_service_names_def intro: valid_name_plain)

lemma service_path_join:
  assumes "plain_comp org" and "plain_comp project" and "plain_comp service" and "plain_comp f"
  shows "path_join [service_path org project service, f] = service_path org project service @ ''/'' @ f"
proof -
  let ?ws = "[''configs'', ''orgs'', org, ''projects'', project, ''services'', service, f]"
  have p: "list_all plain_comp ?ws" using assms by (simp add: plain_comp_def)
  have j: "service_path org project service @ ''/'' @ f = join ''/'' ?ws" by (simp add: service_path_def)
  have "service_path org project service \<noteq> []" by (simp add: service_path_def)
  then have "path_join [service_path org project service, f] = path_clean (service_path org project service @ ''/'' @ f)"
    by (simp add: path_join_def)
  also have "\<dots> = service_path org project service @ ''/'' @ f"
    unfolding j by (rule path_clean_plain [OF _ p]) (rule list.distinct(2))
  finally show ?thesis .
qed

text \<open>Every file of a write lies in the directory of the service and is one of the reported files.\<close>

definition confined :: "string \<Rightarrow> (string, bytes) gomap \<times> string list \<Rightarrow> bool" where
  "confined svc_path fw \<longleftrightarrow> (\<forall>p \<in> fst ` set (fst fw). \<exists>rel \<in> set (snd fw). p = svc_path @ ''/'' @ rel)"

lemma confined_put:
  "confined svc (files, written) \<Longrightarrow> confined svc (mput (svc @ ''/'' @ rel) d files, written @ [rel])"
  by (auto simp: confined_def)

lemma mput_all_new: "wf_map src \<Longrightarrow> fst ` set (mput_all src dst) = fst ` set src \<union> fst ` set dst"
  by (induction src dst rule: mput_all.induct) auto

lemma service_relative_path_Some: "service_relative_path svc p = Some rel \<longleftrightarrow> p = svc @ ''/'' @ rel"
proof -
  have t: "trim_prefix (svc @ ''/'' @ r) (svc @ ''/'') = r" for r
    using trim_prefix_append [of "svc @ ''/''" r] by simp
  have h: "has_prefix p (svc @ ''/'') \<longleftrightarrow> (\<exists>r. p = svc @ ''/'' @ r)" by (simp add: has_prefix_iff)
  show ?thesis
  proof (cases "\<exists>r. p = svc @ ''/'' @ r")
    case True
    then obtain r where "p = svc @ ''/'' @ r" ..
    with h t show ?thesis by (simp add: service_relative_path_def Let_def)
  next
    case False
    with h show ?thesis by (auto simp: service_relative_path_def Let_def)
  qed
qed

lemma config_file_result:
  "config_file E req now = Inr st \<Longrightarrow>
   st = ([], []) \<or>
   (\<exists>d. st = ([(path_join [service_path (cr_org req) (cr_project req) (cr_service req), ''config.yaml''], d)], [''config.yaml'']))"
  by (auto simp: config_file_def split: option.splits sum.splits)

lemma base_files_result:
  assumes "base_files E req now = Inr base"
  obtains st where "config_file E req now = Inr st"
    and "base = st \<or> (\<exists>d. base = (mput (path_join [service_path (cr_org req) (cr_project req) (cr_service req), ''env_vars.yaml'']) d (fst st),
       snd st @ [''env_vars.yaml'']))"
proof -
  from assms obtain files written where c: "config_file E req now = Inr (files, written)"
    by (auto simp: base_files_def)
  show ?thesis
  proof (rule that [OF c], cases "cr_env_vars req")
    case None
    with assms c show "base = (files, written) \<or> (\<exists>d. base = (mput (path_join [service_path (cr_org req) (cr_project req)
        (cr_service req), ''env_vars.yaml'']) d (fst (files, written)), snd (files, written) @ [''env_vars.yaml'']))"
      by (simp add: base_files_def)
  next
    case (Some ev)
    with assms c show "base = (files, written) \<or> (\<exists>d. base = (mput (path_join [service_path (cr_org req) (cr_project req)
        (cr_service req), ''env_vars.yaml'']) d (fst (files, written)), snd (files, written) @ [''env_vars.yaml'']))"
      by (cases "enc_env_vars (en_lib E) \<lparr>ec_version = ''1'', ec_metadata = change_metadata E req now, ec_env = ev\<rparr>")
        (auto simp: base_files_def)
  qed
qed

lemma manifest_files_confined:
  "manifest_files svc ms st = Inr fw \<Longrightarrow> confined svc st \<Longrightarrow> confined svc fw"
proof (induction svc ms st rule: manifest_files.induct)
  case (2 svc m ms files written)
  then obtain rel where rel: "service_relative_path svc (sm_path m) = Some rel" by (auto split: option.splits)
  then have "sm_path m = svc @ ''/'' @ rel" unfolding service_relative_path_Some .
  with 2 rel confined_put [OF "2.prems"(2), of rel "sm_yaml m"] show ?case by simp
qed simp


subsection \<open>A write is what the store serves next\<close>

text \<open>The paths of a work tree: no file is also a directory.\<close>

definition tree_like :: "(string \<times> bytes) list \<Rightarrow> bool" where
  "tree_like files \<longleftrightarrow> wf_map files \<and> (\<forall>p \<in> fst ` set files. \<forall>q \<in> fst ` set files. \<not> has_prefix p (q @ ''/''))"

text \<open>
  What the store relies on after a commit: the snapshot taken next is that of the new commit, a work
  tree that has the committed files.
\<close>

definition commit_visible :: "'w store_env \<Rightarrow> (string, bytes) gomap \<Rightarrow> 'w \<Rightarrow> bool" where
  "commit_visible E files w \<longleftrightarrow>
     (\<forall>msg h w1. gr_commit_and_push (en_git E) msg files w = (Inr h, w1) \<longrightarrow>
        (\<exists>repo w2. gr_snapshot (en_git E) w1 = (Inr (h, repo), w2) \<and> tree_like repo \<and>
           (\<forall>p d. mget files p = Some d \<longrightarrow> mget repo p = Some d)))"

lemma classify_config_path:
  assumes "classify_path p = Some (service_key org project service, ''config'')"
    and "slash \<notin> set org" and "slash \<notin> set project"
  shows "p = service_path org project service @ ''/config.yaml'' \<or>
    has_prefix p ((service_path org project service @ ''/config.yaml'') @ ''/'')"
proof -
  from assms(1) obtain rest a c e f rs where p: "p = orgs_prefix @ rest"
    and sp: "split_on slash rest = [a, ''projects'', c, ''services'', e, f] @ rs"
    and key: "service_key org project service = service_key a c e" and f: "file_type_of f = Some ''config''"
    unfolding classify_path_parts by blast
  from sp have "a \<in> set (split_on slash rest)" "c \<in> set (split_on slash rest)" "e \<in> set (split_on slash rest)" by simp_all
  then have ns: "slash \<notin> set a" "slash \<notin> set c" "slash \<notin> set e" using split_on_parts by blast+
  have "split_on slash (service_key org project service) = split_on slash (service_key a c e)" using key by simp
  then have eq: "a = org" "c = project" "split_on slash service = split_on slash e"
    using split_service_key [OF assms(2,3)] split_service_key [OF ns(1,2)] by simp_all
  from eq(3) have e: "e = service" by (metis join_split_on)
  from f have f: "f = ''config.yaml''" by (simp add: file_type_of_def split: if_splits)
  let ?ws = "[org, ''projects'', project, ''services'', service, ''config.yaml'']"
  have svc: "orgs_prefix @ join ''/'' ?ws = service_path org project service @ ''/config.yaml''"
    by (simp add: service_path_def orgs_prefix_def)
  have rest: "rest = join ''/'' (?ws @ rs)" using join_split_on [of slash rest] sp eq e f by simp
  show ?thesis
  proof (cases rs)
    case Nil
    with p rest svc show ?thesis by simp
  next
    case (Cons r rs')
    have "rest = join ''/'' ?ws @ ''/'' @ join ''/'' rs" unfolding rest by (rule join_append) (simp_all add: Cons)
    then have "p = ((service_path org project service @ ''/config.yaml'') @ ''/'') @ join ''/'' rs"
      unfolding p svc [symmetric] by simp
    then show ?thesis by (metis has_prefix_append)
  qed
qed

lemma file_for_config:
  assumes "tree_like repo" and "mget repo (service_path org project service @ ''/config.yaml'') = Some data"
    and "slash \<notin> set org" and "slash \<notin> set project" and "slash \<notin> set service"
  shows "file_for repo (service_key org project service) ''config'' = Some data"
proof -
  let ?p = "service_path org project service @ ''/config.yaml''" and ?k = "service_key org project service"
  have cls: "classify_path ?p = Some (?k, ''config'')"
    using classify_service_path [OF assms(3-5), of "''config.yaml''" "''config.yaml''" "[]"]
    by (simp add: split_on_no_sep file_type_of_def)
  have wf: "wf_map repo" using assms(1) by (simp add: tree_like_def)
  have in_repo: "(?p, data) \<in> set repo" using assms(2) by (rule mget_Some_in)
  have uniq: "f = (?p, data)" if "f \<in> set repo" "classify_path (fst f) = Some (?k, ''config'')" for f
  proof -
    have "\<not> has_prefix (fst f) (?p @ ''/'')"
      using assms(1) that(1) in_repo unfolding tree_like_def by (metis fst_conv image_eqI)
    with classify_config_path [OF that(2) assms(3,4)] have "fst f = ?p" by blast
    with that(1) in_repo wf show ?thesis by (metis mget_iff option.inject prod.collapse)
  qed
  let ?P = "\<lambda>f. classify_path (fst f) = Some (?k, ''config'')"
  have "find ?P (rev repo) \<noteq> None" using cls in_repo by (auto simp: find_None_iff)
  then obtain f where f: "find ?P (rev repo) = Some f" by blast
  from find_Some_in [OF f] have "f \<in> set repo" "?P f" by simp_all
  then have "f = (?p, data)" by (rule uniq)
  with f show ?thesis by (simp add: file_for_def)
qed

lemma finish_change_no_manifests:
  "finish_change E [] r0 s w1 = (r, s', w2) \<Longrightarrow> \<not> ch_reload_failed r \<Longrightarrow> reload_unlocked E s w1 = (None, s', w2) \<and> r = r0"
  by (auto simp: finish_change_def split: prod.splits option.splits)

lemma base_files_config:
  assumes "base_files E req now = Inr base" and "cr_config req = Some m"
    and "check_service_names (cr_org req) (cr_project req) (cr_service req) = None"
  obtains data where "enc_config (en_lib E) \<lparr>sc_version = ''1'', sc_metadata = change_metadata E req now, sc_config = Some m\<rparr> = Inr data"
    and "mget (fst base) (service_path (cr_org req) (cr_project req) (cr_service req) @ ''/config.yaml'') = Some data"
proof -
  note plain = check_service_names_None [OF assms(3)]
  have f: "plain_comp ''config.yaml''" "plain_comp ''env_vars.yaml''" by (simp_all add: plain_comp_def)
  note join = service_path_join [OF plain]
  from assms(1) obtain st where st: "config_file E req now = Inr st"
    and b: "base = st \<or> (\<exists>d. base = (mput (path_join [service_path (cr_org req) (cr_project req) (cr_service req), ''env_vars.yaml'']) d (fst st),
       snd st @ [''env_vars.yaml'']))" by (rule base_files_result)
  from st assms(2) obtain data where
    enc: "enc_config (en_lib E) \<lparr>sc_version = ''1'', sc_metadata = change_metadata E req now, sc_config = Some m\<rparr> = Inr data"
    and "mget (fst st) (service_path (cr_org req) (cr_project req) (cr_service req) @ ''/config.yaml'') = Some data"
    by (auto simp: config_file_def join [OF f(1)] split: sum.splits)
  then have "mget (fst base) (service_path (cr_org req) (cr_project req) (cr_service req) @ ''/config.yaml'') = Some data"
    using b by (auto simp: join [OF f(2)])
  with enc show ?thesis by (rule that)
qed

text \<open>
  Read your writes: a config write that succeeds and is not reported stale is what the store serves. First what
  such a write did, then what any store serves that reloads a work tree holding the written file.
\<close>

lemma config_write_committed:
  assumes "apply_changes E req s w = (Inr r, secrets, s', w')"
    and "cr_secrets req = []" and "cr_config req = Some m" and "\<not> ch_reload_failed r"
  obtains base w1 data where "check_service_names (cr_org req) (cr_project req) (cr_service req) = None"
    and "base_files E req (fst (en_now E w)) = Inr base"
    and "gr_commit_and_push (en_git E) (change_message req) (fst base) (snd (en_now E w)) = (Inr (ch_version r), w1)"
    and "reload_unlocked E s w1 = (None, s', w')"
    and "enc_config (en_lib E) \<lparr>sc_version = ''1'', sc_metadata = change_metadata E req (fst (en_now E w)), sc_config = Some m\<rparr> = Inr data"
    and "mget (fst base) (service_path (cr_org req) (cr_project req) (cr_service req) @ ''/config.yaml'') = Some data"
proof -
  have names: "check_service_names (cr_org req) (cr_project req) (cr_service req) = None"
    using assms(1) by (simp add: apply_changes_def split: option.splits)
  obtain a where cc: "commit_change E req None s w = (Inr r, a, s', w')"
    using assms(1-3) names by (auto simp: apply_changes_def validate_secret_writes_def Let_def split: prod.splits)
  obtain base r0 w1 where base: "base_files E req (fst (en_now E w)) = Inr base"
    and commit: "gr_commit_and_push (en_git E) (change_message req) (fst base) (snd (en_now E w)) = (Inr (ch_version r0), w1)"
    and fin: "finish_change E [] r0 s w1 = (r, s', w')"
    using cc by (auto simp: commit_change_def Let_def split: prod.splits sum.splits) force
  obtain data where enc: "enc_config (en_lib E)
      \<lparr>sc_version = ''1'', sc_metadata = change_metadata E req (fst (en_now E w)), sc_config = Some m\<rparr> = Inr data"
    and has: "mget (fst base) (service_path (cr_org req) (cr_project req) (cr_service req) @ ''/config.yaml'') = Some data"
    by (rule base_files_config [OF base assms(3) names])
  from finish_change_no_manifests [OF fin assms(4)] commit show ?thesis
    using that [OF names base _ _ enc has] by simp
qed

lemma reload_serves_config:
  assumes "gr_snapshot (en_git E) w = (Inr (hash, repo), w1)" and "reload_unlocked E s w = (None, s', w')" and "tree_like repo"
    and "mget repo (service_path org project service @ ''/config.yaml'') = Some data" and "parse_config (en_lib E) data = Inr cfg"
    and "check_service_names org project service = None"
  shows "head_version s' = hash \<and> (\<exists>sd. get_config s' org project service = Inr sd \<and> sd_config sd = Some cfg)"
proof -
  let ?key = "service_key org project service"
  have slashes: "slash \<notin> set org" "slash \<notin> set project" "slash \<notin> set service"
    using check_service_names_None [OF assms(6)] by (simp_all add: plain_comp_def)
  have ff: "file_for repo ?key ''config'' = Some data" by (rule file_for_config [OF assms(3,4) slashes])
  then have "has_files repo ?key" by (auto simp: file_for_def has_files_def dest!: find_Some_in)
  with served_service [OF assms(1,2), of org project service] ff assms(5)
  have "\<exists>sd. get_config s' org project service = Inr sd \<and> sd_config sd = Some cfg"
    by (auto simp: matches_files_def split: sum.splits)
  moreover have "head_version s' = hash"
    by (cases rule: reload_cases [where E = E and s = s and w = w])
      (use assms(1,2) in \<open>auto simp: head_version_def new_snapshot_def\<close>)
  ultimately show ?thesis by blast
qed

lemma config_write_is_served:
  assumes "apply_changes E req s w = (Inr r, secrets, s', w')"
    and "cr_secrets req = []" and "cr_config req = Some m" and "\<not> ch_reload_failed r"
    and "\<And>base. base_files E req (fst (en_now E w)) = Inr base \<Longrightarrow> commit_visible E (fst base) (snd (en_now E w))"
    and "\<And>data cfg. cfg = \<lparr>sc_version = ''1'', sc_metadata = change_metadata E req (fst (en_now E w)), sc_config = Some m\<rparr> \<Longrightarrow>
      enc_config (en_lib E) cfg = Inr data \<Longrightarrow> parse_config (en_lib E) data = Inr cfg"
  shows "\<exists>sd. get_config s' (cr_org req) (cr_project req) (cr_service req) = Inr sd \<and>
    sd_config sd = Some \<lparr>sc_version = ''1'', sc_metadata = change_metadata E req (fst (en_now E w)), sc_config = Some m\<rparr> \<and>
    head_version s' = ch_version r"
proof (rule config_write_committed [OF assms(1-4)])
  fix base w1 data
  assume names: "check_service_names (cr_org req) (cr_project req) (cr_service req) = None"
    and base: "base_files E req (fst (en_now E w)) = Inr base"
    and commit: "gr_commit_and_push (en_git E) (change_message req) (fst base) (snd (en_now E w)) = (Inr (ch_version r), w1)"
    and reload: "reload_unlocked E s w1 = (None, s', w')"
    and enc: "enc_config (en_lib E)
      \<lparr>sc_version = ''1'', sc_metadata = change_metadata E req (fst (en_now E w)), sc_config = Some m\<rparr> = Inr data"
    and has: "mget (fst base) (service_path (cr_org req) (cr_project req) (cr_service req) @ ''/config.yaml'') = Some data"
  from assms(5) [OF base] commit obtain repo w3 where snap: "gr_snapshot (en_git E) w1 = (Inr (ch_version r, repo), w3)"
    and tree: "tree_like repo"
    and repo: "mget repo (service_path (cr_org req) (cr_project req) (cr_service req) @ ''/config.yaml'') = Some data"
    using has unfolding commit_visible_def by blast
  from reload_serves_config [OF snap reload tree repo assms(6) [OF refl enc] names] show ?thesis by blast
qed

subsection \<open>Witnesses\<close>

definition sample_request :: change_request where
  "sample_request =
     \<lparr>cr_org = ''o'', cr_project = ''p'', cr_service = ''s'', cr_config = Some [(''raw'', CStr ''a'')],
      cr_env_vars = None, cr_secrets = [], cr_message = []\<rparr>"

lemma sample_names: "check_service_names ''o'' ''p'' ''s'' = None"
  by (simp add: check_service_names_def validate_name_def valid_name_re_def is_alnum_def)

lemma sample_request_fields [simp]:
  "cr_org sample_request = ''o''" "cr_project sample_request = ''p''" "cr_service sample_request = ''s''"
  "cr_config sample_request = Some [(''raw'', CStr ''a'')]" "cr_env_vars sample_request = None"
  "cr_secrets sample_request = []"
  by (simp_all add: sample_request_def)

lemma sample_path_join: "path_join [service_path ''o'' ''p'' ''s'', ''config.yaml''] = sample_path"
proof -
  have "path_join [service_path ''o'' ''p'' ''s'', ''config.yaml''] = service_path ''o'' ''p'' ''s'' @ ''/'' @ ''config.yaml''"
    by (rule service_path_join) (simp_all add: plain_comp_def)
  then show ?thesis by (simp add: sample_path_def)
qed

lemma sample_change_metadata: "change_metadata sample_env sample_request now = sample_metadata"
  by (simp add: change_metadata_def sample_metadata_def sample_lib_def)

lemma sample_base_files: "base_files sample_env sample_request now = Inr ([(sample_path, ''a'')], [''config.yaml''])"
proof -
  have "enc_config sample_lib \<lparr>sc_version = ''1'', sc_metadata = sample_metadata, sc_config = Some [(''raw'', CStr ''a'')]\<rparr> = Inr ''a''"
    by (simp add: sample_lib_def raw_of_def)
  then show ?thesis
    unfolding base_files_def config_file_def sample_request_fields sample_path_join sample_change_metadata sample_env_lib by simp
qed

lemma sample_now: "en_now sample_env w = (1, w)"
  by (simp add: sample_env_def)

lemma sample_commit:
  "gr_commit_and_push (en_git sample_env) msg [(sample_path, ''a'')] [] = (Inr ''c'', [(''c'', [(sample_path, ''a'')])])"
  by (simp add: sample_env_def mem_repo_def mem_files_def mem_commit_files_def Let_def)

lemma sample_commit_visible: "commit_visible sample_env [(sample_path, ''a'')] []"
proof -
  have "\<not> has_prefix sample_path (sample_path @ ''/'')" by (auto simp: has_prefix_iff)
  then show ?thesis
    unfolding commit_visible_def sample_commit using sample_snapshot [of "''c''"] by (auto simp: tree_like_def)
qed

lemma sample_write:
  obtains r s' w' where "apply_changes sample_env sample_request new_store [] = (Inr r, [], s', w')"
    and "\<not> ch_reload_failed r" and "\<not> ch_apply_failed r"
proof -
  obtain s' w' where r: "reload_unlocked sample_env new_store [(''c'', [(sample_path, ''a'')])] = (None, s', w')"
    by (rule reload_ok [OF sample_snapshot, of "[(sample_path, ''a'')]"]) (simp_all add: sample_file_ok)
  show ?thesis
    by (rule that [of "\<lparr>ch_version = ''c'', ch_updated_at = 1, ch_files = [''config.yaml''], ch_apply_failed = False,
          ch_apply_error = [], ch_reload_failed = False, ch_reload_error = []\<rparr>" s' w'])
      (simp_all add: apply_changes_def sample_names validate_secret_writes_def commit_change_def sample_now
        sample_base_files sample_commit finish_change_def r Let_def)
qed

theorem successful_write_reports_staleness_witness:
  "\<exists>r s' w'. apply_changes sample_env sample_request new_store [] = (Inr r, [], s', w') \<and> \<not> is_degraded s'"
proof -
  obtain r s' w' where w: "apply_changes sample_env sample_request new_store [] = (Inr r, [], s', w')"
    and f: "\<not> ch_reload_failed r" by (rule sample_write) (rule that)
  from successful_write_reports_staleness [OF w] w f show ?thesis by auto
qed

definition sample_secret_request :: change_request where
  "sample_secret_request = sample_request\<lparr>cr_config := None, cr_secrets := sample_write\<rparr>"


theorem audit_tells_outcome_witness:
  "\<exists>r secrets s' w' w1 result. apply_changes sample_env sample_secret_request new_store [] = (r, secrets, s', w') \<and>
     w' = record_secret_audit sample_env
      \<lparr>ae_at = 0, ae_action = ''secret_admin_write'', ae_result = result, ae_org = ''o'', ae_project = ''p'', ae_service = ''s'',
       ae_secret_ids = secret_write_audit_ids sample_write\<rparr> w1"
proof -
  obtain r secrets s' w' where w: "apply_changes sample_env sample_secret_request new_store [] = (r, secrets, s', w')"
    by (cases "apply_changes sample_env sample_secret_request new_store []") auto
  have f: "cr_org sample_secret_request = ''o''" "cr_project sample_secret_request = ''p''"
    "cr_service sample_secret_request = ''s''" "cr_secrets sample_secret_request = sample_write"
    by (simp_all add: sample_secret_request_def)
  from audit_tells_outcome [OF w, unfolded f, OF sample_names sample_write_valid] w show ?thesis by blast
qed


end
