(* ===== verification/Revert.thy ===== *)
theory Revert
  imports ChangesProps
begin

text \<open>
  History and rollback (internal/store/store.go): \<open>History\<close> with its file, limit and before filters,
  \<open>PrepareRevert\<close>, which plans the restoration of a service's files from a commit without changing
  anything, and \<open>ApplyRevert\<close>, which commits the plan forward, applies the restored SealedSecrets and
  reloads.
\<close>

subsection \<open>History\<close>

record history_options =
  ho_org :: string
  ho_project :: string
  ho_service :: string
  ho_file :: string
  ho_limit :: int
  ho_before :: string

record history_entry =
  hx_version :: string
  hx_message :: string
  hx_author :: string
  hx_timestamp :: gotime
  hx_files_changed :: "string list"

definition valid_history_file :: "string \<Rightarrow> bool" where
  "valid_history_file f = (f = ''config'' \<or> f = ''env_vars'' \<or> f = ''secrets'')"

definition history_change_matches_file :: "file_change \<Rightarrow> string \<Rightarrow> bool" where
  "history_change_matches_file change f =
     (if f = ''config'' then fc_kind change = FileConfig
      else if f = ''env_vars'' then fc_kind change = FileEnvVars
      else if f = ''secrets'' then fc_kind change = FileSecrets \<or> fc_kind change = FileSealedSecret
      else False)"

definition history_entry_matches_file :: "service_history_entry \<Rightarrow> string \<Rightarrow> bool" where
  "history_entry_matches_file entry f =
     (f = [] \<or> list_ex (\<lambda>c. history_change_matches_file c f) (he_files_changed entry))"

definition history_changed_paths :: "file_change list \<Rightarrow> string list" where
  "history_changed_paths changes = map fc_path changes"

definition to_history_entry :: "service_history_entry \<Rightarrow> history_entry" where
  "to_history_entry e =
     \<lparr>hx_version = he_version e, hx_message = he_message e, hx_author = he_author e, hx_timestamp = he_timestamp e,
      hx_files_changed = history_changed_paths (he_files_changed e)\<rparr>"

text \<open>
  The callback over the entries. The captured variables are \<open>beforeSeen\<close> and the collected entries; the
  flag of the result says that the callback stopped the iteration with errStopHistory.
\<close>

fun history_loop ::
  "history_options \<Rightarrow> bool \<Rightarrow> history_entry list \<Rightarrow> service_history_entry list \<Rightarrow> history_entry list \<times> bool" where
  "history_loop opts before_seen entries [] = (entries, False)"
| "history_loop opts before_seen entries (e # es) =
     (if \<not> before_seen then history_loop opts (he_version e = ho_before opts) entries es
      else if \<not> history_entry_matches_file e (ho_file opts) then history_loop opts before_seen entries es
      else (let entries = entries @ [to_history_entry e] in
            if ho_limit opts \<le> int (length entries) then (entries, True)
            else history_loop opts before_seen entries es))"

definition history ::
  "'w store_env \<Rightarrow> store \<Rightarrow> history_options \<Rightarrow> 'w \<Rightarrow> (goerr + history_entry list) \<times> 'w" where
  "history E s opts w =
     (case or_err (if ho_org opts = [] \<or> ho_project opts = [] \<or> ho_service opts = []
                   then Some (app_new CodeValidation ''org, project and service are required'') else None)
          (or_err (if ho_limit opts \<le> 0 then Some (app_new CodeValidation ''limit must be greater than 0'') else None)
          (or_err (if ho_file opts \<noteq> [] \<and> \<not> valid_history_file (ho_file opts)
                   then Some (app_new CodeValidation ''file must be one of config, env_vars, or secrets'') else None)
            (case get_config s (ho_org opts) (ho_project opts) (ho_service opts) of Inl e \<Rightarrow> Some e | Inr _ \<Rightarrow> None))) of
        Some e \<Rightarrow> (Inl e, w)
      | None \<Rightarrow>
          (case gr_history (en_git E) (ho_org opts) (ho_project opts) (ho_service opts) w of
             ((all_entries, err), w) \<Rightarrow>
               (case history_loop opts (ho_before opts = []) [] all_entries of
                  (entries, True) \<Rightarrow> (Inr entries, w)
                | (entries, False) \<Rightarrow>
                    (case err of
                       Some e \<Rightarrow> (if err_is ErrStopHistory e then Inr entries else Inl e, w)
                     | None \<Rightarrow> (Inr entries, w)))))"

text \<open>What the listing is meant to be: after the cursor, the entries that touch the file, at most limit of them.\<close>

definition after_cursor :: "string \<Rightarrow> service_history_entry list \<Rightarrow> service_history_entry list" where
  "after_cursor before es = (if before = [] then es else tl (dropWhile (\<lambda>e. he_version e \<noteq> before) es))"

lemma history_loop_seen:
  "int (length acc) < ho_limit opts \<Longrightarrow>
   fst (history_loop opts True acc es) =
     acc @ map to_history_entry (take (nat (ho_limit opts) - length acc) (filter (\<lambda>e. history_entry_matches_file e (ho_file opts)) es))"
proof (induction es arbitrary: acc)
  case (Cons e es)
  show ?case
  proof (cases "history_entry_matches_file e (ho_file opts)")
    case True
    show ?thesis
    proof (cases "ho_limit opts \<le> int (Suc (length acc))")
      case True
      with Cons.prems have "nat (ho_limit opts) - length acc = 1" by simp
      with True \<open>history_entry_matches_file e (ho_file opts)\<close> show ?thesis by simp
    next
      case False
      then have "nat (ho_limit opts) - length acc = Suc (nat (ho_limit opts) - Suc (length acc))" by simp
      with False Cons.IH [of "acc @ [to_history_entry e]"] True show ?thesis by simp
    qed
  next
    case False
    with Cons show ?thesis by simp
  qed
qed simp

lemma history_loop_unseen:
  "fst (history_loop opts False [] es) =
   fst (history_loop opts True [] (tl (dropWhile (\<lambda>e. he_version e \<noteq> ho_before opts) es)))"
  by (induction es) auto

text \<open>C24: History returns, newest first, exactly the first limit entries after the before cursor (all of them when no
  cursor is given, none when the cursor is not in the history) that touch the requested file, with secrets standing
  for secrets.yaml and the sealed secrets.\<close>

theorem history_filters:
  assumes "history E s opts w = (Inr entries, w')"
  shows "\<exists>all_entries err. fst (gr_history (en_git E) (ho_org opts) (ho_project opts) (ho_service opts) w) = (all_entries, err) \<and>
    entries = map to_history_entry (take (nat (ho_limit opts))
      (filter (\<lambda>e. history_entry_matches_file e (ho_file opts)) (after_cursor (ho_before opts) all_entries)))"
proof -
  obtain all_entries err w1 where g: "gr_history (en_git E) (ho_org opts) (ho_project opts) (ho_service opts) w = ((all_entries, err), w1)"
    by (cases "gr_history (en_git E) (ho_org opts) (ho_project opts) (ho_service opts) w") auto
  from assms have lim: "0 < ho_limit opts" and e: "entries = fst (history_loop opts (ho_before opts = []) [] all_entries)"
    by (auto simp: history_def g split: option.splits if_splits prod.splits bool.splits)
  have "entries = map to_history_entry (take (nat (ho_limit opts))
      (filter (\<lambda>e. history_entry_matches_file e (ho_file opts)) (after_cursor (ho_before opts) all_entries)))"
    using lim history_loop_seen [of "[]" opts] unfolding e after_cursor_def
    by (cases "ho_before opts = []") (simp_all add: history_loop_unseen)
  with g show ?thesis by auto
qed

definition sample_history_options :: history_options where
  "sample_history_options =
     \<lparr>ho_org = ''o'', ho_project = ''p'', ho_service = ''s'', ho_file = [], ho_limit = 1, ho_before = ''c2''\<rparr>"

theorem history_filters_witness:
  "\<exists>entries. fst (history sample_env sample_snapshot_store sample_history_options [(''c2'', []), (''c1'', []), (''c0'', [])]) = Inr entries \<and>
     map hx_version entries = [''c1'']"
proof -
  let ?w = "[(''c2'', []), (''c1'', []), (''c0'', [])] :: mem_commit list"
  have found: "get_config sample_snapshot_store ''o'' ''p'' ''s'' = Inr empty_service_data"
    by (simp add: get_config_def sample_snapshot_store_def new_snapshot_def)
  obtain entries w' where h: "history sample_env sample_snapshot_store sample_history_options ?w = (Inr entries, w')"
    by (simp add: history_def sample_history_options_def found sample_env_def mem_repo_def history_entry_matches_file_def)
  from history_filters [OF h] h show ?thesis
    by (auto simp: sample_history_options_def sample_env_def mem_repo_def after_cursor_def history_entry_matches_file_def
        to_history_entry_def)
qed

subsection \<open>Planning a revert\<close>

record revert_request =
  rr_org :: string
  rr_project :: string
  rr_service :: string
  rr_target_version :: string
  rr_message :: string

record revert_plan =
  rp_org :: string
  rp_project :: string
  rp_service :: string
  rp_target_version :: string
  rp_message :: string
  rp_files :: "(string, bytes) gomap"
  rp_restored_files :: "string list"
  rp_deleted_files :: "string list"
  rp_noop :: bool

record revert_result =
  rv_version :: string
  rv_target_version :: string
  rv_updated_at :: gotime
  rv_restored_files :: "string list"
  rv_deleted_files :: "string list"
  rv_noop :: bool
  rv_apply_failed :: bool
  rv_apply_error :: string
  rv_reload_failed :: bool
  rv_reload_error :: string

definition target_version_changed_service ::
  "'w store_env \<Rightarrow> revert_request \<Rightarrow> 'w \<Rightarrow> (goerr + bool) \<times> 'w" where
  "target_version_changed_service E req w =
     (case gr_history (en_git E) (rr_org req) (rr_project req) (rr_service req) w of
        ((entries, err), w) \<Rightarrow>
          (if list_ex (\<lambda>e. he_version e = rr_target_version req) entries then Inr True
           else (case err of
                   Some e \<Rightarrow> if err_is ErrStopHistory e then Inr True else Inl e
                 | None \<Rightarrow> Inr False), w))"

definition service_file_contents_by_path :: "service_file_content list \<Rightarrow> (string, bytes) gomap" where
  "service_file_contents_by_path files = fold (\<lambda>f. mput (fo_path f) (fo_data f)) files []"

definition service_files_missing_from_target :: "(string, bytes) gomap \<Rightarrow> (string, bytes) gomap \<Rightarrow> string list" where
  "service_files_missing_from_target current target =
     sort (filter (\<lambda>path. mget target path = None) (mkeys current))"

definition service_files_equal :: "(string, bytes) gomap \<Rightarrow> (string, bytes) gomap \<Rightarrow> bool" where
  "service_files_equal current target =
     (length current = length target \<and> list_all (\<lambda>(path, data). mget current path = Some data) target)"

definition revert_plan_of ::
  "revert_request \<Rightarrow> service_file_content list \<Rightarrow> service_file_content list \<Rightarrow> revert_plan" where
  "revert_plan_of req target_files current_files =
     (let target_by_path = service_file_contents_by_path target_files;
          current_by_path = service_file_contents_by_path current_files;
          restored_files = sorted_keys target_by_path;
          deleted_files = service_files_missing_from_target current_by_path target_by_path;
          svc_path = service_path (rr_org req) (rr_project req) (rr_service req);
          files = fold (\<lambda>rel. mput (path_join [svc_path, rel])
                     (case mget target_by_path rel of Some d \<Rightarrow> d | None \<Rightarrow> [])) restored_files [];
          msg = trim_space (rr_message req);
          msg = (if msg = [] then ''Rollback to '' @ rr_target_version req else msg)
      in \<lparr>rp_org = rr_org req, rp_project = rr_project req, rp_service = rr_service req,
          rp_target_version = rr_target_version req, rp_message = msg, rp_files = files,
          rp_restored_files = restored_files, rp_deleted_files = deleted_files,
          rp_noop = service_files_equal current_by_path target_by_path\<rparr>)"

definition prepare_revert ::
  "'w store_env \<Rightarrow> store \<Rightarrow> revert_request option \<Rightarrow> 'w \<Rightarrow> (goerr + revert_plan) \<times> 'w" where
  "prepare_revert E s request w =
     (case request of
        None \<Rightarrow> (Inl (app_new CodeValidation ''revert request is required''), w)
      | Some req \<Rightarrow>
          (case or_err (if rr_org req = [] \<or> rr_project req = [] \<or> rr_service req = []
                        then Some (app_new CodeValidation ''org, project and service are required'') else None)
               (or_err (if rr_target_version req = []
                        then Some (app_new CodeValidation ''target_version is required'') else None)
               (or_err (validate_name ''org'' (rr_org req))
               (or_err (validate_name ''project'' (rr_project req))
               (or_err (validate_name ''service'' (rr_service req))
                 (case get_config s (rr_org req) (rr_project req) (rr_service req) of Inl e \<Rightarrow> Some e | Inr _ \<Rightarrow> None))))) of
             Some e \<Rightarrow> (Inl e, w)
           | None \<Rightarrow>
               (case gr_read_service_files_at_commit (en_git E) (rr_target_version req)
                       (rr_org req) (rr_project req) (rr_service req) w of
                  (Inl e, w) \<Rightarrow>
                    (Inl (if err_is ErrCommitNotFound e then app_wrap CodeNotFound ''target version not found'' e
                          else app_wrap CodeInternal ''read target service files'' e), w)
                | (Inr target_files, w) \<Rightarrow>
                    (case target_version_changed_service E req w of
                       (Inl e, w) \<Rightarrow> (Inl (app_wrap CodeInternal ''validate target service history'' e), w)
                     | (Inr changed, w) \<Rightarrow>
                         if \<not> changed
                         then (Inl (app_new CodeNotFound ''target version did not change service files''), w)
                         else if length target_files = 0
                         then (Inl (app_new CodeNotFound ''target version has no service files''), w)
                         else
                           (case gr_read_service_files_at_commit (en_git E) (head_version s)
                                   (rr_org req) (rr_project req) (rr_service req) w of
                              (Inl e, w) \<Rightarrow> (Inl (app_wrap CodeInternal ''read current service files'' e), w)
                            | (Inr current_files, w) \<Rightarrow> (Inr (revert_plan_of req target_files current_files), w))))))"

subsection \<open>The sealed manifests of a plan\<close>

definition sealed_prefix :: string where
  "sealed_prefix = ''sealed-secrets/''"

definition sealed_manifest_identity_from_yaml :: "go_lib \<Rightarrow> bytes \<Rightarrow> goerr + (string \<times> string)" where
  "sealed_manifest_identity_from_yaml L data =
     (case dec_seal_meta L data of
        Inl e \<Rightarrow> Inl e
      | Inr (namespace, name) \<Rightarrow> Inr (trim_space namespace, trim_space name))"

definition sealed_manifest_identity_from_path :: "string \<Rightarrow> (string \<times> string) option" where
  "sealed_manifest_identity_from_path rel =
     (let parts = split_on slash rel in
      if length parts \<noteq> 3 \<or> parts ! 0 \<noteq> ''sealed-secrets'' \<or> \<not> has_suffix (parts ! 2) ''.yaml'' then None
      else (let name = trim_suffix (parts ! 2) ''.yaml'' in
            if parts ! 1 = [] \<or> name = [] then None else Some (parts ! 1, name)))"

definition sealed_manifest_from_revert_file ::
  "go_lib \<Rightarrow> string \<Rightarrow> string \<Rightarrow> bytes \<Rightarrow> goerr + sealed_manifest" where
  "sealed_manifest_from_revert_file L rel repo_path data =
     (if \<not> has_prefix rel sealed_prefix
      then Inl (app_new CodeInternal (''sealed-secret path '' @ quote rel @ '' is not supported for apply''))
      else
        (let path_id = sealed_manifest_identity_from_path rel in
         case (case sealed_manifest_identity_from_yaml L data of
                 Inl e \<Rightarrow>
                   (case path_id of
                      None \<Rightarrow> Inl (app_wrap CodeInternal (''read sealed-secret metadata from '' @ quote rel) e)
                    | Some p \<Rightarrow> Inr p)
               | Inr (namespace, name) \<Rightarrow>
                   (case path_id of
                      None \<Rightarrow> Inr (namespace, name)
                    | Some (pns, pname) \<Rightarrow>
                        Inr (if namespace = [] then pns else namespace, if name = [] then pname else name))) of
           Inl e \<Rightarrow> Inl e
         | Inr (namespace, name) \<Rightarrow>
             if namespace = [] \<or> name = []
             then Inl (app_new CodeInternal
                    (''sealed-secret path '' @ quote rel @ '' requires metadata.name and metadata.namespace for apply''))
             else Inr \<lparr>sm_namespace = namespace, sm_name = name, sm_path = repo_path, sm_yaml = data\<rparr>))"

fun sealed_manifests_loop ::
  "go_lib \<Rightarrow> revert_plan \<Rightarrow> string list \<Rightarrow> goerr + sealed_manifest list" where
  "sealed_manifests_loop L plan [] = Inr []"
| "sealed_manifests_loop L plan (rel # rels) =
     (if \<not> has_prefix rel sealed_prefix then sealed_manifests_loop L plan rels
      else
        (let repo_path = path_join [service_path (rp_org plan) (rp_project plan) (rp_service plan), rel] in
         case mget (rp_files plan) repo_path of
           None \<Rightarrow> Inl (app_new CodeInternal (''restored sealed-secret file '' @ quote rel @ '' missing payload''))
         | Some data \<Rightarrow>
             ebind (sealed_manifest_from_revert_file L rel repo_path data) (\<lambda>m.
               ebind (sealed_manifests_loop L plan rels) (\<lambda>ms. Inr (m # ms)))))"

definition sealed_manifests_from_revert_plan :: "go_lib \<Rightarrow> revert_plan \<Rightarrow> goerr + sealed_manifest list" where
  "sealed_manifests_from_revert_plan L plan = sealed_manifests_loop L plan (rp_restored_files plan)"

definition revert_plan_files_by_path :: "revert_plan \<Rightarrow> (string, bytes) gomap" where
  "revert_plan_files_by_path plan =
     fold (\<lambda>(repo_path, data) m.
       case service_relative_path (service_path (rp_org plan) (rp_project plan) (rp_service plan)) repo_path of
         None \<Rightarrow> m | Some rel \<Rightarrow> mput rel data m) (rp_files plan) []"

subsection \<open>Applying a revert\<close>

text \<open>
  The decision about a plan that changes nothing: pull and reload, then plan again, unless the reload
  fails while the work tree differs from the target, in which case the plan is applied.
\<close>

definition settle_noop ::
  "'w store_env \<Rightarrow> revert_request option \<Rightarrow> revert_plan \<Rightarrow> store \<Rightarrow> 'w \<Rightarrow> (goerr + revert_plan) \<times> store \<times> 'w" where
  "settle_noop E request plan s w =
     (case gr_pull (en_git E) w of
        (Inl e, w) \<Rightarrow> (Inl e, s, w)
      | (Inr (hash, updated), w) \<Rightarrow>
          (case reload_unlocked E s w of
             (Some e, s, w) \<Rightarrow>
               (case gr_read_service_files_at_commit (en_git E) hash (rp_org plan) (rp_project plan) (rp_service plan) w of
                  (Inl _, w) \<Rightarrow> (Inl e, s, w)
                | (Inr current_files, w) \<Rightarrow>
                    if service_files_equal (service_file_contents_by_path current_files) (revert_plan_files_by_path plan)
                    then (Inl e, s, w)
                    else (Inr (plan\<lparr>rp_noop := False\<rparr>), s, w))
           | (None, s, w) \<Rightarrow> (case prepare_revert E s request w of (r, w) \<Rightarrow> (r, s, w))))"

definition restore_plan ::
  "'w store_env \<Rightarrow> revert_plan \<Rightarrow> revert_result \<Rightarrow> store \<Rightarrow> 'w \<Rightarrow> (goerr + revert_result) \<times> store \<times> 'w" where
  "restore_plan E plan result s w =
     (case sealed_manifests_from_revert_plan (en_lib E) plan of
        Inl e \<Rightarrow> (Inl e, s, w)
      | Inr manifests \<Rightarrow>
          if 0 < length manifests \<and> dep_applier (en_deps E) = None
          then (Inl (app_new CodeValidation ''secret applier is not configured''), s, w)
          else
            (case gr_restore_and_push (en_git E) (rp_message plan) (rp_org plan) (rp_project plan) (rp_service plan)
                    (rp_files plan) w of
               (Inl e, w) \<Rightarrow> (Inl e, s, w)
             | (Inr (hash, deleted_files), w) \<Rightarrow>
                 (let result = result\<lparr>rv_version := hash, rv_deleted_files := deleted_files\<rparr>;
                      (result, w) =
                        (if 0 < length manifests then
                           (case dep_applier (en_deps E) of
                              None \<Rightarrow> (result, w)
                            | Some applier \<Rightarrow>
                                (case apply_sealed_manifests applier manifests w of
                                   (None, w) \<Rightarrow> (result, w)
                                 | (Some e, w) \<Rightarrow> (result\<lparr>rv_apply_failed := True, rv_apply_error := err_msg e\<rparr>, w)))
                         else (result, w))
                  in case reload_unlocked E s w of
                       (None, s, w) \<Rightarrow> (Inr result, s, w)
                     | (Some e, s, w) \<Rightarrow>
                         (Inr (result\<lparr>rv_reload_failed := True, rv_reload_error := err_msg e\<rparr>), s, w))))"

definition apply_revert ::
  "'w store_env \<Rightarrow> revert_request option \<Rightarrow> store \<Rightarrow> 'w \<Rightarrow> (goerr + revert_result) \<times> store \<times> 'w" where
  "apply_revert E request s w =
     (case prepare_revert E s request w of
        (Inl e, w) \<Rightarrow> (Inl e, s, w)
      | (Inr plan, w) \<Rightarrow>
          (case (if rp_noop plan then settle_noop E request plan s w else (Inr plan, s, w)) of
             (Inl e, s, w) \<Rightarrow> (Inl e, s, w)
           | (Inr plan, s, w) \<Rightarrow>
               (let (now, w) = en_now E w;
                    result = \<lparr>rv_version = [], rv_target_version = rp_target_version plan, rv_updated_at = now,
                              rv_restored_files = rp_restored_files plan, rv_deleted_files = rp_deleted_files plan,
                              rv_noop = rp_noop plan, rv_apply_failed = False, rv_apply_error = [],
                              rv_reload_failed = False, rv_reload_error = []\<rparr>
                in if rp_noop plan then (Inr (result\<lparr>rv_version := head_version s\<rparr>), s, w)
                   else restore_plan E plan result s w)))"

end
