(* ===== verification/RevertProps.thy ===== *)
theory RevertProps
  imports Revert
begin

text \<open>
  What a revert guarantees: the plan restores exactly the target's files and its no-op flag is exact, the
  identity of a sealed manifest survives its path, and a no-op is reported only on a freshly
  reloaded store.
\<close>

subsection \<open>Plans\<close>

lemma contents_by_path_wf: "wf_map (service_file_contents_by_path files)"
proof -
  have "wf_map m \<Longrightarrow> wf_map (fold (\<lambda>f. mput (fo_path f) (fo_data f)) files m)" for m :: "(string, bytes) gomap"
    by (rule gm.fold_put_ok)
  then show ?thesis by (simp add: service_file_contents_by_path_def)
qed

lemma contents_by_path_keys: "fst ` set (service_file_contents_by_path files) = fo_path ` set files"
proof -
  have "fst ` set (fold (\<lambda>f. mput (fo_path f) (fo_data f)) files m) = fo_path ` set files \<union> fst ` set m"
    for m :: "(string, bytes) gomap" by (induction files arbitrary: m) auto
  then show ?thesis by (simp add: service_file_contents_by_path_def)
qed

text \<open>\<open>serviceFilesEqual\<close> decides equality of the two maps.\<close>

lemma service_files_equal_iff:
  assumes "wf_map current" and "wf_map target"
  shows "service_files_equal current target \<longleftrightarrow> mget current = mget target"
proof
  assume eq: "service_files_equal current target"
  then have sub: "mget current p = Some d" if "mget target p = Some d" for p d
    using mget_Some_in [OF that] by (force simp: service_files_equal_def list_all_iff)
  then have "dom (mget target) \<subseteq> dom (mget current)" by auto
  moreover have "card (dom (mget current)) = card (dom (mget target))"
    using eq gm.length_keys [OF assms(1)] gm.length_keys [OF assms(2)] by (simp add: service_files_equal_def)
  moreover have "finite (dom (mget current))" by (simp add: dom_mget)
  ultimately have "dom (mget target) = dom (mget current)" by (intro card_subset_eq) simp_all
  moreover have "mget target \<subseteq>\<^sub>m mget current" using sub by (auto simp: map_le_def)
  ultimately have "mget current \<subseteq>\<^sub>m mget target" by (auto simp: map_le_def)
  with \<open>mget target \<subseteq>\<^sub>m mget current\<close> show "mget current = mget target" by (rule map_le_antisym [rotated])
next
  assume eq: "mget current = mget target"
  then have "length current = length target"
    using gm.length_keys [OF assms(1)] gm.length_keys [OF assms(2)] by simp
  moreover have "mget current (fst q) = Some (snd q)" if "q \<in> set target" for q
    using that mget_iff [OF assms(2), of "fst q" "snd q"] by (simp add: eq)
  ultimately show "service_files_equal current target"
    by (simp add: service_files_equal_def list_all_iff split_beta)
qed

text \<open>The relative paths a git tree holds: plain components.\<close>

definition clean_rel :: "string \<Rightarrow> bool" where
  "clean_rel rel \<longleftrightarrow> (\<exists>ws. ws \<noteq> [] \<and> list_all plain_comp ws \<and> rel = join ''/'' ws)"

lemma service_path_join_rel:
  assumes "plain_comp org" and "plain_comp project" and "plain_comp service" and "clean_rel rel"
  shows "path_join [service_path org project service, rel] = service_path org project service @ ''/'' @ rel"
proof -
  from assms(4) obtain ws where ws: "ws \<noteq> []" "list_all plain_comp ws" "rel = join ''/'' ws"
    by (auto simp: clean_rel_def)
  let ?vs = "[''configs'', ''orgs'', org, ''projects'', project, ''services'', service]"
  have vs: "list_all plain_comp ?vs" using assms(1-3) by (simp add: plain_comp_def)
  have svc: "service_path org project service = join ''/'' ?vs" by (simp add: service_path_def)
  have j: "service_path org project service @ ''/'' @ rel = join ''/'' (?vs @ ws)"
    unfolding svc ws(3) by (rule join_append [symmetric]) (simp_all only: ws(1) list.distinct(2) not_False_eq_True)
  have "service_path org project service \<noteq> []" by (simp add: service_path_def)
  then have "path_join [service_path org project service, rel] = path_clean (service_path org project service @ ''/'' @ rel)"
    by (simp add: path_join_def)
  also have "\<dots> = service_path org project service @ ''/'' @ rel"
    unfolding j using vs ws by (intro path_clean_plain) simp_all
  finally show ?thesis .
qed

lemma fold_files_get:
  assumes "inj_on f (set rels)"
  shows "rel \<in> set rels \<Longrightarrow> mget (fold (\<lambda>rel. mput (f rel) (g rel)) rels m) (f rel) = Some (g rel)"
    and "p \<notin> f ` set rels \<Longrightarrow> mget (fold (\<lambda>rel. mput (f rel) (g rel)) rels m) p = mget m p"
  using assms
proof (induction rels arbitrary: m p rel)
  case (Cons r rels)
  { case 1
    then show ?case
    proof (cases "rel \<in> set rels")
      case True
      with Cons.IH(1) 1 show ?thesis by simp
    next
      case False
      with 1 have "rel = r" "f r \<notin> f ` set rels" by (auto simp: inj_on_def)
      with Cons.IH(2) 1 show ?thesis by simp
    qed }
  { case 2
    with Cons.IH(2) show ?case by simp }
qed simp_all

lemma fold_files_keys:
  "fst ` set (fold (\<lambda>rel. mput (f rel) (g rel)) rels m) = f ` set rels \<union> fst ` set (m :: ('k, 'v) gomap)"
  by (induction rels arbitrary: m) auto

text \<open>C23: A revert plan restores exactly the target: its files are the target's contents at the service's repository
  paths, the deleted files are those of the current tree that the target does not have, the restored files are
  the target's, and the plan is a no-op exactly when the current files already are the target's.\<close>

theorem revert_plan_restores_target:
  assumes "plain_comp (rr_org req)" and "plain_comp (rr_project req)" and "plain_comp (rr_service req)"
    and "\<forall>f \<in> set target_files. clean_rel (fo_path f)"
    and "plan = revert_plan_of req target_files current_files"
    and "target = service_file_contents_by_path target_files"
    and "current = service_file_contents_by_path current_files"
  shows "(\<forall>rel \<in> fst ` set target.
      mget (rp_files plan) (service_path (rr_org req) (rr_project req) (rr_service req) @ ''/'' @ rel) = mget target rel) \<and>
    fst ` set (rp_files plan) =
      (\<lambda>rel. service_path (rr_org req) (rr_project req) (rr_service req) @ ''/'' @ rel) ` fst ` set target \<and>
    set (rp_restored_files plan) = fst ` set target \<and>
    set (rp_deleted_files plan) = fst ` set current - fst ` set target \<and>
    (rp_noop plan \<longleftrightarrow> mget current = mget target)"
proof -
  let ?svc = "service_path (rr_org req) (rr_project req) (rr_service req)"
  let ?f = "\<lambda>rel. path_join [?svc, rel]" and ?g = "\<lambda>rel. case mget target rel of Some d \<Rightarrow> d | None \<Rightarrow> []"
  have join: "?f rel = ?svc @ ''/'' @ rel" if "rel \<in> fst ` set target" for rel
    using that assms(4) service_path_join_rel [OF assms(1-3), of rel] unfolding assms(6) contents_by_path_keys by blast
  have files: "rp_files plan = fold (\<lambda>rel. mput (?f rel) (?g rel)) (sorted_keys target) []"
    unfolding assms(5-7) revert_plan_of_def Let_def by simp
  have inj: "inj_on ?f (set (sorted_keys target))"
    using join by (auto simp: inj_on_def set_sorted_keys)
  have get: "mget (rp_files plan) (?svc @ ''/'' @ rel) = mget target rel" if "rel \<in> fst ` set target" for rel
  proof -
    have "mget (rp_files plan) (?f rel) = Some (?g rel)"
      unfolding files by (rule fold_files_get(1) [OF inj]) (simp only: that set_sorted_keys)
    moreover from that obtain d where "mget target rel = Some d" unfolding in_mkeys_mget by blast
    ultimately show ?thesis by (simp only: join [OF that] option.case)
  qed
  have "fst ` set (rp_files plan) = ?f ` fst ` set target"
    unfolding files fold_files_keys set_sorted_keys by simp
  also have "\<dots> = (\<lambda>rel. ?svc @ ''/'' @ rel) ` fst ` set target" by (rule image_cong [OF refl join])
  finally have keys: "fst ` set (rp_files plan) = (\<lambda>rel. ?svc @ ''/'' @ rel) ` fst ` set target" .
  have "set (rp_restored_files plan) = fst ` set target"
    unfolding assms(5,6) revert_plan_of_def Let_def by simp
  moreover have "set (rp_deleted_files plan) = fst ` set current - fst ` set target"
    unfolding assms(5-7) revert_plan_of_def Let_def service_files_missing_from_target_def
    by (simp only: revert_plan.simps set_sort set_filter set_map mget_None_iff) blast
  moreover have "rp_noop plan \<longleftrightarrow> mget current = mget target"
    unfolding assms(5-7) revert_plan_of_def Let_def
    by (simp only: revert_plan.simps service_files_equal_iff contents_by_path_wf)
  ultimately show ?thesis using get keys by blast
qed

definition sample_revert_request :: revert_request where
  "sample_revert_request =
     \<lparr>rr_org = ''o'', rr_project = ''p'', rr_service = ''s'', rr_target_version = ''c1'', rr_message = []\<rparr>"

definition sample_content :: "string \<Rightarrow> string \<Rightarrow> service_file_content" where
  "sample_content path data = \<lparr>fo_path = path, fo_kind = FileConfig, fo_data = data\<rparr>"

theorem revert_plan_restores_target_witness:
  "set (rp_deleted_files (revert_plan_of sample_revert_request [sample_content ''a'' ''1''] [sample_content ''b'' ''2''])) = {''b''}"
proof -
  have c: "\<forall>f \<in> set [sample_content ''a'' ''1'']. clean_rel (fo_path f)"
    by (simp add: clean_rel_def sample_content_def) (rule exI [of _ "[''a'']"], simp add: plain_comp_def)
  from revert_plan_restores_target [OF _ _ _ c refl refl refl, of sample_revert_request "[sample_content ''b'' ''2'']"]
  show ?thesis
    by (simp add: sample_revert_request_def plain_comp_def contents_by_path_keys) (simp add: sample_content_def)
qed

subsection \<open>Identity of sealed manifests\<close>

text \<open>The path of a generated manifest carries its identity: the service-relative path of what the sealer produced is
  accepted as a path of that service, and reading namespace and name back from it yields those of the request.\<close>

theorem sealed_path_roundtrip:
  assumes "list_all plain_comp [sr_org req, sr_project req, sr_service req, sr_namespace req, sr_name req]"
  shows "\<exists>rel. service_relative_path (service_path (sr_org req) (sr_project req) (sr_service req)) (sealed_secret_path req) = Some rel \<and>
    has_prefix rel sealed_prefix \<and>
    sealed_manifest_identity_from_path rel = Some (sr_namespace req, sr_name req)"
proof -
  let ?rel = "''sealed-secrets'' @ ''/'' @ sr_namespace req @ ''/'' @ sr_name req @ ''.yaml''"
  have p: "plain_comp (sr_namespace req)" "plain_comp (sr_name req @ ''.yaml'')" "plain_comp (sr_name req)"
    using assms plain_comp_yaml by simp_all
  have "sealed_secret_path req = service_path (sr_org req) (sr_project req) (sr_service req) @ ''/'' @ ?rel"
    using sealed_secret_path_plain [OF assms] by simp
  then have 1: "service_relative_path (service_path (sr_org req) (sr_project req) (sr_service req)) (sealed_secret_path req) = Some ?rel"
    by (simp only: service_relative_path_Some)
  have "split_on slash (join ''/'' [''sealed-secrets'', sr_namespace req, sr_name req @ ''.yaml'']) =
      [''sealed-secrets'', sr_namespace req, sr_name req @ ''.yaml'']"
    by (rule split_on_join_plain) (use p in \<open>simp_all add: plain_comp_def\<close>)
  then have sp: "split_on slash ?rel = [''sealed-secrets'', sr_namespace req, sr_name req @ ''.yaml'']" by simp
  have 2: "sealed_manifest_identity_from_path ?rel = Some (sr_namespace req, sr_name req)"
    unfolding sealed_manifest_identity_from_path_def sp using p
    by (simp add: Let_def plain_comp_def trim_suffix_append has_suffix_append
        del: append_assoc)
  have "?rel = sealed_prefix @ (sr_namespace req @ ''/'' @ sr_name req @ ''.yaml'')" by (simp add: sealed_prefix_def)
  then have 3: "has_prefix ?rel sealed_prefix" by (metis has_prefix_append)
  show ?thesis by (rule exI [of _ ?rel], rule conjI [OF 1], rule conjI [OF 3 2])
qed

theorem sealed_path_roundtrip_witness:
  "\<exists>rel. service_relative_path (service_path ''o'' ''p'' ''s'')
      (sealed_secret_path \<lparr>sr_org = ''o'', sr_project = ''p'', sr_service = ''s'', sr_namespace = ''ns'', sr_name = ''db'', sr_data = []\<rparr>) = Some rel \<and>
    has_prefix rel sealed_prefix \<and> sealed_manifest_identity_from_path rel = Some (''ns'', ''db'')"
  using sealed_path_roundtrip [of "\<lparr>sr_org = ''o'', sr_project = ''p'', sr_service = ''s'', sr_namespace = ''ns'', sr_name = ''db'', sr_data = []\<rparr>"]
  by (simp add: plain_comp_def)

subsection \<open>Applying a revert\<close>

lemma restore_plan_noop: "restore_plan E plan result s w = (Inr r, s', w') \<Longrightarrow> rv_noop r = rv_noop result"
  by (auto simp: restore_plan_def Let_def split: sum.splits if_splits prod.splits option.splits)

lemma settle_noop_keeps:
  assumes "settle_noop E request plan s w = (Inr plan', s', w')" and "rp_noop plan'"
  shows "\<not> is_degraded s' \<and> (\<exists>w1. fst (prepare_revert E s' request w1) = Inr plan')"
proof -
  from assms obtain w1 w2 where r: "reload_unlocked E s w1 = (None, s', w2)" and p: "prepare_revert E s' request w2 = (Inr plan', w')"
    by (auto simp: settle_noop_def split: sum.splits prod.splits option.splits if_splits)
  from r have "\<not> is_degraded s'"
    by (cases rule: reload_cases [where E = E and s = s and w = w1]) (auto simp: is_degraded_def)
  with p show ?thesis by (metis fst_conv)
qed

text \<open>A revert is reported as a no-op only on fresh evidence: when apply_revert answers no-op, the repository was pulled
  and the store reloaded without error after the request, the plan made against that reloaded store is still a no-op, and
  the version reported is the head now served.\<close>

theorem noop_revert_is_fresh:
  assumes "apply_revert E request s w = (Inr r, s', w')" and "rv_noop r"
  shows "\<not> is_degraded s' \<and> rv_version r = head_version s' \<and>
    (\<exists>w1 plan. fst (prepare_revert E s' request w1) = Inr plan \<and> rp_noop plan \<and> rv_restored_files r = rp_restored_files plan)"
proof -
  obtain plan w1 where p: "prepare_revert E s request w = (Inr plan, w1)"
    using assms(1) by (auto simp: apply_revert_def split: sum.splits prod.splits)
  let ?step = "if rp_noop plan then settle_noop E request plan s w1 else (Inr plan, s, w1)"
  obtain plan' s1 w2 where st: "?step = (Inr plan', s1, w2)"
    using assms(1) p by (auto simp: apply_revert_def split: sum.splits prod.splits)
  let ?res = "\<lambda>now. \<lparr>rv_version = [], rv_target_version = rp_target_version plan', rv_updated_at = now,
      rv_restored_files = rp_restored_files plan', rv_deleted_files = rp_deleted_files plan',
      rv_noop = rp_noop plan', rv_apply_failed = False, rv_apply_error = [], rv_reload_failed = False, rv_reload_error = []\<rparr>"
  have fin: "(if rp_noop plan' then (Inr ((?res (fst (en_now E w2)))\<lparr>rv_version := head_version s1\<rparr>), s1, snd (en_now E w2))
      else restore_plan E plan' (?res (fst (en_now E w2))) s1 (snd (en_now E w2))) = (Inr r, s', w')"
    using assms(1) by (cases "rp_noop plan'") (auto simp: apply_revert_def p st Let_def split_beta)
  have noop: "rp_noop plan'"
  proof (rule ccontr)
    assume "\<not> rp_noop plan'"
    with fin restore_plan_noop assms(2) show False by fastforce
  qed
  with fin have r: "s' = s1" "rv_version r = head_version s1" "rv_restored_files r = rp_restored_files plan'" by auto
  have "settle_noop E request plan s w1 = (Inr plan', s1, w2)" using st noop by (auto split: if_splits)
  from settle_noop_keeps [OF this noop] noop r show ?thesis by auto
qed

lemma classify_sample_change:
  "classify_service_file_change sample_path ''o'' ''p'' ''s'' = Some \<lparr>fc_path = ''config.yaml'', fc_kind = FileConfig\<rparr>"
  unfolding sample_path_def
  using classify_change_plain [of "''o''" "''p''" "''s''" "[''config.yaml'']"] by (simp add: plain_comp_def kind_of_def)

lemma sample_reload:
  obtains s' where "reload_unlocked sample_env s [(''c1'', [(sample_path, ''a'')])] = (None, s', [(''c1'', [(sample_path, ''a'')])])"
    and "head_version s' = ''c1''" and "\<exists>sd. get_config s' ''o'' ''p'' ''s'' = Inr sd"
proof -
  let ?w = "[(''c1'', [(sample_path, ''a'')])]"
  have ok: "\<forall>f \<in> set [(sample_path, ''a'')]. repo_file_ok (en_lib sample_env) f" by (simp add: sample_file_ok)
  obtain now w2 at w3 where n: "en_now sample_env ?w = (now, w2)" "en_now sample_env w2 = (at, w3)"
    and r0: "reload_unlocked sample_env s ?w =
      (None, s\<lparr>st_snapshot := new_snapshot (served_data (en_lib sample_env) s [(sample_path, ''a'')] now ''c1'') ''c1'',
              st_last_reload := Some \<lparr>rl_at = at, rl_err = None\<rparr>,
              st_watch_gen := (if ''c1'' \<noteq> head_version s then Suc (st_watch_gen s) else st_watch_gen s)\<rparr>, w3)"
    by (rule reload_ok [OF sample_snapshot ok, where s = s])
  from n have w3: "w3 = ?w" by (simp add: sample_now)
  let ?s' = "fst (snd (reload_unlocked sample_env s ?w))"
  have r: "reload_unlocked sample_env s ?w = (None, ?s', ?w)" and h: "head_version ?s' = ''c1''"
    by (simp_all add: r0 w3 head_version_def new_snapshot_def)
  have "has_files [(sample_path, ''a'')] (service_key ''o'' ''p'' ''s'')"
    using classify_sample_path by (auto simp: has_files_def)
  with served_service [OF sample_snapshot r, of "''o''" "''p''" "''s''"]
  have "\<exists>sd. get_config ?s' ''o'' ''p'' ''s'' = Inr sd" by (cases "get_config ?s' ''o'' ''p'' ''s''") simp_all
  from that [OF r h this] show ?thesis .
qed

theorem noop_revert_is_fresh_witness:
  "\<exists>r s' w'. apply_revert sample_env (Some sample_revert_request)
      (sample_snapshot_store) [(''c1'', [(sample_path, ''a'')])] = (Inr r, s', w') \<and> rv_version r = head_version s'"
proof -
  let ?w = "[(''c1'', [(sample_path, ''a'')])]" and ?req = sample_revert_request
  let ?plan = "revert_plan_of ?req [sample_content ''config.yaml'' ''a''] [sample_content ''config.yaml'' ''a'']"
  have names: "validate_name f ''o'' = None" "validate_name f ''p'' = None" "validate_name f ''s'' = None" for f
    by (simp_all add: validate_name_def valid_name_re_def is_alnum_def)
  have files: "gr_read_service_files_at_commit (en_git sample_env) ''c1'' ''o'' ''p'' ''s'' ?w =
      (Inr [sample_content ''config.yaml'' ''a''], ?w)"
    by (simp add: sample_env_def mem_repo_def List.map_filter_def classify_sample_change sample_content_def)
  have hist: "target_version_changed_service sample_env ?req ?w = (Inr True, ?w)"
    by (simp add: target_version_changed_service_def sample_env_def mem_repo_def sample_revert_request_def)
  have prep: "prepare_revert sample_env s (Some ?req) ?w = (Inr ?plan, ?w)"
    if "\<exists>sd. get_config s ''o'' ''p'' ''s'' = Inr sd" "head_version s = ''c1''" for s
    using that files hist by (auto simp: prepare_revert_def sample_revert_request_def names)
  have noop: "rp_noop ?plan"
    by (simp add: revert_plan_of_def Let_def service_files_equal_def service_file_contents_by_path_def)
  have old: "\<exists>sd. get_config sample_snapshot_store ''o'' ''p'' ''s'' = Inr sd" "head_version sample_snapshot_store = ''c1''"
    by (simp_all add: get_config_def sample_snapshot_store_def new_snapshot_def head_version_def)
  obtain s' where r: "reload_unlocked sample_env sample_snapshot_store ?w = (None, s', ?w)"
    and s': "head_version s' = ''c1''" "\<exists>sd. get_config s' ''o'' ''p'' ''s'' = Inr sd" by (rule sample_reload)
  have pull: "gr_pull (en_git sample_env) ?w = (Inr (''c1'', False), ?w)"
    by (simp add: sample_env_def mem_repo_def mem_head_def)
  have settle: "settle_noop sample_env (Some ?req) ?plan sample_snapshot_store ?w = (Inr ?plan, s', ?w)"
    by (simp add: settle_noop_def pull r prep [OF s'(2,1)])
  obtain res where res: "apply_revert sample_env (Some ?req) sample_snapshot_store ?w = (Inr res, s', ?w)" "rv_noop res"
    using noop by (simp add: apply_revert_def prep [OF old] settle sample_now Let_def)
  from noop_revert_is_fresh [OF res] res(1) show ?thesis by blast
qed

end
