(* ===== verification/StoreSystem.thy ===== *)
theory StoreSystem
  imports RevertProps
begin

text \<open>
  The store as a whole: every operation that can change it is an event, and a run is a sequence of
  events. All changes go through reloads, so what holds of a reload holds along every run.
\<close>

datatype store_event =
    EvLoad
  | EvRefresh
  | EvForceReload
  | EvApply change_request
  | EvDelete string string string
  | EvRevert "revert_request option"

definition store_step :: "'w store_env \<Rightarrow> store \<times> 'w \<Rightarrow> store_event \<Rightarrow> store \<times> 'w" where
  "store_step E sw ev =
     (case ev of
        EvLoad \<Rightarrow> snd (load_from_repo E (fst sw) (snd sw))
      | EvRefresh \<Rightarrow> snd (refresh_from_repo E (fst sw) (snd sw))
      | EvForceReload \<Rightarrow> snd (reload_from_repo E (fst sw) (snd sw))
      | EvApply req \<Rightarrow> snd (snd (apply_changes E req (fst sw) (snd sw)))
      | EvDelete org project service \<Rightarrow> snd (delete_changes E org project service (fst sw) (snd sw))
      | EvRevert request \<Rightarrow> snd (apply_revert E request (fst sw) (snd sw)))"

text \<open>A store that evolves by reloads only.\<close>

inductive evolves :: "'w store_env \<Rightarrow> store \<Rightarrow> store \<Rightarrow> bool" for E where
  refl: "evolves E s s"
| reload: "evolves E s s1 \<Longrightarrow> reload_unlocked E s1 w = (r, s', w') \<Longrightarrow> evolves E s s'"

lemma evolves_one: "reload_unlocked E s w = (r, s', w') \<Longrightarrow> evolves E s s'"
  by (rule evolves.reload [OF evolves.refl])

lemma evolves_fst: "evolves E s (fst (snd (reload_unlocked E s w)))"
  by (metis evolves_one prod.collapse)

lemma finish_change_evolves: "finish_change E ms r s w = (r', s', w') \<Longrightarrow> evolves E s s'"
  by (auto elim!: finish_change_cases intro: evolves_one)

lemma load_evolves: "evolves E s (fst (snd (load_from_repo E s w)))"
  by (auto simp: load_from_repo_def reload_def intro: evolves.refl evolves_fst split: prod.split option.split sum.split)

lemma refresh_evolves: "evolves E s (fst (snd (refresh_from_repo E s w)))"
  by (auto simp: refresh_from_repo_def reload_def intro: evolves.refl evolves_one split: prod.split option.split sum.split)

lemma force_reload_evolves: "evolves E s (fst (snd (reload_from_repo E s w)))"
  by (auto simp: reload_from_repo_def reload_def Let_def intro: evolves.refl evolves_one
      split: prod.split option.split sum.split)

lemma delete_evolves: "evolves E s (fst (snd (delete_changes E org project service s w)))"
  by (auto simp: delete_changes_def Let_def intro: evolves.refl evolves_one split: prod.split option.split sum.split)

lemma apply_evolves: "evolves E s (fst (snd (snd (apply_changes E req s w))))"
proof (cases "apply_changes E req s w")
  case (fields r secrets s' w')
  show ?thesis
  proof (cases r)
    case (Inl e)
    with fields failed_write_fact [of E req s w e secrets s' w'] show ?thesis by (simp add: evolves.refl)
  next
    case (Inr c)
    with fields obtain sl a w1 w2 where "commit_change E req sl s w1 = (Inr c, a, s', w2)"
      by (auto simp: apply_changes_def Let_def split: option.splits sum.splits prod.splits if_splits)
    then obtain ms r0 w0 where "finish_change E ms r0 s w0 = (c, s', w2)" by (rule commit_change_ok)
    with fields show ?thesis by (simp add: finish_change_evolves)
  qed
qed

lemma restore_evolves: "restore_plan E plan result s w = (r, s', w') \<Longrightarrow> evolves E s s'"
  by (auto simp: restore_plan_def Let_def intro: evolves.refl evolves_one
      split: prod.splits option.splits sum.splits if_splits)

lemma settle_evolves: "settle_noop E request plan s w = (r, s', w') \<Longrightarrow> evolves E s s'"
  by (auto simp: settle_noop_def intro: evolves.refl evolves_one
      split: prod.splits option.splits sum.splits if_splits)

lemma evolves_trans: "evolves E s1 s2 \<Longrightarrow> evolves E s s1 \<Longrightarrow> evolves E s s2"
  by (induction rule: evolves.induct) (auto intro: evolves.reload)

lemma revert_evolves: "evolves E s (fst (snd (apply_revert E request s w)))"
proof -
  obtain r w1 where p: "prepare_revert E s request w = (r, w1)" by (cases "prepare_revert E s request w")
  show ?thesis
  proof (cases r)
    case (Inr plan)
    let ?step = "if rp_noop plan then settle_noop E request plan s w1 else (Inr plan, s, w1)"
    obtain r1 s1 w2 where st: "?step = (r1, s1, w2)" by (cases ?step) auto
    then have ev: "evolves E s s1" by (auto intro: settle_evolves evolves.refl split: if_splits)
    show ?thesis
    proof (cases r1)
      case (Inr plan')
      let ?res = "\<lparr>rv_version = [], rv_target_version = rp_target_version plan', rv_updated_at = fst (en_now E w2),
          rv_restored_files = rp_restored_files plan', rv_deleted_files = rp_deleted_files plan',
          rv_noop = rp_noop plan', rv_apply_failed = False, rv_apply_error = [], rv_reload_failed = False, rv_reload_error = []\<rparr>"
      obtain r2 s2 w3 where r2: "restore_plan E plan' ?res s1 (snd (en_now E w2)) = (r2, s2, w3)"
        by (cases "restore_plan E plan' ?res s1 (snd (en_now E w2))") auto
      have "fst (snd (apply_revert E request s w)) = (if rp_noop plan' then s1 else s2)"
        using r2 by (cases "rp_noop plan'") (simp_all add: apply_revert_def p \<open>r = Inr plan\<close> st Inr Let_def split_beta)
      with ev restore_evolves [OF r2] show ?thesis by (auto intro: evolves_trans)
    qed (simp add: apply_revert_def p \<open>r = Inr plan\<close> st ev)
  qed (simp add: apply_revert_def p evolves.refl)
qed

lemma store_step_evolves: "evolves E (fst sw) (fst (store_step E sw ev))"
  by (cases ev) (simp_all add: store_step_def load_evolves refresh_evolves force_reload_evolves apply_evolves
      delete_evolves revert_evolves)

text \<open>The snapshot is the initial empty one, or every service in it is that of one and the same commit.\<close>

definition snapshot_of_commit :: "'w store_env \<Rightarrow> snapshot \<Rightarrow> bool" where
  "snapshot_of_commit E snap \<longleftrightarrow>
     (\<exists>w hash files w1. gr_snapshot (en_git E) w = (Inr (hash, files), w1) \<and> (\<forall>f \<in> set files. repo_file_ok (en_lib E) f) \<and>
        sn_version snap = hash \<and>
        (\<forall>key. case mget (sn_data snap) key of
                 None \<Rightarrow> \<not> has_files files key
               | Some sd \<Rightarrow> has_files files key \<and> matches_files (en_lib E) files key sd))"

definition store_inv :: "'w store_env \<Rightarrow> store \<Rightarrow> bool" where
  "store_inv E s \<longleftrightarrow> keys_ok (sn_data (st_snapshot s)) \<and>
     (st_snapshot s = new_snapshot [] [] \<or> snapshot_of_commit E (st_snapshot s))"

lemma served_data_matches:
  assumes "\<forall>f \<in> set files. repo_file_ok L f"
  shows "case mget (served_data L s files now hash) key of
     None \<Rightarrow> \<not> has_files files key
   | Some sd \<Rightarrow> has_files files key \<and> matches_files L files key sd"
proof -
  have data: "data_ok L files (fst (loaded L files))" using assms loaded_ok [of L files] by simp
  show ?thesis
    using data_okD(2,3) [OF data, of key]
    by (cases "mget (fst (loaded L files)) key") (simp_all add: served_data_get matches_files_def)
qed

lemma reload_inv: "store_inv E s \<Longrightarrow> reload_unlocked E s w = (r, s', w') \<Longrightarrow> store_inv E s'"
proof (cases rule: reload_cases [where E = E and s = s and w = w])
  case (ok hash files w1 now at w2)
  assume r: "reload_unlocked E s w = (r, s', w')"
  with ok(3) have s': "reload_unlocked E s w = (None, s', w')"
    "st_snapshot s' = new_snapshot (served_data (en_lib E) s files now hash) hash" by auto
  from reload_keys_ok [OF s'(1)] show ?thesis
    unfolding store_inv_def snapshot_of_commit_def s'(2) new_snapshot_def snapshot.simps
    using ok(1,2) served_data_matches [OF ok(2), where s = s and now = now and hash = hash] by blast
qed (auto simp: store_inv_def)

lemma reload_gen: "reload_unlocked E s w = (r, s', w') \<Longrightarrow> st_watch_gen s \<le> st_watch_gen s'"
  by (cases rule: reload_cases [where E = E and s = s and w = w]) (auto split: if_splits)

lemma evolves_inv: "evolves E s s' \<Longrightarrow> store_inv E s \<Longrightarrow> store_inv E s'"
  by (induction rule: evolves.induct) (auto intro: reload_inv)

lemma evolves_gen: "evolves E s s' \<Longrightarrow> st_watch_gen s \<le> st_watch_gen s'"
  by (induction rule: evolves.induct) (auto dest: reload_gen)

interpretation store_sys: monotone_system "store_step E" "\<lambda>sw. store_inv E (fst sw)" "\<lambda>sw. st_watch_gen (fst sw)"
  for E :: "'w store_env"
  by unfold_locales (auto intro: evolves_inv [OF store_step_evolves] evolves_gen [OF store_step_evolves])

lemma new_store_inv: "store_inv E new_store"
  by (simp add: store_inv_def new_store_def new_snapshot_def keys_ok_def)

text \<open>C3: Whatever sequence of loads, refreshes, forced reloads, writes, deletes and reverts a store goes through, successful
  or not, the snapshot it serves is either the initial empty one or, for every service, that of one single commit of
  the repository all of whose recognised files parse; the keys are those of slash-free names; and the watch
  generation never goes back.\<close>

theorem every_run_serves_one_commit:
  "store_inv E (fst (foldl (store_step E) (new_store, w) (evs @ evs'))) \<and>
   st_watch_gen (fst (foldl (store_step E) (new_store, w) evs)) \<le>
     st_watch_gen (fst (foldl (store_step E) (new_store, w) (evs @ evs')))"
proof -
  have init: "store_inv E (fst (new_store, w))" by (simp add: new_store_inv)
  note run = store_sys.inv_run [OF init]
  from run [of "evs @ evs'"] store_sys.progress_run [OF run [of evs], of evs'] show ?thesis by simp
qed

end
