(* ===== verification/Watch.thy ===== *)
theory Watch
  imports StoreSystem
begin

text \<open>
  \<open>WaitForVersionChange\<close> and \<open>notifyVersionChange\<close> (internal/store/store.go) with their
  interleavings: one writer at a time swaps the snapshot and then, when the version changed, closes
  the current channel and makes a new one; any number of waiters check the version and take the
  current channel under the watch lock, then block on the channel or on their context. A channel is
  its generation: all channels of smaller generation are closed.
\<close>

datatype waiter =
    Checking
  | Waiting nat
  | Returned string bool

record watch_state =
  wa_version :: string
  wa_gen :: nat
  wa_notify_due :: bool
  wa_waiters :: "nat \<Rightarrow> waiter"

text \<open>
  \<open>known i\<close> is the version waiter i was called with. \<open>swap\<close> is the snapshot swap of a reload,
  \<open>notify\<close> the close of the channel that follows it under the same writers' lock.
\<close>

inductive watch_step :: "(nat \<Rightarrow> string) \<Rightarrow> watch_state \<Rightarrow> watch_state \<Rightarrow> bool" for known where
  swap: "\<not> wa_notify_due s \<Longrightarrow>
    watch_step known s (s\<lparr>wa_version := v, wa_notify_due := (v \<noteq> wa_version s)\<rparr>)"
| notify: "wa_notify_due s \<Longrightarrow>
    watch_step known s (s\<lparr>wa_gen := Suc (wa_gen s), wa_notify_due := False\<rparr>)"
| check: "wa_waiters s i = Checking \<Longrightarrow>
    watch_step known s
      (s\<lparr>wa_waiters := (wa_waiters s)(i := if wa_version s \<noteq> known i then Returned (wa_version s) True
                                          else Waiting (wa_gen s))\<rparr>)"
| wake: "wa_waiters s i = Waiting g \<Longrightarrow> g < wa_gen s \<Longrightarrow>
    watch_step known s (s\<lparr>wa_waiters := (wa_waiters s)(i := Checking)\<rparr>)"
| cancel: "wa_waiters s i = Waiting g \<Longrightarrow>
    watch_step known s
      (s\<lparr>wa_waiters := (wa_waiters s)(i := Returned (wa_version s) (wa_version s \<noteq> known i))\<rparr>)"

inductive watch_run :: "(nat \<Rightarrow> string) \<Rightarrow> watch_state \<Rightarrow> watch_state \<Rightarrow> bool" for known where
  start: "watch_run known s s"
| step: "watch_run known s s' \<Longrightarrow> watch_step known s' s'' \<Longrightarrow> watch_run known s s''"

inductive_cases watch_stepE: "watch_step known s s'"

definition watch_init :: "string \<Rightarrow> watch_state" where
  "watch_init v = \<lparr>wa_version = v, wa_gen = 0, wa_notify_due = False, wa_waiters = (\<lambda>_. Checking)\<rparr>"

text \<open>
  No waiter blocks on a channel of the future; one that blocks on the open channel still knows the
  current version, unless the notification of the last swap is about to close that channel.
\<close>

definition watch_inv :: "(nat \<Rightarrow> string) \<Rightarrow> watch_state \<Rightarrow> bool" where
  "watch_inv known s \<longleftrightarrow>
     (\<forall>i g. wa_waiters s i = Waiting g \<longrightarrow>
        g \<le> wa_gen s \<and> (g = wa_gen s \<longrightarrow> wa_version s = known i \<or> wa_notify_due s)) \<and>
     (\<forall>i v. wa_waiters s i = Returned v True \<longrightarrow> v \<noteq> known i) \<and>
     (\<forall>i v. wa_waiters s i = Returned v False \<longrightarrow> v = known i)"

lemma watch_inv_init: "watch_inv known (watch_init v)"
  by (simp add: watch_inv_def watch_init_def)

lemma watch_inv_step: "watch_step known s s' \<Longrightarrow> watch_inv known s \<Longrightarrow> watch_inv known s'"
  by (induction rule: watch_step.induct) (auto simp: watch_inv_def intro: le_SucI dest: Suc_n_not_le_n [THEN notE, rotated])

lemma watch_inv_run: "watch_run known s s' \<Longrightarrow> watch_inv known s \<Longrightarrow> watch_inv known s'"
  by (induction rule: watch_run.induct) (auto intro: watch_inv_step)

text \<open>C12: No wakeup is lost: in every interleaving of reloads with any number of waiters, a waiter that is blocked while
  the served version differs from the one it knows either has a closed channel, so it can run on, check and return the
  current version as changed, or the pending notification of the reload is about to close its channel; and no waiter
  ever returns changed with the version it already knew, or unchanged with another.\<close>

theorem no_lost_wakeup:
  assumes "watch_run known (watch_init v0) s"
  shows "(\<forall>i g. wa_waiters s i = Waiting g \<and> wa_version s \<noteq> known i \<and> \<not> wa_notify_due s \<longrightarrow>
      (\<exists>s1 s2. watch_step known s s1 \<and> watch_step known s1 s2 \<and> wa_waiters s2 i = Returned (wa_version s) True)) \<and>
    (\<forall>i v c. wa_waiters s i = Returned v c \<longrightarrow> c = (v \<noteq> known i))"
proof -
  have inv: "watch_inv known s" using assms watch_inv_init by (rule watch_inv_run)
  have "\<exists>s1 s2. watch_step known s s1 \<and> watch_step known s1 s2 \<and> wa_waiters s2 i = Returned (wa_version s) True"
    if w: "wa_waiters s i = Waiting g" and v: "wa_version s \<noteq> known i" "\<not> wa_notify_due s" for i g
  proof -
    from inv w have "g \<le> wa_gen s" "g = wa_gen s \<longrightarrow> wa_version s = known i \<or> wa_notify_due s"
      unfolding watch_inv_def by blast+
    with v have "g < wa_gen s" by auto
    let ?s1 = "s\<lparr>wa_waiters := (wa_waiters s)(i := Checking)\<rparr>"
    have "watch_step known s ?s1" using w \<open>g < wa_gen s\<close> by (rule watch_step.wake)
    moreover have "watch_step known ?s1 (?s1\<lparr>wa_waiters := (wa_waiters ?s1)(i := if wa_version ?s1 \<noteq> known i
        then Returned (wa_version ?s1) True else Waiting (wa_gen ?s1))\<rparr>)"
      by (rule watch_step.check) simp
    ultimately show ?thesis using v(1) by (intro exI conjI) (assumption+, simp)
  qed
  moreover have "c = (v \<noteq> known i)" if "wa_waiters s i = Returned v c" for i v c
    using inv that unfolding watch_inv_def by (cases c) simp_all
  ultimately show ?thesis by blast
qed

theorem no_lost_wakeup_witness:
  "\<exists>s. watch_run (\<lambda>_. ''a'') (watch_init ''a'') s \<and> wa_version s = ''b'' \<and> wa_waiters s 0 = Waiting 0 \<and>
     (\<exists>s1 s2. watch_step (\<lambda>_. ''a'') s s1 \<and> watch_step (\<lambda>_. ''a'') s1 s2 \<and> wa_waiters s2 0 = Returned ''b'' True)"
proof -
  let ?k = "\<lambda>_ :: nat. ''a''"
  let ?s0 = "watch_init ''a''"
  let ?s1 = "?s0\<lparr>wa_waiters := (wa_waiters ?s0)(0 := Waiting 0)\<rparr>"
  let ?s2 = "?s1\<lparr>wa_version := ''b'', wa_notify_due := True\<rparr>"
  let ?s3 = "?s2\<lparr>wa_gen := 1, wa_notify_due := False\<rparr>"
  have "watch_step ?k ?s0 ?s1" using watch_step.check [of ?s0 0 ?k] by (simp add: watch_init_def)
  moreover have "watch_step ?k ?s1 ?s2" using watch_step.swap [of ?s1 ?k "''b''"] by (simp add: watch_init_def)
  moreover have "watch_step ?k ?s2 ?s3" using watch_step.notify [of ?s2 ?k] by (simp add: watch_init_def)
  ultimately have run: "watch_run ?k ?s0 ?s3" by (meson watch_run.intros)
  from no_lost_wakeup [OF run] have "\<exists>s1 s2. watch_step ?k ?s3 s1 \<and> watch_step ?k s1 s2 \<and> wa_waiters s2 0 = Returned ''b'' True"
    by (simp add: watch_init_def)
  with run show ?thesis by (intro exI [of _ ?s3]) (simp add: watch_init_def)
qed

subsection \<open>The reload as swap and notification\<close>

definition watch_of :: "store \<Rightarrow> (nat \<Rightarrow> waiter) \<Rightarrow> watch_state" where
  "watch_of s waiters =
     \<lparr>wa_version = head_version s, wa_gen = st_watch_gen s, wa_notify_due = False, wa_waiters = waiters\<rparr>"

lemma watch_run_trans: "watch_run known s1 s2 \<Longrightarrow> watch_run known s0 s1 \<Longrightarrow> watch_run known s0 s2"
  by (induction rule: watch_run.induct) (auto intro: watch_run.step)

lemma reload_watch_run:
  assumes "reload_unlocked E s w = (r, s', w')"
  shows "watch_run known (watch_of s waiters) (watch_of s' waiters)"
proof (cases rule: reload_cases [where E = E and s = s and w = w])
  case (ok hash files w1 now at w2)
  with assms have s': "head_version s' = hash"
    "st_watch_gen s' = (if hash \<noteq> head_version s then Suc (st_watch_gen s) else st_watch_gen s)"
    by (auto simp: head_version_def new_snapshot_def)
  let ?m = "(watch_of s waiters)\<lparr>wa_version := hash, wa_notify_due := (hash \<noteq> wa_version (watch_of s waiters))\<rparr>"
  have swap: "watch_run known (watch_of s waiters) ?m"
    by (rule watch_run.step [OF watch_run.start watch_step.swap]) (simp add: watch_of_def)
  show ?thesis
  proof (cases "hash = head_version s")
    case True
    then have "?m = watch_of s' waiters" using s' by (simp add: watch_of_def)
    with swap show ?thesis by simp
  next
    case False
    then have "watch_of s' waiters = ?m\<lparr>wa_gen := Suc (wa_gen ?m), wa_notify_due := False\<rparr>"
      using s' by (simp add: watch_of_def)
    moreover have "watch_step known ?m (?m\<lparr>wa_gen := Suc (wa_gen ?m), wa_notify_due := False\<rparr>)"
      by (rule watch_step.notify) (use False in \<open>simp add: watch_of_def\<close>)
    ultimately show ?thesis using swap watch_run.step by metis
  qed
next
  case (failed e at w2)
  with assms have "watch_of s' waiters = watch_of s waiters" by (auto simp: watch_of_def head_version_def)
  then show ?thesis by (simp add: watch_run.start)
qed

text \<open>C17: Every operation of the store refines the watch protocol: from one operation to the next, whatever it is and
  whether it succeeds, the store's version and watch generation move by swaps and notifications of the protocol, so
  that no operation changes the version without closing the channel afterwards.\<close>

theorem operations_follow_watch_protocol:
  "watch_run known (watch_of s waiters) (watch_of (fst (foldl (store_step E) (s, w) evs)) waiters)"
proof -
  have ev: "evolves E a b \<Longrightarrow> watch_run known (watch_of a waiters) (watch_of b waiters)" for a b
    by (induction rule: evolves.induct) (auto intro: watch_run.start watch_run_trans reload_watch_run)
  have "watch_run known (watch_of (fst sw) waiters) (watch_of (fst (foldl (store_step E) sw evs)) waiters)" for sw
  proof (induction evs arbitrary: sw)
    case (Cons e evs)
    from watch_run_trans [OF Cons.IH [of "store_step E sw e"] ev [OF store_step_evolves [of E sw e]]]
    show ?case by simp
  qed (simp add: watch_run.start)
  from this [of "(s, w)"] show ?thesis by simp
qed

end
