(* ===== verification/GoTime.thy ===== *)
theory GoTime
  imports GoErr
begin

text \<open>
  \<open>time.Duration\<close> (an int64 count of nanoseconds, its arithmetic wraps) and \<open>Duration.String\<close>, which
  the agent's validation messages print with \<open>%s\<close>. A \<open>time.Time\<close> is an integer count of nanoseconds,
  0 the zero time.
\<close>

definition wrap64 :: "int \<Rightarrow> int" where
  "wrap64 x = (x + 2 ^ 63) mod 2 ^ 64 - 2 ^ 63"

definition is_int64 :: "int \<Rightarrow> bool" where
  "is_int64 x \<longleftrightarrow> - (2 ^ 63) \<le> x \<and> x < 2 ^ 63"

lemma wrap64_id [simp]: "is_int64 x \<Longrightarrow> wrap64 x = x"
  by (simp add: wrap64_def is_int64_def)

lemma wrap64_range: "is_int64 (wrap64 x)"
  by (simp add: wrap64_def is_int64_def)

definition second :: duration where
  "second = 1000000000"

definition millisecond :: duration where
  "millisecond = 1000000"

text \<open>\<open>fmtFrac\<close>: the last digits as a fraction without its trailing zeros.\<close>

definition show_frac :: "nat \<Rightarrow> nat \<Rightarrow> string" where
  "show_frac v prec =
     (let ds = show_nat v;
          padded = replicate (prec - length ds) (CHR ''0'') @ ds;
          kept = rev (dropWhile (\<lambda>c. c = CHR ''0'') (rev padded))
      in if kept = [] then [] else CHR ''.'' # kept)"

definition show_duration :: "duration \<Rightarrow> string" where
  "show_duration d =
     (if d = 0 then ''0s''
      else (if d < 0 then ''-'' else []) @
        (let u = nat \<bar>d\<bar> in
         if u < 1000 then show_nat u @ ''ns''
         else if u < 1000000 then show_nat (u div 1000) @ show_frac (u mod 1000) 3 @ [CHR 0xC2, CHR 0xB5, CHR ''s'']
         else if u < 1000000000 then show_nat (u div 1000000) @ show_frac (u mod 1000000) 6 @ ''ms''
         else
           (let secs = u div 1000000000; mins = secs div 60; hours = mins div 60
            in (if hours > 0 then show_nat hours @ ''h'' else []) @
               (if mins > 0 then show_nat (mins mod 60) @ ''m'' else []) @
               show_nat (secs mod 60) @ show_frac (u mod 1000000000) 9 @ ''s'')))"

text \<open>\<open>if d <= 0 { return fmt.Errorf(label + " must be > 0, got %s", d) }\<close>\<close>

definition positive_duration :: "string \<Rightarrow> duration \<Rightarrow> goerr option" where
  "positive_duration label d =
     (if d \<le> 0 then Some (errf [label, '' must be > 0, got '', show_duration d]) else None)"

lemma positive_duration_None [simp]: "positive_duration label d = None \<longleftrightarrow> 0 < d"
  by (simp add: positive_duration_def not_le)

end
