(* ===== verification/Debounce.thy ===== *)
theory Debounce
  imports GoTime
begin

text \<open>
  The leading-edge debouncer of the agent (internal/agent/debounce.go): the state machine that decides
  when a changed configuration is rolled out. A method on a nil receiver gets \<open>None\<close>.
\<close>

record debounce_config =
  bc_cooldown :: duration
  bc_quiet_period :: duration
  bc_max_wait :: duration

record debouncer =
  db_cfg :: debounce_config
  db_cooldown_until :: gotime
  db_pending :: bool
  db_debounce_start :: gotime
  db_last_change :: gotime

datatype debounce_reason =
    ReasonImmediate
  | ReasonCooling
  | ReasonPending
  | ReasonQuiet
  | ReasonMaxWait
  | ReasonIdle

record debounce_decision =
  dd_apply_now :: bool
  dd_next_at :: gotime
  dd_reason :: debounce_reason

fun reason_string :: "debounce_reason \<Rightarrow> string" where
  "reason_string ReasonImmediate = ''immediate''"
| "reason_string ReasonCooling = ''cooling''"
| "reason_string ReasonPending = ''pending''"
| "reason_string ReasonQuiet = ''quiet_period''"
| "reason_string ReasonMaxWait = ''max_wait''"
| "reason_string ReasonIdle = ''idle''"

definition validate_debounce :: "debounce_config \<Rightarrow> goerr option" where
  "validate_debounce c =
     or_err (positive_duration ''debounce cooldown'' (bc_cooldown c))
     (or_err (positive_duration ''debounce quiet period'' (bc_quiet_period c))
     (or_err (positive_duration ''debounce max wait'' (bc_max_wait c))
     (or_err (if bc_max_wait c < bc_quiet_period c
              then Some (errf [''debounce max wait must be >= quiet period'']) else None)
             (if bc_max_wait c < bc_cooldown c
              then Some (errf [''debounce max wait must be >= cooldown'']) else None))))"

definition new_debouncer :: "debounce_config \<Rightarrow> goerr + debouncer" where
  "new_debouncer cfg =
     (case validate_debounce cfg of
        Some e \<Rightarrow> Inl e
      | None \<Rightarrow> Inr \<lparr>db_cfg = cfg, db_cooldown_until = 0, db_pending = False, db_debounce_start = 0,
                     db_last_change = 0\<rparr>)"

definition min_time :: "gotime \<Rightarrow> gotime \<Rightarrow> gotime" where
  "min_time a b = (if a < b then a else b)"

definition in_cooldown :: "debouncer \<Rightarrow> gotime \<Rightarrow> bool" where
  "in_cooldown d at \<longleftrightarrow> db_cooldown_until d \<noteq> 0 \<and> at < db_cooldown_until d"

definition next_due_at_and_reason :: "debouncer \<Rightarrow> gotime \<times> debounce_reason" where
  "next_due_at_and_reason d =
     (let quiet_due = db_last_change d + bc_quiet_period (db_cfg d);
          max_due = db_debounce_start d + bc_max_wait (db_cfg d);
          next_at = min_time quiet_due max_due;
          reason = (if next_at = max_due then ReasonMaxWait else ReasonQuiet);
          next_at = (if in_cooldown d next_at then db_cooldown_until d else next_at)
      in (next_at, reason))"

definition next_due_at :: "debouncer option \<Rightarrow> gotime" where
  "next_due_at dopt =
     (case dopt of None \<Rightarrow> 0 | Some d \<Rightarrow> if \<not> db_pending d then 0 else fst (next_due_at_and_reason d))"

definition idle_decision :: debounce_decision where
  "idle_decision = \<lparr>dd_apply_now = False, dd_next_at = 0, dd_reason = ReasonIdle\<rparr>"

definition due :: "debouncer option \<Rightarrow> gotime \<Rightarrow> debounce_decision \<times> debouncer option" where
  "due dopt at =
     (case dopt of
        None \<Rightarrow> (idle_decision, None)
      | Some d \<Rightarrow>
          if \<not> db_pending d then (idle_decision, Some d)
          else (let (next_at, reason) = next_due_at_and_reason d in
                if at < next_at
                then (\<lparr>dd_apply_now = False, dd_next_at = next_at, dd_reason = ReasonPending\<rparr>, Some d)
                else (\<lparr>dd_apply_now = True, dd_next_at = 0, dd_reason = reason\<rparr>,
                      Some (d\<lparr>db_pending := False, db_debounce_start := 0, db_last_change := 0,
                              db_cooldown_until := at + bc_cooldown (db_cfg d)\<rparr>))))"

text \<open>The part of \<open>RecordChange\<close> after an overdue pending rollout has been ruled out.\<close>

definition batch_change :: "debouncer \<Rightarrow> gotime \<Rightarrow> debounce_decision \<times> debouncer" where
  "batch_change d at =
     (if \<not> db_pending d \<and> \<not> in_cooldown d at
      then (\<lparr>dd_apply_now = True, dd_next_at = 0, dd_reason = ReasonImmediate\<rparr>,
            d\<lparr>db_cooldown_until := at + bc_cooldown (db_cfg d)\<rparr>)
      else (let d = (if \<not> db_pending d then d\<lparr>db_pending := True, db_debounce_start := at\<rparr>
                     else if at < db_debounce_start d then d\<lparr>db_debounce_start := at\<rparr> else d);
                d = d\<lparr>db_last_change := at\<rparr>
            in (\<lparr>dd_apply_now = False, dd_next_at = next_due_at (Some d), dd_reason = ReasonCooling\<rparr>, d)))"

definition record_change :: "debouncer option \<Rightarrow> gotime \<Rightarrow> debounce_decision \<times> debouncer option" where
  "record_change dopt at =
     (case dopt of
        None \<Rightarrow> (idle_decision, None)
      | Some d0 \<Rightarrow>
          (let batch = (let (dec, d) = batch_change d0 at in (dec, Some d)) in
           if db_pending d0 then
             (let next_at = next_due_at (Some d0) in
              case due (Some d0) at of
                (dec, Some d) \<Rightarrow>
                  if dd_apply_now dec then
                    (if at = next_at then (dec, Some d)
                     else (let d = d\<lparr>db_pending := True, db_debounce_start := at, db_last_change := at\<rparr>
                           in (\<lparr>dd_apply_now = True, dd_next_at = next_due_at (Some d), dd_reason = dd_reason dec\<rparr>,
                               Some d)))
                  else batch
              | (dec, None) \<Rightarrow> batch)
           else batch))"

definition pending :: "debouncer option \<Rightarrow> bool" where
  "pending dopt = (case dopt of None \<Rightarrow> False | Some d \<Rightarrow> db_pending d)"

end
