(* ===== verification/DebounceProps.thy ===== *)
theory DebounceProps
  imports Debounce
begin

text \<open>
  Runs of the debouncer: changes and timer checks, each some time after the previous one (the caller
  serializes them and reads a clock that does not go back). Beside the debouncer a run keeps the
  changes no rollout has covered yet, and the times of the rollouts, both read off the decisions.
\<close>

datatype debounce_event =
    ChangeAfter nat
  | TimerAfter nat

record debounce_run =
  bq_clock :: gotime
  bq_debouncer :: debouncer
  bq_waiting :: "gotime list"
  bq_rollouts :: "gotime list"

fun event_at :: "debounce_run \<Rightarrow> debounce_event \<Rightarrow> gotime" where
  "event_at r (ChangeAfter n) = bq_clock r + int n"
| "event_at r (TimerAfter n) = bq_clock r + int n"

fun decide :: "debounce_run \<Rightarrow> debounce_event \<Rightarrow> debounce_decision \<times> debouncer option" where
  "decide r (ChangeAfter n) = record_change (Some (bq_debouncer r)) (bq_clock r + int n)"
| "decide r (TimerAfter n) = due (Some (bq_debouncer r)) (bq_clock r + int n)"

text \<open>A decision to apply covers all changes, except the current one when it also names a next time.\<close>

definition debounce_step :: "debounce_run \<Rightarrow> debounce_event \<Rightarrow> debounce_run" where
  "debounce_step r ev =
     (let at = event_at r ev;
          (dec, d) = decide r ev;
          new = (case ev of ChangeAfter _ \<Rightarrow> [at] | TimerAfter _ \<Rightarrow> [])
      in \<lparr>bq_clock = at, bq_debouncer = the d,
          bq_waiting = (if dd_apply_now dec then if dd_next_at dec = 0 then [] else new else bq_waiting r @ new),
          bq_rollouts = (if dd_apply_now dec then bq_rollouts r @ [at] else bq_rollouts r)\<rparr>)"

definition debounce_start_run :: "debouncer \<Rightarrow> gotime \<Rightarrow> debounce_run" where
  "debounce_start_run d now = \<lparr>bq_clock = now, bq_debouncer = d, bq_waiting = [], bq_rollouts = []\<rparr>"

text \<open>
  The state follows the history: the cooldown ends one cooldown after the last rollout, and a pending
  window starts with the first waiting change and ends with the last.
\<close>

definition spaced :: "duration \<Rightarrow> gotime list \<Rightarrow> bool" where
  "spaced c ts \<longleftrightarrow> successively (\<lambda>a b. a + c \<le> b) ts"

definition debounce_inv :: "debounce_config \<Rightarrow> debounce_run \<Rightarrow> bool" where
  "debounce_inv cfg r \<longleftrightarrow>
     (let d = bq_debouncer r in
      validate_debounce cfg = None \<and> db_cfg d = cfg \<and> 0 < bq_clock r \<and> spaced (bc_cooldown cfg) (bq_rollouts r) \<and>
      (if bq_rollouts r = [] then db_cooldown_until d = 0 \<and> \<not> db_pending d
       else db_cooldown_until d = last (bq_rollouts r) + bc_cooldown cfg \<and> 0 < last (bq_rollouts r) \<and>
            last (bq_rollouts r) \<le> bq_clock r) \<and>
      (if db_pending d
       then bq_waiting r \<noteq> [] \<and> db_debounce_start d = hd (bq_waiting r) \<and> db_last_change d = last (bq_waiting r) \<and>
            last (bq_rollouts r) \<le> hd (bq_waiting r) \<and> hd (bq_waiting r) \<le> last (bq_waiting r) \<and>
            last (bq_waiting r) \<le> bq_clock r
       else bq_waiting r = []))"

lemma validate_debounce_None [simp]:
  "validate_debounce c = None \<longleftrightarrow> 0 < bc_cooldown c \<and> 0 < bc_quiet_period c \<and> 0 < bc_max_wait c \<and>
     bc_quiet_period c \<le> bc_max_wait c \<and> bc_cooldown c \<le> bc_max_wait c"
  by (auto simp: validate_debounce_def)

lemma spaced_snoc: "spaced c (ts @ [t]) \<longleftrightarrow> spaced c ts \<and> (ts \<noteq> [] \<longrightarrow> last ts + c \<le> t)"
  by (cases ts rule: rev_cases) (auto simp: spaced_def successively_append_iff)

text \<open>The due time of a pending window: after the cooldown, and at most the maximal wait after its start.\<close>

lemma next_due_bounds:
  assumes "debounce_inv cfg r" and "db_pending (bq_debouncer r)"
  shows "fst (next_due_at_and_reason (bq_debouncer r)) \<le> hd (bq_waiting r) + bc_max_wait cfg"
    and "last (bq_rollouts r) + bc_cooldown cfg \<le> fst (next_due_at_and_reason (bq_debouncer r))"
    and "0 < fst (next_due_at_and_reason (bq_debouncer r))"
  using assms
  by (auto simp: debounce_inv_def next_due_at_and_reason_def in_cooldown_def min_time_def Let_def split: if_splits)

lemmas debounce_unfold = debounce_step_def record_change_def batch_change_def due_def next_due_at_def Let_def

lemma timer_keeps: "debounce_inv cfg r \<Longrightarrow> debounce_inv cfg (debounce_step r (TimerAfter n))"
proof (cases "db_pending (bq_debouncer r) \<and> fst (next_due_at_and_reason (bq_debouncer r)) \<le> bq_clock r + int n")
  case True
  assume inv: "debounce_inv cfg r"
  with True next_due_bounds [OF inv] show ?thesis
    by (auto simp: debounce_unfold split_beta debounce_inv_def spaced_snoc split: if_splits)
next
  case False
  assume "debounce_inv cfg r"
  with False show ?thesis
    by (auto simp: debounce_unfold split_beta debounce_inv_def idle_decision_def)
qed

lemma change_keeps: "debounce_inv cfg r \<Longrightarrow> debounce_inv cfg (debounce_step r (ChangeAfter n))"
proof (cases "db_pending (bq_debouncer r)")
  case pending: True
  assume inv: "debounce_inv cfg r"
  note bounds = next_due_bounds [OF inv pending]
  show ?thesis
  proof (cases "fst (next_due_at_and_reason (bq_debouncer r)) \<le> bq_clock r + int n")
    case True
    with inv pending bounds show ?thesis
      by (auto simp: debounce_unfold split_beta debounce_inv_def spaced_snoc next_due_at_and_reason_def
          in_cooldown_def min_time_def split: if_splits)
  next
    case False
    with inv pending bounds show ?thesis
      by (auto simp: debounce_unfold split_beta debounce_inv_def)
  qed
next
  case False
  assume "debounce_inv cfg r"
  with False show ?thesis
    by (auto simp: debounce_unfold split_beta debounce_inv_def spaced_snoc in_cooldown_def split: if_splits)
qed

interpretation debounce_sys: step_system debounce_step "debounce_inv cfg" for cfg
proof
  fix r ev assume "debounce_inv cfg r"
  then show "debounce_inv cfg (debounce_step r ev)" by (cases ev) (simp_all add: timer_keeps change_keeps)
qed

lemma debounce_run_inv:
  assumes "new_debouncer cfg = Inr d" and "0 < now"
  shows "debounce_inv cfg (foldl debounce_step (debounce_start_run d now) evs)"
proof (rule debounce_sys.inv_run)
  show "debounce_inv cfg (debounce_start_run d now)"
    using assms by (auto simp: debounce_inv_def debounce_start_run_def new_debouncer_def spaced_def split: option.splits)
qed

text \<open>C25: No change is forgotten or postponed for ever: at every point of every run of changes and timer checks, either no
  change waits and nothing is pending, or the rollout that will cover the first waiting change is due at most MaxWait
  after that change, however many changes keep arriving, and a timer check at the due time or later covers all of
  them.\<close>

theorem debounce_deadline:
  assumes "new_debouncer cfg = Inr d" and "0 < now" and "r = foldl debounce_step (debounce_start_run d now) evs"
  shows "case bq_waiting r of
      [] \<Rightarrow> \<not> pending (Some (bq_debouncer r))
    | t # _ \<Rightarrow> pending (Some (bq_debouncer r)) \<and> next_due_at (Some (bq_debouncer r)) \<le> t + bc_max_wait cfg \<and>
        (\<forall>n. next_due_at (Some (bq_debouncer r)) \<le> bq_clock r + int n \<longrightarrow> bq_waiting (debounce_step r (TimerAfter n)) = [])"
proof -
  have inv: "debounce_inv cfg r" unfolding assms(3) by (rule debounce_run_inv [OF assms(1,2)])
  show ?thesis
  proof (cases "db_pending (bq_debouncer r)")
    case True
    with inv next_due_bounds [OF inv True] show ?thesis
      by (cases "bq_waiting r")
        (auto simp: debounce_inv_def pending_def next_due_at_def debounce_step_def due_def Let_def split_beta)
  next
    case False
    with inv show ?thesis by (simp add: debounce_inv_def pending_def Let_def)
  qed
qed

definition sample_debounce_config :: debounce_config where
  "sample_debounce_config = \<lparr>bc_cooldown = 10, bc_quiet_period = 3, bc_max_wait = 12\<rparr>"

definition sample_debouncer :: debouncer where
  "sample_debouncer = \<lparr>db_cfg = sample_debounce_config, db_cooldown_until = 0, db_pending = False,
     db_debounce_start = 0, db_last_change = 0\<rparr>"

lemma sample_new_debouncer: "new_debouncer sample_debounce_config = Inr sample_debouncer"
proof -
  have "validate_debounce sample_debounce_config = None" by (simp add: sample_debounce_config_def)
  then show ?thesis unfolding new_debouncer_def by (simp only: option.case sample_debouncer_def)
qed

definition sample_debounce_run :: debounce_run where
  "sample_debounce_run = foldl debounce_step (debounce_start_run sample_debouncer 1) [ChangeAfter 0, ChangeAfter 2, ChangeAfter 1]"

lemma sample_debounce_run_eq:
  "bq_waiting sample_debounce_run = [3, 4] \<and> bq_clock sample_debounce_run = 4 \<and> bq_rollouts sample_debounce_run = [1]"
  by (simp add: sample_debounce_run_def debounce_start_run_def sample_debouncer_def sample_debounce_config_def
      debounce_unfold in_cooldown_def next_due_at_and_reason_def min_time_def)

theorem debounce_deadline_witness:
  "next_due_at (Some (bq_debouncer sample_debounce_run)) \<le> 3 + 12"
  using debounce_deadline [OF sample_new_debouncer _ sample_debounce_run_def] sample_debounce_run_eq
  by (simp add: sample_debounce_config_def)

text \<open>C26: Rollouts respect the cooldown: over every run, any two consecutive rollouts, whether immediate, by timer or
  flushed by a late change, are at least the cooldown apart.\<close>

theorem rollouts_spaced_by_cooldown:
  assumes "new_debouncer cfg = Inr d" and "0 < now"
  shows "successively (\<lambda>a b. a + bc_cooldown cfg \<le> b) (bq_rollouts (foldl debounce_step (debounce_start_run d now) evs))"
  using debounce_run_inv [OF assms, of evs] by (simp add: debounce_inv_def spaced_def Let_def)

theorem rollouts_spaced_by_cooldown_witness:
  "successively (\<lambda>a b. a + 10 \<le> b)
     (bq_rollouts (foldl debounce_step (debounce_start_run sample_debouncer 1)
        [ChangeAfter 0, ChangeAfter 2, TimerAfter 8, ChangeAfter 30]))"
  using rollouts_spaced_by_cooldown [OF sample_new_debouncer, of 1 "[ChangeAfter 0, ChangeAfter 2, TimerAfter 8, ChangeAfter 30]"]
  by (simp add: sample_debounce_config_def)

end
