(* ===== verification/AgentClient.thy ===== *)
theory AgentClient
  imports GoTime Parser
begin

text \<open>
  The agent's client of the config server (internal/agent/client.go): which service it reads, the
  endpoint URLs, the bounded read of a response and the two fetches. \<open>url.Parse\<close>,
  \<open>URL.EscapedPath\<close>, the HTTP exchange and the JSON decoders are parameters (\<open>client_lib\<close>).
\<close>

subsection \<open>Data\<close>

record service_ref =
  ref_org :: string
  ref_project :: string
  ref_service :: string

record agent_metadata =
  am_org :: string
  am_project :: string
  am_service :: string
  am_version :: string
  am_updated_at :: gotime

record config_snapshot =
  cs_metadata :: agent_metadata
  cs_config :: "cmap option"

record agent_env_vars =
  av_plain :: smap
  av_secret_refs :: smap
  av_secrets :: smap

record env_vars_snapshot =
  es_metadata :: agent_metadata
  es_env_vars :: agent_env_vars

record go_url =
  url_scheme :: string
  url_host :: string
  url_path :: string
  url_raw_path :: string
  url_raw_query :: string
  url_fragment :: string

text \<open>A request is the URL and its headers; the answer is the status code and the body, or an error.\<close>

record 'w client_lib =
  parse_url :: "string \<Rightarrow> goerr + go_url"
  escaped_path :: "go_url \<Rightarrow> string"
  http_do :: "go_url \<Rightarrow> (string \<times> string) list \<Rightarrow> 'w \<Rightarrow> (goerr + int \<times> (goerr + bytes)) \<times> 'w"
  decode_config :: "bytes \<Rightarrow> goerr + config_snapshot"
  decode_env_vars :: "bytes \<Rightarrow> goerr + env_vars_snapshot"

record client =
  cl_base_url :: go_url
  cl_api_key :: string
  cl_max_response_bytes :: int

record client_options =
  co_base_url :: string
  co_api_key :: string
  co_max_response_bytes :: int

definition default_max_response_bytes :: int where
  "default_max_response_bytes = 4 * 2 ^ 20"

definition new_client :: "'w client_lib \<Rightarrow> client_options \<Rightarrow> goerr + client" where
  "new_client C opts =
     (let raw_url = trim_space (co_base_url opts) in
      if raw_url = [] then Inl (errf [''config server base URL is required''])
      else
        (case parse_url C raw_url of
           Inl e \<Rightarrow> Inl (wrapf [''config server base URL is invalid''] e)
         | Inr base_url \<Rightarrow>
             if url_scheme base_url \<noteq> ''http'' \<and> url_scheme base_url \<noteq> ''https''
             then Inl (errf [''config server base URL must use http or https''])
             else if url_host base_url = [] then Inl (errf [''config server base URL must include a host''])
             else Inr \<lparr>cl_base_url = base_url, cl_api_key = trim_space (co_api_key opts),
                       cl_max_response_bytes =
                         (if co_max_response_bytes opts \<le> 0 then default_max_response_bytes
                          else co_max_response_bytes opts)\<rparr>))"

subsection \<open>Service references\<close>

definition ref_normalized :: "service_ref \<Rightarrow> service_ref" where
  "ref_normalized r =
     \<lparr>ref_org = trim_space (ref_org r), ref_project = trim_space (ref_project r),
      ref_service = trim_space (ref_service r)\<rparr>"

definition validate_ref :: "service_ref \<Rightarrow> goerr option" where
  "validate_ref r0 =
     (let r = ref_normalized r0 in
      or_err (if trim_space (ref_org r) = [] then Some (errf [''org is required'']) else None)
     (or_err (if trim_space (ref_project r) = [] then Some (errf [''project is required'']) else None)
             (if trim_space (ref_service r) = [] then Some (errf [''service is required'']) else None)))"

subsection \<open>Endpoints\<close>

text \<open>\<open>url.PathEscape\<close>: unreserved characters and \<open>$&+=:@\<close> stay, every other byte is written as %XX.\<close>

definition path_unescaped :: "char \<Rightarrow> bool" where
  "path_unescaped c \<longleftrightarrow>
     (let n = of_char c :: nat in
      (48 \<le> n \<and> n \<le> 57) \<or> (65 \<le> n \<and> n \<le> 90) \<or> (97 \<le> n \<and> n \<le> 122) \<or>
      c \<in> {CHR ''-'', CHR ''_'', CHR ''.'', CHR ''~'', CHR ''$'', CHR ''&'', CHR ''+'', CHR ''='', CHR '':'', CHR ''@''})"

definition upper_hex :: "nat \<Rightarrow> char" where
  "upper_hex n = (if n < 10 then char_of (48 + n) else char_of (55 + n))"

definition escape_char :: "char \<Rightarrow> string" where
  "escape_char c =
     (if path_unescaped c then [c]
      else (let n = of_char c :: nat in [CHR ''%'', upper_hex (n div 16), upper_hex (n mod 16)]))"

definition path_escape :: "string \<Rightarrow> string" where
  "path_escape s = concat (map escape_char s)"

definition trim_right_slashes :: "string \<Rightarrow> string" where
  "trim_right_slashes s = rev (dropWhile (\<lambda>c. c = CHR ''/'') (rev s))"

definition join_url_path :: "string \<Rightarrow> string list \<Rightarrow> string" where
  "join_url_path base_path segments =
     (let joined = join ''/'' segments in
      if base_path = [] then ''/'' @ joined else base_path @ ''/'' @ joined)"

definition service_endpoint :: "'w client_lib \<Rightarrow> client \<Rightarrow> service_ref \<Rightarrow> string \<Rightarrow> go_url" where
  "service_endpoint C c ref suffix =
     (let endpoint = (cl_base_url c)\<lparr>url_raw_query := [], url_fragment := []\<rparr>;
          segments = [''api'', ''v1'', ''orgs'', ref_org ref, ''projects'', ref_project ref, ''services'',
                      ref_service ref, suffix];
          base_path = trim_right_slashes (url_path endpoint);
          raw_base_path = trim_right_slashes (escaped_path C endpoint)
      in endpoint\<lparr>url_path := join_url_path base_path segments,
                  url_raw_path := join_url_path raw_base_path (map path_escape segments)\<rparr>)"

subsection \<open>Reading\<close>

text \<open>
  \<open>readLimited\<close> on a body that the reader yields whole or fails to read: the limit reader passes at
  most \<open>maxBytes + 1\<close> bytes (the int64 sum wraps), and an error only when it comes within them.
\<close>

definition read_limited :: "goerr + bytes \<Rightarrow> int \<Rightarrow> goerr + bytes" where
  "read_limited r max_bytes =
     (let limit = wrap64 (max_bytes + 1);
          read = (if limit \<le> 0 then Inr [] else case r of Inl e \<Rightarrow> Inl e | Inr body \<Rightarrow> Inr (take (nat limit) body))
      in case read of
           Inl e \<Rightarrow> Inl e
         | Inr body \<Rightarrow>
             if max_bytes < int (length body)
             then Inl (errf [''config server response exceeds '', show_int max_bytes, '' bytes''])
             else Inr body)"

definition status_error :: "int \<Rightarrow> string \<Rightarrow> goerr" where
  "status_error code body =
     (if body = [] then errf [''config server returned HTTP '', show_int code]
      else errf [''config server returned HTTP '', show_int code, '': '', body])"

definition request_headers :: "client \<Rightarrow> (string \<times> string) list" where
  "request_headers c =
     (''Accept'', ''application/json'') #
     (if cl_api_key c \<noteq> [] then [(''Authorization'', ''Bearer '' @ cl_api_key c)] else [])"

definition get_json ::
  "'w client_lib \<Rightarrow> client \<Rightarrow> (bytes \<Rightarrow> goerr + 'a) \<Rightarrow> go_url \<Rightarrow> 'w \<Rightarrow> (goerr + 'a) \<times> 'w" where
  "get_json C c decode endpoint w =
     (case http_do C endpoint (request_headers c) w of
        (Inl e, w) \<Rightarrow> (Inl e, w)
      | (Inr (code, reader), w) \<Rightarrow>
          (case read_limited reader (cl_max_response_bytes c) of
             Inl e \<Rightarrow> (Inl e, w)
           | Inr body \<Rightarrow>
               if code < 200 \<or> 300 \<le> code then (Inl (status_error code (trim_space body)), w)
               else (case decode body of
                       Inl e \<Rightarrow> (Inl (wrapf [''decode config server response''] e), w)
                     | Inr v \<Rightarrow> (Inr v, w))))"

definition fetch_config :: "'w client_lib \<Rightarrow> client \<Rightarrow> service_ref \<Rightarrow> 'w \<Rightarrow> (goerr + config_snapshot) \<times> 'w" where
  "fetch_config C c ref w =
     (let ref = ref_normalized ref in
      case validate_ref ref of
        Some e \<Rightarrow> (Inl e, w)
      | None \<Rightarrow> get_json C c (decode_config C) (service_endpoint C c ref ''config'') w)"

definition fetch_env_vars ::
  "'w client_lib \<Rightarrow> client \<Rightarrow> service_ref \<Rightarrow> bool \<Rightarrow> 'w \<Rightarrow> (goerr + env_vars_snapshot) \<times> 'w" where
  "fetch_env_vars C c ref resolve_secrets w =
     (let ref = ref_normalized ref in
      case validate_ref ref of
        Some e \<Rightarrow> (Inl e, w)
      | None \<Rightarrow>
          (let endpoint = service_endpoint C c ref ''env_vars'';
               endpoint = (if resolve_secrets then endpoint\<lparr>url_raw_query := ''resolve_secrets=true''\<rparr> else endpoint)
           in get_json C c (decode_env_vars C) endpoint w))"

end
