(* ===== verification/AgentClientProps.thy ===== *)
theory AgentClientProps
  imports AgentClient Paths
begin

text \<open>
  The escaped segments of an endpoint: decoding gives the name back and no escaped segment contains a
  slash, so the path determines the service. The bounded read returns whole bodies only.
\<close>

definition hex_value :: "char \<Rightarrow> nat" where
  "hex_value c = (let n = of_char c :: nat in if n < 65 then n - 48 else n - 55)"

text \<open>The decoder of the server side, \<open>url.PathUnescape\<close> on the escapes the client writes.\<close>

fun path_unescape :: "string \<Rightarrow> string" where
  "path_unescape (c # a # b # s) =
     (if c = CHR ''%'' then char_of (16 * hex_value a + hex_value b) # path_unescape s
      else c # path_unescape (a # b # s))"
| "path_unescape (c # s) = c # path_unescape s"
| "path_unescape [] = []"

lemma hex_value_upper: "n < 16 \<Longrightarrow> hex_value (upper_hex n) = n"
  by (simp add: upper_hex_def hex_value_def)

lemma char_hex: "char_of (16 * (of_char c div 16) + of_char c mod 16 :: nat) = c"
  by simp

lemma of_char_div_16: "(of_char c :: nat) div 16 < 16"
  by (rule less_mult_imp_div_less) simp

lemma percent_escaped: "\<not> path_unescaped (CHR ''%'')" "\<not> path_unescaped (CHR ''/'')"
  by (simp_all add: path_unescaped_def)

lemma unescape_plain: "c \<noteq> CHR ''%'' \<Longrightarrow> path_unescape (c # s) = c # path_unescape s"
  by (cases "c # s" rule: path_unescape.cases) auto

lemma path_unescape_escape: "path_unescape (path_escape s) = s"
proof (induction s)
  case (Cons c s)
  show ?case
  proof (cases "path_unescaped c")
    case True
    then have "c \<noteq> CHR ''%''" using percent_escaped by metis
    with True Cons show ?thesis by (simp add: path_escape_def escape_char_def unescape_plain)
  next
    case False
    then have "path_escape (c # s) =
        CHR ''%'' # upper_hex (of_char c div 16) # upper_hex (of_char c mod 16) # path_escape s"
      by (simp add: path_escape_def escape_char_def Let_def)
    then show ?thesis using Cons by (simp add: hex_value_upper of_char_div_16)
  qed
qed (simp add: path_escape_def)

lemma upper_hex_ge: "n < 16 \<Longrightarrow> 48 \<le> (of_char (upper_hex n) :: nat)"
  by (simp add: upper_hex_def)

lemma upper_hex_no_slash: "n < 16 \<Longrightarrow> upper_hex n \<noteq> slash"
proof
  assume "n < 16" and eq: "upper_hex n = slash"
  from upper_hex_ge [OF this(1)] show False unfolding eq by simp
qed

lemma escape_no_slash: "slash \<notin> set (path_escape s)"
proof -
  have "slash \<notin> set (escape_char c)" for c
    using percent_escaped(2) upper_hex_no_slash [of "of_char c div 16"] upper_hex_no_slash [of "of_char c mod 16"]
    by (auto simp: escape_char_def Let_def of_char_div_16)
  then show ?thesis by (auto simp: path_escape_def)
qed

lemma path_escape_inj [simp]: "path_escape a = path_escape b \<longleftrightarrow> a = b"
  by (metis path_unescape_escape)

lemma join_segments_inj:
  assumes "length as = length bs" and "as \<noteq> []"
  shows "join ''/'' (map path_escape as) = join ''/'' (map path_escape bs) \<longleftrightarrow> as = bs"
proof
  assume eq: "join ''/'' (map path_escape as) = join ''/'' (map path_escape bs)"
  have "split_on slash (join ''/'' (map path_escape xs)) = map path_escape xs" if "xs \<noteq> []" for xs
    by (rule split_on_join) (use that escape_no_slash in auto)
  with eq assms have "map path_escape as = map path_escape bs" by (metis length_0_conv)
  then show "as = bs" by (simp add: inj_def map_injective)
qed simp

text \<open>The endpoint names the service and nothing else: decoding the escaped form of a name gives the name back, no
  escaped name contains a slash, and two requests of one client have the same escaped path exactly when they are for the
  same org, project, service and resource, so a name with reserved characters cannot reach another service's endpoint.\<close>

theorem endpoint_identifies_service:
  "path_unescape (path_escape name) = name \<and> slash \<notin> set (path_escape name) \<and>
   (url_raw_path (service_endpoint C c r suffix) = url_raw_path (service_endpoint C c r' suffix') \<longleftrightarrow>
      r = r' \<and> suffix = suffix')"
  using join_segments_inj [of "[''api'', ''v1'', ''orgs'', ref_org r, ''projects'', ref_project r, ''services'', ref_service r, suffix]"
      "[''api'', ''v1'', ''orgs'', ref_org r', ''projects'', ref_project r', ''services'', ref_service r', suffix']"]
  by (auto simp: service_endpoint_def join_url_path_def Let_def path_unescape_escape escape_no_slash)

text \<open>The bounded read never truncates silently: with a positive limit below the largest int64 it returns exactly the
  whole body when the body is within the limit, and an error, never a prefix, when it is longer.\<close>

theorem read_limited_exact:
  assumes "0 < max_bytes" and "max_bytes < 2 ^ 63 - 1"
  shows "read_limited (Inr body) max_bytes =
     (if int (length body) \<le> max_bytes then Inr body
      else Inl (errf [''config server response exceeds '', show_int max_bytes, '' bytes'']))"
proof -
  have "wrap64 (max_bytes + 1) = max_bytes + 1" using assms by (simp add: is_int64_def)
  with assms show ?thesis by (auto simp: read_limited_def Let_def min_def nat_le_iff)
qed

theorem read_limited_exact_witness:
  "read_limited (Inr ''abc'') 2 = Inl (errf [''config server response exceeds '', show_int 2, '' bytes''])"
  using read_limited_exact [of 2 "''abc''"] by simp

end
