(* ===== verification/FetchLoop.thy ===== *)
theory FetchLoop
  imports AgentClient
begin

text \<open>
  The agent's poll loop (internal/agent/fetch_loop.go): one fetch of both resources, what the loop has
  handled, the exponential backoff on int64 durations, and the loop itself. \<open>json.Marshal\<close>, SHA-256,
  the snapshot client, the handler, the timer of \<open>waitContext\<close> and the context are parameters.
\<close>

subsection \<open>Data\<close>

record fetch_loop_config =
  fc_ref :: service_ref
  fc_resolve_secrets :: bool
  fc_poll_interval :: duration
  fc_retry_initial_backoff :: duration
  fc_retry_max_backoff :: duration

record fetch_state =
  fs_revision :: string
  fs_config_version :: string
  fs_env_version :: string
  fs_config_hash :: string
  fs_env_hash :: string
  fs_config_updated_at :: gotime
  fs_env_updated_at :: gotime
  fs_handled :: bool

definition zero_fetch_state :: fetch_state where
  "zero_fetch_state =
     \<lparr>fs_revision = [], fs_config_version = [], fs_env_version = [], fs_config_hash = [], fs_env_hash = [],
      fs_config_updated_at = 0, fs_env_updated_at = 0, fs_handled = False\<rparr>"

record fetch_result =
  fr_ref :: service_ref
  fr_config :: config_snapshot
  fr_env_vars :: env_vars_snapshot
  fr_state :: fetch_state
  fr_changed :: bool
  fr_initial :: bool
  fr_resolve_secrets :: bool

record fetch_loop =
  fl_cfg :: fetch_loop_config
  fl_state :: fetch_state

record 'w snapshot_client =
  sc_fetch_config :: "service_ref \<Rightarrow> 'w \<Rightarrow> (goerr + config_snapshot option) \<times> 'w"
  sc_fetch_env_vars :: "service_ref \<Rightarrow> bool \<Rightarrow> 'w \<Rightarrow> (goerr + env_vars_snapshot option) \<times> 'w"

record 'w fetch_env =
  fe_client :: "'w snapshot_client"
  fe_marshal_config :: "cmap option \<Rightarrow> goerr + bytes"
  fe_marshal_env_vars :: "agent_env_vars \<Rightarrow> goerr + bytes"
  fe_sha256_hex :: "bytes \<Rightarrow> string"
  fe_handler :: "(fetch_result \<Rightarrow> 'w \<Rightarrow> goerr option \<times> 'w) option"
  fe_timer :: "duration \<Rightarrow> 'w \<Rightarrow> goerr option \<times> 'w"
  fe_ctx_err :: "'w \<Rightarrow> goerr option"

subsection \<open>Retry backoff\<close>

record retry_backoff =
  rb_initial :: duration
  rb_max :: duration
  rb_current :: duration

definition new_retry_backoff :: "duration \<Rightarrow> duration \<Rightarrow> goerr + retry_backoff" where
  "new_retry_backoff init_delay max_delay =
     (case or_err (positive_duration ''retry initial backoff'' init_delay)
          (or_err (positive_duration ''retry max backoff'' max_delay)
                  (if max_delay < init_delay
                   then Some (errf [''retry max backoff must be >= initial backoff'']) else None)) of
        Some e \<Rightarrow> Inl e
      | None \<Rightarrow> Inr \<lparr>rb_initial = init_delay, rb_max = max_delay, rb_current = 0\<rparr>)"

definition backoff_next :: "retry_backoff \<Rightarrow> duration \<times> retry_backoff" where
  "backoff_next b =
     (if rb_current b = 0 then (rb_initial b, b\<lparr>rb_current := rb_initial b\<rparr>)
      else (let n = wrap64 (rb_current b * 2);
                n = (if rb_max b < n then rb_max b else n)
            in (n, b\<lparr>rb_current := n\<rparr>)))"

definition backoff_reset :: "retry_backoff \<Rightarrow> retry_backoff" where
  "backoff_reset b = b\<lparr>rb_current := 0\<rparr>"

subsection \<open>Configuration\<close>

definition default_poll_interval :: duration where
  "default_poll_interval = 30 * second"

definition fetch_config_with_defaults :: "fetch_loop_config \<Rightarrow> fetch_loop_config" where
  "fetch_config_with_defaults c =
     \<lparr>fc_ref = ref_normalized (fc_ref c), fc_resolve_secrets = fc_resolve_secrets c,
      fc_poll_interval = (if fc_poll_interval c = 0 then default_poll_interval else fc_poll_interval c),
      fc_retry_initial_backoff = (if fc_retry_initial_backoff c = 0 then second else fc_retry_initial_backoff c),
      fc_retry_max_backoff = (if fc_retry_max_backoff c = 0 then 30 * second else fc_retry_max_backoff c)\<rparr>"

definition validate_fetch_config :: "fetch_loop_config \<Rightarrow> goerr option" where
  "validate_fetch_config c =
     or_err (validate_ref (fc_ref c))
     (or_err (positive_duration ''poll interval'' (fc_poll_interval c))
     (or_err (positive_duration ''retry initial backoff'' (fc_retry_initial_backoff c))
     (or_err (positive_duration ''retry max backoff'' (fc_retry_max_backoff c))
             (if fc_retry_max_backoff c < fc_retry_initial_backoff c
              then Some (errf [''retry max backoff must be >= initial backoff'']) else None))))"

definition new_fetch_loop :: "'w snapshot_client option \<Rightarrow> fetch_loop_config \<Rightarrow> goerr + fetch_loop" where
  "new_fetch_loop snapshots cfg0 =
     (if (case snapshots of None \<Rightarrow> True | Some _ \<Rightarrow> False) then Inl (errf [''snapshot client is required''])
      else
        (let cfg = fetch_config_with_defaults cfg0 in
         case validate_fetch_config cfg of
           Some e \<Rightarrow> Inl e
         | None \<Rightarrow> Inr \<lparr>fl_cfg = cfg, fl_state = zero_fetch_state\<rparr>))"

subsection \<open>One poll\<close>

definition hash_json :: "'w fetch_env \<Rightarrow> goerr + bytes \<Rightarrow> goerr + string" where
  "hash_json E marshalled = (case marshalled of Inl e \<Rightarrow> Inl e | Inr data \<Rightarrow> Inr (fe_sha256_hex E data))"

definition same_content :: "fetch_state \<Rightarrow> fetch_state \<Rightarrow> bool" where
  "same_content s t \<longleftrightarrow> fs_config_hash s = fs_config_hash t \<and> fs_env_hash s = fs_env_hash t"

definition result_of ::
  "fetch_loop \<Rightarrow> config_snapshot \<Rightarrow> env_vars_snapshot \<Rightarrow> string \<Rightarrow> string \<Rightarrow> fetch_result" where
  "result_of l cs es config_hash env_hash =
     (let state = \<lparr>fs_revision = am_version (cs_metadata cs), fs_config_version = am_version (cs_metadata cs),
                   fs_env_version = am_version (es_metadata es), fs_config_hash = config_hash, fs_env_hash = env_hash,
                   fs_config_updated_at = am_updated_at (cs_metadata cs),
                   fs_env_updated_at = am_updated_at (es_metadata es), fs_handled = True\<rparr>;
          is_initial = (\<not> fs_handled (fl_state l))
      in \<lparr>fr_ref = fc_ref (fl_cfg l), fr_config = cs, fr_env_vars = es, fr_state = state,
          fr_changed = (is_initial \<or> \<not> same_content (fl_state l) state), fr_initial = is_initial,
          fr_resolve_secrets = fc_resolve_secrets (fl_cfg l)\<rparr>)"

definition fetch_once :: "'w fetch_env \<Rightarrow> fetch_loop \<Rightarrow> 'w \<Rightarrow> (goerr + fetch_result) \<times> 'w" where
  "fetch_once E l w =
     (case sc_fetch_config (fe_client E) (fc_ref (fl_cfg l)) w of
        (Inl e, w) \<Rightarrow> (Inl e, w)
      | (Inr None, w) \<Rightarrow> (Inl (errf [''config snapshot is nil'']), w)
      | (Inr (Some cs), w) \<Rightarrow>
          (case sc_fetch_env_vars (fe_client E) (fc_ref (fl_cfg l)) (fc_resolve_secrets (fl_cfg l)) w of
             (Inl e, w) \<Rightarrow> (Inl e, w)
           | (Inr None, w) \<Rightarrow> (Inl (errf [''env vars snapshot is nil'']), w)
           | (Inr (Some es), w) \<Rightarrow>
               (case hash_json E (fe_marshal_config E (cs_config cs)) of
                  Inl e \<Rightarrow> (Inl (wrapf [''hash config snapshot''] e), w)
                | Inr config_hash \<Rightarrow>
                    (case hash_json E (fe_marshal_env_vars E (es_env_vars es)) of
                       Inl e \<Rightarrow> (Inl (wrapf [''hash env vars snapshot''] e), w)
                     | Inr env_hash \<Rightarrow> (Inr (result_of l cs es config_hash env_hash), w)))))"

definition mark_handled :: "fetch_loop \<Rightarrow> fetch_result \<Rightarrow> fetch_loop" where
  "mark_handled l r = l\<lparr>fl_state := fr_state r\<rparr>"

subsection \<open>The loop\<close>

definition wait_context :: "'w fetch_env \<Rightarrow> duration \<Rightarrow> 'w \<Rightarrow> goerr option \<times> 'w" where
  "wait_context E delay w = (if delay \<le> 0 then (None, w) else fe_timer E delay w)"

definition nil_if_context_done :: "'w fetch_env \<Rightarrow> 'w \<Rightarrow> goerr \<Rightarrow> goerr option" where
  "nil_if_context_done E w e = (if fe_ctx_err E w \<noteq> None then None else Some e)"

text \<open>A nil handler accepts everything.\<close>

definition handle :: "'w fetch_env \<Rightarrow> fetch_result \<Rightarrow> 'w \<Rightarrow> goerr option \<times> 'w" where
  "handle E r w = (case fe_handler E of None \<Rightarrow> (None, w) | Some h \<Rightarrow> h r w)"

text \<open>
  One turn of the loop: \<open>Inl\<close> is a return with the error or nil, \<open>Inr\<close> goes on. A failed fetch or
  handler waits the next backoff; a good poll resets it and waits the poll interval.
\<close>

type_synonym loop_state = "fetch_loop \<times> retry_backoff"

definition wait_retry ::
  "'w fetch_env \<Rightarrow> loop_state \<Rightarrow> 'w \<Rightarrow> (goerr option + loop_state) \<times> fetch_loop \<times> 'w" where
  "wait_retry E st w =
     (let (l, b) = st in
      if fe_ctx_err E w \<noteq> None then (Inl None, l, w)
      else (let (delay, b) = backoff_next b in
            case wait_context E delay w of
              (Some e, w) \<Rightarrow> (Inl (nil_if_context_done E w e), l, w)
            | (None, w) \<Rightarrow> (Inr (l, b), l, w)))"

definition wait_poll ::
  "'w fetch_env \<Rightarrow> loop_state \<Rightarrow> 'w \<Rightarrow> (goerr option + loop_state) \<times> fetch_loop \<times> 'w" where
  "wait_poll E st w =
     (let (l, b) = st; b = backoff_reset b in
      case wait_context E (fc_poll_interval (fl_cfg l)) w of
        (Some e, w) \<Rightarrow> (Inl (nil_if_context_done E w e), l, w)
      | (None, w) \<Rightarrow> (Inr (l, b), l, w))"

definition loop_turn ::
  "'w fetch_env \<Rightarrow> loop_state \<Rightarrow> 'w \<Rightarrow> (goerr option + loop_state) \<times> fetch_loop \<times> 'w" where
  "loop_turn E st w =
     (case fetch_once E (fst st) w of
        (Inl e, w) \<Rightarrow> wait_retry E st w
      | (Inr r, w) \<Rightarrow>
          if fr_changed r then
            (case handle E r w of
               (Some e, w) \<Rightarrow> wait_retry E st w
             | (None, w) \<Rightarrow> wait_poll E (mark_handled (fst st) r, snd st) w)
          else wait_poll E st w)"

text \<open>The loop may run for ever: no result is \<open>None\<close>.\<close>

partial_function (option) run_loop ::
  "'w fetch_env \<Rightarrow> loop_state \<Rightarrow> 'w \<Rightarrow> (goerr option \<times> fetch_loop \<times> 'w) option" where
  "run_loop E st w =
     (case loop_turn E st w of
        (Inl r, l, w) \<Rightarrow> Some (r, l, w)
      | (Inr st, l, w) \<Rightarrow> run_loop E st w)"

definition run_fetch_loop :: "'w fetch_env \<Rightarrow> fetch_loop \<Rightarrow> 'w \<Rightarrow> (goerr option \<times> fetch_loop \<times> 'w) option" where
  "run_fetch_loop E l w =
     (case new_retry_backoff (fc_retry_initial_backoff (fl_cfg l)) (fc_retry_max_backoff (fl_cfg l)) of
        Inl e \<Rightarrow> Some (Some e, l, w)
      | Inr b \<Rightarrow> run_loop E (l, b) w)"

end
