(* ===== verification/FetchLoopProps.thy ===== *)
theory FetchLoopProps
  imports FetchLoop
begin

text \<open>
  The backoff delays in closed form and where their int64 arithmetic overflows, at-least-once delivery
  of changes to the handler, and the end of the loop when the context is done.
\<close>

subsection \<open>Backoff\<close>

fun backoff_delays :: "nat \<Rightarrow> retry_backoff \<Rightarrow> duration list" where
  "backoff_delays 0 b = []"
| "backoff_delays (Suc n) b = (let (d, b) = backoff_next b in d # backoff_delays n b)"

lemma backoff_delays_from:
  assumes "rb_current b = min (rb_max b) (rb_initial b * 2 ^ k)" and "0 < rb_initial b" and "0 < rb_max b"
    and "rb_max b < 2 ^ 62"
  shows "backoff_delays n b = map (\<lambda>j. min (rb_max b) (rb_initial b * 2 ^ j)) [Suc k..<Suc k + n]"
  using assms
proof (induction n arbitrary: b k)
  case (Suc n)
  let ?c = "rb_current b"
  have pos: "0 < ?c" "?c \<le> rb_max b" using Suc.prems by auto
  then have w: "wrap64 (?c * 2) = ?c * 2" using Suc.prems(4) by (simp add: is_int64_def)
  have step: "min (rb_max b) (?c * 2) = min (rb_max b) (rb_initial b * 2 ^ Suc k)"
    using Suc.prems(1,3) by (auto simp: min_def)
  have next_b: "backoff_next b = (min (rb_max b) (?c * 2), b\<lparr>rb_current := min (rb_max b) (?c * 2)\<rparr>)"
    using pos by (simp add: backoff_next_def w Let_def min_def)
  have "backoff_delays n (b\<lparr>rb_current := min (rb_max b) (?c * 2)\<rparr>) =
      map (\<lambda>j. min (rb_max b) (rb_initial b * 2 ^ j)) [Suc (Suc k)..<Suc (Suc k) + n]"
    using Suc.IH [of "b\<lparr>rb_current := min (rb_max b) (?c * 2)\<rparr>" "Suc k"] Suc.prems step by simp
  then show ?case by (simp add: next_b step upt_conv_Cons del: upt_Suc)
qed simp

lemma new_retry_backoff_Inr [simp]:
  "new_retry_backoff i m = Inr b \<longleftrightarrow> 0 < i \<and> i \<le> m \<and> b = \<lparr>rb_initial = i, rb_max = m, rb_current = 0\<rparr>"
  by (auto simp: new_retry_backoff_def case_err_Inr)

text \<open>C27: Consecutive failures wait the initial delay doubled each time and capped at the maximum: the k-th wait is
  min(max, initial * 2^k), positive and never above the maximum, for every maximum below 2^62 nanoseconds, and after a
  reset the sequence starts again.\<close>

theorem backoff_doubles_to_cap:
  assumes "new_retry_backoff init_delay max_delay = Inr b" and "max_delay < 2 ^ 62"
  shows "backoff_delays n b = map (\<lambda>k. min max_delay (init_delay * 2 ^ k)) [0..<n] \<and>
    backoff_delays n (backoff_reset (snd (backoff_next b))) = backoff_delays n b"
proof -
  from assms have b: "b = \<lparr>rb_initial = init_delay, rb_max = max_delay, rb_current = 0\<rparr>"
    and i: "0 < init_delay" "init_delay \<le> max_delay" by auto
  have "backoff_delays n b = map (\<lambda>k. min max_delay (init_delay * 2 ^ k)) [0..<n]"
  proof (cases n)
    case (Suc m)
    have "backoff_delays m (b\<lparr>rb_current := init_delay\<rparr>) =
        map (\<lambda>k. min max_delay (init_delay * 2 ^ k)) [Suc 0..<Suc 0 + m]"
      using backoff_delays_from [of "b\<lparr>rb_current := init_delay\<rparr>" 0 m] i assms(2) by (simp add: b)
    with i show ?thesis unfolding Suc by (simp add: backoff_next_def b upt_conv_Cons del: upt_Suc)
  qed simp
  then show ?thesis by (simp add: backoff_next_def backoff_reset_def b)
qed

theorem backoff_doubles_to_cap_witness:
  "backoff_delays 4 \<lparr>rb_initial = 3, rb_max = 10, rb_current = 0\<rparr> = [3, 6, 10, 10]"
  using backoff_doubles_to_cap [of 3 10 "\<lparr>rb_initial = 3, rb_max = 10, rb_current = 0\<rparr>" 4]
  by (simp add: upt_rec)

text \<open>
  Above that bound the doubling wraps: the delay after 2^62 is negative, \<open>waitContext\<close> does not wait on
  it, and the loop retries at once.
\<close>

lemma backoff_overflow:
  "backoff_delays 2 \<lparr>rb_initial = 2 ^ 62, rb_max = 2 ^ 62, rb_current = 0\<rparr> = [2 ^ 62, - (2 ^ 63)] \<and>
   wait_context E (- (2 ^ 63)) w = (None, w)"
  by (simp add: numeral_2_eq_2 backoff_next_def wrap64_def wait_context_def)

subsection \<open>Delivery\<close>

lemma fetch_once_result:
  "fetch_once E l w = (Inr r, w') \<Longrightarrow> fr_changed r = (\<not> fs_handled (fl_state l) \<or> \<not> same_content (fl_state l) (fr_state r)) \<and>
     fs_handled (fr_state r)"
  by (auto simp: fetch_once_def result_of_def Let_def split: prod.splits sum.splits option.splits)

lemma wait_keeps_loop:
  "wait_retry E st w = (r, l', w') \<Longrightarrow> l' = fst st \<and> (case r of Inl _ \<Rightarrow> True | Inr st' \<Rightarrow> fst st' = fst st)"
  "wait_poll E st w = (r, l', w') \<Longrightarrow> l' = fst st \<and> (case r of Inl _ \<Rightarrow> True | Inr st' \<Rightarrow> fst st' = fst st)"
  by (auto simp: wait_retry_def wait_poll_def Let_def split: prod.splits if_splits option.splits)

text \<open>C28: Changes are delivered at least once and not twice after success: when a poll finds changed content the handler is
  called with it, the loop's state becomes that content exactly when the handler succeeds and stays untouched when it
  fails, and a later poll that finds the same content reports it as changed again exactly when the handler had
  failed.\<close>

theorem change_redelivered_until_handled:
  assumes "fetch_once E l w = (Inr res, w1)" and "fr_changed res" and "loop_turn E (l, b) w = (r, l', w')"
    and "fetch_once E l' w2 = (Inr res', w3)" and "same_content (fr_state res') (fr_state res)"
  shows "fl_state l' = (case handle E res w1 of (None, _) \<Rightarrow> fr_state res | (Some _, _) \<Rightarrow> fl_state l) \<and>
    fr_changed res' = (case handle E res w1 of (None, _) \<Rightarrow> False | (Some _, _) \<Rightarrow> True)"
proof (cases "handle E res w1")
  case (Pair h w4)
  show ?thesis
  proof (cases h)
    case None
    with assms(1-3) Pair have "l' = mark_handled l res"
      by (auto simp: loop_turn_def dest: wait_keeps_loop)
    with None Pair assms(5) fetch_once_result [OF assms(4)] fetch_once_result [OF assms(1)] show ?thesis
      by (simp add: mark_handled_def same_content_def)
  next
    case (Some e)
    with assms(1-3) Pair have "l' = l" by (auto simp: loop_turn_def dest: wait_keeps_loop)
    with Some Pair assms(2,5) fetch_once_result [OF assms(4)] fetch_once_result [OF assms(1)] show ?thesis
      by (simp add: same_content_def)
  qed
qed

subsection \<open>A small client for the witnesses\<close>

definition sample_ref :: service_ref where
  "sample_ref = \<lparr>ref_org = ''o'', ref_project = ''p'', ref_service = ''s''\<rparr>"

definition sample_fetch_config :: fetch_loop_config where
  "sample_fetch_config =
     \<lparr>fc_ref = sample_ref, fc_resolve_secrets = False, fc_poll_interval = 30, fc_retry_initial_backoff = 1,
      fc_retry_max_backoff = 8\<rparr>"

definition sample_agent_metadata :: agent_metadata where
  "sample_agent_metadata = \<lparr>am_org = ''o'', am_project = ''p'', am_service = ''s'', am_version = ''v'', am_updated_at = 7\<rparr>"

text \<open>The world counts handler calls; the first call fails. The context is done when the flag is set.\<close>

definition sample_fetch_env :: "bool \<Rightarrow> nat fetch_env" where
  "sample_fetch_env done =
     \<lparr>fe_client =
        \<lparr>sc_fetch_config = (\<lambda>ref w. (Inr (Some \<lparr>cs_metadata = sample_agent_metadata, cs_config = None\<rparr>), w)),
         sc_fetch_env_vars = (\<lambda>ref res w. (Inr (Some \<lparr>es_metadata = sample_agent_metadata,
           es_env_vars = \<lparr>av_plain = [], av_secret_refs = [], av_secrets = []\<rparr>\<rparr>), w))\<rparr>,
      fe_marshal_config = (\<lambda>_. Inr ''null''), fe_marshal_env_vars = (\<lambda>_. Inr ''{}''),
      fe_sha256_hex = (\<lambda>raw. ''x'' @ raw),
      fe_handler = Some (\<lambda>r w. (if w = 0 then Some (errf [''failed'']) else None, Suc w)),
      fe_timer = (\<lambda>d w. (if done then Some (Sent CtxCanceled) else None, w)),
      fe_ctx_err = (\<lambda>w. if done then Some (Sent CtxCanceled) else None)\<rparr>"

lemmas sample_fetch_defs = sample_fetch_env_def sample_fetch_config_def sample_ref_def sample_agent_metadata_def

definition sample_loop :: fetch_loop where
  "sample_loop = \<lparr>fl_cfg = sample_fetch_config, fl_state = zero_fetch_state\<rparr>"

definition sample_result :: fetch_result where
  "sample_result = the (case fst (fetch_once (sample_fetch_env False) sample_loop 0) of Inl _ \<Rightarrow> None | Inr r \<Rightarrow> Some r)"

lemma sample_fetch:
  "fetch_once (sample_fetch_env False) sample_loop w = (Inr sample_result, w)" "fr_changed sample_result"
  by (simp_all add: sample_result_def fetch_once_def hash_json_def result_of_def sample_fetch_env_def sample_loop_def
      zero_fetch_state_def Let_def)

lemma sample_env_ops:
  "handle (sample_fetch_env False) r 0 = (Some (errf [''failed'']), 1)"
  "fe_ctx_err (sample_fetch_env False) w = None" "wait_context (sample_fetch_env False) d w = (None, w)"
  by (simp_all add: handle_def sample_fetch_env_def wait_context_def)

lemma sample_turn:
  "loop_turn (sample_fetch_env False) (sample_loop, \<lparr>rb_initial = 1, rb_max = 8, rb_current = 0\<rparr>) 0 =
     (Inr (sample_loop, \<lparr>rb_initial = 1, rb_max = 8, rb_current = 1\<rparr>), sample_loop, 1)"
  by (simp add: loop_turn_def sample_fetch sample_env_ops wait_retry_def backoff_next_def)

theorem change_redelivered_until_handled_witness:
  "fl_state sample_loop = zero_fetch_state \<and> fr_changed sample_result"
proof -
  show ?thesis
    using change_redelivered_until_handled [OF sample_fetch(1,2) sample_turn sample_fetch(1)]
    by (simp add: same_content_def sample_loop_def sample_env_ops(1))
qed

subsection \<open>Cancellation\<close>

text \<open>
  What the loop relies on: a timer raced against a done context yields the context's error. The loop
  is cancelled when the context is done in every world from here on.
\<close>

definition cancelled :: "'w fetch_env \<Rightarrow> bool" where
  "cancelled E \<longleftrightarrow> (\<forall>w. fe_ctx_err E w \<noteq> None) \<and> (\<forall>d w. fst (fe_timer E d w) \<noteq> None)"

lemma cancelled_turn:
  assumes "cancelled E" and "0 < fc_poll_interval (fl_cfg (fst st))"
  shows "\<exists>l w'. loop_turn E st w = (Inl None, l, w')"
proof -
  have retry: "\<exists>l w'. wait_retry E st' v = (Inl None, l, w')" for st' v
    using assms(1) by (auto simp: cancelled_def wait_retry_def split: prod.split)
  have poll: "\<exists>l w'. wait_poll E st' v = (Inl None, l, w')"
    if "fl_cfg (fst st') = fl_cfg (fst st)" for st' v
  proof -
    from assms(1) have "fst (fe_timer E (fc_poll_interval (fl_cfg (fst st))) v) \<noteq> None"
      by (simp add: cancelled_def)
    then obtain e v' where "fe_timer E (fc_poll_interval (fl_cfg (fst st))) v = (Some e, v')"
      by (cases "fe_timer E (fc_poll_interval (fl_cfg (fst st))) v") auto
    moreover have "fe_ctx_err E v' \<noteq> None" using assms(1) by (simp add: cancelled_def)
    ultimately show ?thesis using assms(2) that
      by (simp add: wait_poll_def wait_context_def nil_if_context_done_def split_beta Let_def)
  qed
  show ?thesis
    using retry poll [of "(mark_handled (fst st) r, snd st)" for r] poll [of st]
    by (auto simp: loop_turn_def mark_handled_def split: prod.split sum.split option.split)
qed

text \<open>C29: Cancellation ends the loop cleanly: a loop that was constructed by new_fetch_loop and whose context is done
  returns, and returns nil, never an error of the fetch or the handler that the cancellation interrupted.\<close>

theorem run_stops_on_cancel:
  assumes "new_fetch_loop snapshots cfg = Inr l" and "cancelled E"
  shows "\<exists>l' w'. run_fetch_loop E l w = Some (None, l', w')"
proof -
  from assms(1) have v: "validate_fetch_config (fl_cfg l) = None"
    by (auto simp: new_fetch_loop_def Let_def case_err_Inr split: if_splits)
  then have pos: "0 < fc_poll_interval (fl_cfg l)"
    "0 < fc_retry_initial_backoff (fl_cfg l)" "fc_retry_initial_backoff (fl_cfg l) \<le> fc_retry_max_backoff (fl_cfg l)"
    by (auto simp: validate_fetch_config_def split: if_splits)
  then obtain b where b: "new_retry_backoff (fc_retry_initial_backoff (fl_cfg l)) (fc_retry_max_backoff (fl_cfg l)) = Inr b"
    by simp
  from cancelled_turn [OF assms(2), of "(l, b)" w] pos(1) obtain l' w' where "loop_turn E (l, b) w = (Inl None, l', w')"
    by auto
  then show ?thesis by (simp add: run_fetch_loop_def b run_loop.simps)
qed

theorem run_stops_on_cancel_witness:
  "\<exists>l' w'. run_fetch_loop (sample_fetch_env True) sample_loop 0 = Some (None, l', w')"
proof (rule run_stops_on_cancel)
  have trim: "trim_space ''o'' = ''o''" "trim_space ''p'' = ''p''" "trim_space ''s'' = ''s''"
    by (simp_all add: trim_space_printable printable_def)
  then have n: "ref_normalized sample_ref = sample_ref" by (simp add: ref_normalized_def sample_ref_def)
  have "validate_ref sample_ref = None"
    unfolding validate_ref_def n Let_def by (simp add: sample_ref_def trim)
  then have "validate_fetch_config sample_fetch_config = None"
    by (simp add: validate_fetch_config_def sample_fetch_config_def)
  moreover have "fetch_config_with_defaults sample_fetch_config = sample_fetch_config"
    by (simp add: fetch_config_with_defaults_def n sample_fetch_config_def)
  ultimately show "new_fetch_loop (Some (fe_client (sample_fetch_env True))) sample_fetch_config = Inr sample_loop"
    by (simp add: new_fetch_loop_def case_err_Inr sample_loop_def)
  show "cancelled (sample_fetch_env True)" by (simp add: cancelled_def sample_fetch_env_def)
qed

end
