(* ===== verification/Render.thy ===== *)
theory Render
  imports AgentClient
begin

text \<open>
  What the agent writes (internal/agent/render.go): the native config.yaml as a yaml.v3 node tree with
  explicit tags, and env.sh as shell exports. The yaml.v3 encoder and the shortest float format are
  parameters. A response decoded from JSON holds its numbers as literals, so floats only come from
  other callers; minus zero is not represented.
\<close>

subsection \<open>Config YAML\<close>

datatype rnode =
    RScalar string string
  | RMapping "rnode list"
  | RSequence "rnode list"

text \<open>\<open>isJSONNumberLiteral\<close>: the index into the text is the suffix still to be read.\<close>

definition skip_digits :: "string \<Rightarrow> string" where
  "skip_digits s = dropWhile is_digit s"

definition json_int_part :: "string \<Rightarrow> string option" where
  "json_int_part s =
     (case s of
        [] \<Rightarrow> None
      | c # r \<Rightarrow> if c = CHR ''0'' then Some r else if is_digit c then Some (skip_digits s) else None)"

definition digits_required :: "string \<Rightarrow> string option" where
  "digits_required s =
     (case s of [] \<Rightarrow> None | c # r \<Rightarrow> if is_digit c then Some (skip_digits s) else None)"

definition json_fraction :: "string \<Rightarrow> string option" where
  "json_fraction s =
     (case s of c # r \<Rightarrow> if c = CHR ''.'' then digits_required r else Some s | [] \<Rightarrow> Some s)"

definition json_exponent :: "string \<Rightarrow> string option" where
  "json_exponent s =
     (case s of
        c # r \<Rightarrow>
          if c = CHR ''e'' \<or> c = CHR ''E'' then
            digits_required (case r of d # q \<Rightarrow> if d = CHR ''+'' \<or> d = CHR ''-'' then q else r | [] \<Rightarrow> r)
          else Some s
      | [] \<Rightarrow> Some s)"

definition is_json_number_literal :: "string \<Rightarrow> bool" where
  "is_json_number_literal text =
     (let unsigned = (case text of c # r \<Rightarrow> if c = CHR ''-'' then r else text | [] \<Rightarrow> text) in
      case Option.bind (Option.bind (json_int_part unsigned) json_fraction) json_exponent of
        None \<Rightarrow> False
      | Some rest \<Rightarrow> rest = [])"

definition yaml_number_node :: "string \<Rightarrow> goerr + rnode" where
  "yaml_number_node text =
     (if \<not> is_json_number_literal text then Inl (errf [''unsupported numeric value '', quote text])
      else if \<not> list_ex (\<lambda>c. c \<in> {CHR ''.'', CHR ''e'', CHR ''E''}) text then Inr (RScalar ''!!int'' text)
      else Inr (RScalar ''!!float'' text))"

text \<open>\<open>math.Trunc(f) == f && math.Abs(f) <= 1<<53\<close> of the finite float \<open>m * 2^e\<close>, and its integer value.\<close>

definition float_int :: "int \<Rightarrow> int \<Rightarrow> int option" where
  "float_int m e =
     (if 0 \<le> e then Some (m * 2 ^ nat e)
      else if 2 ^ nat (- e) dvd m then Some (m div 2 ^ nat (- e)) else None)"

definition yaml_float_node :: "(gofloat \<Rightarrow> string) \<Rightarrow> gofloat \<Rightarrow> goerr + rnode" where
  "yaml_float_node show_float f =
     (case f of
        FNaN \<Rightarrow> Inl (errf [''unsupported float value NaN''])
      | FInf neg \<Rightarrow> Inl (errf [''unsupported float value '', if neg then ''-Inf'' else ''+Inf''])
      | FFin m e \<Rightarrow>
          (case float_int m e of
             Some i \<Rightarrow> if \<bar>i\<bar> \<le> 2 ^ 53 then Inr (RScalar ''!!int'' (show_int i))
                      else Inr (RScalar ''!!float'' (show_float f))
           | None \<Rightarrow> Inr (RScalar ''!!float'' (show_float f))))"

text \<open>The children of a mapping in the order of the sorted keys, the first error ending the loop.\<close>

fun collect_entries :: "(string \<times> (goerr + rnode)) list \<Rightarrow> goerr + rnode list" where
  "collect_entries [] = Inr []"
| "collect_entries ((k, r) # es) =
     ebind r (\<lambda>n. ebind (collect_entries es) (\<lambda>ns. Inr (RScalar ''!!str'' k # n # ns)))"

fun collect_items :: "(goerr + rnode) list \<Rightarrow> goerr + rnode list" where
  "collect_items [] = Inr []"
| "collect_items (r # rs) = ebind r (\<lambda>n. ebind (collect_items rs) (\<lambda>ns. Inr (n # ns)))"

fun yaml_node_value :: "(gofloat \<Rightarrow> string) \<Rightarrow> cval \<Rightarrow> goerr + rnode" where
  "yaml_node_value sf CNil = Inr (RScalar ''!!null'' [])"
| "yaml_node_value sf (CStr s) = Inr (RScalar ''!!str'' s)"
| "yaml_node_value sf (CBool b) = Inr (RScalar ''!!bool'' (if b then ''true'' else ''false''))"
| "yaml_node_value sf (CInt i) = Inr (RScalar ''!!int'' (show_int i))"
| "yaml_node_value sf (CFloat f) = yaml_float_node sf f"
| "yaml_node_value sf (CNumber s) = yaml_number_node s"
| "yaml_node_value sf (CSeq vs) = ebind (collect_items (map (yaml_node_value sf) vs)) (\<lambda>ns. Inr (RSequence ns))"
| "yaml_node_value sf (CMap m) =
     ebind (collect_entries (sort_key fst (map (\<lambda>(k, v). (k, yaml_node_value sf v)) m))) (\<lambda>ns. Inr (RMapping ns))"

definition render_config_yaml ::
  "(gofloat \<Rightarrow> string) \<Rightarrow> (rnode \<Rightarrow> goerr + bytes) \<Rightarrow> config_snapshot option \<Rightarrow> goerr + bytes" where
  "render_config_yaml sf encode snapshot =
     (case snapshot of
        None \<Rightarrow> Inl (errf [''config snapshot is required''])
      | Some cs \<Rightarrow>
          (case ebind (yaml_node_value sf (CMap (nz (cs_config cs)))) encode of
             Inl e \<Rightarrow> Inl (wrapf [''render config yaml''] e)
           | Inr out \<Rightarrow> Inr out))"

subsection \<open>env.sh\<close>

definition is_valid_env_name :: "string \<Rightarrow> bool" where
  "is_valid_env_name name =
     (case name of
        [] \<Rightarrow> False
      | c # cs \<Rightarrow>
          (of_char c :: nat) \<le> 127 \<and> (c = CHR ''_'' \<or> (CHR ''A'' \<le> c \<and> c \<le> CHR ''Z'') \<or> (CHR ''a'' \<le> c \<and> c \<le> CHR ''z'')) \<and>
          list_all (\<lambda>d. (of_char d :: nat) \<le> 127 \<and>
            (d = CHR ''_'' \<or> (CHR ''A'' \<le> d \<and> d \<le> CHR ''Z'') \<or> (CHR ''a'' \<le> d \<and> d \<le> CHR ''z'') \<or>
             (CHR ''0'' \<le> d \<and> d \<le> CHR ''9''))) cs)"

definition shell_single_quote :: "string \<Rightarrow> string" where
  "shell_single_quote v =
     [CHR 0x27] @ concat (map (\<lambda>c. if c = CHR 0x27 then [CHR 0x27, CHR 0x5C, CHR 0x27, CHR 0x27] else [c]) v) @ [CHR 0x27]"

fun add_env_values :: "smap \<Rightarrow> string \<Rightarrow> smap \<Rightarrow> goerr + smap" where
  "add_env_values dst source [] = Inr dst"
| "add_env_values dst source ((key, v) # src) =
     (if \<not> is_valid_env_name key then Inl (errf [source, '' env var name '', quote key, '' is invalid''])
      else if CHR 0x00 \<in> set v then Inl (errf [source, '' env var '', quote key, '' contains NUL byte''])
      else if mget dst key \<noteq> None then Inl (errf [''env var '', quote key, '' is defined more than once''])
      else add_env_values (mput key v dst) source src)"

definition export_line :: "smap \<Rightarrow> string \<Rightarrow> string" where
  "export_line values key =
     ''export '' @ key @ ''='' @ shell_single_quote (case mget values key of Some v \<Rightarrow> v | None \<Rightarrow> []) @ [CHR 0x0A]"

definition render_env_sh :: "env_vars_snapshot option \<Rightarrow> goerr + bytes" where
  "render_env_sh snapshot =
     (case snapshot of
        None \<Rightarrow> Inl (errf [''env vars snapshot is required''])
      | Some es \<Rightarrow>
          if 0 < length (av_secret_refs (es_env_vars es))
          then Inl (errf [''env vars snapshot contains unresolved secret_refs; fetch with resolve_secrets=true''])
          else
            ebind (add_env_values [] ''plain'' (av_plain (es_env_vars es))) (\<lambda>values.
              ebind (add_env_values values ''secrets'' (av_secrets (es_env_vars es))) (\<lambda>values.
                Inr (concat (map (export_line values) (sorted_keys values))))))"

end
