(* ===== verification/RenderProps.thy ===== *)
theory RenderProps
  imports Render
begin

text \<open>
  env.sh read back by the shell, the JSON number literals, and the config tree read back by its tags.
\<close>

subsection \<open>Names\<close>

lemma ascii_letters: "CHR ''A'' \<le> c \<Longrightarrow> c \<le> CHR ''Z'' \<Longrightarrow> (of_char c :: nat) \<le> 127"
  "CHR ''a'' \<le> c \<Longrightarrow> c \<le> CHR ''z'' \<Longrightarrow> (of_char c :: nat) \<le> 127"
  "CHR ''0'' \<le> c \<Longrightarrow> c \<le> CHR ''9'' \<Longrightarrow> (of_char c :: nat) \<le> 127"
  by (simp_all add: less_eq_char_def)

lemma is_valid_env_name_re: "is_valid_env_name name = valid_env_name_re name"
proof -
  have "(of_char d :: nat) \<le> 127 \<and> (d = CHR ''_'' \<or> (CHR ''A'' \<le> d \<and> d \<le> CHR ''Z'') \<or> (CHR ''a'' \<le> d \<and> d \<le> CHR ''z'')) \<longleftrightarrow>
      is_alpha d \<or> d = CHR ''_''" for d
    by (auto simp: is_alpha_def ascii_letters)
  moreover have "(of_char d :: nat) \<le> 127 \<and> (d = CHR ''_'' \<or> (CHR ''A'' \<le> d \<and> d \<le> CHR ''Z'') \<or> (CHR ''a'' \<le> d \<and> d \<le> CHR ''z'') \<or>
      (CHR ''0'' \<le> d \<and> d \<le> CHR ''9'')) \<longleftrightarrow> is_alpha d \<or> is_digit d \<or> d = CHR ''_''" for d
    by (auto simp: is_alpha_def is_digit_def ascii_letters)
  ultimately show ?thesis
    by (cases name) (auto simp: is_valid_env_name_def valid_env_name_re_def simp flip: conj_assoc)
qed

text \<open>The agent accepts exactly the environment variable names the server's schema accepts: isValidEnvName, a loop over
  code points, and the regular expression of the parser agree on every string.\<close>

theorem env_name_checks_agree: "is_valid_env_name name = valid_env_name_re name"
  by (rule is_valid_env_name_re)

subsection \<open>The shell\<close>

text \<open>
  The POSIX shell on the scripts the agent writes: words of single-quoted parts, backslash-quoted
  characters and unquoted letters, digits and underscores; anything else is refused, so whatever the
  evaluator accepts has no expansion, substitution or second command.
\<close>

abbreviation newline :: char where
  "newline \<equiv> CHR 0x0A"

abbreviation sq :: char where
  "sq \<equiv> CHR 0x27"

datatype sh_char = ShEnd | ShQuote | ShEscape | ShPlain | ShOther

definition sh_class :: "char \<Rightarrow> sh_char" where
  "sh_class c =
     (if c = newline then ShEnd else if c = sq then ShQuote else if c = CHR 0x5C then ShEscape
      else if is_alpha c \<or> is_digit c \<or> c = CHR ''_'' then ShPlain else ShOther)"

fun sh_word :: "string \<Rightarrow> (string \<times> string) option"
  and sh_quoted :: "string \<Rightarrow> (string \<times> string) option" where
  "sh_word [] = None"
| "sh_word (c # s) =
     (case sh_class c of
        ShEnd \<Rightarrow> Some ([], s)
      | ShQuote \<Rightarrow> sh_quoted s
      | ShEscape \<Rightarrow> (case s of [] \<Rightarrow> None | d # s' \<Rightarrow> map_option (apfst (Cons d)) (sh_word s'))
      | ShPlain \<Rightarrow> map_option (apfst (Cons c)) (sh_word s)
      | ShOther \<Rightarrow> None)"
| "sh_quoted [] = None"
| "sh_quoted (c # s) = (if sh_class c = ShQuote then sh_word s else map_option (apfst (Cons c)) (sh_quoted s))"

lemma sh_class_simps [simp]:
  "sh_class (CHR 0x0A) = ShEnd" "sh_class (CHR 0x5C) = ShEscape" "sh_class sq = ShQuote" "sh_class c = ShQuote \<longleftrightarrow> c = sq"
  by (simp_all add: sh_class_def)

lemma sh_word_step:
  assumes "sh_word (c # s) = Some (v, r)"
  obtains "r = s" | "sh_quoted s = Some (v, r)" | d s' v' where "s = d # s'" "sh_word s' = Some (v', r)"
    | v' where "sh_word s = Some (v', r)"
  using assms by (cases "sh_class c"; cases s) (auto simp del: sh_class_simps)

lemma sh_quoted_step:
  assumes "sh_quoted (c # s) = Some (v, r)"
  obtains "sh_word s = Some (v, r)" | v' where "sh_quoted s = Some (v', r)"
  using assms by (cases "sh_class c = ShQuote") (auto simp del: sh_class_simps)

lemma sh_rest:
  "(\<forall>v r. sh_word s = Some (v, r) \<longrightarrow> length r < length s) \<and> (\<forall>v r. sh_quoted s = Some (v, r) \<longrightarrow> length r < length s)"
proof (induction s rule: length_induct)
  case (1 s)
  show ?case
  proof (cases s)
    case (Cons c t)
    have IH: "sh_word u = Some (v, r) \<Longrightarrow> length u < length s \<Longrightarrow> length r < length u"
      "sh_quoted u = Some (v, r) \<Longrightarrow> length u < length s \<Longrightarrow> length r < length u" for u v r
      using 1 by blast+
    have tail: "length r < length s" if "sh_word t = Some (v, r) \<or> sh_quoted t = Some (v, r)" for v r
      using that IH [of t v r] by (auto simp: Cons)
    have "length r < length s" if "sh_word s = Some (v, r)" for v r
      using that [unfolded Cons]
    proof (cases rule: sh_word_step)
      case (3 d s' v')
      with IH(1) [of s' v' r] show ?thesis by (simp add: Cons)
    qed (use tail in \<open>auto simp: Cons\<close>)
    moreover have "length r < length s" if "sh_quoted s = Some (v, r)" for v r
      using that [unfolded Cons] by (cases rule: sh_quoted_step) (use tail in blast)+
    ultimately show ?thesis by blast
  qed simp
qed

function sh_exports :: "string \<Rightarrow> (string \<times> string) list option" where
  "sh_exports s =
     (if s = [] then Some []
      else if \<not> has_prefix s ''export '' then None
      else (let body = drop 7 s; name = takeWhile (\<lambda>c. c \<noteq> CHR ''='') body
            in if \<not> valid_env_name_re name then None
               else (case sh_word (drop (Suc (length name)) body) of
                       None \<Rightarrow> None
                     | Some (v, rest) \<Rightarrow> map_option (Cons (name, v)) (sh_exports rest))))"
  by pat_completeness auto
termination
  by (relation "measure length") (auto dest!: sh_rest [THEN conjunct1, rule_format])

declare sh_exports.simps [simp del]

lemma sh_quoted_escape:
  "sh_quoted (concat (map (\<lambda>c. if c = sq then [sq, CHR 0x5C, sq, sq] else [c]) v) @ sq # newline # rest) = Some (v, rest)"
  by (induction v) auto

lemma sh_word_single_quote: "sh_word (shell_single_quote v @ newline # rest) = Some (v, rest)"
  using sh_quoted_escape [of v rest] by (simp add: shell_single_quote_def)

lemma valid_name_no_equals: "valid_env_name_re name \<Longrightarrow> CHR ''='' \<notin> set name"
  by (cases name) (auto simp: valid_env_name_re_def is_alpha_def is_digit_def list_all_iff less_eq_char_def)

lemma sh_exports_line:
  assumes "valid_env_name_re name"
  shows "sh_exports (export_line values name @ rest) =
     map_option (Cons (name, case mget values name of Some v \<Rightarrow> v | None \<Rightarrow> [])) (sh_exports rest)"
proof -
  let ?q = "shell_single_quote (case mget values name of Some v \<Rightarrow> v | None \<Rightarrow> []) @ newline # rest"
  have line: "export_line values name @ rest = ''export '' @ name @ CHR ''='' # ?q"
    by (simp add: export_line_def)
  have "takeWhile (\<lambda>c. c \<noteq> CHR ''='') (name @ CHR ''='' # ?q) = name"
    using valid_name_no_equals [OF assms] by (subst takeWhile_append2) auto
  then show ?thesis
    unfolding line by (subst sh_exports.simps) (simp add: assms sh_word_single_quote Let_def)
qed

lemma sh_exports_lines:
  "list_all valid_env_name_re names \<Longrightarrow>
   sh_exports (concat (map (export_line values) names)) =
     Some (map (\<lambda>k. (k, case mget values k of Some v \<Rightarrow> v | None \<Rightarrow> [])) names)"
  by (induction names) (simp_all add: sh_exports_line sh_exports.simps [of "[]"])

definition good_env_entry :: "string \<times> string \<Rightarrow> bool" where
  "good_env_entry p \<longleftrightarrow> valid_env_name_re (fst p) \<and> CHR 0x00 \<notin> set (snd p)"

lemma add_env_values_Inr:
  "wf_map src \<Longrightarrow> add_env_values dst source src = Inr out \<longleftrightarrow>
     list_all good_env_entry src \<and> fst ` set src \<inter> fst ` set dst = {} \<and> out = mput_all src dst"
proof (induction src arbitrary: dst)
  case (Cons p src)
  obtain k v where p: "p = (k, v)" by (cases p)
  have "mget dst k = None \<longleftrightarrow> k \<notin> fst ` set dst" by (rule mget_None_iff)
  with Cons show ?case by (auto simp: p good_env_entry_def is_valid_env_name_re)
qed auto

lemma mput_all_keys: "fst ` set (mput_all src dst) = fst ` set src \<union> fst ` set dst"
  by (induction src dst rule: mput_all.induct) auto

definition env_sh_ok :: "agent_env_vars \<Rightarrow> bool" where
  "env_sh_ok ev \<longleftrightarrow>
     av_secret_refs ev = [] \<and> list_all good_env_entry (av_plain ev @ av_secrets ev) \<and>
     fst ` set (av_plain ev) \<inter> fst ` set (av_secrets ev) = {}"

lemma render_env_sh_Inr:
  assumes "wf_map (av_plain (es_env_vars es))" and "wf_map (av_secrets (es_env_vars es))"
  shows "render_env_sh (Some es) = Inr out \<longleftrightarrow>
     env_sh_ok (es_env_vars es) \<and>
     (let vals = mput_all (av_secrets (es_env_vars es)) (mput_all (av_plain (es_env_vars es)) [])
      in out = concat (map (export_line vals) (sorted_keys vals)))"
  using assms by (auto simp: render_env_sh_def add_env_values_Inr env_sh_ok_def mput_all_keys Let_def)

text \<open>C30: env.sh is safe and exact. It renders exactly when no secret reference is unresolved, every name is a shell
  identifier, no value holds a NUL byte and no variable is both plain and secret; and then a shell that reads it performs
  nothing but exports, each variable once, in sorted order, each with byte for byte the value of the snapshot, whatever
  quotes, dollar signs, backslashes or newlines the vals contain.\<close>

theorem env_sh_exports_values:
  assumes "wf_map (av_plain (es_env_vars es))" and "wf_map (av_secrets (es_env_vars es))"
  shows "case render_env_sh (Some es) of
      Inl _ \<Rightarrow> \<not> env_sh_ok (es_env_vars es)
    | Inr out \<Rightarrow> env_sh_ok (es_env_vars es) \<and>
        (\<exists>kvs. sh_exports out = Some kvs \<and> sorted (map fst kvs) \<and> distinct (map fst kvs) \<and>
               map_of kvs = mget (av_plain (es_env_vars es)) ++ mget (av_secrets (es_env_vars es)))"
proof (cases "render_env_sh (Some es)")
  case (Inl e)
  with render_env_sh_Inr [OF assms] show ?thesis by (auto simp: Let_def)
next
  case (Inr out)
  let ?plain = "av_plain (es_env_vars es)" and ?secrets = "av_secrets (es_env_vars es)"
  define vals where "vals = mput_all ?secrets (mput_all ?plain [])"
  define kvs where "kvs = map (\<lambda>k. (k, case mget vals k of Some v \<Rightarrow> v | None \<Rightarrow> [])) (sorted_keys vals)"
  from Inr have ok: "env_sh_ok (es_env_vars es)"
    and out: "out = concat (map (export_line vals) (sorted_keys vals))"
    by (simp_all add: render_env_sh_Inr [OF assms] vals_def Let_def)
  have keys: "fst ` set vals = fst ` set ?plain \<union> fst ` set ?secrets"
    by (auto simp: vals_def mput_all_keys)
  have get: "mget vals = mget ?plain ++ mget ?secrets"
    using assms by (auto simp: vals_def mget_mput_all map_add_def fun_eq_iff split: option.splits)
  have "list_all valid_env_name_re (sorted_keys vals)"
    using ok keys by (auto simp: list_all_iff env_sh_ok_def good_env_entry_def)
  then have "sh_exports out = Some kvs" unfolding out kvs_def by (rule sh_exports_lines)
  moreover have "map fst kvs = sorted_keys vals" by (simp add: kvs_def comp_def)
  moreover have "map_of kvs = mget vals"
  proof
    fix k show "map_of kvs k = mget vals k"
      by (cases "mget vals k")
        (auto simp: kvs_def map_of_map_restrict restrict_map_def comp_def mget_None_iff dest: mget_Some_key)
  qed
  moreover have "wf_map vals" unfolding vals_def by simp
  ultimately show ?thesis using ok Inr get by auto
qed

definition sample_env_snapshot :: env_vars_snapshot where
  "sample_env_snapshot =
     \<lparr>es_metadata = \<lparr>am_org = ''o'', am_project = ''p'', am_service = ''s'', am_version = ''v'', am_updated_at = 7\<rparr>,
      es_env_vars = \<lparr>av_plain = [(''A'', [CHR 0x27])], av_secret_refs = [], av_secrets = [(''B'', ''x'')]\<rparr>\<rparr>"

lemma sample_env_sh_ok: "env_sh_ok (es_env_vars sample_env_snapshot)"
  by (simp add: env_sh_ok_def sample_env_snapshot_def good_env_entry_def valid_env_name_re_def is_alpha_def)

theorem env_sh_exports_values_witness:
  "\<exists>out kvs. render_env_sh (Some sample_env_snapshot) = Inr out \<and> sh_exports out = Some kvs \<and>
     map_of kvs ''A'' = Some [CHR 0x27]"
proof (cases "render_env_sh (Some sample_env_snapshot)")
  case (Inl e)
  with env_sh_exports_values [of sample_env_snapshot] sample_env_sh_ok show ?thesis
    by (simp add: sample_env_snapshot_def)
next
  case (Inr out)
  with env_sh_exports_values [of sample_env_snapshot] obtain kvs where
    "sh_exports out = Some kvs" "map_of kvs = mget [(''A'', [CHR 0x27])] ++ mget [(''B'', ''x'')]"
    by (auto simp: sample_env_snapshot_def)
  with Inr show ?thesis by (auto simp: map_add_def)
qed

subsection \<open>Numbers\<close>

text \<open>The grammar of a JSON number (RFC 8259): optional minus, integer, optional fraction and exponent.\<close>

definition digits :: "string \<Rightarrow> bool" where
  "digits ds \<longleftrightarrow> ds \<noteq> [] \<and> list_all is_digit ds"

definition int_ok :: "string \<Rightarrow> bool" where
  "int_ok s \<longleftrightarrow> s = ''0'' \<or> (digits s \<and> hd s \<noteq> CHR ''0'')"

definition frac_ok :: "string \<Rightarrow> bool" where
  "frac_ok s \<longleftrightarrow> s = [] \<or> (\<exists>ds. s = CHR ''.'' # ds \<and> digits ds)"

definition exp_ok :: "string \<Rightarrow> bool" where
  "exp_ok s \<longleftrightarrow> s = [] \<or>
     (\<exists>e r. s = e # r \<and> e \<in> {CHR ''e'', CHR ''E''} \<and>
       (digits r \<or> (\<exists>sgn ds. r = sgn # ds \<and> sgn \<in> {CHR ''+'', CHR ''-''} \<and> digits ds)))"

definition json_unsigned :: "string \<Rightarrow> bool" where
  "json_unsigned s \<longleftrightarrow> (\<exists>i f x. s = i @ f @ x \<and> int_ok i \<and> frac_ok f \<and> exp_ok x)"

definition json_number :: "string \<Rightarrow> bool" where
  "json_number s \<longleftrightarrow> json_unsigned s \<or> (\<exists>r. s = CHR ''-'' # r \<and> json_unsigned r)"

definition no_digit :: "string \<Rightarrow> bool" where
  "no_digit r \<longleftrightarrow> r = [] \<or> \<not> is_digit (hd r)"

lemma not_digits [simp]: "\<not> is_digit (CHR ''.'')" "\<not> is_digit (CHR ''e'')" "\<not> is_digit (CHR ''E'')"
  "\<not> is_digit (CHR ''+'')" "\<not> is_digit (CHR ''-'')" "is_digit (CHR ''0'')"
  by (simp_all add: is_digit_def less_eq_char_def)

lemma skip_digits_split: "\<exists>ds. s = ds @ skip_digits s \<and> list_all is_digit ds \<and> no_digit (skip_digits s)"
  using hd_dropWhile [of is_digit s] takeWhile_dropWhile_id [of is_digit s] set_takeWhileD [of _ is_digit s]
  by (auto simp: skip_digits_def no_digit_def list_all_iff intro!: exI [of _ "takeWhile is_digit s"])

lemma skip_digits_append: "list_all is_digit ds \<Longrightarrow> no_digit r \<Longrightarrow> skip_digits (ds @ r) = r"
  by (cases r) (auto simp: skip_digits_def no_digit_def list_all_iff dropWhile_append3)

lemma digits_required_iff:
  "digits_required s = Some r \<longleftrightarrow> (\<exists>ds. s = ds @ r \<and> digits ds) \<and> no_digit r"
proof
  assume r: "digits_required s = Some r"
  then obtain c t where s: "s = c # t" "is_digit c" "r = skip_digits s"
    by (auto simp: digits_required_def split: list.splits if_splits)
  from skip_digits_split [of s] obtain ds where "s = ds @ r" "list_all is_digit ds" "no_digit r" using s(3) by blast
  moreover from this s have "ds \<noteq> []" by (cases ds) (auto simp: no_digit_def)
  ultimately show "(\<exists>ds. s = ds @ r \<and> digits ds) \<and> no_digit r" by (auto simp: digits_def)
next
  assume "(\<exists>ds. s = ds @ r \<and> digits ds) \<and> no_digit r"
  then obtain ds where ds: "s = ds @ r" "digits ds" "no_digit r" by blast
  then have "skip_digits s = r" by (simp add: skip_digits_append digits_def)
  with ds show "digits_required s = Some r" by (cases ds) (auto simp: digits_required_def digits_def)
qed

lemma exponent_iff: "json_exponent s = Some [] \<longleftrightarrow> exp_ok s"
proof (cases s)
  case (Cons c r)
  let ?strip = "case r of d # q \<Rightarrow> if d = CHR ''+'' \<or> d = CHR ''-'' then q else r | [] \<Rightarrow> r"
  show ?thesis
  proof (cases "c = CHR ''e'' \<or> c = CHR ''E''")
    case True
    have "digits_required ?strip = Some [] \<longleftrightarrow> digits ?strip"
      by (auto simp: digits_required_iff no_digit_def)
    moreover have "digits ?strip \<longleftrightarrow>
        digits r \<or> (\<exists>sgn ds. r = sgn # ds \<and> sgn \<in> {CHR ''+'', CHR ''-''} \<and> digits ds)"
      by (cases r) (auto simp: digits_def)
    ultimately show ?thesis using True by (auto simp: Cons json_exponent_def exp_ok_def)
  qed (auto simp: Cons json_exponent_def exp_ok_def)
qed (simp add: json_exponent_def exp_ok_def)

lemma exp_ok_hd: "exp_ok r \<Longrightarrow> no_digit r \<and> (r \<noteq> [] \<longrightarrow> hd r \<noteq> CHR ''.'')"
  by (auto simp: exp_ok_def no_digit_def)

lemma fraction_iff:
  assumes "exp_ok r" shows "json_fraction s = Some r \<longleftrightarrow> (\<exists>f. s = f @ r \<and> frac_ok f)"
proof (cases s)
  case (Cons c t)
  show ?thesis
  proof (cases "c = CHR ''.''")
    case True
    then show ?thesis using exp_ok_hd [OF assms]
      by (auto simp: Cons json_fraction_def frac_ok_def digits_required_iff Cons_eq_append_conv)
  next
    case False
    then show ?thesis by (auto simp: Cons json_fraction_def frac_ok_def Cons_eq_append_conv)
  qed
qed (auto simp: json_fraction_def frac_ok_def)

lemma int_part_iff:
  assumes "no_digit r" shows "json_int_part s = Some r \<longleftrightarrow> (\<exists>i. s = i @ r \<and> int_ok i)"
proof (cases s)
  case (Cons c t)
  show ?thesis
  proof (cases "c = CHR ''0''")
    case False
    then have "json_int_part s = digits_required s" by (simp add: Cons json_int_part_def digits_required_def)
    with False assms show ?thesis
      by (auto simp: digits_required_iff int_ok_def digits_def Cons Cons_eq_append_conv)
  qed (auto simp: Cons json_int_part_def int_ok_def Cons_eq_append_conv digits_def)
qed (auto simp: json_int_part_def int_ok_def digits_def)

lemma frac_exp_no_digit: "frac_ok f \<Longrightarrow> exp_ok x \<Longrightarrow> no_digit (f @ x)"
  using exp_ok_hd [of x] by (auto simp: frac_ok_def no_digit_def)

lemma unsigned_iff:
  "(case Option.bind (Option.bind (json_int_part s) json_fraction) json_exponent of None \<Rightarrow> False | Some rest \<Rightarrow> rest = []) \<longleftrightarrow>
     json_unsigned s"
proof
  assume "case Option.bind (Option.bind (json_int_part s) json_fraction) json_exponent of None \<Rightarrow> False | Some rest \<Rightarrow> rest = []"
  then obtain r q where r: "json_int_part s = Some r" "json_fraction r = Some q" "json_exponent q = Some []"
    by (auto split: option.splits bind_splits)
  then have q: "exp_ok q" by (simp add: exponent_iff)
  with r(2) obtain f where f: "r = f @ q" "frac_ok f" by (auto simp: fraction_iff)
  with frac_exp_no_digit [OF f(2) q] r(1) obtain i where "s = i @ r" "int_ok i" by (auto simp: int_part_iff)
  with f q show "json_unsigned s" by (auto simp: json_unsigned_def)
next
  assume "json_unsigned s"
  then obtain i f x where ifx: "s = i @ f @ x" "int_ok i" "frac_ok f" "exp_ok x" by (auto simp: json_unsigned_def)
  from ifx(1,2) have "json_int_part s = Some (f @ x)"
    using int_part_iff [OF frac_exp_no_digit [OF ifx(3,4)]] by blast
  moreover from ifx(3) have "json_fraction (f @ x) = Some x" using fraction_iff [OF ifx(4)] by blast
  ultimately show "case Option.bind (Option.bind (json_int_part s) json_fraction) json_exponent of None \<Rightarrow> False | Some rest \<Rightarrow> rest = []"
    using ifx(4) by (simp add: exponent_iff [symmetric])
qed

lemma json_unsigned_hd: "json_unsigned s \<Longrightarrow> s \<noteq> [] \<and> hd s \<noteq> CHR ''-''"
proof -
  assume "json_unsigned s"
  then obtain i t where s: "s = i @ t" "int_ok i" by (auto simp: json_unsigned_def)
  then have "i \<noteq> [] \<and> is_digit (hd i)" by (cases i) (auto simp: int_ok_def digits_def)
  with s show ?thesis by (metis append_is_Nil_conv hd_append2 not_digits(5))
qed

lemma json_number_unsigned:
  "json_number s \<longleftrightarrow> json_unsigned (case s of c # r \<Rightarrow> if c = CHR ''-'' then r else s | [] \<Rightarrow> s)"
  using json_unsigned_hd [of s] by (cases s) (auto simp: json_number_def)

lemma is_json_number: "is_json_number_literal text = json_number text"
  unfolding is_json_number_literal_def json_number_unsigned Let_def by (rule unsigned_iff)

text \<open>isJSONNumberLiteral, an index scan with early exits, accepts exactly the JSON number grammar: an optional minus, an
  integer without leading zeros, an optional fraction and an optional exponent, and nothing after them, so a number that
  reaches the rendered YAML untouched is a number.\<close>

theorem number_literal_exact: "is_json_number_literal text = json_number text"
  by (rule is_json_number)

subsection \<open>The config tree\<close>

text \<open>
  Reading the tree back by its tags, as a YAML reader that honours explicit tags does, and the value
  with its maps in sorted order. A value decoded from JSON with \<open>UseNumber\<close> holds no int and no float.
\<close>

fun read_node :: "rnode \<Rightarrow> cval option"
  and read_pairs :: "rnode list \<Rightarrow> cmap option"
  and read_items :: "rnode list \<Rightarrow> cval list option" where
  "read_node (RScalar tag v) =
     (if tag = ''!!null'' then Some CNil
      else if tag = ''!!str'' then Some (CStr v)
      else if tag = ''!!bool'' then Some (CBool (v = ''true''))
      else if tag = ''!!int'' \<or> tag = ''!!float'' then Some (CNumber v)
      else None)"
| "read_node (RSequence ns) = map_option CSeq (read_items ns)"
| "read_node (RMapping ns) = map_option CMap (read_pairs ns)"
| "read_pairs [] = Some []"
| "read_pairs [n] = None"
| "read_pairs (k # n # ns) =
     (case k of
        RScalar tag v \<Rightarrow>
          if tag \<noteq> ''!!str'' then None
          else Option.bind (read_node n) (\<lambda>c. map_option (Cons (v, c)) (read_pairs ns))
      | _ \<Rightarrow> None)"
| "read_items [] = Some []"
| "read_items (n # ns) = Option.bind (read_node n) (\<lambda>c. map_option (Cons c) (read_items ns))"

fun sorted_cval :: "cval \<Rightarrow> cval" where
  "sorted_cval (CMap m) = CMap (sort_key fst (map (\<lambda>(k, v). (k, sorted_cval v)) m))"
| "sorted_cval (CSeq vs) = CSeq (map sorted_cval vs)"
| "sorted_cval v = v"

fun json_cval :: "cval \<Rightarrow> bool" where
  "json_cval (CMap m) = list_all (\<lambda>(k, v). json_cval v) m"
| "json_cval (CSeq vs) = list_all json_cval vs"
| "json_cval (CInt i) = False"
| "json_cval (CFloat f) = False"
| "json_cval (CNumber s) = json_number s"
| "json_cval v = True"

lemma insort_key_map_snd:
  "insort_key fst (k, f v) (map (\<lambda>(k, v). (k, f v)) xs) = map (\<lambda>(k, v). (k, f v)) (insort_key fst (k, v) xs)"
  by (induction xs) auto

lemma sort_key_map_snd: "sort_key fst (map (\<lambda>(k, v). (k, f v)) xs) = map (\<lambda>(k, v). (k, f v)) (sort_key fst xs)"
  by (induction xs) (auto simp: insort_key_map_snd)

lemma collect_entries_read:
  assumes "\<And>k v. (k, v) \<in> set m \<Longrightarrow> \<exists>n. f v = Inr n \<and> read_node n = Some (g v)"
  shows "\<exists>ns. collect_entries (map (\<lambda>(k, v). (k, f v)) m) = Inr ns \<and> read_pairs ns = Some (map (\<lambda>(k, v). (k, g v)) m)"
  using assms
proof (induction m)
  case (Cons p m)
  obtain k v where p: "p = (k, v)" by (cases p)
  from Cons.prems [of k v] obtain n where "f v = Inr n" "read_node n = Some (g v)" by (auto simp: p)
  with Cons show ?case by (fastforce simp: p)
qed simp

lemma collect_items_read:
  assumes "\<And>v. v \<in> set vs \<Longrightarrow> \<exists>n. f v = Inr n \<and> read_node n = Some (g v)"
  shows "\<exists>ns. collect_items (map f vs) = Inr ns \<and> read_items ns = Some (map g vs)"
  using assms
proof (induction vs)
  case (Cons v vs)
  from Cons.prems [of v] obtain n where "f v = Inr n" "read_node n = Some (g v)" by auto
  with Cons show ?case by fastforce
qed simp

lemma yaml_node_read: "json_cval v \<Longrightarrow> \<exists>n. yaml_node_value sf v = Inr n \<and> read_node n = Some (sorted_cval v)"
proof (induction v)
  case (CNumber s)
  then show ?case by (simp add: yaml_number_node_def is_json_number)
next
  case (CSeq vs)
  then have "\<exists>ns. collect_items (map (yaml_node_value sf) vs) = Inr ns \<and> read_items ns = Some (map sorted_cval vs)"
    by (intro collect_items_read) (auto simp: list_all_iff)
  then show ?case by auto
next
  case (CMap m)
  have "\<exists>ns. collect_entries (map (\<lambda>(k, v). (k, yaml_node_value sf v)) (sort_key fst m)) = Inr ns \<and>
      read_pairs ns = Some (map (\<lambda>(k, v). (k, sorted_cval v)) (sort_key fst m))"
  proof (rule collect_entries_read)
    fix k v assume "(k, v) \<in> set (sort_key fst m)"
    then have "(k, v) \<in> set m" by simp
    with CMap.prems CMap.IH [OF this] show "\<exists>n. yaml_node_value sf v = Inr n \<and> read_node n = Some (sorted_cval v)"
      by (fastforce simp: list_all_iff)
  qed
  then show ?case by (auto simp: sort_key_map_snd)
qed auto

text \<open>Rendering a config loses nothing: every config decoded from a JSON response, whose numbers are JSON number
  literals, is rendered, and reading the YAML tree back by its explicit tags gives the same config with its maps in
  sorted key order: strings that look like numbers, booleans or nulls stay strings and numbers keep every digit.\<close>

theorem config_tree_roundtrip:
  assumes "json_cval v"
  shows "\<exists>n. yaml_node_value sf v = Inr n \<and> read_node n = Some (sorted_cval v)"
  using assms by (rule yaml_node_read)

theorem config_tree_roundtrip_witness:
  "\<exists>n. yaml_node_value (\<lambda>_. []) (CMap [(''b'', CStr ''1''), (''a'', CNil)]) = Inr n \<and>
     read_node n = Some (CMap [(''a'', CNil), (''b'', CStr ''1'')])"
  using config_tree_roundtrip [of "CMap [(''b'', CStr ''1''), (''a'', CNil)]" "\<lambda>_. []"] by simp

end
