(* ===== verification/Registry.thy ===== *)
theory Registry
  imports GoTime
begin

text \<open>
  The app registry (internal/registry): registrations and their keys (types.go), the in-memory cache
  with its event watermarks and tombstones (cache.go) and its bootstrap with bounded backoff
  (bootstrap.go). \<open>time.Parse(time.RFC3339Nano, _)\<close> is the parameter P; the loader, the sleep and the
  clock of the bootstrap are a record of operations on the world.
\<close>

subsection \<open>Registrations\<close>

record app =
  app_org :: string
  app_project :: string
  app_service :: string
  app_name :: string
  app_updated_at :: string

datatype reg_key = RegKey (rk_org: string) (rk_project: string) (rk_service: string)

text \<open>The order of \<open>List\<close> and \<open>normalizeApps\<close>: by org, then project, then service.\<close>

definition reg_key_less :: "reg_key \<Rightarrow> reg_key \<Rightarrow> bool" where
  "reg_key_less a b \<longleftrightarrow>
     (if rk_org a \<noteq> rk_org b then rk_org a < rk_org b
      else if rk_project a \<noteq> rk_project b then rk_project a < rk_project b
      else rk_service a < rk_service b)"

lemma reg_key_eq: "a = b \<longleftrightarrow> rk_org a = rk_org b \<and> rk_project a = rk_project b \<and> rk_service a = rk_service b"
  by (cases a; cases b) simp

instantiation reg_key :: linorder
begin

definition less_reg_key :: "reg_key \<Rightarrow> reg_key \<Rightarrow> bool" where
  "less_reg_key = reg_key_less"

definition less_eq_reg_key :: "reg_key \<Rightarrow> reg_key \<Rightarrow> bool" where
  "less_eq_reg_key a b \<longleftrightarrow> reg_key_less a b \<or> a = b"

instance
  by standard (auto simp: less_eq_reg_key_def less_reg_key_def reg_key_less_def reg_key_eq split: if_splits)

end

definition key_for :: "app \<Rightarrow> reg_key" where
  "key_for a = RegKey (app_org a) (app_project a) (app_service a)"

type_synonym time_parser = "string \<Rightarrow> goerr + gotime"

definition normalize_app :: "time_parser \<Rightarrow> app \<Rightarrow> goerr + app" where
  "normalize_app P a =
     (let a = (if app_service a = [] then a\<lparr>app_service := app_name a\<rparr> else a);
          a = (if app_name a = [] then a\<lparr>app_name := app_service a\<rparr> else a)
      in if app_org a = [] then Inl (errf [''org is required''])
         else if app_project a = [] then Inl (errf [''project is required''])
         else if app_service a = [] then Inl (errf [''service or name is required''])
         else if app_updated_at a \<noteq> [] then
           (case P (app_updated_at a) of
              Inl e \<Rightarrow> Inl (wrapf [''updated_at must be RFC3339''] e)
            | Inr _ \<Rightarrow> Inr a)
         else Inr a)"

text \<open>\<open>sort.Slice\<close> may order registrations of one key either way; the model keeps their order.\<close>

fun normalize_each :: "time_parser \<Rightarrow> nat \<Rightarrow> app list \<Rightarrow> goerr + app list" where
  "normalize_each P i [] = Inr []"
| "normalize_each P i (a # as) =
     (case normalize_app P a of
        Inl e \<Rightarrow> Inl (wrapf [''app '', show_nat i] e)
      | Inr a \<Rightarrow> ebind (normalize_each P (Suc i) as) (\<lambda>as. Inr (a # as)))"

definition normalize_apps :: "time_parser \<Rightarrow> app list \<Rightarrow> goerr + app list" where
  "normalize_apps P apps = ebind (normalize_each P 0 apps) (\<lambda>as. Inr (sort_key key_for as))"

subsection \<open>The cache\<close>

record reg_cache =
  ca_apps :: "(reg_key, app) gomap"
  ca_last_event_at :: "(reg_key, gotime) gomap"
  ca_last_loaded :: gotime
  ca_last_updated :: gotime
  ca_last_load_err :: "goerr option"
  ca_status :: string

record reg_status =
  rs_apps_loaded :: nat
  rs_last_loaded_at :: gotime
  rs_last_updated_at :: gotime
  rs_last_load_error :: string
  rs_state :: string
  rs_is_degraded :: bool

definition watermark_retention :: duration where
  "watermark_retention = 86400 * second"

definition new_cache :: reg_cache where
  "new_cache = \<lparr>ca_apps = [], ca_last_event_at = [], ca_last_loaded = 0, ca_last_updated = 0,
                ca_last_load_err = None, ca_status = ''not_configured''\<rparr>"

definition parse_event_time :: "time_parser \<Rightarrow> string \<Rightarrow> goerr + gotime option" where
  "parse_event_time P raw =
     (if raw = [] then Inr None
      else case P raw of Inl e \<Rightarrow> Inl (wrapf [''updated_at must be RFC3339''] e) | Inr t \<Rightarrow> Inr (Some t))"

definition require_event_time :: "time_parser \<Rightarrow> app \<Rightarrow> goerr + gotime" where
  "require_event_time P a =
     (if app_updated_at a = [] then Inl (errf [''updated_at is required''])
      else case parse_event_time P (app_updated_at a) of
             Inl e \<Rightarrow> Inl e
           | Inr t \<Rightarrow> Inr (case t of None \<Rightarrow> 0 | Some t \<Rightarrow> t))"

definition remember_event_time ::
  "(reg_key, gotime) gomap \<Rightarrow> reg_key \<Rightarrow> gotime \<Rightarrow> (reg_key, gotime) gomap" where
  "remember_event_time events key event_at =
     (case mget events key of
        None \<Rightarrow> mput key event_at events
      | Some current \<Rightarrow> if current < event_at then mput key event_at events else events)"

definition should_apply_event :: "time_parser \<Rightarrow> app \<Rightarrow> app \<Rightarrow> goerr + bool" where
  "should_apply_event P current incoming =
     (case parse_event_time P (app_updated_at incoming) of
        Inl e \<Rightarrow> Inl e
      | Inr None \<Rightarrow> Inr True
      | Inr (Some incoming_at) \<Rightarrow>
          (case parse_event_time P (app_updated_at current) of
             Inl e \<Rightarrow> Inl (wrapf [''current cache updated_at is invalid''] e)
           | Inr None \<Rightarrow> Inr True
           | Inr (Some current_at) \<Rightarrow> Inr (\<not> incoming_at < current_at)))"

definition prune_expired_tombstones :: "gotime \<Rightarrow> reg_cache \<Rightarrow> reg_cache" where
  "prune_expired_tombstones now c =
     (if length (ca_last_event_at c) = 0 then c
      else c\<lparr>ca_last_event_at :=
               filter (\<lambda>(k, watermark). mget (ca_apps c) k \<noteq> None \<or> \<not> watermark < now - watermark_retention)
                 (ca_last_event_at c)\<rparr>)"

definition mark_cache_updated :: "gotime \<Rightarrow> reg_cache \<Rightarrow> reg_cache" where
  "mark_cache_updated at c =
     (let c = c\<lparr>ca_last_updated := at\<rparr> in
      if ca_status c = [] then c\<lparr>ca_status := ''not_configured''\<rparr>
      else if ca_status c = ''ok'' then c\<lparr>ca_last_load_err := None\<rparr>
      else c)"

text \<open>The snapshot of a replace: malformed registrations are dropped, later ones win over earlier ones.\<close>

fun replace_snapshot ::
  "time_parser \<Rightarrow> app list \<Rightarrow> (reg_key, app) gomap \<times> (reg_key, gotime) gomap \<Rightarrow>
   (reg_key, app) gomap \<times> (reg_key, gotime) gomap" where
  "replace_snapshot P [] st = st"
| "replace_snapshot P (a # as) (apps, event_at) =
     (case normalize_app P a of
        Inl _ \<Rightarrow> replace_snapshot P as (apps, event_at)
      | Inr a \<Rightarrow>
          replace_snapshot P as
            (mput (key_for a) a apps,
             (case parse_event_time P (app_updated_at a) of
                Inr (Some t) \<Rightarrow> mput (key_for a) t event_at
              | _ \<Rightarrow> event_at)))"

definition replace_cache :: "time_parser \<Rightarrow> app list \<Rightarrow> gotime \<Rightarrow> reg_cache \<Rightarrow> reg_cache" where
  "replace_cache P apps loaded_at c =
     (let (normalized, snapshot_event_at) = replace_snapshot P apps ([], []);
          cutoff = loaded_at - watermark_retention;
          kept = filter (\<lambda>(k, watermark). mget normalized k \<noteq> None \<or> cutoff < watermark) (ca_last_event_at c)
      in c\<lparr>ca_apps := normalized,
           ca_last_event_at := foldl (\<lambda>m (k, t). remember_event_time m k t) kept snapshot_event_at,
           ca_last_loaded := loaded_at, ca_last_updated := loaded_at,
           ca_last_load_err := None, ca_status := ''ok''\<rparr>)"

text \<open>
  \<open>Upsert\<close> and \<open>Delete\<close> on a cache, after the event was normalized and its time read; on a nil cache
  they return without an effect.
\<close>

definition upsert_event ::
  "time_parser \<Rightarrow> app \<Rightarrow> gotime \<Rightarrow> gotime \<Rightarrow> reg_cache \<Rightarrow> (goerr + app \<times> bool) \<times> reg_cache" where
  "upsert_event P a event_at updated_at c0 =
     (let c = prune_expired_tombstones event_at c0;
          key = key_for a;
          stale = (case mget (ca_last_event_at c) key of None \<Rightarrow> False | Some watermark \<Rightarrow> event_at < watermark);
          current = mget (ca_apps c) key
      in if stale then (Inr (case current of Some cur \<Rightarrow> cur | None \<Rightarrow> a, False), c)
         else
           (case (case current of None \<Rightarrow> Inr True | Some cur \<Rightarrow> should_apply_event P cur a) of
              Inl e \<Rightarrow> (Inl e, c)
            | Inr apply_it \<Rightarrow>
                if \<not> apply_it then (Inr (case current of Some cur \<Rightarrow> cur | None \<Rightarrow> a, False), c)
                else (Inr (a, True),
                      mark_cache_updated updated_at
                        (c\<lparr>ca_apps := mput key a (ca_apps c),
                           ca_last_event_at := remember_event_time (ca_last_event_at c) key event_at\<rparr>))))"

definition upsert ::
  "time_parser \<Rightarrow> app \<Rightarrow> gotime \<Rightarrow> reg_cache option \<Rightarrow> (goerr + app \<times> bool) \<times> reg_cache option" where
  "upsert P a updated_at copt =
     (case normalize_app P a of
        Inl e \<Rightarrow> (Inl e, copt)
      | Inr a \<Rightarrow>
          (case require_event_time P a of
             Inl e \<Rightarrow> (Inl e, copt)
           | Inr event_at \<Rightarrow>
               (case copt of
                  None \<Rightarrow> (Inr (a, False), None)
                | Some c \<Rightarrow> (let (r, c) = upsert_event P a event_at updated_at c in (r, Some c)))))"

definition delete_event ::
  "time_parser \<Rightarrow> app \<Rightarrow> gotime \<Rightarrow> gotime \<Rightarrow> reg_cache \<Rightarrow> (goerr + reg_key \<times> bool) \<times> reg_cache" where
  "delete_event P a event_at updated_at c0 =
     (let c = prune_expired_tombstones event_at c0;
          key = key_for a;
          stale = (case mget (ca_last_event_at c) key of None \<Rightarrow> False | Some watermark \<Rightarrow> event_at < watermark);
          current = mget (ca_apps c) key
      in if stale then (Inr (key, False), c)
         else
           (case (case current of None \<Rightarrow> Inr True | Some cur \<Rightarrow> should_apply_event P cur a) of
              Inl e \<Rightarrow> (Inl e, c)
            | Inr apply_it \<Rightarrow>
                if \<not> apply_it then (Inr (key, False), c)
                else (Inr (key, current \<noteq> None),
                      mark_cache_updated updated_at
                        (c\<lparr>ca_apps := mdel key (ca_apps c),
                           ca_last_event_at := remember_event_time (ca_last_event_at c) key event_at\<rparr>))))"

definition delete_app ::
  "time_parser \<Rightarrow> app \<Rightarrow> gotime \<Rightarrow> reg_cache option \<Rightarrow> (goerr + reg_key \<times> bool) \<times> reg_cache option" where
  "delete_app P a updated_at copt =
     (case normalize_app P a of
        Inl e \<Rightarrow> (Inl e, copt)
      | Inr a \<Rightarrow>
          (case require_event_time P a of
             Inl e \<Rightarrow> (Inl e, copt)
           | Inr event_at \<Rightarrow>
               (case copt of
                  None \<Rightarrow> (Inr (key_for a, False), None)
                | Some c \<Rightarrow> (let (r, c) = delete_event P a event_at updated_at c in (r, Some c)))))"

definition mark_load_skipped :: "reg_cache \<Rightarrow> reg_cache" where
  "mark_load_skipped c = c\<lparr>ca_status := ''not_configured'', ca_last_load_err := None\<rparr>"

definition mark_load_failed :: "goerr \<Rightarrow> reg_cache \<Rightarrow> reg_cache" where
  "mark_load_failed e c = c\<lparr>ca_status := ''degraded'', ca_last_load_err := Some e\<rparr>"

definition list_apps :: "reg_cache \<Rightarrow> app list" where
  "list_apps c = sort_key key_for (map snd (ca_apps c))"

definition cache_status :: "reg_cache \<Rightarrow> reg_status" where
  "cache_status c =
     (let state = (if ca_status c = [] then ''not_configured'' else ca_status c) in
      \<lparr>rs_apps_loaded = length (ca_apps c), rs_last_loaded_at = ca_last_loaded c,
       rs_last_updated_at = ca_last_updated c,
       rs_last_load_error = (case ca_last_load_err c of None \<Rightarrow> [] | Some e \<Rightarrow> err_msg e),
       rs_state = state, rs_is_degraded = (state = ''degraded'')\<rparr>)"

subsection \<open>Bootstrap\<close>

record bootstrap_options =
  bo_max_attempts :: int
  bo_initial_backoff :: duration
  bo_max_backoff :: duration

record bootstrap_result =
  br_loaded :: bool
  br_attempts :: int
  br_apps_loaded :: nat
  br_err :: "goerr option"

type_synonym 'w loader = "'w \<Rightarrow> (goerr + app list) \<times> 'w"

record 'w bootstrap_env =
  be_sleep :: "duration \<Rightarrow> 'w \<Rightarrow> goerr option \<times> 'w"
  be_now :: "'w \<Rightarrow> gotime \<times> 'w"
  be_ctx_err :: "'w \<Rightarrow> goerr option"

definition bootstrap_with_defaults :: "bootstrap_options \<Rightarrow> bootstrap_options" where
  "bootstrap_with_defaults o0 =
     (let attempts = (if bo_max_attempts o0 \<le> 0 then 5 else bo_max_attempts o0);
          init_backoff = (if bo_initial_backoff o0 \<le> 0 then second else bo_initial_backoff o0);
          max_backoff = (if bo_max_backoff o0 \<le> 0 then 30 * second else bo_max_backoff o0)
      in \<lparr>bo_max_attempts = attempts, bo_initial_backoff = init_backoff,
          bo_max_backoff = (if max_backoff < init_backoff then init_backoff else max_backoff)\<rparr>)"

text \<open>The loop of \<open>backoff\<close> with its remaining turns; the halved maximum is Go's truncating division.\<close>

fun backoff_loop :: "bootstrap_options \<Rightarrow> nat \<Rightarrow> duration \<Rightarrow> duration" where
  "backoff_loop opts 0 b = (if bo_max_backoff opts < b then bo_max_backoff opts else b)"
| "backoff_loop opts (Suc n) b =
     (if b \<ge> bo_max_backoff opts div 2 then bo_max_backoff opts else backoff_loop opts n (wrap64 (b * 2)))"

definition bootstrap_backoff :: "bootstrap_options \<Rightarrow> int \<Rightarrow> duration" where
  "bootstrap_backoff opts attempt = backoff_loop opts (nat (attempt - 1)) (bo_initial_backoff opts)"

definition load_failed :: "int \<Rightarrow> goerr \<Rightarrow> bootstrap_result" where
  "load_failed attempts e = \<lparr>br_loaded = False, br_attempts = attempts, br_apps_loaded = 0, br_err = Some e\<rparr>"

text \<open>The attempts that are left; the first argument of a result is the cache.\<close>

fun bootstrap_loop ::
  "'w bootstrap_env \<Rightarrow> 'w loader \<Rightarrow> time_parser \<Rightarrow> bootstrap_options \<Rightarrow> nat \<Rightarrow> reg_cache \<Rightarrow> goerr option \<Rightarrow> 'w \<Rightarrow>
   bootstrap_result \<times> reg_cache \<times> 'w" where
  "bootstrap_loop E load P opts 0 c last_err w =
     (case last_err of
        Some e \<Rightarrow> (load_failed (bo_max_attempts opts) e, mark_load_failed e c, w)
      | None \<Rightarrow> (\<lparr>br_loaded = False, br_attempts = bo_max_attempts opts, br_apps_loaded = 0, br_err = None\<rparr>, c, w))"
| "bootstrap_loop E load P opts (Suc left) c last_err w =
     (let attempt = bo_max_attempts opts - int left in
      case be_ctx_err E w of
        Some e \<Rightarrow> (load_failed (attempt - 1) e, mark_load_failed e c, w)
      | None \<Rightarrow>
          (case load w of
             (Inr apps, w) \<Rightarrow>
               (let (now, w) = be_now E w; c = replace_cache P apps now c in
                (\<lparr>br_loaded = True, br_attempts = attempt, br_apps_loaded = rs_apps_loaded (cache_status c), br_err = None\<rparr>, c, w))
           | (Inl e, w) \<Rightarrow>
               if left = 0 then bootstrap_loop E load P opts 0 c (Some e) w
               else (case be_sleep E (bootstrap_backoff opts attempt) w of
                       (Some e', w) \<Rightarrow> (load_failed attempt e', mark_load_failed e' c, w)
                     | (None, w) \<Rightarrow> bootstrap_loop E load P opts left c (Some e) w)))"

definition bootstrap ::
  "'w bootstrap_env \<Rightarrow> 'w loader option \<Rightarrow> time_parser \<Rightarrow> bootstrap_options \<Rightarrow> reg_cache \<Rightarrow> 'w \<Rightarrow>
   bootstrap_result \<times> reg_cache \<times> 'w" where
  "bootstrap E loader P opts0 c w =
     (let opts = bootstrap_with_defaults opts0 in
      case loader of
        None \<Rightarrow> (let e = errf [''registry loader is required''] in (load_failed 0 e, mark_load_failed e c, w))
      | Some load \<Rightarrow> bootstrap_loop E load P opts (nat (bo_max_attempts opts)) c None w)"

end
