(* ===== verification/RegistryProps.thy ===== *)
theory RegistryProps
  imports Registry "HOL-Library.Multiset"
begin

text \<open>
  The cache as a last-writer-wins register per key, its invariant over all operations, what the
  retention window does, and the bounds of the bootstrap.
\<close>

subsection \<open>Events\<close>

datatype reg_event =
    RegUpsert app gotime
  | RegDelete app gotime

definition reg_step :: "time_parser \<Rightarrow> reg_cache \<Rightarrow> reg_event \<Rightarrow> reg_cache" where
  "reg_step P c ev =
     (case ev of
        RegUpsert a at \<Rightarrow> the (snd (upsert P a at (Some c)))
      | RegDelete a at \<Rightarrow> the (snd (delete_app P a at (Some c))))"

text \<open>What an accepted event says: its key, its time, and the registration or its absence.\<close>

definition meaning :: "time_parser \<Rightarrow> reg_event \<Rightarrow> (reg_key \<times> gotime \<times> app option) option" where
  "meaning P ev =
     (let (a, present) = (case ev of RegUpsert a _ \<Rightarrow> (a, True) | RegDelete a _ \<Rightarrow> (a, False)) in
      case ebind (normalize_app P a) (\<lambda>a. ebind (require_event_time P a) (\<lambda>t. Inr (a, t))) of
        Inl _ \<Rightarrow> None
      | Inr (a, t) \<Rightarrow> Some (key_for a, t, if present then Some a else None))"

text \<open>The specification: per key, the event with the greatest time, the later one on a tie.\<close>

definition lww_step :: "(gotime \<times> app option) option \<Rightarrow> gotime \<times> app option \<Rightarrow> (gotime \<times> app option) option" where
  "lww_step cur new = (case cur of None \<Rightarrow> Some new | Some old \<Rightarrow> if fst new < fst old then Some old else Some new)"

definition writes_to :: "time_parser \<Rightarrow> reg_key \<Rightarrow> reg_event list \<Rightarrow> (gotime \<times> app option) list" where
  "writes_to P k evs = concat (map (\<lambda>ev. case meaning P ev of Some (k', w) \<Rightarrow> if k' = k then [w] else [] | None \<Rightarrow> []) evs)"

definition lww :: "time_parser \<Rightarrow> reg_key \<Rightarrow> reg_event list \<Rightarrow> (gotime \<times> app option) option" where
  "lww P k evs = foldl lww_step None (writes_to P k evs)"

definition event_times :: "time_parser \<Rightarrow> reg_event list \<Rightarrow> gotime set" where
  "event_times P evs = {t. \<exists>ev \<in> set evs. \<exists>k v. meaning P ev = Some (k, t, v)}"

text \<open>All events lie within one retention window, so no tombstone expires.\<close>

definition within_retention :: "time_parser \<Rightarrow> reg_event list \<Rightarrow> bool" where
  "within_retention P evs \<longleftrightarrow> (\<forall>t \<in> event_times P evs. \<forall>u \<in> event_times P evs. t - watermark_retention \<le> u)"

subsection \<open>One event\<close>

lemma parse_event_time_required:
  "require_event_time P a = Inr t \<Longrightarrow> app_updated_at a \<noteq> [] \<and> parse_event_time P (app_updated_at a) = Inr (Some t)"
  by (auto simp: require_event_time_def parse_event_time_def split: sum.splits if_splits)

lemma reg_step_meaning:
  "reg_step P c ev =
     (case meaning P ev of
        None \<Rightarrow> c
      | Some (k, t, v) \<Rightarrow>
          (case ev of
             RegUpsert a at \<Rightarrow> snd (upsert_event P (projr (normalize_app P a)) t at c)
           | RegDelete a at \<Rightarrow> snd (delete_event P (projr (normalize_app P a)) t at c)))"
  by (cases ev) (auto simp: reg_step_def upsert_def delete_app_def meaning_def Let_def split: sum.split prod.split)

lemma remember_get:
  "mget (remember_event_time m k t) = (mget m)(k \<mapsto> (case mget m k of None \<Rightarrow> t | Some u \<Rightarrow> max u t))"
  by (auto simp: remember_event_time_def max_def fun_eq_iff split: option.split)

lemma mark_updated_fields [simp]:
  "ca_apps (mark_cache_updated at c) = ca_apps c" "ca_last_event_at (mark_cache_updated at c) = ca_last_event_at c"
  by (simp_all add: mark_cache_updated_def Let_def)

lemma prune_fields [simp]: "ca_apps (prune_expired_tombstones t c) = ca_apps c"
  by (simp add: prune_expired_tombstones_def)

lemma prune_noop:
  assumes "\<And>k u. (k, u) \<in> set (ca_last_event_at c) \<Longrightarrow> t - watermark_retention \<le> u"
  shows "prune_expired_tombstones t c = c"
proof -
  have "filter (\<lambda>(k, watermark). mget (ca_apps c) k \<noteq> None \<or> \<not> watermark < t - watermark_retention) (ca_last_event_at c) =
      ca_last_event_at c"
    using assms by (auto simp: filter_id_conv not_less)
  then show ?thesis by (simp add: prune_expired_tombstones_def)
qed

lemma writes_to_snoc [simp]:
  "writes_to P k (evs @ [ev]) =
     writes_to P k evs @ (case meaning P ev of Some (k', w) \<Rightarrow> if k' = k then [w] else [] | None \<Rightarrow> [])"
  by (simp add: writes_to_def)

lemma lww_snoc:
  "lww P k (evs @ [ev]) =
     (case meaning P ev of Some (k', w) \<Rightarrow> if k' = k then lww_step (lww P k evs) w else lww P k evs | None \<Rightarrow> lww P k evs)"
  by (simp add: lww_def split: option.split)

lemma lww_fold_mem: "foldl lww_step cur ws = Some w \<Longrightarrow> w \<in> set ws \<or> cur = Some w"
  by (induction ws arbitrary: cur) (auto simp: lww_step_def split: option.splits if_splits dest!: meta_spec)

lemma lww_mem: "lww P k evs = Some w \<Longrightarrow> w \<in> set (writes_to P k evs)"
  using lww_fold_mem [of None "writes_to P k evs" w] by (simp add: lww_def)

lemma in_writes_to: "(t, v) \<in> set (writes_to P k evs) \<longleftrightarrow> (\<exists>ev \<in> set evs. meaning P ev = Some (k, t, v))"
  by (auto simp: writes_to_def split: option.splits if_splits intro!: bexI)

lemma meaning_app:
  "meaning P ev = Some (k, t, Some a) \<Longrightarrow> key_for a = k \<and> parse_event_time P (app_updated_at a) = Inr (Some t)"
  by (auto simp: meaning_def Let_def dest: parse_event_time_required split: reg_event.splits sum.splits)

lemma lww_app: "lww P k evs = Some (t, Some a) \<Longrightarrow> key_for a = k \<and> parse_event_time P (app_updated_at a) = Inr (Some t)"
  by (auto dest!: lww_mem simp: in_writes_to dest: meaning_app)

text \<open>The cache is in step with the specification for every key.\<close>

definition tracks :: "time_parser \<Rightarrow> reg_event list \<Rightarrow> reg_cache \<Rightarrow> bool" where
  "tracks P evs c \<longleftrightarrow>
     wf_map (ca_last_event_at c) \<and> (\<forall>k. mget (ca_last_event_at c) k = map_option fst (lww P k evs)) \<and>
     (\<forall>k. mget (ca_apps c) k = Option.bind (lww P k evs) snd)"

lemma tracks_watermark:
  assumes "tracks P evs c" and "(k, u) \<in> set (ca_last_event_at c)"
  shows "u \<in> event_times P evs"
proof -
  from assms have "map_option fst (lww P k evs) = Some u" by (metis mget_iff tracks_def)
  then obtain v where "lww P k evs = Some (u, v)" by auto
  from lww_mem [OF this] show ?thesis by (auto simp: in_writes_to event_times_def)
qed

text \<open>An event at the cache: nothing when it is older than the watermark, otherwise its write.\<close>

definition stale :: "reg_cache \<Rightarrow> reg_key \<Rightarrow> gotime \<Rightarrow> bool" where
  "stale c k t \<longleftrightarrow> (\<exists>u. mget (ca_last_event_at c) k = Some u \<and> t < u)"

definition written :: "reg_key \<Rightarrow> gotime \<Rightarrow> app option \<Rightarrow> reg_cache \<Rightarrow> reg_cache \<Rightarrow> bool" where
  "written k t v c c' \<longleftrightarrow>
     mget (ca_apps c') = (mget (ca_apps c))(k := v) \<and>
     mget (ca_last_event_at c') = (mget (ca_last_event_at c))(k \<mapsto> t) \<and>
     (wf_map (ca_last_event_at c) \<longrightarrow> wf_map (ca_last_event_at c'))"

definition watermarked :: "time_parser \<Rightarrow> reg_cache \<Rightarrow> reg_key \<Rightarrow> bool" where
  "watermarked P c k \<longleftrightarrow>
     (\<forall>cur. mget (ca_apps c) k = Some cur \<longrightarrow>
        (\<exists>u. mget (ca_last_event_at c) k = Some u \<and> parse_event_time P (app_updated_at cur) = Inr (Some u)))"

lemma event_effect:
  assumes "prune_expired_tombstones t c = c" and "parse_event_time P (app_updated_at a) = Inr (Some t)"
    and "watermarked P c (key_for a)"
  shows "if stale c (key_for a) t then snd (upsert_event P a t at c) = c
         else written (key_for a) t (Some a) c (snd (upsert_event P a t at c))"
    and "if stale c (key_for a) t then snd (delete_event P a t at c) = c
         else written (key_for a) t None c (snd (delete_event P a t at c))"
  using assms
  by (auto simp: upsert_event_def delete_event_def should_apply_event_def remember_get max_def not_less Let_def
      remember_event_time_def stale_def written_def watermarked_def split: option.splits)

lemma tracks_watermarked: "tracks P evs c \<Longrightarrow> watermarked P c k"
  by (auto simp: tracks_def watermarked_def bind_eq_Some_conv dest: lww_app)

lemma meaning_cases:
  assumes "meaning P ev = Some (k, t, v)"
  obtains (upsert) a at b where "ev = RegUpsert a at" "v = Some b" "normalize_app P a = Inr b" "key_for b = k"
      "parse_event_time P (app_updated_at b) = Inr (Some t)"
  | (delete) a at b where "ev = RegDelete a at" "v = None" "normalize_app P a = Inr b" "key_for b = k"
      "parse_event_time P (app_updated_at b) = Inr (Some t)"
  using assms
  by (cases ev) (auto simp: meaning_def Let_def dest: parse_event_time_required split: sum.splits)

lemma reg_step_effect:
  assumes "tracks P evs c" and "prune_expired_tombstones t c = c" and "meaning P ev = Some (k, t, v)"
  shows "if stale c k t then reg_step P c ev = c else written k t v c (reg_step P c ev)"
  using assms(3)
proof (cases rule: meaning_cases)
  case (upsert a at b)
  with event_effect(1) [OF assms(2) upsert(5) tracks_watermarked [OF assms(1)], of at] assms(3) show ?thesis
    by (auto simp: reg_step_meaning split: if_splits)
next
  case (delete a at b)
  with event_effect(2) [OF assms(2) delete(5) tracks_watermarked [OF assms(1)], of at] assms(3) show ?thesis
    by (auto simp: reg_step_meaning split: if_splits)
qed

lemma tracks_step:
  assumes "tracks P evs c" and "within_retention P (evs @ [ev])"
  shows "tracks P (evs @ [ev]) (reg_step P c ev)"
proof (cases "meaning P ev")
  case None
  with assms(1) show ?thesis by (simp add: reg_step_meaning tracks_def lww_snoc)
next
  case (Some m)
  obtain k t v where m: "meaning P ev = Some (k, t, v)" using Some by (cases m) auto
  have times: "event_times P evs \<subseteq> event_times P (evs @ [ev])" "t \<in> event_times P (evs @ [ev])"
    using m by (auto simp: event_times_def)
  have "prune_expired_tombstones t c = c"
  proof (rule prune_noop)
    fix k' u assume "(k', u) \<in> set (ca_last_event_at c)"
    then have "u \<in> event_times P (evs @ [ev])" using tracks_watermark [OF assms(1)] times(1) by blast
    with assms(2) times(2) show "t - watermark_retention \<le> u" by (auto simp: within_retention_def)
  qed
  note effect = reg_step_effect [OF assms(1) this m]
  have stale: "stale c k t \<longleftrightarrow> (\<exists>w. lww P k evs = Some w \<and> t < fst w)"
    using assms(1) by (auto simp: stale_def tracks_def)
  have next_lww: "lww P k' (evs @ [ev]) = (if k' = k \<and> \<not> stale c k t then Some (t, v) else lww P k' evs)" for k'
    using m by (auto simp: lww_snoc lww_step_def stale split: option.split)
  show ?thesis
  proof (cases "stale c k t")
    case True
    with effect assms(1) show ?thesis by (simp add: tracks_def next_lww)
  next
    case False
    with effect assms(1) show ?thesis by (auto simp: tracks_def next_lww written_def)
  qed
qed

lemma within_prefix: "within_retention P (evs @ [ev]) \<Longrightarrow> within_retention P evs"
  by (fastforce simp: within_retention_def event_times_def)

lemma tracks_run: "within_retention P evs \<Longrightarrow> tracks P evs (foldl (reg_step P) new_cache evs)"
proof (induction evs rule: rev_induct)
  case Nil
  then show ?case by (simp add: tracks_def new_cache_def lww_def writes_to_def)
next
  case (snoc ev evs)
  then show ?case using tracks_step within_prefix by (metis foldl_Cons foldl_Nil foldl_append)
qed

text \<open>C31: The cache refines a last-writer-wins register: after any sequence of upserts and deletes whose times lie within one
  retention window, in whatever order they arrive and however often they are repeated, each key holds what the event with
  the greatest updated_at says, the later arrival on a tie, and invalid events change nothing.\<close>

theorem registry_last_writer_wins:
  assumes "within_retention P evs"
  shows "mget (ca_apps (foldl (reg_step P) new_cache evs)) k =
     (case lww P k evs of None \<Rightarrow> None | Some (t, v) \<Rightarrow> v)"
  using tracks_run [OF assms] by (auto simp: tracks_def split: option.split)

subsection \<open>The invariant of all operations\<close>

datatype reg_op =
    OpEvent reg_event
  | OpReplace "app list" gotime
  | OpFailed goerr
  | OpSkipped

definition reg_op_step :: "time_parser \<Rightarrow> reg_cache \<Rightarrow> reg_op \<Rightarrow> reg_cache" where
  "reg_op_step P c op =
     (case op of
        OpEvent ev \<Rightarrow> reg_step P c ev
      | OpReplace apps at \<Rightarrow> replace_cache P apps at c
      | OpFailed e \<Rightarrow> mark_load_failed e c
      | OpSkipped \<Rightarrow> mark_load_skipped c)"

definition app_covered :: "time_parser \<Rightarrow> (reg_key, gotime) gomap \<Rightarrow> reg_key \<Rightarrow> app \<Rightarrow> bool" where
  "app_covered P marks k a \<longleftrightarrow>
     key_for a = k \<and> normalize_app P a = Inr a \<and>
     (\<forall>t. parse_event_time P (app_updated_at a) = Inr (Some t) \<longrightarrow> (\<exists>u. mget marks k = Some u \<and> t \<le> u))"

definition cache_inv :: "time_parser \<Rightarrow> reg_cache \<Rightarrow> bool" where
  "cache_inv P c \<longleftrightarrow>
     wf_map (ca_apps c) \<and> wf_map (ca_last_event_at c) \<and>
     (\<forall>k a. mget (ca_apps c) k = Some a \<longrightarrow> app_covered P (ca_last_event_at c) k a)"

lemma normalize_app_idem: "normalize_app P a = Inr b \<Longrightarrow> normalize_app P b = Inr b"
  by (auto simp: normalize_app_def Let_def split: if_splits sum.splits)

lemma wf_map_filter: "wf_map m \<Longrightarrow> wf_map (filter Q m)"
  by (simp add: distinct_map_filter)

lemma mget_filter_present:
  assumes "wf_map m" and "\<And>v. Q (k, v)" shows "mget (filter Q m) k = mget m k"
  using assms by (induction m) (auto simp: mget_def)

lemma prune_present: "cache_inv P c \<Longrightarrow> mget (ca_apps c) k = Some a \<Longrightarrow>
    mget (ca_last_event_at (prune_expired_tombstones t c)) k = mget (ca_last_event_at c) k"
  by (auto simp: prune_expired_tombstones_def cache_inv_def intro!: mget_filter_present)

lemma prune_inv: "cache_inv P c \<Longrightarrow> cache_inv P (prune_expired_tombstones t c)"
  using prune_present [of P c]
  by (auto simp: cache_inv_def app_covered_def prune_expired_tombstones_def wf_map_filter split: if_splits)

lemma remember_ge: "mget m k = Some u \<Longrightarrow> \<exists>u'. mget (remember_event_time m k' t) k = Some u' \<and> u \<le> u'"
  by (auto simp: remember_get)

lemma remember_wf [simp]: "wf_map m \<Longrightarrow> wf_map (remember_event_time m k t)"
  by (simp add: remember_event_time_def split: option.split)

lemma covered_remember: "app_covered P m k a \<Longrightarrow> app_covered P (remember_event_time m k' t) k a"
  unfolding app_covered_def by (metis order_trans remember_ge)

lemma event_inv:
  assumes "cache_inv P c" and "normalize_app P a = Inr a" and "parse_event_time P (app_updated_at a) = Inr (Some t)"
  shows "cache_inv P (snd (upsert_event P a t at c))" and "cache_inv P (snd (delete_event P a t at c))"
proof -
  let ?c = "prune_expired_tombstones t c"
  have inv: "cache_inv P ?c" using assms(1) by (rule prune_inv)
  have "app_covered P (remember_event_time (ca_last_event_at ?c) (key_for a) t) (key_for a) a"
    using assms(2,3) by (auto simp: app_covered_def remember_get split: option.split)
  with inv show "cache_inv P (snd (upsert_event P a t at c))"
    by (auto simp: upsert_event_def Let_def cache_inv_def covered_remember split: sum.splits option.splits)
  from inv show "cache_inv P (snd (delete_event P a t at c))"
    by (auto simp: delete_event_def Let_def cache_inv_def covered_remember split: sum.splits option.splits)
qed

lemma replace_snapshot_inv:
  assumes "wf_map apps" and "wf_map marks" and "\<And>k a. mget apps k = Some a \<Longrightarrow> app_covered P marks k a"
    and "replace_snapshot P as (apps, marks) = (apps', marks')"
  shows "wf_map apps' \<and> wf_map marks' \<and> (\<forall>k a. mget apps' k = Some a \<longrightarrow> app_covered P marks' k a)"
  using assms
proof (induction as arbitrary: apps marks)
  case (Cons a as)
  show ?case
  proof (cases "normalize_app P a")
    case (Inl e)
    with Cons show ?thesis by auto
  next
    case (Inr b)
    define marks1 where "marks1 = (case parse_event_time P (app_updated_at b) of
        Inr (Some t) \<Rightarrow> mput (key_for b) t marks | _ \<Rightarrow> marks)"
    have "app_covered P marks1 k a'" if "mget (mput (key_for b) b apps) k = Some a'" for k a'
      using that Cons.prems(3) [of k a'] normalize_app_idem [OF Inr]
      by (auto simp: marks1_def app_covered_def split: sum.splits option.splits if_splits)
    moreover have "wf_map marks1" using Cons.prems(2) by (simp add: marks1_def split: sum.split option.split)
    moreover have "replace_snapshot P as (mput (key_for b) b apps, marks1) = (apps', marks')"
      using Cons.prems(4) Inr by (simp add: marks1_def)
    ultimately show ?thesis using Cons.IH [of "mput (key_for b) b apps" marks1] Cons.prems(1) by simp
  qed
qed auto

lemma remember_all_ge:
  "mget m k = Some u \<Longrightarrow> \<exists>u'. mget (foldl (\<lambda>m (k, t). remember_event_time m k t) m evs) k = Some u' \<and> u \<le> u'"
proof (induction evs arbitrary: m u)
  case (Cons e evs)
  obtain k' t where e: "e = (k', t)" by (cases e)
  from remember_ge [OF Cons.prems, of k' t] obtain u' where "mget (remember_event_time m k' t) k = Some u'" "u \<le> u'"
    by blast
  with Cons.IH [of "remember_event_time m k' t" u'] show ?case by (auto simp: e intro: order_trans)
qed auto

lemma remember_all_wf: "wf_map m \<Longrightarrow> wf_map (foldl (\<lambda>m (k, t). remember_event_time m k t) m evs)"
  by (induction evs arbitrary: m) auto

lemma remember_all_in:
  "(k, t) \<in> set evs \<Longrightarrow> \<exists>u. mget (foldl (\<lambda>m (k, t). remember_event_time m k t) m evs) k = Some u \<and> t \<le> u"
proof (induction evs arbitrary: m)
  case (Cons e evs)
  show ?case
  proof (cases "e = (k, t)")
    case True
    have "\<exists>u. mget (remember_event_time m k t) k = Some u \<and> t \<le> u" by (auto simp: remember_get split: option.split)
    with True remember_all_ge show ?thesis by (fastforce intro: order_trans)
  qed (use Cons in auto)
qed simp

lemma replace_inv: "cache_inv P c \<Longrightarrow> cache_inv P (replace_cache P apps at c)"
proof -
  assume inv: "cache_inv P c"
  obtain normalized marks where snap: "replace_snapshot P apps ([], []) = (normalized, marks)" by (cases "replace_snapshot P apps ([], [])")
  from replace_snapshot_inv [OF _ _ _ snap]
  have n: "wf_map normalized" "wf_map marks" "\<And>k a. mget normalized k = Some a \<Longrightarrow> app_covered P marks k a" by simp_all
  define kept where "kept = filter (\<lambda>(k, watermark). mget normalized k \<noteq> None \<or> at - watermark_retention < watermark) (ca_last_event_at c)"
  have "wf_map kept" using inv by (simp add: kept_def cache_inv_def wf_map_filter)
  moreover have "app_covered P (foldl (\<lambda>m (k, t). remember_event_time m k t) kept marks) k a"
    if a: "mget normalized k = Some a" for k a
  proof -
    have "\<exists>u. mget (foldl (\<lambda>m (k, t). remember_event_time m k t) kept marks) k = Some u \<and> t \<le> u"
      if "parse_event_time P (app_updated_at a) = Inr (Some t)" for t
    proof -
      from n(3) [OF a] that obtain u where "mget marks k = Some u" "t \<le> u" by (auto simp: app_covered_def)
      from remember_all_in [OF mget_Some_in [OF this(1)], of kept] this(2) show ?thesis by fastforce
    qed
    with n(3) [OF a] show ?thesis by (simp add: app_covered_def)
  qed
  moreover have "ca_apps (replace_cache P apps at c) = normalized"
      "ca_last_event_at (replace_cache P apps at c) = foldl (\<lambda>m (k, t). remember_event_time m k t) kept marks"
    by (simp_all add: replace_cache_def snap Let_def kept_def)
  ultimately show ?thesis using n(1) by (simp add: cache_inv_def remember_all_wf)
qed

lemma reg_step_inv: "cache_inv P c \<Longrightarrow> cache_inv P (reg_step P c ev)"
proof (cases "meaning P ev")
  case None
  assume "cache_inv P c"
  then show ?thesis by (simp add: reg_step_meaning None)
next
  case (Some m)
  assume inv: "cache_inv P c"
  obtain k t v where m: "meaning P ev = Some (k, t, v)" using Some by (cases m) auto
  from m show ?thesis
  proof (cases rule: meaning_cases)
    case (upsert a at b)
    with m event_inv(1) [OF inv normalize_app_idem [OF upsert(3)] upsert(5), of at] show ?thesis
      by (simp add: reg_step_meaning)
  next
    case (delete a at b)
    with m event_inv(2) [OF inv normalize_app_idem [OF delete(3)] delete(5), of at] show ?thesis
      by (simp add: reg_step_meaning)
  qed
qed

lemma mark_load_inv [simp]: "cache_inv P (mark_load_failed e c) = cache_inv P c" "cache_inv P (mark_load_skipped c) = cache_inv P c"
  by (simp_all add: cache_inv_def mark_load_failed_def mark_load_skipped_def)

interpretation registry_sys: step_system "reg_op_step P" "cache_inv P" for P
proof
  fix c op assume "cache_inv P c"
  then show "cache_inv P (reg_op_step P c op)"
    by (cases op) (simp_all add: reg_op_step_def reg_step_inv replace_inv)
qed

lemma registry_run_inv: "cache_inv P (foldl (reg_op_step P) new_cache ops)"
  by (rule registry_sys.inv_run) (simp add: cache_inv_def new_cache_def)

subsection \<open>Convergence\<close>

text \<open>Two events with one key and one time say the same.\<close>

definition consistent :: "time_parser \<Rightarrow> reg_event list \<Rightarrow> bool" where
  "consistent P evs \<longleftrightarrow> (\<forall>k t v v'. (t, v) \<in> set (writes_to P k evs) \<longrightarrow> (t, v') \<in> set (writes_to P k evs) \<longrightarrow> v = v')"

lemma lww_fold_max:
  "foldl lww_step cur ws = Some w \<Longrightarrow> (\<forall>w' \<in> set ws. fst w' \<le> fst w) \<and> (\<forall>w'. cur = Some w' \<longrightarrow> fst w' \<le> fst w)"
proof (induction ws arbitrary: cur)
  case (Cons x ws)
  then have "foldl lww_step (lww_step cur x) ws = Some w" by simp
  note IH = Cons.IH [OF this]
  obtain s where s: "lww_step cur x = Some s" "fst x \<le> fst s" "\<And>c. cur = Some c \<Longrightarrow> fst c \<le> fst s"
    by (cases cur; cases "fst x < fst (the cur)") (auto simp: lww_step_def)
  with IH have "fst s \<le> fst w" by simp
  with IH s(2,3) show ?case by (auto intro: order_trans)
qed simp

lemma lww_fold_None: "foldl lww_step cur ws = None \<longleftrightarrow> cur = None \<and> ws = []"
proof (induction ws arbitrary: cur)
  case (Cons x ws)
  have "lww_step cur x \<noteq> None" by (auto simp: lww_step_def split: option.split)
  with Cons show ?case by simp
qed simp

lemma lww_max:
  assumes "lww P k evs = Some (t, v)"
  shows "(t, v) \<in> set (writes_to P k evs) \<and> (\<forall>u v'. (u, v') \<in> set (writes_to P k evs) \<longrightarrow> u \<le> t)"
  using lww_mem [OF assms] lww_fold_max [of None "writes_to P k evs" "(t, v)"] assms by (fastforce simp: lww_def)

lemma writes_to_set_cong: "set evs = set evs' \<Longrightarrow> set (writes_to P k evs) = set (writes_to P k evs')"
  by (auto simp: in_writes_to)

lemma lww_cong:
  assumes "set evs = set evs'" and "consistent P evs"
  shows "lww P k evs = lww P k evs'"
proof (cases "lww P k evs")
  case None
  then have "writes_to P k evs = []" by (simp add: lww_def lww_fold_None)
  then have "writes_to P k evs' = []" using writes_to_set_cong [OF assms(1), of P k] by simp
  with None show ?thesis by (simp add: lww_def)
next
  case (Some w)
  obtain t v where w: "w = (t, v)" by (cases w)
  show ?thesis
  proof (cases "lww P k evs'")
    case None
    then have "writes_to P k evs' = []" by (simp add: lww_def lww_fold_None)
    with lww_max [OF Some [unfolded w]] writes_to_set_cong [OF assms(1), of P k] show ?thesis by simp
  next
    case (Some w')
    obtain t' v' where w': "w' = (t', v')" by (cases w')
    have "(t, v) \<in> set (writes_to P k evs)" "(t', v') \<in> set (writes_to P k evs)" "t \<le> t'" "t' \<le> t"
      using lww_max [OF \<open>lww P k evs = Some w\<close> [unfolded w]] lww_max [OF Some [unfolded w']]
        writes_to_set_cong [OF assms(1), of P k] by auto
    then have "t = t'" by simp
    with \<open>(t, v) \<in> _\<close> \<open>(t', v') \<in> _\<close> assms(2) have "v = v'" by (auto simp: consistent_def)
    with \<open>t = t'\<close> \<open>lww P k evs = Some w\<close> Some w w' show ?thesis by simp
  qed
qed

lemma reg_events_inv: "cache_inv P (foldl (reg_step P) new_cache evs)"
proof -
  have "foldl (reg_step P) c evs = foldl (reg_op_step P) c (map OpEvent evs)" for c
    by (induction evs arbitrary: c) (simp_all add: reg_op_step_def)
  then show ?thesis by (simp add: registry_run_inv)
qed

lemma listed_apps:
  assumes "cache_inv P c"
  shows "a \<in> set (list_apps c) \<longleftrightarrow> mget (ca_apps c) (key_for a) = Some a"
    and "sorted (map key_for (list_apps c))" and "distinct (map key_for (list_apps c))"
proof -
  have key: "key_for a = k" if "(k, a) \<in> set (ca_apps c)" for k a
    using assms that by (auto simp: cache_inv_def app_covered_def mget_iff)
  show "a \<in> set (list_apps c) \<longleftrightarrow> mget (ca_apps c) (key_for a) = Some a"
    using assms key by (force simp: list_apps_def cache_inv_def mget_iff)
  show "sorted (map key_for (list_apps c))" by (simp add: list_apps_def)
  have "map key_for (map snd (ca_apps c)) = mkeys (ca_apps c)"
    using key by (auto intro!: map_cong)
  then have "distinct (map key_for (map snd (ca_apps c)))" using assms by (metis cache_inv_def)
  moreover have "mset (map key_for (list_apps c)) = mset (map key_for (map snd (ca_apps c)))"
    by (simp add: list_apps_def multiset.map_comp)
  ultimately show "distinct (map key_for (list_apps c))" by (metis mset_eq_imp_distinct_iff)
qed

text \<open>The registry converges: two caches that receive the same set of events within one retention window, in any two
  orders and with any repetitions, list the same apps, provided events with the same key and time agree.\<close>

theorem registry_converges:
  assumes "set evs = set evs'" and "within_retention P evs" and "consistent P evs"
  shows "list_apps (foldl (reg_step P) new_cache evs) = list_apps (foldl (reg_step P) new_cache evs')"
proof (rule map_sorted_distinct_set_unique [where f = key_for])
  let ?c = "foldl (reg_step P) new_cache evs" and ?c' = "foldl (reg_step P) new_cache evs'"
  have "event_times P evs = event_times P evs'" using assms(1) by (simp add: event_times_def)
  with assms(2) have w': "within_retention P evs'" by (simp add: within_retention_def)
  have same: "mget (ca_apps ?c) k = mget (ca_apps ?c') k" for k
    using tracks_run [OF assms(2)] tracks_run [OF w'] lww_cong [OF assms(1,3), of k] by (simp add: tracks_def)
  note listed = listed_apps [OF reg_events_inv [of P evs]] listed_apps [OF reg_events_inv [of P evs']]
  show "set (list_apps ?c) = set (list_apps ?c')" using same listed(1,4) by auto
  show "inj_on key_for (set (list_apps ?c) \<union> set (list_apps ?c'))"
    using same listed(1,4) by (auto simp: inj_on_def)
qed (use listed_apps reg_events_inv in blast)+

text \<open>C32: A listed registration never goes back in time: whatever loads, failed loads, upserts and deletes happened, an event
  whose updated_at is older than that of the registration listed under its key leaves that registration listed; the list
  is sorted by key without repetitions.\<close>

theorem listed_app_never_regresses:
  assumes "c = foldl (reg_op_step P) new_cache ops" and "a \<in> set (list_apps c)"
    and "parse_event_time P (app_updated_at a) = Inr (Some t)"
    and "meaning P ev = Some (key_for a, u, v)" and "u < t"
  shows "a \<in> set (list_apps (reg_step P c ev)) \<and> sorted (map key_for (list_apps c)) \<and> distinct (map key_for (list_apps c))"
proof -
  have inv: "cache_inv P c" unfolding assms(1) by (rule registry_run_inv)
  from assms(2) have a: "mget (ca_apps c) (key_for a) = Some a" by (simp add: listed_apps(1) [OF inv])
  with inv have "app_covered P (ca_last_event_at c) (key_for a) a" by (auto simp: cache_inv_def)
  with assms(3) prune_present [OF inv a] obtain m where m: "t \<le> m"
    "\<And>n. mget (ca_last_event_at (prune_expired_tombstones n c)) (key_for a) = Some m"
    by (auto simp: app_covered_def)
  from assms(4) have "mget (ca_apps (reg_step P c ev)) (key_for a) = Some a"
  proof (cases rule: meaning_cases)
    case (upsert b at d)
    with assms(4,5) m a show ?thesis by (simp add: reg_step_meaning upsert_event_def Let_def)
  next
    case (delete b at d)
    with assms(4,5) m a show ?thesis by (simp add: reg_step_meaning delete_event_def Let_def)
  qed
  then show ?thesis using listed_apps [OF reg_step_inv [OF inv]] listed_apps(2,3) [OF inv] by blast
qed

subsection \<open>Tombstones\<close>

text \<open>The window that keeps a tombstone is measured by the updated_at of other events, not by a clock: after a delete, one
  event for a different key dated more than the retention later drops the tombstone at once, and an upsert older than the
  delete, which would have been rejected, brings the deleted app back.\<close>

theorem future_event_drops_tombstone:
  assumes "meaning P (RegDelete a at1) = Some (k, t, None)"
    and "meaning P (RegUpsert b at2) = Some (k2, t2, Some b')" and "k2 \<noteq> k" and "t < t2 - watermark_retention"
    and "meaning P (RegUpsert old at3) = Some (k, t0, Some old')" and "t0 < t"
  shows "mget (ca_apps (foldl (reg_step P) new_cache [RegDelete a at1, RegUpsert old at3])) k = None \<and>
    mget (ca_apps (foldl (reg_step P) new_cache [RegDelete a at1, RegUpsert b at2, RegUpsert old at3])) k = Some old'"
proof -
  define c1 where "c1 = reg_step P new_cache (RegDelete a at1)"
  have c1: "mget (ca_apps c1) = Map.empty" "ca_last_event_at c1 = [(k, t)]"
    using assms(1)
    by (cases rule: meaning_cases; auto simp: c1_def reg_step_meaning delete_event_def new_cache_def prune_expired_tombstones_def
        remember_event_time_def fun_eq_iff Let_def)+
  from assms(5) obtain o1: "normalize_app P old = Inr old'" "key_for old' = k"
    by (cases rule: meaning_cases) auto
  have kept: "mget (ca_apps (reg_step P c1 (RegUpsert old at3))) k = None"
    using assms(5,6) c1 o1
    by (auto simp: reg_step_meaning upsert_event_def prune_expired_tombstones_def watermark_retention_def second_def Let_def
        split: if_splits)
  define c2 where "c2 = reg_step P c1 (RegUpsert b at2)"
  have c2: "mget (ca_apps c2) = [k2 \<mapsto> b']" "ca_last_event_at c2 = [(k2, t2)]"
    using assms(2)
    by (cases rule: meaning_cases;
        use assms(2,3,4) c1 in \<open>auto simp: c2_def reg_step_meaning upsert_event_def prune_expired_tombstones_def
          remember_event_time_def fun_eq_iff Let_def\<close>)+
  have "mget (ca_last_event_at (prune_expired_tombstones t0 c2)) k = None"
    using c2 assms(3) by (auto simp: prune_expired_tombstones_def)
  then have "mget (ca_apps (reg_step P c2 (RegUpsert old at3))) k = Some old'"
    using assms(3,5) c2 o1 by (simp add: reg_step_meaning upsert_event_def Let_def)
  with kept show ?thesis by (simp add: c1_def c2_def)
qed

subsection \<open>Witnesses\<close>

definition sample_times :: time_parser where
  "sample_times s = (if s = ''1'' then Inr 1 else if s = ''2'' then Inr 2 else Inr (3 + watermark_retention))"

definition sample_app :: "string \<Rightarrow> string \<Rightarrow> app" where
  "sample_app svc ts = \<lparr>app_org = ''o'', app_project = ''p'', app_service = svc, app_name = svc, app_updated_at = ts\<rparr>"

lemma sample_app_normal: "svc \<noteq> [] \<Longrightarrow> normalize_app sample_times (sample_app svc ts) = Inr (sample_app svc ts)"
  by (simp add: normalize_app_def sample_app_def sample_times_def Let_def)

lemma sample_key: "key_for (sample_app svc ts) = RegKey ''o'' ''p'' svc"
  by (simp add: key_for_def sample_app_def)

lemma sample_app_time: "ts \<noteq> [] \<Longrightarrow> require_event_time sample_times (sample_app svc ts) = Inr (projr (sample_times ts))"
  by (simp add: require_event_time_def parse_event_time_def sample_app_def sample_times_def)

lemma sample_meaning:
  assumes "svc \<noteq> []" and "ts \<noteq> []"
  shows "meaning sample_times (RegUpsert (sample_app svc ts) at) =
       Some (RegKey ''o'' ''p'' svc, projr (sample_times ts), Some (sample_app svc ts))"
    and "meaning sample_times (RegDelete (sample_app svc ts) at) = Some (RegKey ''o'' ''p'' svc, projr (sample_times ts), None)"
  by (simp_all add: meaning_def sample_app_normal [OF assms(1)] sample_app_time [OF assms(2)] key_for_def)
    (simp_all add: sample_app_def)

abbreviation "newer_upsert \<equiv> RegUpsert (sample_app ''s'' ''2'') 7"
abbreviation "older_delete \<equiv> RegDelete (sample_app ''s'' ''1'') 8"

lemma sample_meanings:
  "meaning sample_times newer_upsert = Some (RegKey ''o'' ''p'' ''s'', 2, Some (sample_app ''s'' ''2''))"
  "meaning sample_times older_delete = Some (RegKey ''o'' ''p'' ''s'', 1, None)"
  by (simp_all add: sample_meaning) (simp_all add: sample_times_def)

lemma sample_within: "within_retention sample_times [newer_upsert, older_delete]"
  by (auto simp: within_retention_def event_times_def sample_meanings watermark_retention_def second_def)

lemma sample_lww: "lww sample_times (RegKey ''o'' ''p'' ''s'') [newer_upsert, older_delete] = Some (2, Some (sample_app ''s'' ''2''))"
  by (simp add: lww_def writes_to_def sample_meanings lww_step_def)

theorem registry_last_writer_wins_witness:
  "mget (ca_apps (foldl (reg_step sample_times) new_cache [newer_upsert, older_delete])) (RegKey ''o'' ''p'' ''s'') =
     Some (sample_app ''s'' ''2'')"
  using registry_last_writer_wins [OF sample_within, of "RegKey ''o'' ''p'' ''s''"] sample_lww by simp

theorem registry_converges_witness:
  "list_apps (foldl (reg_step sample_times) new_cache [newer_upsert, older_delete]) =
   list_apps (foldl (reg_step sample_times) new_cache [older_delete, newer_upsert, older_delete])"
proof (rule registry_converges [OF _ sample_within])
  show "consistent sample_times [newer_upsert, older_delete]"
    by (auto simp: consistent_def writes_to_def sample_meanings split: if_splits)
qed auto

lemma sample_listed: "sample_app ''s'' ''2'' \<in> set (list_apps (foldl (reg_op_step sample_times) new_cache [OpEvent newer_upsert]))"
proof -
  have "within_retention sample_times [newer_upsert]"
    by (simp add: within_retention_def event_times_def sample_meanings watermark_retention_def second_def)
  from tracks_run [OF this] have "mget (ca_apps (reg_step sample_times new_cache newer_upsert)) (RegKey ''o'' ''p'' ''s'') =
      Some (sample_app ''s'' ''2'')"
    by (simp add: tracks_def lww_def writes_to_def sample_meanings lww_step_def)
  with listed_apps(1) [OF registry_run_inv, of "sample_app ''s'' ''2''" sample_times "[OpEvent newer_upsert]"]
  show ?thesis by (simp add: reg_op_step_def key_for_def sample_app_def)
qed

theorem listed_app_never_regresses_witness:
  "sample_app ''s'' ''2'' \<in> set (list_apps (reg_step sample_times
     (foldl (reg_op_step sample_times) new_cache [OpEvent newer_upsert]) older_delete))"
proof -
  have time: "parse_event_time sample_times (app_updated_at (sample_app ''s'' ''2'')) = Inr (Some 2)"
    by (simp add: parse_event_time_def sample_app_def sample_times_def)
  have m: "meaning sample_times older_delete = Some (key_for (sample_app ''s'' ''2''), 1, None)"
    by (simp only: sample_meanings sample_key)
  from listed_app_never_regresses [OF refl sample_listed time m] show ?thesis by simp
qed

theorem future_event_drops_tombstone_witness:
  "mget (ca_apps (foldl (reg_step sample_times) new_cache
     [RegDelete (sample_app ''s'' ''2'') 0, RegUpsert (sample_app ''t'' ''9'') 0, RegUpsert (sample_app ''s'' ''1'') 0]))
     (RegKey ''o'' ''p'' ''s'') = Some (sample_app ''s'' ''1'')"
proof -
  have t: "projr (sample_times ''1'') = 1" "projr (sample_times ''2'') = 2" "projr (sample_times ''9'') = 3 + watermark_retention"
    by (simp_all add: sample_times_def)
  show ?thesis
    using future_event_drops_tombstone [OF sample_meaning(2) [of "''s''" "''2''"] sample_meaning(1) [of "''t''" "''9''"] _ _
        sample_meaning(1) [of "''s''" "''1''"], of 0 0 0]
    by (simp add: t)
qed

end
