(* ===== verification/BootstrapProps.thy ===== *)
theory BootstrapProps
  imports RegistryProps
begin

text \<open>The bounds of the bootstrap's backoff and the outcome of the bootstrap.\<close>

lemma backoff_loop_bounds:
  assumes "0 < b" and "b \<le> bo_max_backoff opts" and "is_int64 (bo_max_backoff opts)"
  shows "b \<le> backoff_loop opts n b \<and> backoff_loop opts n b \<le> bo_max_backoff opts \<and>
    backoff_loop opts n b \<le> backoff_loop opts (Suc n) b"
  using assms(1,2)
proof (induction n arbitrary: b)
  case 0
  have "b < bo_max_backoff opts div 2 \<Longrightarrow> wrap64 (b * 2) = b * 2"
    using 0 assms(3) by (simp add: is_int64_def)
  with 0 show ?case by auto
next
  case (Suc n)
  show ?case
  proof (cases "b \<ge> bo_max_backoff opts div 2")
    case False
    then have "wrap64 (b * 2) = b * 2" using Suc.prems assms(3) by (simp add: is_int64_def)
    moreover from False have "b * 2 \<le> bo_max_backoff opts" by simp
    ultimately show ?thesis using False Suc.IH [of "b * 2"] Suc.prems by (auto intro: order_trans [of b "b * 2"])
  qed (use Suc.prems in auto)
qed

lemma bootstrap_defaults_ok:
  assumes "is_int64 (bo_initial_backoff o0)" and "is_int64 (bo_max_backoff o0)"
  shows "0 < bo_initial_backoff (bootstrap_with_defaults o0) \<and>
    bo_initial_backoff (bootstrap_with_defaults o0) \<le> bo_max_backoff (bootstrap_with_defaults o0) \<and>
    is_int64 (bo_max_backoff (bootstrap_with_defaults o0)) \<and> 0 < bo_max_attempts (bootstrap_with_defaults o0)"
  using assms by (auto simp: bootstrap_with_defaults_def is_int64_def second_def Let_def)

text \<open>The bootstrap's backoff never overflows and stays in bounds: for any int64 options, after every attempt the delay is
  at least the initial and at most the maximal backoff of the completed options, and never shrinks from one attempt to
  the next.\<close>

theorem bootstrap_backoff_bounded:
  assumes "is_int64 (bo_initial_backoff o0)" and "is_int64 (bo_max_backoff o0)" and "1 \<le> attempt"
  shows "bo_initial_backoff (bootstrap_with_defaults o0) \<le> bootstrap_backoff (bootstrap_with_defaults o0) attempt \<and>
    bootstrap_backoff (bootstrap_with_defaults o0) attempt \<le> bo_max_backoff (bootstrap_with_defaults o0) \<and>
    bootstrap_backoff (bootstrap_with_defaults o0) attempt \<le> bootstrap_backoff (bootstrap_with_defaults o0) (attempt + 1)"
proof -
  have "nat attempt = Suc (nat (attempt - 1))" using assms(3) by simp
  with backoff_loop_bounds [of "bo_initial_backoff (bootstrap_with_defaults o0)" "bootstrap_with_defaults o0" "nat (attempt - 1)"]
    bootstrap_defaults_ok [OF assms(1,2)]
  show ?thesis by (simp add: bootstrap_backoff_def)
qed

definition sample_bootstrap_options :: bootstrap_options where
  "sample_bootstrap_options = \<lparr>bo_max_attempts = 3, bo_initial_backoff = 2, bo_max_backoff = 5\<rparr>"

theorem bootstrap_backoff_bounded_witness: "bootstrap_backoff (bootstrap_with_defaults sample_bootstrap_options) 2 \<le> 5"
  using bootstrap_backoff_bounded [of sample_bootstrap_options 2]
  by (simp add: sample_bootstrap_options_def is_int64_def bootstrap_with_defaults_def)

text \<open>The outcomes of the loop: a loaded snapshot, or a failure that keeps the cache.\<close>

definition bootstrap_outcome_ok ::
  "time_parser \<Rightarrow> 'w loader option \<Rightarrow> int \<Rightarrow> reg_cache \<Rightarrow> bootstrap_result \<times> reg_cache \<times> 'w \<Rightarrow> bool" where
  "bootstrap_outcome_ok P loader max_attempts c out \<longleftrightarrow>
     (let (r, c', w) = out in
      0 \<le> br_attempts r \<and> br_attempts r \<le> max_attempts \<and>
      (if br_loaded r
       then br_err r = None \<and> \<not> rs_is_degraded (cache_status c') \<and> br_apps_loaded r = length (list_apps c') \<and>
            (\<exists>load w1 w2 apps now. loader = Some load \<and> load w1 = (Inr apps, w2) \<and> c' = replace_cache P apps now c)
       else (\<exists>e. br_err r = Some e \<and> c' = mark_load_failed e c)))"

lemma replace_status: "\<not> rs_is_degraded (cache_status (replace_cache P apps now c))"
  "rs_apps_loaded (cache_status c') = length (list_apps c')"
  by (simp_all add: replace_cache_def cache_status_def list_apps_def Let_def split: prod.split)

lemma bootstrap_loop_outcome:
  assumes "int left \<le> bo_max_attempts opts" and "left = 0 \<Longrightarrow> last_err \<noteq> None"
  shows "bootstrap_outcome_ok P (Some load) (bo_max_attempts opts) c (bootstrap_loop E load P opts left c last_err w)"
  using assms
proof (induction left arbitrary: last_err w)
  case 0
  then show ?case by (auto simp: bootstrap_outcome_ok_def load_failed_def)
next
  case (Suc n)
  show ?case
  proof (cases "be_ctx_err E w")
    case (Some e)
    with Suc.prems show ?thesis by (simp add: bootstrap_outcome_ok_def load_failed_def Let_def)
  next
    case None
    obtain r w1 where load: "load w = (r, w1)" by (cases "load w")
    show ?thesis
    proof (cases r)
      case (Inr apps)
      obtain now w2 where "be_now E w1 = (now, w2)" by (cases "be_now E w1")
      with None load Inr Suc.prems show ?thesis
        by (auto simp: bootstrap_outcome_ok_def replace_status Let_def intro!: exI [of _ load])
    next
      case (Inl e)
      obtain s w2 where sleep: "be_sleep E (bootstrap_backoff opts (bo_max_attempts opts - int n)) w1 = (s, w2)"
        by (cases "be_sleep E (bootstrap_backoff opts (bo_max_attempts opts - int n)) w1")
      show ?thesis
      proof (cases "n = 0")
        case True
        with None load Inl Suc.prems show ?thesis by (simp add: bootstrap_outcome_ok_def load_failed_def Let_def)
      next
        case False
        with None load Inl sleep Suc.prems Suc.IH [of "Some e" w2] show ?thesis
          by (cases s) (simp_all add: bootstrap_outcome_ok_def load_failed_def Let_def)
      qed
    qed
  qed
qed

text \<open>The bootstrap ends within its attempts and is all or nothing: it makes at most MaxAttempts attempts; when it reports
  success the cache is the replacement by what the loader returned, is not degraded and the reported count is the
  number of listed apps; otherwise it reports an error and the cache keeps every app and watermark and is degraded with
  that error.\<close>

theorem bootstrap_outcome:
  "bootstrap_outcome_ok P loader (bo_max_attempts (bootstrap_with_defaults o0)) c (bootstrap E loader P o0 c w)"
proof -
  have "0 < bo_max_attempts (bootstrap_with_defaults o0)" by (simp add: bootstrap_with_defaults_def Let_def)
  then show ?thesis
    by (cases loader)
      (auto simp: bootstrap_def Let_def bootstrap_loop_outcome, simp add: bootstrap_outcome_ok_def load_failed_def Let_def)
qed

end
