(* ===== verification/GitRepo.thy ===== *)
theory GitRepo
  imports Store
begin

text \<open>
  The repository of internal/gitops/repo.go on top of go-git and the file system, which are the record
  \<open>gogit\<close> of operations on the world. A path of a file operation is relative to the clone
  (\<open>filepath.Join(r.localPath, path)\<close>), and \<open>os_dir_of\<close> is the directory that holds it; a walk yields the regular files in order and the error that
  ends it. The repository's mutex makes every method one step; metrics, logs and the test-only hook
  are left out.
\<close>

subsection \<open>go-git and the file system\<close>

record git_tree =
  gt_file :: "string \<Rightarrow> goerr + (goerr + bytes)"
  gt_subtree :: "string \<Rightarrow> goerr + (string \<times> (goerr + bytes)) list"

record git_commit =
  gc_hash :: string
  gc_message :: string
  gc_author_name :: string
  gc_author_email :: string
  gc_author_when :: gotime
  gc_tree :: "goerr + git_tree"
  gc_first_parent :: "goerr + string"
  gc_stats :: "goerr + string list"

record 'g gogit =
  gg_worktree :: "'g \<Rightarrow> goerr option"
  gg_open :: "'g \<Rightarrow> goerr option \<times> 'g"
  gg_clone :: "'g \<Rightarrow> goerr option \<times> 'g"
  gg_pull :: "'g \<Rightarrow> goerr option \<times> 'g"
  gg_head :: "'g \<Rightarrow> goerr + string"
  gg_add :: "string \<Rightarrow> 'g \<Rightarrow> goerr option \<times> 'g"
  gg_remove :: "string \<Rightarrow> 'g \<Rightarrow> goerr option \<times> 'g"
  gg_commit :: "string \<Rightarrow> 'g \<Rightarrow> (goerr + string) \<times> 'g"
  gg_push :: "'g \<Rightarrow> goerr option \<times> 'g"
  gg_reset_hard :: "string \<Rightarrow> 'g \<Rightarrow> goerr option \<times> 'g"
  gg_status :: "'g \<Rightarrow> goerr + (string \<times> bool) list"
  gg_commit_object :: "string \<Rightarrow> 'g \<Rightarrow> goerr + git_commit"
  gg_log :: "string \<Rightarrow> 'g \<Rightarrow> goerr + git_commit list \<times> goerr option"
  os_git_dir_exists :: "'g \<Rightarrow> bool"
  os_mkdir_root :: "'g \<Rightarrow> goerr option \<times> 'g"
  os_dir_of :: "string \<Rightarrow> string"
  os_mkdir_dir_of :: "string \<Rightarrow> 'g \<Rightarrow> goerr option \<times> 'g"
  os_write_file :: "string \<Rightarrow> bytes \<Rightarrow> 'g \<Rightarrow> goerr option \<times> 'g"
  os_read_file :: "string \<Rightarrow> 'g \<Rightarrow> goerr + bytes"
  os_remove_all :: "string \<Rightarrow> 'g \<Rightarrow> goerr option \<times> 'g"
  os_stat_dir :: "string \<Rightarrow> 'g \<Rightarrow> goerr + bool"
  os_walk :: "string \<Rightarrow> 'g \<Rightarrow> string list \<times> goerr option"
  ctx_err :: "'g \<Rightarrow> goerr option"

subsection \<open>Errors and outcomes\<close>

fun contains_str :: "string \<Rightarrow> string \<Rightarrow> bool" where
  "contains_str [] sub = (sub = [])"
| "contains_str (c # s) sub = (has_prefix (c # s) sub \<or> contains_str s sub)"

definition is_non_fast_forward_push :: "goerr option \<Rightarrow> bool" where
  "is_non_fast_forward_push err =
     (case err of
        None \<Rightarrow> False
      | Some e \<Rightarrow> if err_is ErrNonFastForwardUpdate e then True
                  else contains_str (err_msg e) ''non-fast-forward update'')"

definition git_outcome :: "bool \<Rightarrow> goerr option \<Rightarrow> string" where
  "git_outcome updated err = (if err \<noteq> None then ''error'' else if updated then ''updated'' else ''success'')"

subsection \<open>Opening, pulling, the head\<close>

definition clone_or_open :: "'g gogit \<Rightarrow> string \<Rightarrow> string \<Rightarrow> 'g \<Rightarrow> goerr option \<times> 'g" where
  "clone_or_open G local_path remote_url w =
     (if os_git_dir_exists G w then
        (case gg_open G w of
           (Some e, w) \<Rightarrow> (Some (wrapf [''open repo at '', local_path] e), w)
         | (None, w) \<Rightarrow> (None, w))
      else
        (case os_mkdir_root G w of
           (Some e, w) \<Rightarrow> (Some (wrapf [''create local path '', local_path] e), w)
         | (None, w) \<Rightarrow>
             (case gg_clone G w of
                (Some e, w) \<Rightarrow> (Some (wrapf [''clone '', remote_url] e), w)
              | (None, w) \<Rightarrow> (None, w))))"

definition head_hash :: "'g gogit \<Rightarrow> 'g \<Rightarrow> goerr + string" where
  "head_hash G w = (case gg_head G w of Inl e \<Rightarrow> Inl (wrapf [''git head''] e) | Inr h \<Rightarrow> Inr h)"

definition do_pull :: "'g gogit \<Rightarrow> 'g \<Rightarrow> goerr option \<times> 'g" where
  "do_pull G w = (case gg_worktree G w of Some e \<Rightarrow> (Some e, w) | None \<Rightarrow> gg_pull G w)"

text \<open>A pull that is already up to date is no error.\<close>

definition sync :: "'g gogit \<Rightarrow> string \<Rightarrow> 'g \<Rightarrow> goerr option \<times> 'g" where
  "sync G label w =
     (case do_pull G w of
        (None, w) \<Rightarrow> (None, w)
      | (Some e, w) \<Rightarrow> (if err_is NoErrAlreadyUpToDate e then None else Some (wrapf [label] e), w))"

definition repo_pull :: "'g gogit \<Rightarrow> 'g \<Rightarrow> (goerr + string \<times> bool) \<times> 'g" where
  "repo_pull G w =
     (case head_hash G w of
        Inl e \<Rightarrow> (Inl e, w)
      | Inr before \<Rightarrow>
          (case sync G ''pull'' w of
             (Some e, w) \<Rightarrow> (Inl e, w)
           | (None, w) \<Rightarrow>
               (case head_hash G w of
                  Inl e \<Rightarrow> (Inl e, w)
                | Inr after \<Rightarrow> (Inr (after, before \<noteq> after), w))))"

definition reset_to_parent :: "'g gogit \<Rightarrow> 'g \<Rightarrow> goerr option \<times> 'g" where
  "reset_to_parent G w =
     (case gg_head G w of
        Inl e \<Rightarrow> (Some e, w)
      | Inr h \<Rightarrow>
          (case gg_commit_object G h w of
             Inl e \<Rightarrow> (Some e, w)
           | Inr commit \<Rightarrow>
               (case gc_first_parent commit of
                  Inl e \<Rightarrow> (Some (wrapf [''get parent commit''] e), w)
                | Inr parent \<Rightarrow> gg_reset_hard G parent w)))"

subsection \<open>Committing and pushing\<close>

text \<open>
  The loop that \<open>CommitAndPushFunc\<close>, \<open>DeleteAndPush\<close> and \<open>RestoreServiceFilesAndPush\<close> share: pull,
  prepare the work tree, commit, push; a rejected push resets to the parent and tries again, with
  \<open>maxPushRetries\<close> attempts in all. They differ in the labels, the preparation and what they answer
  for an empty commit.
\<close>

record publish_labels =
  pl_pull :: string
  pl_commit :: string
  pl_fail :: string

definition max_push_retries :: nat where
  "max_push_retries = 3"

fun publish_loop ::
  "'g gogit \<Rightarrow> publish_labels \<Rightarrow> string \<Rightarrow> ('g \<Rightarrow> (goerr + 'r) \<times> 'g) \<Rightarrow> ('r \<Rightarrow> 'r) \<Rightarrow> nat \<Rightarrow> 'g \<Rightarrow>
   (goerr + string \<times> 'r) \<times> 'g" where
  "publish_loop G L msg prepare noop 0 w =
     (Inl (app_new CodeGitPush (pl_fail L @ '' failed after '' @ show_nat max_push_retries @ '' retries'')), w)"
| "publish_loop G L msg prepare noop (Suc n) w =
     (case sync G (pl_pull L) w of
        (Some e, w) \<Rightarrow> (Inl e, w)
      | (None, w) \<Rightarrow>
          (case prepare w of
             (Inl e, w) \<Rightarrow> (Inl e, w)
           | (Inr r, w) \<Rightarrow>
               (case gg_commit G msg w of
                  (Inl e, w) \<Rightarrow>
                    if err_is ErrEmptyCommit e
                    then (Inr (case head_hash G w of Inl _ \<Rightarrow> [] | Inr h \<Rightarrow> h, noop r), w)
                    else (Inl (wrapf [pl_commit L] e), w)
                | (Inr hash, w) \<Rightarrow>
                    (case gg_push G w of
                       (None, w) \<Rightarrow> (Inr (hash, r), w)
                     | (Some push_err, w) \<Rightarrow>
                         if \<not> is_non_fast_forward_push (Some push_err)
                         then (Inl (app_wrap CodeGitPush ''push failed'' push_err), snd (reset_to_parent G w))
                         else (case reset_to_parent G w of
                                 (Some e, w) \<Rightarrow> (Inl (wrapf [''reset after push rejection''] e), w)
                               | (None, w) \<Rightarrow> publish_loop G L msg prepare noop n w)))))"

fun write_and_stage :: "'g gogit \<Rightarrow> (string, bytes) gomap \<Rightarrow> 'g \<Rightarrow> goerr option \<times> 'g" where
  "write_and_stage G [] w = (None, w)"
| "write_and_stage G ((path, data) # files) w =
     (case os_mkdir_dir_of G path w of
        (Some e, w) \<Rightarrow> (Some (wrapf [''mkdir '', os_dir_of G path] e), w)
      | (None, w) \<Rightarrow>
          (case os_write_file G path data w of
             (Some e, w) \<Rightarrow> (Some (wrapf [''write '', path] e), w)
           | (None, w) \<Rightarrow>
               (case gg_add G path w of
                  (Some e, w) \<Rightarrow> (Some (wrapf [''git add '', path] e), w)
                | (None, w) \<Rightarrow> write_and_stage G files w)))"

definition commit_labels :: publish_labels where
  "commit_labels = \<lparr>pl_pull = ''pre-commit pull'', pl_commit = ''git commit'', pl_fail = ''push''\<rparr>"

definition prepare_commit ::
  "'g gogit \<Rightarrow> commit_file_builder \<Rightarrow> 'g \<Rightarrow> (goerr + string list) \<times> 'g" where
  "prepare_commit G build w =
     (case build (\<lambda>path. os_read_file G path w) of
        Inl e \<Rightarrow> (Inl e, w)
      | Inr (files, written) \<Rightarrow>
          (case gg_worktree G w of
             Some e \<Rightarrow> (Inl e, w)
           | None \<Rightarrow>
               (case write_and_stage G files w of
                  (Some e, w) \<Rightarrow> (Inl e, w)
                | (None, w) \<Rightarrow> (Inr written, w))))"

definition commit_and_push_func ::
  "'g gogit \<Rightarrow> string \<Rightarrow> commit_file_builder \<Rightarrow> 'g \<Rightarrow> ((goerr + string) \<times> string list) \<times> 'g" where
  "commit_and_push_func G msg build w =
     (case publish_loop G commit_labels msg (prepare_commit G build) (\<lambda>written. written) max_push_retries w of
        (Inl e, w) \<Rightarrow> ((Inl e, []), w)
      | (Inr (hash, written), w) \<Rightarrow> ((Inr hash, written), w))"

definition commit_and_push :: "'g gogit \<Rightarrow> string \<Rightarrow> (string, bytes) gomap \<Rightarrow> 'g \<Rightarrow> (goerr + string) \<times> 'g" where
  "commit_and_push G msg files w =
     (case commit_and_push_func G msg (\<lambda>_. Inr (files, [])) w of ((r, _), w) \<Rightarrow> (r, w))"

subsection \<open>Deleting\<close>

definition removal_targets :: "'g gogit \<Rightarrow> string \<Rightarrow> 'g \<Rightarrow> goerr + string list" where
  "removal_targets G path w =
     (case os_stat_dir G path w of
        Inl e \<Rightarrow> if err_is OsErrNotExist e then Inr [] else Inl (wrapf [''stat '', path] e)
      | Inr is_dir \<Rightarrow>
          if \<not> is_dir then Inr [path]
          else (case os_walk G path w of
                  (_, Some e) \<Rightarrow> Inl (wrapf [''walk '', path] e)
                | (files, None) \<Rightarrow> Inr files))"

text \<open>\<open>os.RemoveAll\<close> and the staging of the deletions, whose errors are only logged.\<close>

definition remove_path :: "'g gogit \<Rightarrow> string \<Rightarrow> string list \<Rightarrow> 'g \<Rightarrow> goerr option \<times> 'g" where
  "remove_path G path targets w =
     (case os_remove_all G path w of
        (Some e, w) \<Rightarrow>
          if \<not> err_is OsErrNotExist e then (Some (wrapf [''remove '', path] e), w)
          else (None, fold (\<lambda>t w. snd (gg_remove G t w)) targets w)
      | (None, w) \<Rightarrow> (None, fold (\<lambda>t w. snd (gg_remove G t w)) targets w))"

fun delete_each :: "'g gogit \<Rightarrow> string list \<Rightarrow> string list \<Rightarrow> 'g \<Rightarrow> (goerr + string list) \<times> 'g" where
  "delete_each G [] deleted w = (Inr deleted, w)"
| "delete_each G (path # paths) deleted w =
     (case removal_targets G path w of
        Inl e \<Rightarrow> (Inl e, w)
      | Inr found \<Rightarrow>
          (let targets = (if length found = 0 then [path] else found);
               deleted = deleted @ filter (\<lambda>t. \<not> isl (os_stat_dir G t w)) targets
           in case remove_path G path targets w of
                (Some e, w) \<Rightarrow> (Inl e, w)
              | (None, w) \<Rightarrow> delete_each G paths deleted w))"

definition delete_labels :: publish_labels where
  "delete_labels = \<lparr>pl_pull = ''pre-delete pull'', pl_commit = ''git commit delete'', pl_fail = ''push (delete)''\<rparr>"

definition delete_and_push :: "'g gogit \<Rightarrow> string \<Rightarrow> string list \<Rightarrow> 'g \<Rightarrow> (goerr + string \<times> string list) \<times> 'g" where
  "delete_and_push G msg paths w =
     publish_loop G delete_labels msg
       (\<lambda>w. case gg_worktree G w of Some e \<Rightarrow> (Inl e, w) | None \<Rightarrow> delete_each G paths [] w)
       (\<lambda>_. []) max_push_retries w"

subsection \<open>Restoring\<close>

definition normalize_repo_files :: "(string, bytes) gomap \<Rightarrow> (string, bytes) gomap" where
  "normalize_repo_files files = fold (\<lambda>(path, data). mput (trim_slashes (path_clean path)) data) files []"

definition service_files_in_worktree ::
  "'g gogit \<Rightarrow> string \<Rightarrow> string \<Rightarrow> string \<Rightarrow> 'g \<Rightarrow> goerr + string list" where
  "service_files_in_worktree G org project service w =
     (case os_walk G (service_config_root org project service) w of
        (_, Some e) \<Rightarrow> if err_is OsErrNotExist e then Inr [] else Inl e
      | (files, None) \<Rightarrow>
          Inr (sort (filter (\<lambda>p. classify_service_file_change p org project service \<noteq> None) files)))"

fun remove_extra ::
  "'g gogit \<Rightarrow> string \<Rightarrow> string \<Rightarrow> string \<Rightarrow> (string, bytes) gomap \<Rightarrow> string list \<Rightarrow> string list \<Rightarrow> 'g \<Rightarrow>
   (goerr + string list) \<times> 'g" where
  "remove_extra G org project service target [] deleted w = (Inr deleted, w)"
| "remove_extra G org project service target (path # paths) deleted w =
     (if mget target path \<noteq> None then remove_extra G org project service target paths deleted w
      else
        (case service_relative_repo_path path org project service of
           None \<Rightarrow> remove_extra G org project service target paths deleted w
         | Some rel \<Rightarrow>
             (case remove_path G path [path] w of
                (Some e, w) \<Rightarrow> (Inl e, w)
              | (None, w) \<Rightarrow> remove_extra G org project service target paths (deleted @ [rel]) w)))"

definition restore_labels :: publish_labels where
  "restore_labels = \<lparr>pl_pull = ''pre-restore pull'', pl_commit = ''git commit restore'', pl_fail = ''push (restore)''\<rparr>"

definition prepare_restore ::
  "'g gogit \<Rightarrow> string \<Rightarrow> string \<Rightarrow> string \<Rightarrow> (string, bytes) gomap \<Rightarrow> 'g \<Rightarrow> (goerr + string list) \<times> 'g" where
  "prepare_restore G org project service target w =
     (case gg_worktree G w of
        Some e \<Rightarrow> (Inl e, w)
      | None \<Rightarrow>
          (case service_files_in_worktree G org project service w of
             Inl e \<Rightarrow> (Inl e, w)
           | Inr current \<Rightarrow>
               (case remove_extra G org project service target current [] w of
                  (Inl e, w) \<Rightarrow> (Inl e, w)
                | (Inr deleted, w) \<Rightarrow>
                    (case write_and_stage G target w of
                       (Some e, w) \<Rightarrow> (Inl e, w)
                     | (None, w) \<Rightarrow> (Inr (sort deleted), w)))))"

definition restore_service_files_and_push ::
  "'g gogit \<Rightarrow> string \<Rightarrow> string \<Rightarrow> string \<Rightarrow> string \<Rightarrow> (string, bytes) gomap \<Rightarrow> 'g \<Rightarrow>
   (goerr + string \<times> string list) \<times> 'g" where
  "restore_service_files_and_push G msg org project service files w =
     publish_loop G restore_labels msg (prepare_restore G org project service (normalize_repo_files files))
       (\<lambda>deleted. deleted) max_push_retries w"

subsection \<open>The work tree as a snapshot\<close>

fun read_all :: "'g gogit \<Rightarrow> string list \<Rightarrow> 'g \<Rightarrow> goerr + (string \<times> bytes) list" where
  "read_all G [] w = Inr []"
| "read_all G (path # paths) w =
     (case os_read_file G path w of
        Inl e \<Rightarrow> Inl (wrapf [''read '', path] e)
      | Inr data \<Rightarrow> ebind (read_all G paths w) (\<lambda>fs. Inr ((path, data) # fs)))"

definition walk_configs_unlocked :: "'g gogit \<Rightarrow> 'g \<Rightarrow> goerr + (string \<times> bytes) list" where
  "walk_configs_unlocked G w =
     (case os_stat_dir G ''configs'' w of
        Inl e \<Rightarrow> if err_is OsErrNotExist e then Inr [] else
                   (case os_walk G ''configs'' w of (files, err) \<Rightarrow>
                      ebind (read_all G files w) (\<lambda>fs. case err of Some e \<Rightarrow> Inl e | None \<Rightarrow> Inr fs))
      | Inr _ \<Rightarrow>
          (case os_walk G ''configs'' w of (files, err) \<Rightarrow>
             ebind (read_all G files w) (\<lambda>fs. case err of Some e \<Rightarrow> Inl e | None \<Rightarrow> Inr fs)))"

definition assert_configs_clean_unlocked :: "'g gogit \<Rightarrow> 'g \<Rightarrow> goerr option" where
  "assert_configs_clean_unlocked G w =
     (case gg_worktree G w of
        Some e \<Rightarrow> Some (wrapf [''worktree''] e)
      | None \<Rightarrow>
          (case gg_status G w of
             Inl e \<Rightarrow> Some (wrapf [''git status''] e)
           | Inr status \<Rightarrow>
               (let dirty = map fst (filter (\<lambda>(path, unmodified). has_prefix path ''configs/'' \<and> \<not> unmodified) status)
                in if length dirty > 0
                   then Some (errf [''configs/ worktree is dirty ('', show_nat (length dirty), '' file(s), e.g. '',
                                    join '', '' (take 5 dirty), ''); refusing to snapshot''])
                   else None)))"

definition repo_snapshot :: "'g gogit \<Rightarrow> 'g \<Rightarrow> goerr + string \<times> (string \<times> bytes) list" where
  "repo_snapshot G w =
     (case head_hash G w of
        Inl e \<Rightarrow> Inl e
      | Inr hash \<Rightarrow>
          (case assert_configs_clean_unlocked G w of
             Some e \<Rightarrow> Inl e
           | None \<Rightarrow> (case walk_configs_unlocked G w of Inl e \<Rightarrow> Inl e | Inr files \<Rightarrow> Inr (hash, files))))"

subsection \<open>Commits\<close>

definition commit_not_found :: "string \<Rightarrow> goerr \<Rightarrow> goerr" where
  "commit_not_found hash e =
     Errorf (sentinel_msg ErrCommitNotFound @ '': commit '' @ hash @ '': '' @ err_msg e) [Sent ErrCommitNotFound, e]"

definition read_file_at_commit :: "'g gogit \<Rightarrow> string \<Rightarrow> string \<Rightarrow> 'g \<Rightarrow> goerr + bytes" where
  "read_file_at_commit G hash path w =
     (case gg_commit_object G hash w of
        Inl e \<Rightarrow> Inl (commit_not_found hash e)
      | Inr commit \<Rightarrow>
          (case gc_tree commit of
             Inl e \<Rightarrow> Inl e
           | Inr tree \<Rightarrow>
               (case gt_file tree path of
                  Inl e \<Rightarrow>
                    if err_is ObjErrFileNotFound e
                    then Inl (Errorf (sentinel_msg ErrFileNotFoundAtCommit @ '': file '' @ path @ '' at '' @ hash @ '': '' @ err_msg e)
                                [Sent ErrFileNotFoundAtCommit, e])
                    else Inl (wrapf [''file '', path, '' at '', hash] e)
                | Inr content \<Rightarrow> content)))"

fun service_contents ::
  "string \<Rightarrow> string \<Rightarrow> string \<Rightarrow> goerr option \<Rightarrow> (string \<times> (goerr + bytes)) list \<Rightarrow> goerr + service_file_content list" where
  "service_contents org project service ctx [] = Inr []"
| "service_contents org project service ctx ((name, content) # rest) =
     (case ctx of
        Some e \<Rightarrow> Inl e
      | None \<Rightarrow>
          (case classify_service_file_change (service_config_root org project service @ ''/'' @ name) org project service of
             None \<Rightarrow> service_contents org project service ctx rest
           | Some change \<Rightarrow>
               ebind content (\<lambda>data. ebind (service_contents org project service ctx rest) (\<lambda>fs.
                 Inr (\<lparr>fo_path = fc_path change, fo_kind = fc_kind change, fo_data = data\<rparr> # fs)))))"

definition read_service_files_at_commit ::
  "'g gogit \<Rightarrow> string \<Rightarrow> string \<Rightarrow> string \<Rightarrow> string \<Rightarrow> 'g \<Rightarrow> goerr + service_file_content list" where
  "read_service_files_at_commit G hash org project service w =
     (case gg_commit_object G hash w of
        Inl e \<Rightarrow> Inl (commit_not_found hash e)
      | Inr commit \<Rightarrow>
          (case gc_tree commit of
             Inl e \<Rightarrow> Inl e
           | Inr tree \<Rightarrow>
               (case gt_subtree tree (service_config_root org project service) of
                  Inl _ \<Rightarrow> Inr []
                | Inr files \<Rightarrow>
                    ebind (service_contents org project service (ctx_err G w) files) (\<lambda>fs. Inr (sort_key fo_path fs)))))"

definition service_files_changed_in_commit ::
  "git_commit \<Rightarrow> string \<Rightarrow> string \<Rightarrow> string \<Rightarrow> goerr + file_change list" where
  "service_files_changed_in_commit commit org project service =
     (case gc_stats commit of
        Inl e \<Rightarrow> Inl (wrapf [''commit stats '', gc_hash commit] e)
      | Inr names \<Rightarrow>
          Inr (sort_key fc_path (map snd (foldl (\<lambda>seen name.
            case classify_service_file_change name org project service of
              None \<Rightarrow> seen | Some change \<Rightarrow> mput (fc_path change) change seen) [] names))))"

definition history_entry_of :: "git_commit \<Rightarrow> file_change list \<Rightarrow> service_history_entry" where
  "history_entry_of commit files =
     \<lparr>he_version = gc_hash commit, he_message = trim_space (gc_message commit),
      he_author = (if gc_author_email commit = [] then gc_author_name commit else gc_author_email commit),
      he_timestamp = gc_author_when commit, he_files_changed = files\<rparr>"

text \<open>The entries that \<open>IterateServiceHistory\<close> passes to its callback and the error that ends it.\<close>

fun history_entries ::
  "goerr option \<Rightarrow> string \<Rightarrow> string \<Rightarrow> string \<Rightarrow> git_commit list \<Rightarrow> service_history_entry list \<times> goerr option" where
  "history_entries ctx org project service [] = ([], None)"
| "history_entries ctx org project service (c # cs) =
     (case ctx of
        Some e \<Rightarrow> ([], Some e)
      | None \<Rightarrow>
          (case service_files_changed_in_commit c org project service of
             Inl e \<Rightarrow> ([], Some e)
           | Inr files \<Rightarrow>
               (let (es, err) = history_entries ctx org project service cs in
                (if length files = 0 then es else history_entry_of c files # es, err))))"

definition iterate_service_history ::
  "'g gogit \<Rightarrow> string \<Rightarrow> string \<Rightarrow> string \<Rightarrow> 'g \<Rightarrow> service_history_entry list \<times> goerr option" where
  "iterate_service_history G org project service w =
     (case gg_head G w of
        Inl e \<Rightarrow> ([], Some (wrapf [''git head''] e))
      | Inr head \<Rightarrow>
          (case gg_log G head w of
             Inl e \<Rightarrow> ([], Some (wrapf [''git log''] e))
           | Inr (commits, log_err) \<Rightarrow>
               (case history_entries (ctx_err G w) org project service commits of
                  (es, Some e) \<Rightarrow> (es, Some e)
                | (es, None) \<Rightarrow> (es, log_err))))"

text \<open>The repository as the interface the store uses.\<close>

definition repo_of :: "'g gogit \<Rightarrow> string \<Rightarrow> string \<Rightarrow> 'g git_repo" where
  "repo_of G local_path remote_url =
     \<lparr>gr_clone_or_open = clone_or_open G local_path remote_url,
      gr_pull = repo_pull G,
      gr_commit_and_push = commit_and_push G,
      gr_commit_and_push_func = commit_and_push_func G,
      gr_delete_and_push = delete_and_push G,
      gr_restore_and_push = restore_service_files_and_push G,
      gr_snapshot = (\<lambda>w. (repo_snapshot G w, w)),
      gr_read_file_at_commit = (\<lambda>hash path w. (read_file_at_commit G hash path w, w)),
      gr_read_service_files_at_commit = (\<lambda>hash org project service w.
        (read_service_files_at_commit G hash org project service w, w)),
      gr_history = (\<lambda>org project service w. (iterate_service_history G org project service w, w))\<rparr>"

end
