(* ===== verification/GitSample.thy ===== *)
theory GitSample
  imports GitRepo
begin

text \<open>
  An in-memory repository with a work tree, an index, commits and a remote branch that rejects a given
  number of pushes: the concrete \<open>gogit\<close> on which the theorems about the git repository are applied.
\<close>

record mem_git =
  mg_commits :: "(string \<times> string \<times> (string, bytes) gomap) list"
  mg_head :: string
  mg_remote :: "string list"
  mg_index :: "(string, bytes) gomap"
  mg_disk :: "(string, bytes) gomap"
  mg_rejects :: nat
  mg_pushes :: nat

definition mem_tree :: "mem_git \<Rightarrow> string \<Rightarrow> (string, bytes) gomap" where
  "mem_tree w h = (case mget (mg_commits w) h of None \<Rightarrow> [] | Some (_, t) \<Rightarrow> t)"

text \<open>A hash longer than every hash in use\<close>

definition mem_hash :: "mem_git \<Rightarrow> string" where
  "mem_hash w = replicate (Suc (sum_list (map length (mg_head w # mg_remote w)))) (CHR ''c'')"

definition mem_commit_of :: "string \<Rightarrow> string \<Rightarrow> (string, bytes) gomap \<Rightarrow> git_commit" where
  "mem_commit_of h parent t =
     \<lparr>gc_hash = h, gc_message = [], gc_author_name = [], gc_author_email = [], gc_author_when = 0,
      gc_tree = Inr \<lparr>gt_file = (\<lambda>p. case mget t p of None \<Rightarrow> Inl (Sent ObjErrFileNotFound) | Some d \<Rightarrow> Inr (Inr d)),
                    gt_subtree = (\<lambda>root. Inr (map (\<lambda>(p, d). (trim_prefix p (root @ ''/''), Inr d))
                                                (filter (\<lambda>(p, d). has_prefix p (root @ ''/'')) t)))\<rparr>,
      gc_first_parent = Inr parent, gc_stats = Inr (mkeys t)\<rparr>"

abbreviation below :: "string \<Rightarrow> string \<Rightarrow> bool" where
  "below root p \<equiv> has_prefix p (root @ ''/'')"

definition mem_gogit :: "mem_git gogit" where
  "mem_gogit =
     \<lparr>gg_worktree = (\<lambda>w. None), gg_open = (\<lambda>w. (None, w)), gg_clone = (\<lambda>w. (None, w)),
      gg_pull = (\<lambda>w. (Some (Sent NoErrAlreadyUpToDate), w)),
      gg_head = (\<lambda>w. Inr (mg_head w)),
      gg_add = (\<lambda>p w. case mget (mg_disk w) p of
        None \<Rightarrow> (Some (Sent OsErrNotExist), w) | Some d \<Rightarrow> (None, w\<lparr>mg_index := mput p d (mg_index w)\<rparr>)),
      gg_remove = (\<lambda>p w. case mget (mg_index w) p of
        None \<Rightarrow> (Some (Sent OsErrNotExist), w)
      | Some d \<Rightarrow> (None, w\<lparr>mg_index := mdel p (mg_index w), mg_disk := mdel p (mg_disk w)\<rparr>)),
      gg_commit = (\<lambda>msg w.
        if mem_tree w (mg_head w) = mg_index w then (Inl (Sent ErrEmptyCommit), w)
        else (Inr (mem_hash w),
              w\<lparr>mg_commits := (mem_hash w, mg_head w, mg_index w) # mg_commits w, mg_head := mem_hash w\<rparr>)),
      gg_push = (\<lambda>w. case mg_rejects w of
        Suc n \<Rightarrow> (Some (Sent ErrNonFastForwardUpdate), w\<lparr>mg_rejects := n, mg_pushes := Suc (mg_pushes w)\<rparr>)
      | 0 \<Rightarrow> (None, w\<lparr>mg_remote := mg_head w # mg_remote w, mg_pushes := Suc (mg_pushes w)\<rparr>)),
      gg_reset_hard = (\<lambda>h w. (None, w\<lparr>mg_head := h, mg_index := mem_tree w h, mg_disk := mem_tree w h\<rparr>)),
      gg_status = (\<lambda>w. Inr (map (\<lambda>p. (p, mget (mg_index w) p = mget (mg_disk w) p \<and> mget (mem_tree w (mg_head w)) p = mget (mg_disk w) p))
        (mkeys (mg_disk w) @ mkeys (mg_index w) @ mkeys (mem_tree w (mg_head w))))),
      gg_commit_object = (\<lambda>h w. case mget (mg_commits w) h of
        None \<Rightarrow> Inl (Sent ErrCommitNotFound) | Some (p, t) \<Rightarrow> Inr (mem_commit_of h p t)),
      gg_log = (\<lambda>h w. Inr (map (\<lambda>(h, p, t). mem_commit_of h p t) (mg_commits w), None)),
      os_git_dir_exists = (\<lambda>w. True), os_mkdir_root = (\<lambda>w. (None, w)), os_dir_of = (\<lambda>p. p),
      os_mkdir_dir_of = (\<lambda>p w. (None, w)),
      os_write_file = (\<lambda>p d w. (None, w\<lparr>mg_disk := mput p d (mg_disk w)\<rparr>)),
      os_read_file = (\<lambda>p w. case mget (mg_disk w) p of None \<Rightarrow> Inl (Sent OsErrNotExist) | Some d \<Rightarrow> Inr d),
      os_remove_all = (\<lambda>p w. (None, w\<lparr>mg_disk :=
        (if mget (mg_disk w) p \<noteq> None then mdel p (mg_disk w) else filter (\<lambda>(q, d). \<not> below p q) (mg_disk w))\<rparr>)),
      os_stat_dir = (\<lambda>p w.
        if mget (mg_disk w) p \<noteq> None then Inr False
        else if list_ex (below p) (mkeys (mg_disk w)) then Inr True
        else Inl (Sent OsErrNotExist)),
      os_walk = (\<lambda>root w. (filter (\<lambda>p. p = root \<or> below root p) (remdups (mkeys (mg_disk w))), None)),
      ctx_err = (\<lambda>w. None)\<rparr>"

text \<open>A repository whose head is published and whose remote rejects the first push\<close>

definition mem_world :: "(string, bytes) gomap \<Rightarrow> mem_git" where
  "mem_world files =
     \<lparr>mg_commits = [(''c'', [], files)], mg_head = ''c'', mg_remote = [''c''], mg_index = files, mg_disk = files,
      mg_rejects = 1, mg_pushes = 0\<rparr>"

end
