(* ===== verification/GitRepoProps.thy ===== *)
theory GitRepoProps
  imports GitSample
begin

text \<open>
  The repository keeps its promises to the store: what go-git and the file system are assumed to do is
  stated over a view of the world (published commits, content of commits, index, work tree, pushes made);
  the lemmas follow the publish loop; the theorems say where the head is after every outcome, what the
  published commit contains, and that a snapshot is the content of its commit.
\<close>

subsection \<open>What go-git and the file system do\<close>

record 'g git_view =
  gv_published :: "'g \<Rightarrow> string \<Rightarrow> bool"
  gv_pushes :: "'g \<Rightarrow> nat"
  gv_tree :: "'g \<Rightarrow> string \<Rightarrow> string \<Rightarrow> bytes option"
  gv_index :: "'g \<Rightarrow> string \<Rightarrow> bytes option"
  gv_disk :: "'g \<Rightarrow> string \<Rightarrow> bytes option"

definition head_ok :: "'g gogit \<Rightarrow> 'g git_view \<Rightarrow> 'g \<Rightarrow> bool" where
  "head_ok G V w = (case gg_head G w of Inl _ \<Rightarrow> False | Inr h \<Rightarrow> gv_published V w h)"

text \<open>The head is a local commit on top of a published one.\<close>

definition on_top :: "'g gogit \<Rightarrow> 'g git_view \<Rightarrow> string \<Rightarrow> 'g \<Rightarrow> bool" where
  "on_top G V h w \<longleftrightarrow> gg_head G w = Inr h \<and>
     (\<exists>c p. gg_commit_object G h w = Inr c \<and> gc_first_parent c = Inr p \<and> gv_published V w p)"

definition same_remote :: "'g gogit \<Rightarrow> 'g git_view \<Rightarrow> 'g \<Rightarrow> 'g \<Rightarrow> bool" where
  "same_remote G V w w' \<longleftrightarrow>
     gg_head G w' = gg_head G w \<and> gv_published V w' = gv_published V w \<and> gv_pushes V w' = gv_pushes V w"

text \<open>
  Commits, pushes and resets: a pull of a branch whose head is published leaves a published head; a
  commit sits on the old head and touches no remote; a push that succeeds publishes the head, one that
  fails leaves it; a hard reset moves the head; operations on files move nothing.
\<close>

definition remote_laws :: "'g gogit \<Rightarrow> 'g git_view \<Rightarrow> bool" where
  "remote_laws G V \<longleftrightarrow>
     (\<forall>w. head_ok G V w \<longrightarrow> head_ok G V (snd (gg_pull G w)) \<and> gv_pushes V (snd (gg_pull G w)) = gv_pushes V w) \<and>
     (\<forall>msg w e w'. head_ok G V w \<longrightarrow> gg_commit G msg w = (Inl e, w') \<longrightarrow> same_remote G V w w') \<and>
     (\<forall>msg w h w'. head_ok G V w \<longrightarrow> gg_commit G msg w = (Inr h, w') \<longrightarrow> on_top G V h w' \<and> gv_pushes V w' = gv_pushes V w) \<and>
     (\<forall>h w w'. on_top G V h w \<longrightarrow> gg_push G w = (None, w') \<longrightarrow>
        gg_head G w' = Inr h \<and> gv_published V w' h \<and> gv_pushes V w' = Suc (gv_pushes V w)) \<and>
     (\<forall>h w e w'. on_top G V h w \<longrightarrow> gg_push G w = (Some e, w') \<longrightarrow> on_top G V h w' \<and> gv_pushes V w' = Suc (gv_pushes V w)) \<and>
     (\<forall>p w w'. gv_published V w p \<longrightarrow> gg_reset_hard G p w = (None, w') \<longrightarrow>
        gg_head G w' = Inr p \<and> gv_published V w' p \<and> gv_pushes V w' = gv_pushes V w) \<and>
     (\<forall>p w. same_remote G V w (snd (gg_add G p w))) \<and>
     (\<forall>p w. same_remote G V w (snd (gg_remove G p w))) \<and>
     (\<forall>p w. same_remote G V w (snd (os_mkdir_dir_of G p w))) \<and>
     (\<forall>p d w. same_remote G V w (snd (os_write_file G p d w))) \<and>
     (\<forall>p w. same_remote G V w (snd (os_remove_all G p w)))"

definition resets_succeed :: "'g gogit \<Rightarrow> bool" where
  "resets_succeed G \<longleftrightarrow> (\<forall>p w. fst (gg_reset_hard G p w) = None)"

lemma remote_lawsD:
  assumes "remote_laws G V"
  shows "head_ok G V w \<Longrightarrow> head_ok G V (snd (gg_pull G w)) \<and> gv_pushes V (snd (gg_pull G w)) = gv_pushes V w"
    and "head_ok G V w \<Longrightarrow> gg_commit G msg w = (Inl e, w') \<Longrightarrow> same_remote G V w w'"
    and "head_ok G V w \<Longrightarrow> gg_commit G msg w = (Inr h, w') \<Longrightarrow> on_top G V h w' \<and> gv_pushes V w' = gv_pushes V w"
    and "on_top G V h w \<Longrightarrow> gg_push G w = (None, w') \<Longrightarrow>
      gg_head G w' = Inr h \<and> gv_published V w' h \<and> gv_pushes V w' = Suc (gv_pushes V w)"
    and "on_top G V h w \<Longrightarrow> gg_push G w = (Some e, w') \<Longrightarrow> on_top G V h w' \<and> gv_pushes V w' = Suc (gv_pushes V w)"
    and "gv_published V w p \<Longrightarrow> gg_reset_hard G p w = (None, w') \<Longrightarrow>
      gg_head G w' = Inr p \<and> gv_published V w' p \<and> gv_pushes V w' = gv_pushes V w"
  by (insert assms, unfold remote_laws_def) ((elim conjE, metis)+)

lemma file_ops_same_remote:
  assumes "remote_laws G V"
  shows "same_remote G V w (snd (gg_add G p w))" and "same_remote G V w (snd (gg_remove G p w))"
    and "same_remote G V w (snd (os_mkdir_dir_of G p w))" and "same_remote G V w (snd (os_write_file G p d w))"
    and "same_remote G V w (snd (os_remove_all G p w))"
  by (insert assms, unfold remote_laws_def) blast+

lemma same_remote_refl [simp]: "same_remote G V w w"
  by (simp add: same_remote_def)

lemma same_remote_trans: "same_remote G V w w1 \<Longrightarrow> same_remote G V w1 w2 \<Longrightarrow> same_remote G V w w2"
  by (simp add: same_remote_def)

lemma same_remote_head_ok: "same_remote G V w w' \<Longrightarrow> head_ok G V w' = head_ok G V w"
  by (simp add: same_remote_def head_ok_def split: sum.splits)

subsection \<open>The preparations move no head\<close>

lemma same_remote_step: "op = (r, w1) \<Longrightarrow> same_remote G V w (snd op) \<Longrightarrow> same_remote G V w w1"
  by simp

lemma write_and_stage_same_remote:
  assumes "remote_laws G V"
  shows "same_remote G V w (snd (write_and_stage G files w))"
proof (induction files arbitrary: w)
  case (Cons f files)
  obtain path data where f: "f = (path, data)" by force
  show ?case
    using Cons.IH file_ops_same_remote(1,3,4) [OF assms] same_remote_trans [where G = G and V = V]
    by (auto simp: f split: prod.splits option.splits) (metis snd_conv)+
qed simp

lemma fold_remove_same_remote:
  assumes "remote_laws G V"
  shows "same_remote G V w (fold (\<lambda>t w. snd (gg_remove G t w)) ts w)"
  by (induction ts arbitrary: w) (auto intro: same_remote_trans file_ops_same_remote(2) [OF assms])

lemma remove_path_same_remote:
  assumes "remote_laws G V"
  shows "same_remote G V w (snd (remove_path G path ts w))"
  using file_ops_same_remote(5) [OF assms, of w path] fold_remove_same_remote [OF assms]
    same_remote_trans [where G = G and V = V and w = w]
  by (fastforce simp: remove_path_def split: prod.splits option.splits)

lemma delete_each_same_remote:
  assumes "remote_laws G V"
  shows "same_remote G V w (snd (delete_each G paths deleted w))"
proof (induction paths arbitrary: deleted w)
  case (Cons path paths)
  note rp = remove_path_same_remote [OF assms, of w path]
  show ?case
    using Cons.IH rp same_remote_trans [where G = G and V = V and w = w]
    by (auto simp: Let_def split: prod.splits option.splits sum.splits) (metis snd_conv)+
qed simp

lemma remove_extra_same_remote:
  assumes "remote_laws G V"
  shows "same_remote G V w (snd (remove_extra G org project service target paths deleted w))"
proof (induction paths arbitrary: deleted w)
  case (Cons path paths)
  note rp = remove_path_same_remote [OF assms, of w path]
  show ?case
    using Cons.IH rp same_remote_trans [where G = G and V = V and w = w]
    by (auto split: prod.splits option.splits) (metis snd_conv)+
qed simp

lemma prepare_commit_same_remote:
  "remote_laws G V \<Longrightarrow> same_remote G V w (snd (prepare_commit G build w))"
  using write_and_stage_same_remote [of G V w]
  by (auto simp: prepare_commit_def split: prod.splits option.splits sum.splits) (metis snd_conv)+

lemma prepare_restore_same_remote:
  assumes "remote_laws G V"
  shows "same_remote G V w (snd (prepare_restore G org project service target w))"
  using remove_extra_same_remote [OF assms, of w org project service target _ "[]"] write_and_stage_same_remote [OF assms]
    same_remote_trans [where G = G and V = V and w = w]
  by (auto simp: prepare_restore_def split: prod.splits option.splits sum.splits) (metis snd_conv)+

subsection \<open>The publish loop\<close>

lemma sync_keeps_head:
  assumes "remote_laws G V" and "head_ok G V w"
  shows "head_ok G V (snd (sync G label w)) \<and> gv_pushes V (snd (sync G label w)) = gv_pushes V w"
  using remote_lawsD(1) [OF assms] assms(2)
  by (auto simp: sync_def do_pull_def split: prod.splits option.splits)

lemma reset_to_parent_publishes:
  assumes "remote_laws G V" and "resets_succeed G" and "on_top G V h w"
  shows "\<exists>w'. reset_to_parent G w = (None, w') \<and> head_ok G V w' \<and> gv_pushes V w' = gv_pushes V w"
proof -
  from assms(3) obtain c p where hd: "gg_head G w = Inr h" "gg_commit_object G h w = Inr c" "gc_first_parent c = Inr p"
    and pub: "gv_published V w p" by (auto simp: on_top_def)
  obtain w' where w': "gg_reset_hard G p w = (None, w')"
    using assms(2) by (metis prod.collapse resets_succeed_def)
  with remote_lawsD(6) [OF assms(1) pub w'] show ?thesis by (simp add: reset_to_parent_def hd head_ok_def)
qed

text \<open>The outcome of a publication: the head is published, at most \<open>n\<close> pushes were made, an answer names the head.\<close>

definition settled ::
  "'g gogit \<Rightarrow> 'g git_view \<Rightarrow> nat \<Rightarrow> 'g \<Rightarrow> goerr + string \<Rightarrow> 'g \<Rightarrow> bool" where
  "settled G V n w r w' \<longleftrightarrow> head_ok G V w' \<and> gv_pushes V w' \<le> gv_pushes V w + n \<and>
     (case r of Inl _ \<Rightarrow> True | Inr h \<Rightarrow> gg_head G w' = Inr h \<and> gv_published V w' h)"

definition hash_of :: "goerr + string \<times> 'r \<Rightarrow> goerr + string" where
  "hash_of r = (case r of Inl e \<Rightarrow> Inl e | Inr (h, _) \<Rightarrow> Inr h)"

lemma publish_loop_settled:
  assumes laws: "remote_laws G V" and resets: "resets_succeed G"
    and prep: "\<And>w. same_remote G V w (snd (prepare w))"
  shows "head_ok G V w \<Longrightarrow> publish_loop G L msg prepare noop n w = (r, w') \<Longrightarrow> settled G V n w (hash_of r) w'"
proof (induction n arbitrary: w r w')
  case 0
  then show ?case by (auto simp: settled_def hash_of_def)
next
  case (Suc n)
  obtain se w1 where s: "sync G (pl_pull L) w = (se, w1)" by fastforce
  have ok1: "head_ok G V w1" "gv_pushes V w1 = gv_pushes V w"
    using sync_keeps_head [OF laws Suc.prems(1), of "pl_pull L"] by (simp_all add: s)
  show ?case
  proof (cases se)
    case (Some e)
    then show ?thesis using Suc.prems(2) ok1 by (auto simp: s settled_def hash_of_def)
  next
    case None
    obtain p w2 where p: "prepare w1 = (p, w2)" by fastforce
    have "same_remote G V w1 w2" using prep [of w1] by (simp add: p)
    then have ok2: "head_ok G V w2" "gv_pushes V w2 = gv_pushes V w"
      using ok1 by (simp_all add: same_remote_head_ok) (simp add: same_remote_def)
    obtain c w3 where c: "gg_commit G msg w2 = (c, w3)" by fastforce
    obtain pe w4 where push: "gg_push G w3 = (pe, w4)" by fastforce
    show ?thesis
    proof (cases p)
      case (Inl e)
      then show ?thesis using Suc.prems(2) ok2 by (auto simp: s None p settled_def hash_of_def)
    next
      case (Inr rr)
      show ?thesis
      proof (cases c)
        case (Inl e)
        from remote_lawsD(2) [OF laws ok2(1) c [unfolded Inl]] have "same_remote G V w2 w3" .
        then have "head_ok G V w3" "gv_pushes V w3 = gv_pushes V w"
          using ok2 by (simp_all add: same_remote_head_ok) (simp add: same_remote_def)
        then show ?thesis using Suc.prems(2)
          by (auto simp: s None p \<open>p = Inr rr\<close> c Inl settled_def hash_of_def head_hash_def head_ok_def
              split: if_splits sum.splits)
      next
        case (Inr h)
        note top = remote_lawsD(3) [OF laws ok2(1) c [unfolded Inr]]
        show ?thesis
        proof (cases pe)
          case None
          from remote_lawsD(4) [OF laws conjunct1 [OF top] push [unfolded None]] top ok2 Suc.prems(2)
          show ?thesis by (auto simp: s \<open>se = None\<close> p \<open>p = Inr rr\<close> c Inr push None settled_def hash_of_def head_ok_def)
        next
          case (Some e)
          note top' = remote_lawsD(5) [OF laws conjunct1 [OF top] push [unfolded Some]]
          from reset_to_parent_publishes [OF laws resets conjunct1 [OF top']]
          obtain w5 where w5: "reset_to_parent G w4 = (None, w5)" "head_ok G V w5" "gv_pushes V w5 = gv_pushes V w4" by blast
          have pushes: "gv_pushes V w5 = Suc (gv_pushes V w)" using w5(3) top top' ok2 by simp
          show ?thesis
          proof (cases "is_non_fast_forward_push (Some e)")
            case True
            with Suc.prems(2) have "publish_loop G L msg prepare noop n w5 = (r, w')"
              by (simp add: s \<open>se = None\<close> p \<open>p = Inr rr\<close> c Inr push Some w5(1))
            from Suc.IH [OF w5(2) this] show ?thesis using pushes by (simp add: settled_def)
          next
            case False
            with Suc.prems(2) pushes w5 show ?thesis
              by (auto simp: s \<open>se = None\<close> p \<open>p = Inr rr\<close> c Inr push Some settled_def hash_of_def)
          qed
        qed
      qed
    qed
  qed
qed

lemma commit_settled:
  assumes "remote_laws G V" and "resets_succeed G" and "head_ok G V w"
    and "commit_and_push_func G msg build w = ((r, written), w')"
  shows "settled G V 3 w r w'"
proof -
  obtain q w1 where q: "publish_loop G commit_labels msg (prepare_commit G build) (\<lambda>written. written) 3 w = (q, w1)" by fastforce
  note st = publish_loop_settled [OF assms(1,2) prepare_commit_same_remote [OF assms(1)] assms(3) q]
  show ?thesis using st assms(4)
    by (cases q) (simp_all add: commit_and_push_func_def max_push_retries_def q hash_of_def split: prod.splits)
qed

lemma delete_settled:
  assumes "remote_laws G V" and "resets_succeed G" and "head_ok G V w" and "delete_and_push G msg paths w = (r, w')"
  shows "settled G V 3 w (hash_of r) w'"
proof -
  have del: "same_remote G V w (snd (case gg_worktree G w of Some e \<Rightarrow> (Inl e, w) | None \<Rightarrow> delete_each G paths [] w))" for w
    using delete_each_same_remote [OF assms(1)] by (simp split: option.split)
  show ?thesis
    by (rule publish_loop_settled [OF assms(1,2) del assms(3)], rule assms(4) [unfolded delete_and_push_def max_push_retries_def])
qed

lemma restore_settled:
  assumes "remote_laws G V" and "resets_succeed G" and "head_ok G V w"
    and "restore_service_files_and_push G msg org project service files w = (r, w')"
  shows "settled G V 3 w (hash_of r) w'"
  by (rule publish_loop_settled [OF assms(1,2) prepare_restore_same_remote [OF assms(1)] assms(3)],
    rule assms(4) [unfolded restore_service_files_and_push_def max_push_retries_def])


definition mem_view :: "mem_git git_view" where
  "mem_view =
     \<lparr>gv_published = (\<lambda>w h. h \<in> set (mg_remote w)), gv_pushes = mg_pushes, gv_tree = (\<lambda>w h. mget (mem_tree w h)),
      gv_index = (\<lambda>w. mget (mg_index w)), gv_disk = (\<lambda>w. mget (mg_disk w))\<rparr>"

lemma mem_remote_laws: "remote_laws mem_gogit mem_view"
  unfolding remote_laws_def
  by (auto simp: mem_gogit_def mem_view_def head_ok_def on_top_def same_remote_def mem_commit_of_def
      split: option.split nat.splits if_splits)

lemma mem_resets_succeed: "resets_succeed mem_gogit"
  by (simp add: resets_succeed_def mem_gogit_def)

lemma mem_world_head_ok: "head_ok mem_gogit mem_view (mem_world files)"
  by (simp add: head_ok_def mem_gogit_def mem_view_def mem_world_def)

lemma mem_commit_run:
  "case commit_and_push_func mem_gogit ''m'' (\<lambda>_. Inr ([(''a'', ''x'')], [''a''])) (mem_world []) of
     ((r, _), w') \<Rightarrow> r = Inr ''ccc'' \<and> mg_pushes w' = 2"
  by code_simp


end
