(* ===== verification/GitContent.thy ===== *)
theory GitContent
  imports GitRepoProps
begin

text \<open>
  What a published commit contains: the assumptions on go-git and the file system about contents (index,
  work tree, trees of commits) and the exact effect of a commit, a deletion and a restoration on the tree
  of the published parent. A snapshot is the content of its commit.
\<close>

definition clean_path :: "string \<Rightarrow> bool" where
  "clean_path p \<longleftrightarrow> trim_slashes (path_clean p) = p"

text \<open>A path as git spells it: a clean one, or the name of a file that the index or the work tree has.\<close>

definition canonical :: "'g git_view \<Rightarrow> 'g \<Rightarrow> string \<Rightarrow> bool" where
  "canonical V w p \<longleftrightarrow> clean_path p \<or> gv_index V w p \<noteq> None \<or> gv_disk V w p \<noteq> None"

text \<open>Nothing uncommitted: index, work tree and the tree of the head agree.\<close>

definition clean :: "'g gogit \<Rightarrow> 'g git_view \<Rightarrow> 'g \<Rightarrow> bool" where
  "clean G V w \<longleftrightarrow> gv_index V w = gv_disk V w \<and> (\<forall>h. gg_head G w = Inr h \<longrightarrow> gv_tree V w h = gv_index V w)"

definition untouched :: "'g git_view \<Rightarrow> 'g \<Rightarrow> 'g \<Rightarrow> bool" where
  "untouched V w w' \<longleftrightarrow> gv_tree V w' = gv_tree V w \<and> gv_index V w' = gv_index V w \<and> gv_disk V w' = gv_disk V w"

definition without :: "string \<Rightarrow> (string \<Rightarrow> bytes option) \<Rightarrow> string \<Rightarrow> bytes option" where
  "without p m = (\<lambda>q. if q = p \<or> (m p = None \<and> below p q) then None else m q)"

definition git_content_laws :: "'g gogit \<Rightarrow> 'g git_view \<Rightarrow> bool" where
  "git_content_laws G V \<longleftrightarrow>
     (\<forall>w. clean G V w \<longrightarrow> clean G V (snd (gg_pull G w))) \<and>
     (\<forall>msg w e w'. gg_commit G msg w = (Inl e, w') \<longrightarrow> err_is ErrEmptyCommit e \<longrightarrow>
        untouched V w w' \<and> (\<forall>h. gg_head G w' = Inr h \<longrightarrow> gv_tree V w' h = gv_index V w)) \<and>
     (\<forall>msg w h w'. head_ok G V w \<longrightarrow> gg_commit G msg w = (Inr h, w') \<longrightarrow>
        gv_index V w' = gv_index V w \<and> gv_disk V w' = gv_disk V w \<and> gv_tree V w' h = gv_index V w \<and>
        (\<forall>p. gv_published V w p \<longrightarrow> gv_published V w' p \<and> gv_tree V w' p = gv_tree V w p)) \<and>
     (\<forall>w. untouched V w (snd (gg_push G w)) \<and> (\<forall>p. gv_published V w p \<longrightarrow> gv_published V (snd (gg_push G w)) p)) \<and>
     (\<forall>p w w'. gg_reset_hard G p w = (None, w') \<longrightarrow> gv_index V w = gv_disk V w \<longrightarrow> clean G V w')"

definition file_laws :: "'g gogit \<Rightarrow> 'g git_view \<Rightarrow> bool" where
  "file_laws G V \<longleftrightarrow>
     (\<forall>p w. untouched V w (snd (os_mkdir_dir_of G p w))) \<and>
     (\<forall>p d w w'. clean_path p \<longrightarrow> os_write_file G p d w = (None, w') \<longrightarrow>
        gv_tree V w' = gv_tree V w \<and> gv_index V w' = gv_index V w \<and> gv_disk V w' = (gv_disk V w)(p \<mapsto> d)) \<and>
     (\<forall>p w w'. clean_path p \<longrightarrow> gg_add G p w = (None, w') \<longrightarrow>
        gv_tree V w' = gv_tree V w \<and> gv_index V w' = (gv_index V w)(p := gv_disk V w p) \<and> gv_disk V w' = gv_disk V w) \<and>
     (\<forall>p w r w'. canonical V w p \<longrightarrow> os_remove_all G p w = (r, w') \<longrightarrow> r = None \<or> err_is OsErrNotExist (the r) \<longrightarrow>
        gv_tree V w' = gv_tree V w \<and> gv_index V w' = gv_index V w \<and> gv_disk V w' = without p (gv_disk V w)) \<and>
     (\<forall>p w w'. canonical V w p \<longrightarrow> gg_remove G p w = (None, w') \<longrightarrow>
        gv_tree V w' = gv_tree V w \<and> gv_index V w' = (gv_index V w)(p := None) \<and> gv_disk V w' = (gv_disk V w)(p := None)) \<and>
     (\<forall>p w e w'. canonical V w p \<longrightarrow> gg_remove G p w = (Some e, w') \<longrightarrow> gv_index V w p = None \<and> untouched V w w')"

text \<open>
  Reading: what \<open>stat\<close>, a walk and a read say is on the disk; a path that the status does not list as
  changed is on the disk as in the head (no ignore rules apply).
\<close>

definition reading_laws :: "'g gogit \<Rightarrow> 'g git_view \<Rightarrow> bool" where
  "reading_laws G V \<longleftrightarrow>
     (\<forall>p w. os_stat_dir G p w = Inr False \<longrightarrow> gv_disk V w p \<noteq> None) \<and>
     (\<forall>p w q e. os_stat_dir G p w = Inl e \<longrightarrow> err_is OsErrNotExist e \<longrightarrow> q = p \<or> below p q \<longrightarrow> gv_disk V w q = None) \<and>
     (\<forall>p w files. os_walk G p w = (files, None) \<longrightarrow>
        distinct files \<and> set files = {q. gv_disk V w q \<noteq> None \<and> (q = p \<or> below p q)}) \<and>
     (\<forall>p w files e q. os_walk G p w = (files, Some e) \<longrightarrow> err_is OsErrNotExist e \<longrightarrow> q = p \<or> below p q \<longrightarrow> gv_disk V w q = None) \<and>
     (\<forall>p w. os_stat_dir G p w = Inr True \<longrightarrow> gv_disk V w p = None) \<and>
     (\<forall>p w d. os_read_file G p w = Inr d \<longrightarrow> gv_disk V w p = Some d) \<and>
     (\<forall>w st h p. gg_status G w = Inr st \<longrightarrow> gg_head G w = Inr h \<longrightarrow> (p, False) \<notin> set st \<longrightarrow>
        gv_disk V w p = gv_tree V w h p)"

lemma git_content_lawsD:
  assumes "git_content_laws G V"
  shows "clean G V w \<Longrightarrow> clean G V (snd (gg_pull G w))"
    and "gg_commit G msg w = (Inl e, w') \<Longrightarrow> err_is ErrEmptyCommit e \<Longrightarrow>
      untouched V w w' \<and> (\<forall>h. gg_head G w' = Inr h \<longrightarrow> gv_tree V w' h = gv_index V w)"
    and "head_ok G V w \<Longrightarrow> gg_commit G msg w = (Inr h, w') \<Longrightarrow>
      gv_index V w' = gv_index V w \<and> gv_disk V w' = gv_disk V w \<and> gv_tree V w' h = gv_index V w \<and>
      (\<forall>p. gv_published V w p \<longrightarrow> gv_published V w' p \<and> gv_tree V w' p = gv_tree V w p)"
    and "untouched V w (snd (gg_push G w)) \<and> (\<forall>p. gv_published V w p \<longrightarrow> gv_published V (snd (gg_push G w)) p)"
    and "gg_reset_hard G p w = (None, w') \<Longrightarrow> gv_index V w = gv_disk V w \<Longrightarrow> clean G V w'"
  by (insert assms, unfold git_content_laws_def) ((elim conjE, metis)+)

lemma file_lawsD:
  assumes "file_laws G V"
  shows "untouched V w (snd (os_mkdir_dir_of G p w))"
    and "clean_path p \<Longrightarrow> os_write_file G p d w = (None, w') \<Longrightarrow>
        gv_tree V w' = gv_tree V w \<and> gv_index V w' = gv_index V w \<and> gv_disk V w' = (gv_disk V w)(p \<mapsto> d)"
    and "clean_path p \<Longrightarrow> gg_add G p w = (None, w') \<Longrightarrow>
        gv_tree V w' = gv_tree V w \<and> gv_index V w' = (gv_index V w)(p := gv_disk V w p) \<and> gv_disk V w' = gv_disk V w"
    and "canonical V w p \<Longrightarrow> os_remove_all G p w = (r, w') \<Longrightarrow> r = None \<or> err_is OsErrNotExist (the r) \<Longrightarrow>
        gv_tree V w' = gv_tree V w \<and> gv_index V w' = gv_index V w \<and> gv_disk V w' = without p (gv_disk V w)"
    and "canonical V w p \<Longrightarrow> gg_remove G p w = (None, w') \<Longrightarrow>
        gv_tree V w' = gv_tree V w \<and> gv_index V w' = (gv_index V w)(p := None) \<and> gv_disk V w' = (gv_disk V w)(p := None)"
    and "canonical V w p \<Longrightarrow> gg_remove G p w = (Some e, w') \<Longrightarrow> gv_index V w p = None \<and> untouched V w w'"
  by (insert assms, unfold file_laws_def) ((elim conjE, metis)+)

subsection \<open>The preparations edit index and work tree alike\<close>

definition overlay :: "(string, bytes) gomap \<Rightarrow> (string \<Rightarrow> bytes option) \<Rightarrow> string \<Rightarrow> bytes option" where
  "overlay files m = (\<lambda>q. case mget files q of Some d \<Rightarrow> Some d | None \<Rightarrow> m q)"

lemma overlay_Nil [simp]: "overlay [] m = m"
  by (simp add: overlay_def)

lemma overlay_Cons: "p \<notin> fst ` set files \<Longrightarrow> overlay ((p, d) # files) m = overlay files (m(p \<mapsto> d))"
  by (rule ext) (auto simp: overlay_def split: option.split)

lemma write_and_stage_content:
  assumes laws: "file_laws G V"
  shows "write_and_stage G files w = (None, w') \<Longrightarrow> wf_map files \<Longrightarrow> list_all clean_path (mkeys files) \<Longrightarrow>
    gv_tree V w' = gv_tree V w \<and> gv_index V w' = overlay files (gv_index V w) \<and> gv_disk V w' = overlay files (gv_disk V w)"
proof (induction files arbitrary: w)
  case (Cons f files)
  obtain p d where f: "f = (p, d)" by force
  from Cons.prems(1) obtain w1 w2 w3 where ops: "os_mkdir_dir_of G p w = (None, w1)" "os_write_file G p d w1 = (None, w2)"
    "gg_add G p w2 = (None, w3)" and rest: "write_and_stage G files w3 = (None, w')"
    by (auto simp: f split: prod.splits option.splits)
  have p: "clean_path p" "p \<notin> fst ` set files" using Cons.prems by (auto simp: f)
  have w1: "untouched V w w1" using file_lawsD(1) [OF laws, of w p] ops(1) by simp
  have w3: "gv_tree V w3 = gv_tree V w \<and> gv_index V w3 = (gv_index V w)(p \<mapsto> d) \<and> gv_disk V w3 = (gv_disk V w)(p \<mapsto> d)"
    using file_lawsD(2) [OF laws p(1) ops(2)] file_lawsD(3) [OF laws p(1) ops(3)] w1 by (auto simp: untouched_def)
  have "wf_map files" "list_all clean_path (mkeys files)" using Cons.prems(2,3) by (simp_all add: f)
  from Cons.IH [OF rest this] show ?case unfolding f overlay_Cons [OF p(2)] conjunct1 [OF w3] conjunct1 [OF conjunct2 [OF w3]]
    conjunct2 [OF conjunct2 [OF w3]] .
qed simp

lemma fold_remove_content:
  assumes laws: "file_laws G V"
  shows "distinct ts \<Longrightarrow> list_all (\<lambda>t. clean_path t \<or> gv_index V w t \<noteq> None) ts \<Longrightarrow> list_all (\<lambda>t. gv_disk V w t = None) ts \<Longrightarrow>
    (let w' = fold (\<lambda>t w. snd (gg_remove G t w)) ts w in
     gv_tree V w' = gv_tree V w \<and> gv_index V w' = (\<lambda>q. if q \<in> set ts then None else gv_index V w q) \<and>
     gv_disk V w' = gv_disk V w)"
proof (induction ts arbitrary: w)
  case (Cons t ts)
  obtain r w1 where r: "gg_remove G t w = (r, w1)" by fastforce
  have can: "canonical V w t" using Cons.prems by (auto simp: canonical_def)
  have step: "gv_tree V w1 = gv_tree V w \<and> gv_index V w1 = (gv_index V w)(t := None) \<and> gv_disk V w1 = gv_disk V w"
  proof (cases r)
    case None
    show ?thesis using file_lawsD(5) [OF laws can r [unfolded None]] Cons.prems(3) by auto
  next
    case (Some e)
    show ?thesis using file_lawsD(6) [OF laws can r [unfolded Some]] by (auto simp: untouched_def)
  qed
  have pre: "list_all (\<lambda>t. clean_path t \<or> gv_index V w1 t \<noteq> None) ts" "list_all (\<lambda>t. gv_disk V w1 t = None) ts"
    using Cons.prems step by (auto simp: list_all_iff)
  from Cons.IH [OF _ pre] Cons.prems(1) step show ?case
    by (auto simp: r Let_def)
qed simp

lemma remove_path_content:
  assumes laws: "file_laws G V" and rp: "remove_path G path ts w = (None, w')"
    and agree: "gv_index V w = gv_disk V w" and can: "canonical V w path"
    and ts: "distinct ts" "list_all (\<lambda>t. clean_path t \<or> gv_index V w t \<noteq> None) ts"
    and gone: "\<And>q. without path (gv_disk V w) q = (if q \<in> set ts then None else gv_disk V w q)"
  shows "gv_tree V w' = gv_tree V w \<and> gv_index V w' = without path (gv_index V w) \<and> gv_disk V w' = gv_index V w'"
proof -
  obtain r w1 where r: "os_remove_all G path w = (r, w1)" by fastforce
  with rp have ok: "r = None \<or> err_is OsErrNotExist (the r)" and w': "w' = fold (\<lambda>t w. snd (gg_remove G t w)) ts w1"
    by (auto simp: remove_path_def split: option.splits if_splits)
  note w1 = file_lawsD(4) [OF laws can r ok]
  have disk: "list_all (\<lambda>t. gv_disk V w1 t = None) ts" using w1 gone by (simp add: list_all_iff)
  have idx: "list_all (\<lambda>t. clean_path t \<or> gv_index V w1 t \<noteq> None) ts" using w1 ts(2) by simp
  from fold_remove_content [OF laws ts(1) idx disk] w1 show ?thesis
    by (auto simp: w' Let_def agree gone fun_eq_iff)
qed

lemma reading_lawsD:
  assumes "reading_laws G V"
  shows "os_stat_dir G p w = Inr False \<Longrightarrow> gv_disk V w p \<noteq> None"
    and "os_stat_dir G p w = Inl e \<Longrightarrow> err_is OsErrNotExist e \<Longrightarrow> q = p \<or> below p q \<Longrightarrow> gv_disk V w q = None"
    and "os_walk G p w = (files, None) \<Longrightarrow>
      distinct files \<and> set files = {q. gv_disk V w q \<noteq> None \<and> (q = p \<or> below p q)}"
    and "os_walk G p w = (files, Some e) \<Longrightarrow> err_is OsErrNotExist e \<Longrightarrow> q = p \<or> below p q \<Longrightarrow> gv_disk V w q = None"
    and "os_stat_dir G p w = Inr True \<Longrightarrow> gv_disk V w p = None"
    and "os_read_file G p w = Inr d \<Longrightarrow> gv_disk V w p = Some d"
    and "gg_status G w = Inr st \<Longrightarrow> gg_head G w = Inr h \<Longrightarrow> (p, False) \<notin> set st \<Longrightarrow> gv_disk V w p = gv_tree V w h p"
  by (insert assms, unfold reading_laws_def)
    (elim conjE, metis, elim conjE, metis, elim conjE, blast, elim conjE, metis, elim conjE, metis, elim conjE, metis,
      elim conjE, metis)

lemma without_file: "m p \<noteq> None \<Longrightarrow> without p m q = (if q = p then None else m q)"
  by (auto simp: without_def)

lemma remove_extra_content:
  assumes laws: "file_laws G V"
  shows "remove_extra G org project service target paths deleted w = (Inr d, w') \<Longrightarrow> gv_index V w = gv_disk V w \<Longrightarrow>
    distinct paths \<Longrightarrow> list_all (\<lambda>p. gv_disk V w p \<noteq> None) paths \<Longrightarrow>
    gv_tree V w' = gv_tree V w \<and> gv_disk V w' = gv_index V w' \<and>
    gv_index V w' = (\<lambda>q. if q \<in> set paths \<and> mget target q = None \<and> service_relative_repo_path q org project service \<noteq> None
                        then None else gv_index V w q)"
proof (induction paths arbitrary: deleted w)
  case (Cons path paths)
  show ?case
  proof (cases "mget target path \<noteq> None \<or> service_relative_repo_path path org project service = None")
    case True
    then have "remove_extra G org project service target paths deleted w = (Inr d, w')" using Cons.prems(1) by (auto split: if_splits)
    from Cons.IH [OF this Cons.prems(2)] Cons.prems(3,4) True show ?thesis by (auto simp: fun_eq_iff)
  next
    case False
    then obtain rel where rel: "service_relative_repo_path path org project service = Some rel" "mget target path = None" by auto
    with Cons.prems(1) obtain w1 where rp: "remove_path G path [path] w = (None, w1)"
      and rest: "remove_extra G org project service target paths (deleted @ [rel]) w1 = (Inr d, w')"
      by (auto split: prod.splits option.splits)
    have on: "gv_disk V w path \<noteq> None" using Cons.prems(4) by simp
    then have can: "canonical V w path" by (simp add: canonical_def)
    have "gv_tree V w1 = gv_tree V w \<and> gv_index V w1 = without path (gv_index V w) \<and> gv_disk V w1 = gv_index V w1"
      by (rule remove_path_content [OF laws rp Cons.prems(2) can]) (use on Cons.prems(2) in \<open>auto simp: without_file\<close>)
    moreover have "without path (gv_index V w) = (\<lambda>q. if q = path then None else gv_index V w q)"
      using on Cons.prems(2) by (simp add: without_file fun_eq_iff)
    ultimately have w1: "gv_tree V w1 = gv_tree V w" "gv_index V w1 = (\<lambda>q. if q = path then None else gv_index V w q)"
      "gv_index V w1 = gv_disk V w1" by auto
    have "list_all (\<lambda>p. gv_disk V w1 p \<noteq> None) paths"
      using Cons.prems(2,3,4) w1 by (auto simp: list_all_iff)
    from Cons.IH [OF rest w1(3) _ this] Cons.prems(3) w1 rel show ?thesis by (auto simp: fun_eq_iff)
  qed
qed simp

lemma removal_targets_content:
  assumes laws: "reading_laws G V" and found: "removal_targets G path w = Inr found"
    and ts: "ts = (if length found = 0 then [path] else found)"
  shows "distinct ts \<and> list_all (\<lambda>t. t = path \<or> gv_disk V w t \<noteq> None) ts \<and>
    (\<forall>q. without path (gv_disk V w) q = (if q \<in> set ts then None else gv_disk V w q))"
proof (cases "os_stat_dir G path w")
  case (Inl e)
  with found have e: "err_is OsErrNotExist e" "found = []" by (auto simp: removal_targets_def split: if_splits)
  show ?thesis using reading_lawsD(2) [OF laws Inl e(1)] e(2) by (auto simp: ts without_def)
next
  case (Inr is_dir)
  show ?thesis
  proof (cases is_dir)
    case False
    with found Inr have "found = [path]" by (simp add: removal_targets_def)
    then show ?thesis using reading_lawsD(1) [OF laws, of path w] Inr False by (auto simp: ts without_file)
  next
    case True
    with found Inr have walk: "os_walk G path w = (found, None)"
      by (auto simp: removal_targets_def split: prod.splits option.splits)
    note files = reading_lawsD(3) [OF laws walk]
    note dir = reading_lawsD(5) [OF laws Inr [unfolded True [THEN eqTrueI]]]
    show ?thesis
    proof (cases "found = []")
      case True
      then have "\<And>q. q = path \<or> below path q \<Longrightarrow> gv_disk V w q = None" using files by auto
      then show ?thesis using True by (auto simp: ts without_def)
    next
      case False
      then show ?thesis using files dir by (auto simp: ts without_def list_all_iff)
    qed
  qed
qed

lemma delete_each_content:
  assumes laws: "file_laws G V" and reading: "reading_laws G V"
  shows "delete_each G paths deleted w = (Inr d, w') \<Longrightarrow> gv_index V w = gv_disk V w \<Longrightarrow> list_all clean_path paths \<Longrightarrow>
    gv_tree V w' = gv_tree V w \<and> gv_disk V w' = gv_index V w' \<and> gv_index V w' = fold without paths (gv_index V w)"
proof (induction paths arbitrary: deleted w)
  case (Cons path paths)
  from Cons.prems(1) obtain found ts w1 deleted' where found: "removal_targets G path w = Inr found"
    and ts: "ts = (if length found = 0 then [path] else found)" and rp: "remove_path G path ts w = (None, w1)"
    and rest: "delete_each G paths deleted' w1 = (Inr d, w')"
    by (auto simp: Let_def split: sum.splits prod.splits option.splits)
  note tc = removal_targets_content [OF reading found ts]
  have can: "canonical V w path" and clean: "clean_path path" using Cons.prems(3) by (simp_all add: canonical_def)
  have idx: "list_all (\<lambda>t. clean_path t \<or> gv_index V w t \<noteq> None) ts"
    using tc clean Cons.prems(2) by (auto simp: list_all_iff)
  have "gv_tree V w1 = gv_tree V w \<and> gv_index V w1 = without path (gv_index V w) \<and> gv_disk V w1 = gv_index V w1"
    by (rule remove_path_content [OF laws rp Cons.prems(2) can _ idx]) (use tc in auto)
  with Cons.IH [OF rest] Cons.prems(3) show ?case by simp
qed simp

subsection \<open>The publish loop\<close>

lemma sync_clean: "git_content_laws G V \<Longrightarrow> clean G V w \<Longrightarrow> clean G V (snd (sync G label w))"
  using git_content_lawsD(1) [of G V w] by (auto simp: sync_def do_pull_def split: prod.splits option.splits)

lemma reset_to_parent_clean:
  assumes "git_content_laws G V" and "gv_index V w = gv_disk V w" and "reset_to_parent G w = (None, w')"
  shows "clean G V w'"
proof -
  from assms(3) obtain p where "gg_reset_hard G p w = (None, w')"
    by (auto simp: reset_to_parent_def split: sum.splits)
  from git_content_lawsD(5) [OF assms(1) this assms(2)] show ?thesis .
qed

lemma publish_loop_content:
  assumes laws: "remote_laws G V" and content: "git_content_laws G V" and resets: "resets_succeed G"
    and prep: "\<And>w. same_remote G V w (snd (prepare w))"
    and edit: "\<And>w r w'. clean G V w \<Longrightarrow> prepare w = (Inr r, w') \<Longrightarrow>
      gv_tree V w' = gv_tree V w \<and> gv_disk V w' = gv_index V w' \<and> P r (gv_index V w) (gv_index V w')"
  shows "head_ok G V w \<Longrightarrow> clean G V w \<Longrightarrow> publish_loop G L msg prepare noop n w = (Inr (h, r'), w') \<Longrightarrow>
    \<exists>p r. gv_published V w' p \<and> r' \<in> {r, noop r} \<and> P r (gv_tree V w' p) (gv_tree V w' h)"
proof (induction n arbitrary: w)
  case (Suc n)
  from Suc.prems(3) obtain w1 r w2 c w3 where s: "sync G (pl_pull L) w = (None, w1)" and p: "prepare w1 = (Inr r, w2)"
    and c: "gg_commit G msg w2 = (c, w3)"
    by (auto split: prod.splits option.splits sum.splits)
  have ok1: "head_ok G V w1" and cl1: "clean G V w1"
    using sync_keeps_head [OF laws Suc.prems(1), of "pl_pull L"] sync_clean [OF content Suc.prems(2), of "pl_pull L"]
    by (simp_all add: s)
  then obtain hd where hd: "gg_head G w1 = Inr hd" "gv_published V w1 hd" "gv_tree V w1 hd = gv_index V w1"
    by (auto simp: head_ok_def clean_def split: sum.splits)
  note e2 = edit [OF cl1 p]
  have s2: "same_remote G V w1 w2" using prep [of w1] by (simp add: p)
  have ok2: "head_ok G V w2" using ok1 same_remote_head_ok [OF s2] by blast
  have hd2: "gg_head G w2 = Inr hd" "gv_published V w2 hd" using s2 hd by (simp_all add: same_remote_def)
  have t2: "gv_tree V w2 hd = gv_index V w1" using e2 hd by simp
  show ?case
  proof (cases c)
    case (Inl e)
    have same: "same_remote G V w2 w3" by (rule remote_lawsD(2) [OF laws ok2 c [unfolded Inl]])
    then have hd3: "gg_head G w3 = Inr hd" "gv_published V w3 hd" using hd2 by (simp_all add: same_remote_def)
    from Suc.prems(3) have empty: "err_is ErrEmptyCommit e" by (simp add: s p c Inl split: if_splits)
    then have res: "h = hd" "r' = noop r" "w' = w3" using Suc.prems(3) by (auto simp: s p c Inl head_hash_def hd3)
    from git_content_lawsD(2) [OF content c [unfolded Inl] empty] hd3(1)
    have "gv_tree V w3 hd = gv_index V w2" "gv_tree V w3 hd = gv_index V w1" using t2 by (auto simp: untouched_def)
    with e2 res hd3(2) show ?thesis by (intro exI [of _ hd] exI [of _ r]) simp
  next
    case (Inr h1)
    note top = remote_lawsD(3) [OF laws ok2 c [unfolded Inr]]
    note c3 = git_content_lawsD(3) [OF content ok2 c [unfolded Inr]]
    obtain pe w4 where push: "gg_push G w3 = (pe, w4)" by fastforce
    have p4: "untouched V w3 w4" "gv_published V w4 hd"
      using git_content_lawsD(4) [OF content, of w3] c3 hd2 by (auto simp: push)
    show ?thesis
    proof (cases pe)
      case None
      with Suc.prems(3) have "h = h1" "r' = r" "w' = w4" by (auto simp: s p c Inr push)
      with p4 c3 e2 t2 hd2 show ?thesis by (intro exI [of _ hd] exI [of _ r]) (simp add: untouched_def)
    next
      case (Some e)
      with Suc.prems(3) obtain w5 where w5: "reset_to_parent G w4 = (None, w5)"
        and rest: "publish_loop G L msg prepare noop n w5 = (Inr (h, r'), w')"
        by (auto simp: s p c Inr push split: if_splits prod.splits option.splits)
      have top4: "on_top G V h1 w4" using remote_lawsD(5) [OF laws conjunct1 [OF top] push [unfolded Some]] by blast
      have "head_ok G V w5" using reset_to_parent_publishes [OF laws resets top4] w5 by auto
      moreover have "clean G V w5"
        by (rule reset_to_parent_clean [OF content _ w5]) (use p4 c3 e2 in \<open>simp add: untouched_def\<close>)
      ultimately show ?thesis by (rule Suc.IH [OF _ _ rest])
    qed
  qed
qed simp

subsection \<open>The effects\<close>

definition git_laws :: "'g gogit \<Rightarrow> 'g git_view \<Rightarrow> bool" where
  "git_laws G V \<longleftrightarrow> remote_laws G V \<and> git_content_laws G V \<and> resets_succeed G \<and> file_laws G V \<and> reading_laws G V"

lemma git_lawsD:
  assumes "git_laws G V"
  shows "remote_laws G V" and "git_content_laws G V" and "resets_succeed G" and "file_laws G V" and "reading_laws G V"
  using assms by (simp_all add: git_laws_def)

lemma clean_agrees: "clean G V w \<Longrightarrow> gv_index V w = gv_disk V w"
  by (simp add: clean_def)

lemma commit_content:
  assumes "git_laws G V" and "head_ok G V w" and "clean G V w"
    and "\<And>reader files v. build reader = Inr (files, v) \<Longrightarrow> wf_map files \<and> list_all clean_path (mkeys files)"
    and "commit_and_push_func G msg build w = ((Inr h, written), w')"
  shows "\<exists>p reader files. gv_published V w' p \<and> build reader = Inr (files, written) \<and>
    gv_tree V w' h = overlay files (gv_tree V w' p)"
proof -
  note laws = git_lawsD [OF assms(1)]
  let ?P = "\<lambda>written m m'. \<exists>reader files. build reader = Inr (files, written) \<and> m' = overlay files m"
  have edit: "gv_tree V w' = gv_tree V w \<and> gv_disk V w' = gv_index V w' \<and> ?P r (gv_index V w) (gv_index V w')"
    if "clean G V w" "prepare_commit G build w = (Inr r, w')" for w r w'
  proof -
    from that(2) obtain reader files where b: "build reader = Inr (files, r)" and ws: "write_and_stage G files w = (None, w')"
      by (auto simp: prepare_commit_def split: sum.splits option.splits prod.splits)
    from write_and_stage_content [OF laws(4) ws] assms(4) [OF b] clean_agrees [OF that(1)] b show ?thesis by auto
  qed
  have "publish_loop G commit_labels msg (prepare_commit G build) (\<lambda>written. written) max_push_retries w = (Inr (h, written), w')"
    using assms(5) by (auto simp: commit_and_push_func_def split: prod.splits sum.splits)
  from publish_loop_content [where P = ?P, OF laws(1,2,3) prepare_commit_same_remote [OF laws(1)] edit assms(2,3) this]
  show ?thesis by auto
qed


text \<open>A deletion removes exactly what it was asked to: when it answers a hash, the tree of that hash is the tree of a
  commit of the remote branch without the given files and directories.\<close>
theorem delete_is_parent_minus_paths:
  assumes "git_laws G V" and "head_ok G V w" and "clean G V w" and "list_all clean_path paths"
    and "delete_and_push G msg paths w = (Inr (h, deleted), w')"
  shows "\<exists>p. gv_published V w' p \<and> gv_tree V w' h = fold without paths (gv_tree V w' p)"
proof -
  note laws = git_lawsD [OF assms(1)]
  let ?prep = "\<lambda>w. case gg_worktree G w of Some e \<Rightarrow> (Inl e, w) | None \<Rightarrow> delete_each G paths [] w"
  have edit: "gv_tree V w' = gv_tree V w \<and> gv_disk V w' = gv_index V w' \<and> gv_index V w' = fold without paths (gv_index V w)"
    if "clean G V w" "?prep w = (Inr r, w')" for w r w'
  proof -
    from that(2) have "delete_each G paths [] w = (Inr r, w')" by (simp split: option.splits)
    from delete_each_content [OF laws(4,5) this clean_agrees [OF that(1)] assms(4)] show ?thesis by blast
  qed
  have remote: "same_remote G V w (snd (?prep w))" for w
    using delete_each_same_remote [OF laws(1)] by (simp split: option.split)
  from publish_loop_content [where P = "\<lambda>_ m m'. m' = fold without paths m", OF laws(1,2,3) remote edit assms(2,3)
    assms(5) [unfolded delete_and_push_def]]
  show ?thesis by auto
qed

lemma service_file_below:
  assumes "clean_path q" and "classify_service_file_change q org project service \<noteq> None"
  shows "below (service_config_root org project service) q \<and> service_relative_repo_path q org project service \<noteq> None"
  using assms by (auto simp: clean_path_def classify_service_file_change_def service_relative_repo_path_def Let_def
      split: if_splits)

lemma wf_normalize_repo_files: "wf_map (normalize_repo_files files)"
proof -
  have "wf_map m \<Longrightarrow> wf_map (fold (\<lambda>(path, data). mput (trim_slashes (path_clean path)) data) files m)" for m :: "(string, bytes) gomap"
    by (induction files arbitrary: m) auto
  then show ?thesis by (simp add: normalize_repo_files_def)
qed

lemma service_files_on_disk:
  assumes "reading_laws G V" and "service_files_in_worktree G org project service w = Inr current"
  shows "distinct current \<and> list_all (\<lambda>p. gv_disk V w p \<noteq> None) current \<and>
    (\<forall>q. below (service_config_root org project service) q \<longrightarrow> classify_service_file_change q org project service \<noteq> None \<longrightarrow>
       q \<notin> set current \<longrightarrow> gv_disk V w q = None)"
proof -
  obtain files err where walk: "os_walk G (service_config_root org project service) w = (files, err)" by fastforce
  show ?thesis
  proof (cases err)
    case None
    with assms(2) walk have "current = sort (filter (\<lambda>p. classify_service_file_change p org project service \<noteq> None) files)"
      by (simp add: service_files_in_worktree_def)
    with reading_lawsD(3) [OF assms(1) walk [unfolded None]] show ?thesis by (auto simp: list_all_iff)
  next
    case (Some e)
    with assms(2) walk have "err_is OsErrNotExist e" "current = []"
      by (auto simp: service_files_in_worktree_def split: if_splits)
    with reading_lawsD(4) [OF assms(1) walk [unfolded Some]] show ?thesis by auto
  qed
qed


subsection \<open>The snapshot\<close>

lemma read_all_content:
  assumes "reading_laws G V"
  shows "read_all G paths w = Inr files \<Longrightarrow> mkeys files = paths \<and> (\<forall>p. p \<in> set paths \<longrightarrow> mget files p = gv_disk V w p)"
proof (induction paths arbitrary: files)
  case (Cons path paths)
  from Cons.prems obtain data rest where "os_read_file G path w = Inr data" "read_all G paths w = Inr rest"
    "files = (path, data) # rest" by (auto split: sum.splits)
  with Cons.IH reading_lawsD(6) [OF assms, of path w] show ?case by auto
qed simp

text \<open>A snapshot is its commit: when it answers a hash and files, the hash is the head and the files below configs/ are,
  names and contents, those of the tree of that hash.\<close>
theorem snapshot_is_commit_content:
  assumes "reading_laws G V" and "repo_snapshot G w = Inr (h, files)"
  shows "gg_head G w = Inr h \<and> (\<forall>p. below ''configs'' p \<longrightarrow> mget files p = gv_tree V w h p)"
proof -
  from assms(2) have hd: "gg_head G w = Inr h" and ok: "assert_configs_clean_unlocked G w = None"
    and walk: "walk_configs_unlocked G w = Inr files"
    by (auto simp: repo_snapshot_def head_hash_def split: sum.splits option.splits)
  from ok obtain st where st: "gg_status G w = Inr st"
    and unmod: "filter (\<lambda>(path, unmodified). has_prefix path ''configs/'' \<and> \<not> unmodified) st = []"
    by (auto simp: assert_configs_clean_unlocked_def Let_def split: option.splits sum.splits if_splits)
  have disk: "gv_disk V w p = gv_tree V w h p" if "below ''configs'' p" for p
    by (rule reading_lawsD(7) [OF assms(1) st hd]) (use unmod that in \<open>auto simp: filter_empty_conv\<close>)
  have "mget files p = gv_disk V w p" if p: "below ''configs'' p" for p
  proof (cases "os_walk G ''configs'' w")
    case (Pair names err)
    show ?thesis
    proof (cases "\<exists>e. os_stat_dir G ''configs'' w = Inl e \<and> err_is OsErrNotExist e")
      case True
      with walk have "files = []" by (auto simp: walk_configs_unlocked_def)
      moreover from True reading_lawsD(2) [OF assms(1), of "''configs''" w] p have "gv_disk V w p = None" by blast
      ultimately show ?thesis by simp
    next
      case False
      with walk Pair have "read_all G names w = Inr files" "err = None"
        by (auto simp: walk_configs_unlocked_def split: sum.splits option.splits if_splits)
      note names = read_all_content [OF assms(1) this(1)]
      have walked: "set names = {q. gv_disk V w q \<noteq> None \<and> (q = ''configs'' \<or> below ''configs'' q)}"
        using reading_lawsD(3) [OF assms(1)] Pair \<open>err = None\<close> by blast
      show ?thesis
      proof (cases "p \<in> set names")
        case False
        then have "p \<notin> fst ` set files" using names by (metis image_set)
        with False walked p show ?thesis by simp
      qed (use names in blast)
    qed
  qed
  with disk hd show ?thesis by simp
qed

subsection \<open>The in-memory repository keeps the laws\<close>

lemma mem_hash_fresh [simp]: "mem_hash w \<notin> set (mg_remote w)"
proof
  assume "mem_hash w \<in> set (mg_remote w)"
  then have "length (mem_hash w) \<le> sum_list (map length (mg_remote w))" by (simp add: member_le_sum_list)
  then show False by (auto simp: mem_hash_def)
qed

lemma mem_content_laws: "git_content_laws mem_gogit mem_view"
  unfolding git_content_laws_def
  by (auto simp: mem_gogit_def mem_view_def clean_def untouched_def mem_tree_def mem_hash_fresh
      split: if_splits nat.split)

lemma mget_not_below: "mget (filter (\<lambda>(q, d). \<not> below p q) m) q = (if below p q then None else mget m q)"
  by (induction m) (auto split: if_splits)

lemma mem_file_laws: "file_laws mem_gogit mem_view"
proof -
  have mkdir: "untouched mem_view w (snd (os_mkdir_dir_of mem_gogit p w))" for p w
    by (simp add: mem_gogit_def untouched_def)
  have writes: "gv_tree mem_view w' = gv_tree mem_view w \<and> gv_index mem_view w' = gv_index mem_view w \<and>
    gv_disk mem_view w' = (gv_disk mem_view w)(p \<mapsto> d)" if "os_write_file mem_gogit p d w = (None, w')" for p d w w'
    using that by (auto simp: mem_gogit_def mem_view_def mem_tree_def)
  have adds: "gv_tree mem_view w' = gv_tree mem_view w \<and> gv_index mem_view w' = (gv_index mem_view w)(p := gv_disk mem_view w p) \<and>
    gv_disk mem_view w' = gv_disk mem_view w" if "gg_add mem_gogit p w = (None, w')" for p w w'
    using that by (auto simp: mem_gogit_def mem_view_def mem_tree_def split: option.splits)
  have clears: "gv_tree mem_view w' = gv_tree mem_view w \<and> gv_index mem_view w' = gv_index mem_view w \<and>
    gv_disk mem_view w' = without p (gv_disk mem_view w)" if "os_remove_all mem_gogit p w = (r, w')" for p w r w'
    using that by (auto simp: mem_gogit_def mem_view_def mem_tree_def without_def fun_eq_iff mget_not_below)
  have removes: "gv_tree mem_view w' = gv_tree mem_view w \<and> gv_index mem_view w' = (gv_index mem_view w)(p := None) \<and>
    gv_disk mem_view w' = (gv_disk mem_view w)(p := None)" if "gg_remove mem_gogit p w = (None, w')" for p w w'
    using that by (auto simp: mem_gogit_def mem_view_def mem_tree_def split: option.splits)
  have absent: "gv_index mem_view w p = None \<and> untouched mem_view w w'" if "gg_remove mem_gogit p w = (Some e, w')" for p w e w'
    using that by (auto simp: mem_gogit_def mem_view_def untouched_def split: option.splits)
  show ?thesis unfolding file_laws_def
    by (intro conjI allI) (use mkdir writes adds clears removes absent in blast)+
qed

lemma mem_status:
  assumes "gg_status mem_gogit w = Inr st" and "(p, False) \<notin> set st"
  shows "mget (mg_disk w) p = mget (mem_tree w (mg_head w)) p"
proof (cases "p \<in> fst ` set (mg_disk w) \<union> fst ` set (mem_tree w (mg_head w))")
  case True
  then have "p \<in> set (mkeys (mg_disk w) @ mkeys (mg_index w) @ mkeys (mem_tree w (mg_head w)))" by auto
  with assms show ?thesis by (fastforce simp: mem_gogit_def simp del: set_append map_append)
qed simp

lemma mem_reading_laws: "reading_laws mem_gogit mem_view"
proof -
  have plain: "\<forall>p w. os_stat_dir mem_gogit p w = Inr False \<longrightarrow> gv_disk mem_view w p \<noteq> None"
    by (auto simp: mem_gogit_def mem_view_def split: if_splits)
  have absent: "\<forall>p w q e. os_stat_dir mem_gogit p w = Inl e \<longrightarrow> err_is OsErrNotExist e \<longrightarrow> q = p \<or> below p q \<longrightarrow>
    gv_disk mem_view w q = None"
    by (auto simp: mem_gogit_def mem_view_def list_ex_iff mget_None_iff split: if_splits)
  have walk: "\<forall>p w files. os_walk mem_gogit p w = (files, None) \<longrightarrow>
    distinct files \<and> set files = {q. gv_disk mem_view w q \<noteq> None \<and> (q = p \<or> below p q)}"
    by (auto simp: mem_gogit_def mem_view_def dom_mget [symmetric])
  have walk_ok: "\<forall>p w files e q. os_walk mem_gogit p w = (files, Some e) \<longrightarrow> err_is OsErrNotExist e \<longrightarrow> q = p \<or> below p q \<longrightarrow>
    gv_disk mem_view w q = None"
    by (simp add: mem_gogit_def)
  have dir: "\<forall>p w. os_stat_dir mem_gogit p w = Inr True \<longrightarrow> gv_disk mem_view w p = None"
    by (auto simp: mem_gogit_def mem_view_def split: if_splits)
  have read: "\<forall>p w d. os_read_file mem_gogit p w = Inr d \<longrightarrow> gv_disk mem_view w p = Some d"
    by (simp add: mem_gogit_def mem_view_def split: option.splits)
  have status: "\<forall>w st h p. gg_status mem_gogit w = Inr st \<longrightarrow> gg_head mem_gogit w = Inr h \<longrightarrow> (p, False) \<notin> set st \<longrightarrow>
    gv_disk mem_view w p = gv_tree mem_view w h p"
  proof (intro allI impI)
    fix w st h p
    assume st: "gg_status mem_gogit w = Inr st" "gg_head mem_gogit w = Inr h" "(p, False) \<notin> set st"
    from mem_status [OF st(1,3)] st(2) show "gv_disk mem_view w p = gv_tree mem_view w h p"
      by (simp add: mem_view_def mem_gogit_def)
  qed
  show ?thesis unfolding reading_laws_def by (intro conjI plain absent walk walk_ok dir read status)
qed

lemma mem_git_laws: "git_laws mem_gogit mem_view"
  by (simp add: git_laws_def mem_remote_laws mem_content_laws mem_resets_succeed mem_file_laws mem_reading_laws)

lemma run_pair: "fst t = r \<Longrightarrow> t = (r, snd t)"
  by auto

lemma mem_world_clean: "clean mem_gogit mem_view (mem_world files)"
  by (simp add: clean_def mem_gogit_def mem_view_def mem_world_def mem_tree_def)


lemma mem_delete_run:
  "fst (delete_and_push mem_gogit ''m'' [''a''] (mem_world [(''a/b'', ''x''), (''c'', ''y'')])) = Inr (''ccc'', [''a/b''])"
  by code_simp

theorem delete_is_parent_minus_paths_witness:
  "\<exists>p. gv_published mem_view (snd (delete_and_push mem_gogit ''m'' [''a''] (mem_world [(''a/b'', ''x''), (''c'', ''y'')]))) p \<and>
    gv_tree mem_view (snd (delete_and_push mem_gogit ''m'' [''a''] (mem_world [(''a/b'', ''x''), (''c'', ''y'')]))) ''ccc'' =
    without ''a'' (gv_tree mem_view (snd (delete_and_push mem_gogit ''m'' [''a''] (mem_world [(''a/b'', ''x''), (''c'', ''y'')]))) p)"
proof -
  have "list_all clean_path [''a'']" by code_simp
  from delete_is_parent_minus_paths [OF mem_git_laws mem_world_head_ok mem_world_clean this
    run_pair [OF mem_delete_run]] show ?thesis by simp
qed

definition mem_config :: string where
  "mem_config = ''configs/orgs/o/projects/p/services/s/config.yaml''"

lemma mem_restore_run:
  "fst (restore_service_files_and_push mem_gogit ''m'' ''o'' ''p'' ''s'' [(mem_config, ''new'')]
     (mem_world [(mem_config, ''old''), (''configs/orgs/o/projects/p/services/s/secrets.yaml'', ''z'')])) =
   Inr (''ccc'', [''secrets.yaml''])"
  by code_simp


lemma mem_snapshot_run: "repo_snapshot mem_gogit (mem_world [(mem_config, ''x'')]) = Inr (''c'', [(mem_config, ''x'')])"
  by code_simp

theorem snapshot_is_commit_content_witness:
  "gg_head mem_gogit (mem_world [(mem_config, ''x'')]) = Inr ''c''"
  using snapshot_is_commit_content [OF mem_reading_laws mem_snapshot_run] by blast

text \<open>
  A commit whose second file cannot be written answers the error but keeps the first file in the work tree
  and staged (there is no reset on this path), and the next snapshot refuses the dirty tree.
\<close>

definition full_disk :: "mem_git gogit" where
  "full_disk = mem_gogit\<lparr>os_write_file := (\<lambda>p d w.
     if p = ''configs/b'' then (Some (errf [''no space left on device'']), w)
     else (None, w\<lparr>mg_disk := mput p d (mg_disk w)\<rparr>))\<rparr>"

lemma failed_write_leaves_dirty_tree:
  "case commit_and_push full_disk ''m'' [(''configs/a'', ''x''), (''configs/b'', ''y'')] (mem_world []) of
     (r, w') \<Rightarrow> isl r \<and> isl (repo_snapshot full_disk w') \<and> \<not> isl (repo_snapshot full_disk (mem_world []))"
  by code_simp

end
