(* ===== verification/SecretVolume.thy ===== *)
theory SecretVolume
  imports Sealed Paths "HOL-Library.Word"
begin

text \<open>
  The reader of mounted secrets (internal/secret/volume.go). Plaintext lives in byte slices that are shared
  by reference and zeroed in place, so the model keeps them in explicit cells: a value is the address
  of its cell, \<open>NewValue\<close> and \<open>Bytes\<close> allocate, \<open>Destroy\<close> and \<open>zeroBytes\<close> overwrite. The file system,
  the context and the watcher (fsnotify) are parameters; an event that \<open>sendVolumeEvent\<close> offers is
  taken (after a cancellation it may be dropped).
\<close>

unbundle bit_operations_syntax

subsection \<open>Memory\<close>

record vmem =
  vm_cells :: "nat \<Rightarrow> bytes"
  vm_next :: nat

definition valloc :: "bytes \<Rightarrow> vmem \<Rightarrow> nat \<times> vmem" where
  "valloc data m = (vm_next m, m\<lparr>vm_cells := (vm_cells m)(vm_next m := data), vm_next := Suc (vm_next m)\<rparr>)"

definition zero_bytes :: "nat \<Rightarrow> vmem \<Rightarrow> vmem" where
  "zero_bytes a m = m\<lparr>vm_cells := (vm_cells m)(a := map (\<lambda>_. CHR 0x00) (vm_cells m a))\<rparr>"

text \<open>\<open>NewValue(v.Bytes())\<close>: two copies, of which the second is the value\<close>

definition copy_value :: "nat \<Rightarrow> vmem \<Rightarrow> nat \<times> vmem" where
  "copy_value a m = (let (tmp, m) = valloc (vm_cells m a) m in valloc (vm_cells m tmp) m)"

subsection \<open>The reader\<close>

record reference =
  rf_id :: string
  rf_namespace :: string
  rf_name :: string
  rf_key :: string

record volume_reader =
  vr_mount :: string
  vr_cache :: "(reference, nat) gomap"

record fs_event =
  fe_name :: string
  fe_op :: "32 word"

record 'w vol_env =
  ve_ctx_err :: "'w \<Rightarrow> goerr option \<times> 'w"
  ve_read_file :: "string \<Rightarrow> 'w \<Rightarrow> (goerr + bytes) \<times> 'w"
  ve_new_watcher :: "'w \<Rightarrow> goerr option \<times> 'w"
  ve_watcher_add :: "string \<Rightarrow> 'w \<Rightarrow> goerr option \<times> 'w"
  ve_remove_flag :: "32 word"

type_synonym 'w vol_state = "volume_reader \<times> vmem \<times> 'w"

definition new_file_volume_reader :: "string \<Rightarrow> goerr + volume_reader" where
  "new_file_volume_reader mount_path =
     (if mount_path = [] then Inl (errf [''secret mount path is required''])
      else if \<not> has_prefix mount_path ''/''
      then Inl (errf [''secret mount path must be absolute, got '', quote mount_path])
      else Inr \<lparr>vr_mount = path_clean mount_path, vr_cache = []\<rparr>)"

definition validate_reference :: "reference \<Rightarrow> goerr option" where
  "validate_reference ref =
     or_err (if rf_id ref = [] then Some (errf [''secret id is required'']) else None)
     (or_err (validate_path_segment ''namespace'' (rf_namespace ref))
     (or_err (validate_path_segment ''name'' (rf_name ref))
             (validate_path_segment ''key'' (rf_key ref))))"

text \<open>\<open>filepath.Rel\<close> of clean paths, by their components\<close>

definition path_comps :: "string \<Rightarrow> string list" where
  "path_comps s = filter (\<lambda>c. c \<noteq> []) (split_on slash (if s = ''.'' then [] else s))"

fun strip_common :: "string list \<Rightarrow> string list \<Rightarrow> string list \<times> string list" where
  "strip_common (b # bs) (t # ts) = (if b = t then strip_common bs ts else (b # bs, t # ts))"
| "strip_common bs ts = (bs, ts)"

definition filepath_rel :: "string \<Rightarrow> string \<Rightarrow> goerr + string" where
  "filepath_rel basepath targpath =
     (let base = path_clean basepath; targ = path_clean targpath in
      if targ = base then Inr ''.''
      else if has_prefix base ''/'' \<noteq> has_prefix targ ''/''
      then Inl (errf [''Rel: can't make '', targpath, '' relative to '', basepath])
      else
        (case strip_common (path_comps base) (path_comps targ) of
           ([], ts) \<Rightarrow> Inr (join ''/'' ts)
         | (b # bs, ts) \<Rightarrow>
             if b = ''..'' then Inl (errf [''Rel: can't make '', targpath, '' relative to '', basepath])
             else Inr (join ''/'' (replicate (length (b # bs)) ''..'' @ ts))))"

definition volume_path :: "volume_reader \<Rightarrow> reference \<Rightarrow> goerr + string" where
  "volume_path r ref =
     (case validate_reference ref of
        Some e \<Rightarrow> Inl e
      | None \<Rightarrow>
          (let path = path_join [vr_mount r, rf_namespace ref, rf_name ref, rf_key ref] in
           case filepath_rel (vr_mount r) path of
             Inl e \<Rightarrow> Inl (wrapf [''resolve mounted secret path''] e)
           | Inr rel \<Rightarrow>
               if rel = ''.'' \<or> has_prefix rel ''../'' \<or> rel = ''..''
               then Inl (errf [''mounted secret path escapes mount root: '', rf_namespace ref, ''/'', rf_name ref, ''/'', rf_key ref])
               else Inr path))"

definition refresh_value :: "'w vol_env \<Rightarrow> reference \<Rightarrow> 'w vol_state \<Rightarrow> (goerr + nat) \<times> 'w vol_state" where
  "refresh_value E ref = (\<lambda>(r, m, w).
     case ve_ctx_err E w of
       (Some e, w) \<Rightarrow> (Inl e, r, m, w)
     | (None, w) \<Rightarrow>
         (case volume_path r ref of
            Inl e \<Rightarrow> (Inl e, r, m, w)
          | Inr path \<Rightarrow>
              (case ve_read_file E path w of
                 (Inl e, w) \<Rightarrow>
                   (Inl (wrapf [''read mounted secret '', rf_namespace ref, ''/'', rf_name ref, ''/'', rf_key ref] e), r, m, w)
               | (Inr data, w) \<Rightarrow>
                   (let (raw, m) = valloc data m in
                    case ve_ctx_err E w of
                      (Some e, w) \<Rightarrow> (Inl e, r, zero_bytes raw m, w)
                    | (None, w) \<Rightarrow>
                        (let (nxt, m) = valloc (vm_cells m raw) m;
                             m = (case mget (vr_cache r) ref of Some old \<Rightarrow> zero_bytes old m | None \<Rightarrow> m);
                             r = r\<lparr>vr_cache := mput ref nxt (vr_cache r)\<rparr>;
                             (out, m) = copy_value nxt m
                         in (Inr out, r, zero_bytes raw m, w))))))"

definition read_value :: "'w vol_env \<Rightarrow> reference \<Rightarrow> 'w vol_state \<Rightarrow> (goerr + nat) \<times> 'w vol_state" where
  "read_value E ref = (\<lambda>(r, m, w).
     case ve_ctx_err E w of
       (Some e, w) \<Rightarrow> (Inl e, r, m, w)
     | (None, w) \<Rightarrow>
         (case validate_reference ref of
            Some e \<Rightarrow> (Inl e, r, m, w)
          | None \<Rightarrow>
              (case mget (vr_cache r) ref of
                 Some v \<Rightarrow> (let (out, m) = copy_value v m in (Inr out, r, m, w))
               | None \<Rightarrow> refresh_value E ref (r, m, w))))"

definition forget_value :: "reference \<Rightarrow> 'w vol_state \<Rightarrow> 'w vol_state" where
  "forget_value ref = (\<lambda>(r, m, w).
     case mget (vr_cache r) ref of
       Some old \<Rightarrow> (r\<lparr>vr_cache := mdel ref (vr_cache r)\<rparr>, zero_bytes old m, w)
     | None \<Rightarrow> (r, m, w))"

subsection \<open>Watching\<close>

datatype volume_op = VolumeOpWrite | VolumeOpRemove

record volume_event =
  vo_reference :: reference
  vo_path :: string
  vo_op :: "volume_op option"
  vo_err :: "goerr option"

definition no_reference :: reference where
  "no_reference = \<lparr>rf_id = [], rf_namespace = [], rf_name = [], rf_key = []\<rparr>"

definition classify_volume_op :: "'w vol_env \<Rightarrow> 32 word \<Rightarrow> volume_op" where
  "classify_volume_op E op = (if (op AND ve_remove_flag E) \<noteq> 0 then VolumeOpRemove else VolumeOpWrite)"

text \<open>\<open>filepath.Dir\<close>\<close>

definition path_dir :: "string \<Rightarrow> string" where
  "path_dir s = path_clean (rev (dropWhile (\<lambda>c. c \<noteq> slash) (rev s)))"

definition refresh_from_event ::
  "'w vol_env \<Rightarrow> string \<Rightarrow> volume_op \<Rightarrow> reference \<Rightarrow> 'w vol_state \<Rightarrow> volume_event \<times> 'w vol_state" where
  "refresh_from_event E path op ref s =
     (if op = VolumeOpRemove
      then (\<lparr>vo_reference = ref, vo_path = path, vo_op = Some op, vo_err = None\<rparr>, forget_value ref s)
      else
        (let (res, s) = refresh_value E ref s in
         (\<lparr>vo_reference = ref, vo_path = path, vo_op = Some op,
           vo_err = (case res of Inl e \<Rightarrow> Some e | Inr _ \<Rightarrow> None)\<rparr>, s)))"

fun refresh_each ::
  "(reference \<Rightarrow> 'w vol_state \<Rightarrow> volume_event \<times> 'w vol_state) \<Rightarrow> reference list \<Rightarrow> 'w vol_state \<Rightarrow>
   volume_event list \<times> 'w vol_state" where
  "refresh_each f [] s = ([], s)"
| "refresh_each f (ref # refs) s =
     (let (ev, s) = f ref s; (evs, s) = refresh_each f refs s in (ev # evs, s))"

definition refresh_at_path ::
  "'w vol_env \<Rightarrow> string \<Rightarrow> volume_op \<Rightarrow> reference \<Rightarrow> 'w vol_state \<Rightarrow> volume_event \<times> 'w vol_state" where
  "refresh_at_path E clean op ref s =
     (case volume_path (fst s) ref of
        Inl e \<Rightarrow> (\<lparr>vo_reference = ref, vo_path = clean, vo_op = None, vo_err = Some e\<rparr>, s)
      | Inr path \<Rightarrow> refresh_from_event E path op ref s)"

type_synonym ref_index = "(string, reference list) gomap"

definition refs_at :: "ref_index \<Rightarrow> string \<Rightarrow> reference list" where
  "refs_at ix k = (case mget ix k of None \<Rightarrow> [] | Some refs \<Rightarrow> refs)"

definition handle_watch_event ::
  "'w vol_env \<Rightarrow> fs_event \<Rightarrow> ref_index \<Rightarrow> ref_index \<Rightarrow> 'w vol_state \<Rightarrow> volume_event list \<times> 'w vol_state" where
  "handle_watch_event E event paths by_dir s =
     (let clean = path_clean (fe_name event) in
      case mget paths clean of
        Some refs \<Rightarrow> refresh_each (refresh_from_event E clean (classify_volume_op E (fe_op event))) refs s
      | None \<Rightarrow>
          if 0 < length (refs_at by_dir clean)
          then refresh_each (refresh_at_path E clean (classify_volume_op E (fe_op event))) (refs_at by_dir clean) s
          else refresh_each (refresh_at_path E clean VolumeOpWrite) (refs_at by_dir (path_dir clean)) s)"

definition add_ref :: "string \<Rightarrow> reference \<Rightarrow> ref_index \<Rightarrow> ref_index" where
  "add_ref k ref ix = mput k (refs_at ix k @ [ref]) ix"

fun index_refs :: "volume_reader \<Rightarrow> reference list \<Rightarrow> ref_index \<times> ref_index \<Rightarrow> goerr + ref_index \<times> ref_index" where
  "index_refs r [] ix = Inr ix"
| "index_refs r (ref # refs) (paths, by_dir) =
     (case volume_path r ref of
        Inl e \<Rightarrow> Inl e
      | Inr path \<Rightarrow>
          (let clean = path_clean path in
           index_refs r refs (add_ref clean ref paths, add_ref (path_dir clean) ref by_dir)))"

fun add_dirs :: "'w vol_env \<Rightarrow> string list \<Rightarrow> 'w \<Rightarrow> goerr option \<times> 'w" where
  "add_dirs E [] w = (None, w)"
| "add_dirs E (dir # dirs) w =
     (case ve_watcher_add E dir w of
        (Some e, w) \<Rightarrow> (Some (wrapf [''watch mounted secret dir '', dir] e), w)
      | (None, w) \<Rightarrow> add_dirs E dirs w)"

text \<open>The set-up of \<open>Watch\<close>: the two indexes that the loop uses.\<close>

definition watch_setup :: "'w vol_env \<Rightarrow> volume_reader \<Rightarrow> reference list \<Rightarrow> 'w \<Rightarrow> (goerr + ref_index \<times> ref_index) \<times> 'w" where
  "watch_setup E r refs w =
     (if length refs = 0 then (Inl (errf [''at least one secret reference is required'']), w)
      else
        (case index_refs r refs ([], []) of
           Inl e \<Rightarrow> (Inl e, w)
         | Inr (paths, by_dir) \<Rightarrow>
             (case ve_new_watcher E w of
                (Some e, w) \<Rightarrow> (Inl (wrapf [''create mounted secret watcher''] e), w)
              | (None, w) \<Rightarrow>
                  (case add_dirs E (mkeys by_dir) w of
                     (Some e, w) \<Rightarrow> (Inl e, w)
                   | (None, w) \<Rightarrow> (Inr (paths, by_dir), w)))))"

text \<open>What the loop's select finds ready: an event, an error of the watcher, a closed channel or the end of the context.\<close>

datatype watch_input = WatchEvent fs_event | WatchError goerr | WatchClosed | WatchDone

fun watch_loop ::
  "'w vol_env \<Rightarrow> ref_index \<Rightarrow> ref_index \<Rightarrow> watch_input list \<Rightarrow> 'w vol_state \<Rightarrow> volume_event list \<times> 'w vol_state" where
  "watch_loop E paths by_dir (WatchEvent ev # ins) s =
     (let (evs, s) = handle_watch_event E ev paths by_dir s;
          (evs', s) = watch_loop E paths by_dir ins s
      in (evs @ evs', s))"
| "watch_loop E paths by_dir (WatchError e # ins) s =
     (let (evs, s) = watch_loop E paths by_dir ins s
      in (\<lparr>vo_reference = no_reference, vo_path = [], vo_op = None, vo_err = Some e\<rparr> # evs, s))"
| "watch_loop E paths by_dir (WatchClosed # ins) s = ([], s)"
| "watch_loop E paths by_dir (WatchDone # ins) s = ([], s)"
| "watch_loop E paths by_dir [] s = ([], s)"

end
