(* ===== verification/VolumeProps.thy ===== *)
theory VolumeProps
  imports SecretVolume
begin

text \<open>
  The mounted-secret reader: the path of a reference is exactly the four components under the mount
  root, and the memory discipline of the cached plaintext.
\<close>

subsection \<open>Rooted clean paths\<close>

lemma clean_comps_rooted:
  "list_all (\<lambda>w. slash \<notin> set w) ws \<Longrightarrow> list_all plain_comp acc \<Longrightarrow> list_all plain_comp (clean_comps True acc ws)"
proof (induction ws arbitrary: acc)
  case (Cons w ws)
  then show ?case by (cases acc) (auto simp: plain_comp_def)
qed (simp add: list_all_iff)

lemma path_clean_rooted_form:
  assumes "has_prefix s ''/''"
  obtains cs where "list_all plain_comp cs" and "path_clean s = slash # join ''/'' cs"
proof -
  have "list_all (\<lambda>w. slash \<notin> set w) (split_on slash s)" by (auto simp: list_all_iff dest: split_on_parts)
  then have "list_all plain_comp (clean_comps True [] (split_on slash s))" by (rule clean_comps_rooted) simp
  then show ?thesis using that assms by (simp add: path_clean_def)
qed

lemma split_on_rooted: "split_on slash (slash # s) = [] # split_on slash s"
  using split_on_append_sep [of slash "[]" s] by simp

lemma split_on_rooted_join:
  assumes "list_all plain_comp cs"
  shows "split_on slash (slash # join ''/'' cs) = [] # (if cs = [] then [[]] else cs)"
  using assms by (simp add: split_on_rooted split_on_join_plain)

lemma path_clean_rooted:
  assumes "list_all plain_comp cs"
  shows "path_clean (slash # join ''/'' cs) = slash # join ''/'' cs"
proof -
  have "clean_comps True [] (split_on slash (slash # join ''/'' cs)) = cs"
    unfolding split_on_rooted_join [OF assms] by (simp add: clean_comps_plain [OF assms])
  moreover have "has_prefix (slash # join ''/'' cs) ''/''" by simp
  ultimately show ?thesis by (simp only: path_clean_def Let_def if_True)
qed

lemma path_comps_rooted:
  assumes "list_all plain_comp cs"
  shows "path_comps (slash # join ''/'' cs) = cs"
proof -
  have "filter (\<lambda>c. c \<noteq> []) cs = cs" using assms by (auto simp: filter_id_conv list_all_iff plain_comp_def)
  then show ?thesis unfolding path_comps_def by (subst if_not_P, simp, subst split_on_rooted_join [OF assms]) simp
qed

lemma strip_common_append: "strip_common cs (cs @ ts) = ([], ts)"
  by (induction cs) (cases ts; simp)+

lemma path_join_rooted:
  assumes "list_all plain_comp cs" and "list_all plain_comp ws" and "ws \<noteq> []"
  shows "path_join ((slash # join ''/'' cs) # ws) = slash # join ''/'' (cs @ ws)"
proof -
  have j: "join ''/'' ((slash # join ''/'' cs) # ws) = slash # (if cs = [] then slash # join ''/'' ws else join ''/'' (cs @ ws))"
    using assms(3) join_append [of cs ws "''/''"] by (cases ws) auto
  have all: "list_all plain_comp (cs @ ws)" using assms by simp
  have "clean_comps True [] (split_on slash (join ''/'' ((slash # join ''/'' cs) # ws))) = cs @ ws"
    using assms(3) all
    by (auto simp: j split_on_rooted split_on_join_plain clean_comps_plain simp del: join.simps)
  then have "path_clean (join ''/'' ((slash # join ''/'' cs) # ws)) = slash # join ''/'' (cs @ ws)"
    by (simp add: path_clean_def j del: join.simps)
  then show ?thesis by (simp add: path_join_def)
qed

text \<open>C34: Secret paths cannot leave the mount: for a reader made from any mount path and any reference, the path is the error
  of the reference's validation or else literally mount/namespace/name/key; the escape check never fires.\<close>
theorem volume_path_confined:
  "case new_file_volume_reader mount of
     Inl _ \<Rightarrow> True
   | Inr r \<Rightarrow>
       volume_path r ref =
         (case validate_reference ref of
            Some e \<Rightarrow> Inl e
          | None \<Rightarrow> Inr ((if vr_mount r = ''/'' then [] else vr_mount r) @ ''/'' @ rf_namespace ref @ ''/'' @ rf_name ref @ ''/'' @ rf_key ref))"
proof (cases "new_file_volume_reader mount")
  case (Inr r)
  then have abs: "has_prefix mount ''/''" and r: "vr_mount r = path_clean mount"
    by (auto simp: new_file_volume_reader_def split: if_splits)
  obtain cs where cs: "list_all plain_comp cs" "vr_mount r = slash # join ''/'' cs"
    using path_clean_rooted_form [OF abs] r by metis
  let ?ws = "[rf_namespace ref, rf_name ref, rf_key ref]"
  show ?thesis
  proof (cases "validate_reference ref")
    case None
    then have ws: "list_all plain_comp ?ws"
      by (auto simp: validate_reference_def validate_path_segment_def plain_comp_def split: if_splits)
    have all: "list_all plain_comp (cs @ ?ws)" using cs(1) ws by (simp only: list_all_append)
    have path: "path_join [vr_mount r, rf_namespace ref, rf_name ref, rf_key ref] = slash # join ''/'' (cs @ ?ws)"
      unfolding cs(2) by (rule path_join_rooted [OF cs(1) ws]) simp
    have "slash # join ''/'' (cs @ ?ws) \<noteq> slash # join ''/'' cs"
      using path_comps_rooted [OF all] path_comps_rooted [OF cs(1)] by auto
    then have rel: "filepath_rel (vr_mount r) (slash # join ''/'' (cs @ ?ws)) = Inr (join ''/'' ?ws)"
      unfolding filepath_rel_def cs(2) path_clean_rooted [OF cs(1)] path_clean_rooted [OF all] Let_def
        path_comps_rooted [OF cs(1)] path_comps_rooted [OF all] strip_common_append by simp
    have ns: "rf_namespace ref \<noteq> ''..''" "slash \<notin> set (rf_namespace ref)" using ws by (auto simp: plain_comp_def)
    have "\<not> has_prefix (join ''/'' ?ws) ''../''"
    proof
      assume "has_prefix (join ''/'' ?ws) ''../''"
      then obtain q where "rf_namespace ref @ slash # (rf_name ref @ slash # rf_key ref) = ''..'' @ slash # q"
        by (auto simp: has_prefix_iff)
      then show False using ns append_sep_inj [of slash "rf_namespace ref" "''..''"] by simp
    qed
    moreover have "join ''/'' ?ws \<noteq> ''.''" "join ''/'' ?ws \<noteq> ''..''" using ns
      by (auto simp: append_eq_Cons_conv)
    ultimately have "volume_path r ref = Inr (slash # join ''/'' (cs @ ?ws))"
      by (simp only: volume_path_def None path rel Let_def option.case sum.case if_False simp_thms)
    moreover have "slash # join ''/'' (cs @ ?ws) =
      (if vr_mount r = ''/'' then [] else vr_mount r) @ ''/'' @ rf_namespace ref @ ''/'' @ rf_name ref @ ''/'' @ rf_key ref"
      using join_append [of cs ?ws "''/''"] cs
      by (cases "cs = []") (auto dest: join_head)
    ultimately show ?thesis unfolding Inr by (simp only: None option.case sum.case)
  qed (simp add: Inr volume_path_def)
qed simp

subsection \<open>The memory of the reader\<close>

definition cached :: "volume_reader \<Rightarrow> nat set" where
  "cached r = ran (mget (vr_cache r))"

definition zeroed :: "vmem \<Rightarrow> nat \<Rightarrow> bool" where
  "zeroed m a = list_all (\<lambda>c. c = CHR 0x00) (vm_cells m a)"

definition cache_ok :: "volume_reader \<Rightarrow> vmem \<Rightarrow> bool" where
  "cache_ok r m \<longleftrightarrow>
     (\<forall>k k' a. mget (vr_cache r) k = Some a \<longrightarrow> mget (vr_cache r) k' = Some a \<longrightarrow> k = k') \<and>
     (\<forall>a\<in>cached r. a < vm_next m)"

text \<open>
  What any operation may do to the memory: cells that the cache does not own keep their content and
  do not enter the cache; a cell that leaves the cache is zeroed.
\<close>

definition cells_evolve :: "volume_reader \<times> vmem \<Rightarrow> volume_reader \<times> vmem \<Rightarrow> bool" where
  "cells_evolve = (\<lambda>(r, m) (r', m').
     cache_ok r' m' \<and> vm_next m \<le> vm_next m' \<and>
     (\<forall>a. a < vm_next m \<longrightarrow> a \<notin> cached r \<longrightarrow> vm_cells m' a = vm_cells m a \<and> a \<notin> cached r') \<and>
     (\<forall>a\<in>cached r. a \<in> cached r' \<or> zeroed m' a))"

lemma cells_evolve_refl: "cache_ok r m \<Longrightarrow> cells_evolve (r, m) (r, m)"
  by (simp add: cells_evolve_def)

lemma cells_evolve_trans: "cache_ok r m \<Longrightarrow> cells_evolve (r, m) (r1, m1) \<Longrightarrow> cells_evolve (r1, m1) (r2, m2) \<Longrightarrow> cells_evolve (r, m) (r2, m2)"
proof -
  assume ok: "cache_ok r m" and e1: "cells_evolve (r, m) (r1, m1)" and e2: "cells_evolve (r1, m1) (r2, m2)"
  have e1': "\<And>a. a < vm_next m \<Longrightarrow> a \<notin> cached r \<Longrightarrow> vm_cells m1 a = vm_cells m a \<and> a \<notin> cached r1"
    and e2': "\<And>a. a < vm_next m1 \<Longrightarrow> a \<notin> cached r1 \<Longrightarrow> vm_cells m2 a = vm_cells m1 a \<and> a \<notin> cached r2"
    using e1 e2 by (simp_all add: cells_evolve_def)
  have next': "vm_next m \<le> vm_next m1" "vm_next m1 \<le> vm_next m2" "cache_ok r2 m2" using e1 e2 by (simp_all add: cells_evolve_def)
  have keep: "vm_cells m2 a = vm_cells m a \<and> a \<notin> cached r2" if "a < vm_next m" "a \<notin> cached r" for a
    using e1' [OF that] e2' [of a] that(1) next'(1) by simp
  have "a \<in> cached r2 \<or> zeroed m2 a" if a: "a \<in> cached r" for a
  proof (cases "a \<in> cached r1")
    case True
    then show ?thesis using e2 by (simp add: cells_evolve_def)
  next
    case False
    have "a < vm_next m1" using ok a next'(1) by (auto simp: cache_ok_def)
    then have "vm_cells m2 a = vm_cells m1 a" using e2' False by blast
    moreover have "zeroed m1 a" using e1 a False by (auto simp: cells_evolve_def)
    ultimately show ?thesis by (simp add: zeroed_def)
  qed
  with keep next' show ?thesis by (simp add: cells_evolve_def)
qed

lemma cells_evolve_cache_ok: "cells_evolve s (r, m) \<Longrightarrow> cache_ok r m"
  by (cases s) (simp add: cells_evolve_def)

lemma valloc_evolves: "cache_ok r m \<Longrightarrow> valloc d m = (a, m') \<Longrightarrow> cells_evolve (r, m) (r, m')"
  by (auto simp: valloc_def cells_evolve_def cache_ok_def)

lemma copy_value_evolves: "cache_ok r m \<Longrightarrow> copy_value v m = (a, m') \<Longrightarrow> cells_evolve (r, m) (r, m')"
  by (auto simp: copy_value_def valloc_def cells_evolve_def cache_ok_def Let_def)

lemma copy_value_fresh: "copy_value v m = (a, m') \<Longrightarrow> vm_next m < a \<and> a < vm_next m' \<and> vm_cells m' a = vm_cells m v"
  by (auto simp: copy_value_def valloc_def Let_def)

lemma zero_zeroed: "zeroed (zero_bytes a m) a"
  by (simp add: zeroed_def zero_bytes_def list_all_iff)

lemma zero_other [simp]: "b \<noteq> a \<Longrightarrow> vm_cells (zero_bytes a m) b = vm_cells m b"
  by (simp add: zero_bytes_def)

lemma zero_next [simp]: "vm_next (zero_bytes a m) = vm_next m"
  by (simp add: zero_bytes_def)

lemma in_cached: "a \<in> cached r \<longleftrightarrow> (\<exists>k. mget (vr_cache r) k = Some a)"
  by (simp add: cached_def ran_def)

lemma in_cached_mdel: "a \<in> cached (r\<lparr>vr_cache := mdel ref (vr_cache r)\<rparr>) \<longleftrightarrow> (\<exists>k. k \<noteq> ref \<and> mget (vr_cache r) k = Some a)"
  by (auto simp: in_cached)

lemma cached_mdel:
  assumes "cache_ok r m" and "mget (vr_cache r) ref = Some old"
  shows "cached (r\<lparr>vr_cache := mdel ref (vr_cache r)\<rparr>) = cached r - {old}"
proof (rule set_eqI)
  fix x
  have inj: "\<And>k k' a. mget (vr_cache r) k = Some a \<Longrightarrow> mget (vr_cache r) k' = Some a \<Longrightarrow> k = k'"
    using assms(1) by (simp add: cache_ok_def)
  show "x \<in> cached (r\<lparr>vr_cache := mdel ref (vr_cache r)\<rparr>) \<longleftrightarrow> x \<in> cached r - {old}"
    unfolding in_cached_mdel using assms(2) inj by (metis DiffD1 DiffD2 DiffI in_cached option.sel singletonD singletonI)
qed

lemma cached_mput:
  "cached (r\<lparr>vr_cache := mput ref a (vr_cache r)\<rparr>) = insert a (cached (r\<lparr>vr_cache := mdel ref (vr_cache r)\<rparr>))"
proof (rule set_eqI)
  fix x
  show "x \<in> cached (r\<lparr>vr_cache := mput ref a (vr_cache r)\<rparr>) \<longleftrightarrow> x \<in> insert a (cached (r\<lparr>vr_cache := mdel ref (vr_cache r)\<rparr>))"
    unfolding insert_iff in_cached_mdel by (auto simp: in_cached split: if_splits)
qed

lemma cached_mdel_none: "mget (vr_cache r) ref = None \<Longrightarrow> cached (r\<lparr>vr_cache := mdel ref (vr_cache r)\<rparr>) = cached r"
  by (rule set_eqI, subst in_cached_mdel) (unfold in_cached, metis option.distinct(1))

lemma cache_ok_mdel: "cache_ok r m \<Longrightarrow> cache_ok (r\<lparr>vr_cache := mdel ref (vr_cache r)\<rparr>) m"
  by (auto simp: cache_ok_def cached_def ran_def)

lemma cache_ok_mput:
  "cache_ok r m \<Longrightarrow> a < vm_next m \<Longrightarrow> a \<notin> cached r \<Longrightarrow> cache_ok (r\<lparr>vr_cache := mput ref a (vr_cache r)\<rparr>) m"
  by (auto simp: cache_ok_def cached_def ran_def)

lemma cache_ok_zero [simp]: "cache_ok r (zero_bytes a m) = cache_ok r m"
  by (simp add: cache_ok_def)

lemma forget_evolves:
  assumes "cache_ok r m" and "forget_value ref (r, m, w) = (r', m', w')"
  shows "cells_evolve (r, m) (r', m')"
proof (cases "mget (vr_cache r) ref")
  case None
  then show ?thesis using assms by (simp add: forget_value_def cells_evolve_refl)
next
  case (Some old)
  have r': "r' = r\<lparr>vr_cache := mdel ref (vr_cache r)\<rparr>" "m' = zero_bytes old m"
    using assms(2) Some by (auto simp: forget_value_def)
  have "old \<in> cached r" using Some by (auto simp: in_cached)
  moreover have "cached r' = cached r - {old}" unfolding r' by (rule cached_mdel [OF assms(1) Some])
  moreover have "cache_ok r' m'" unfolding r' by (simp add: cache_ok_mdel [OF assms(1)])
  moreover have "zeroed m' old" "vm_next m' = vm_next m" "\<And>b. b \<noteq> old \<Longrightarrow> vm_cells m' b = vm_cells m b"
    unfolding r' by (simp_all add: zero_zeroed)
  ultimately show ?thesis unfolding cells_evolve_def prod.case by (metis DiffE DiffI le_refl singletonD)
qed

text \<open>Storing a fresh cell for a reference and zeroing the one it replaces\<close>

lemma store_evolves:
  assumes "cache_ok r m" and "a < vm_next m" and "a \<notin> cached r"
    and r': "r' = r\<lparr>vr_cache := mput ref a (vr_cache r)\<rparr>"
    and m': "m' = (case mget (vr_cache r) ref of Some old \<Rightarrow> zero_bytes old m | None \<Rightarrow> m)"
  shows "cache_ok r' m' \<and> vm_next m' = vm_next m \<and> cached r' \<subseteq> insert a (cached r) \<and>
    (\<forall>b. b \<notin> cached r \<longrightarrow> vm_cells m' b = vm_cells m b) \<and> (\<forall>b\<in>cached r. b \<in> cached r' \<or> zeroed m' b)"
proof (cases "mget (vr_cache r) ref")
  case None
  have "cached r' = insert a (cached r)" unfolding r' cached_mput cached_mdel_none [OF None] ..
  then show ?thesis using cache_ok_mput [OF assms(1-3), of ref] by (simp add: m' None r')
next
  case (Some old)
  have "old \<in> cached r" using Some by (auto simp: in_cached)
  moreover have "cached r' = insert a (cached r - {old})" unfolding r' cached_mput cached_mdel [OF assms(1) Some] ..
  moreover have "vm_cells m' b = vm_cells m b" if "b \<notin> cached r" for b
    using that calculation(1) by (cases "b = old") (simp_all add: m' Some)
  ultimately show ?thesis using cache_ok_mput [OF assms(1-3), of ref] zero_zeroed [of old m]
    by (auto simp: m' Some r')
qed

definition owned :: "vmem \<Rightarrow> goerr + nat \<Rightarrow> volume_reader \<Rightarrow> vmem \<Rightarrow> bool" where
  "owned m res r' m' = (case res of Inl _ \<Rightarrow> True | Inr v \<Rightarrow> vm_next m \<le> v \<and> v < vm_next m' \<and> v \<notin> cached r')"

lemma valloc_simps [simp]:
  "fst (valloc d m) = vm_next m" "vm_next (snd (valloc d m)) = Suc (vm_next m)"
  "vm_cells (snd (valloc d m)) = (vm_cells m)(vm_next m := d)"
  by (simp_all add: valloc_def)

lemma copy_value_simps [simp]:
  "fst (copy_value v m) = Suc (vm_next m)" "vm_next (snd (copy_value v m)) = Suc (Suc (vm_next m))"
  "vm_cells (snd (copy_value v m)) = (vm_cells m)(vm_next m := vm_cells m v, Suc (vm_next m) := vm_cells m v)"
  by (simp_all add: copy_value_def valloc_def)

lemma cache_ok_more: "cache_ok r m \<Longrightarrow> vm_next m \<le> vm_next m' \<Longrightarrow> cache_ok r m'"
  by (auto simp: cache_ok_def)

lemma refresh_cells_evolve:
  assumes ok: "cache_ok r m" and res: "refresh_value E ref (r, m, w) = (res, r', m', w')"
  shows "cells_evolve (r, m) (r', m') \<and> owned m res r' m'"
proof -
  obtain e0 w0 where c0: "ve_ctx_err E w = (e0, w0)" by fastforce
  have same: "cells_evolve (r, m) (r, m)" by (rule cells_evolve_refl [OF ok])
  show ?thesis
  proof (cases "e0 = None \<and> (\<exists>path data w1. volume_path r ref = Inr path \<and> ve_read_file E path w0 = (Inr data, w1))")
    case False
    then have "\<exists>e. res = Inl e" "r' = r" "m' = m"
      using res by (auto simp: refresh_value_def c0 split: option.splits sum.splits prod.splits)
    then show ?thesis using same by (auto simp: owned_def)
  next
    case True
    then obtain path data w1 where t: "e0 = None" "volume_path r ref = Inr path" "ve_read_file E path w0 = (Inr data, w1)" by blast
    obtain e1 w2 where c1: "ve_ctx_err E w1 = (e1, w2)" by fastforce
    define m1 where "m1 = snd (valloc data m)"
    have low: "cached r \<subseteq> {..<vm_next m}" using ok by (auto simp: cache_ok_def)
    have m1: "vm_next m1 = Suc (vm_next m)" "\<And>a. a < vm_next m \<Longrightarrow> vm_cells m1 a = vm_cells m a"
      by (simp_all add: m1_def)
    show ?thesis
    proof (cases e1)
      case (Some e)
      then have r: "res = Inl e" "r' = r" "m' = zero_bytes (vm_next m) m1"
        using res by (simp_all add: refresh_value_def c0 t c1 m1_def valloc_def Let_def)
      have "cache_ok r m1" by (rule cache_ok_more [OF ok]) (simp add: m1)
      then show ?thesis using m1 by (auto simp: cells_evolve_def owned_def r)
    next
      case None
      define m2 where "m2 = snd (valloc data m1)"
      define m3 where "m3 = (case mget (vr_cache r) ref of Some old \<Rightarrow> zero_bytes old m2 | None \<Rightarrow> m2)"
      have m2: "vm_next m2 = Suc (Suc (vm_next m))" "\<And>a. a < vm_next m \<Longrightarrow> vm_cells m2 a = vm_cells m a"
        by (simp_all add: m2_def m1)
      have r: "res = Inr (Suc (vm_next m3))" "r' = r\<lparr>vr_cache := mput ref (Suc (vm_next m)) (vr_cache r)\<rparr>"
        "m' = zero_bytes (vm_next m) (snd (copy_value (Suc (vm_next m)) m3))"
        using res unfolding m3_def m2_def m1_def by (simp_all add: refresh_value_def c0 t c1 None Let_def split_beta)
      have ok2: "cache_ok r m2" by (rule cache_ok_more [OF ok]) (simp add: m2)
      have fresh: "Suc (vm_next m) < vm_next m2" "Suc (vm_next m) \<notin> cached r" using low by (auto simp: m2)
      note st = store_evolves [OF ok2 fresh r(2) m3_def]
      have keep: "vm_cells m' a = vm_cells m3 a" if "a < vm_next m" for a using that st by (simp add: r m2)
      have "cache_ok r' m'" by (rule cache_ok_more [of r' m3]) (use st in \<open>simp_all add: r m2\<close>)
      moreover have "vm_cells m' a = vm_cells m a \<and> a \<notin> cached r'" if "a < vm_next m" "a \<notin> cached r" for a
        using keep [OF that(1)] st that m2(2) by auto
      moreover have "a \<in> cached r' \<or> zeroed m' a" if "a \<in> cached r" for a
      proof -
        have "vm_cells m' a = vm_cells m3 a" using that low by (intro keep) auto
        then show ?thesis using st that by (simp add: zeroed_def)
      qed
      moreover have "vm_next m' = Suc (Suc (Suc (Suc (vm_next m))))" "vm_next m3 = Suc (Suc (vm_next m))" using st by (simp_all add: r m2)
      moreover have "Suc (vm_next m3) \<notin> cached r'"
      proof
        assume "Suc (vm_next m3) \<in> cached r'"
        then have "Suc (vm_next m3) \<in> insert (Suc (vm_next m)) (cached r)" using st by blast
        then show False using st low by (auto simp: m2)
      qed
      ultimately show ?thesis by (auto simp: cells_evolve_def owned_def r(1))
    qed
  qed
qed

lemma read_evolves:
  assumes ok: "cache_ok r m" and res: "read_value E ref (r, m, w) = (res, r', m', w')"
  shows "cells_evolve (r, m) (r', m') \<and> owned m res r' m'"
proof -
  obtain e0 w0 where c0: "ve_ctx_err E w = (e0, w0)" by fastforce
  have same: "cells_evolve (r, m) (r, m)" by (rule cells_evolve_refl [OF ok])
  show ?thesis
  proof (cases "e0 = None \<and> validate_reference ref = None")
    case False
    then have "\<exists>e. res = Inl e" "r' = r" "m' = m"
      using res by (auto simp: read_value_def c0 split: option.splits)
    then show ?thesis using same by (auto simp: owned_def)
  next
    case True
    show ?thesis
    proof (cases "mget (vr_cache r) ref")
      case None
      with True res have "refresh_value E ref (r, m, w0) = (res, r', m', w')" by (simp add: read_value_def c0)
      then show ?thesis by (rule refresh_cells_evolve [OF ok])
    next
      case (Some v)
      then have r: "res = Inr (Suc (vm_next m))" "r' = r" "m' = snd (copy_value v m)"
        using res True by (simp_all add: read_value_def c0 split_beta Let_def)
      have "cache_ok r m'" by (rule cache_ok_more [OF ok]) (simp add: r)
      moreover have "Suc (vm_next m) \<notin> cached r" using ok by (auto simp: cache_ok_def)
      ultimately show ?thesis by (auto simp: cells_evolve_def owned_def r)
    qed
  qed
qed

lemma event_evolves:
  "cache_ok r m \<Longrightarrow> refresh_from_event E path op ref (r, m, w) = (ev, r', m', w') \<Longrightarrow> cells_evolve (r, m) (r', m')"
  using forget_evolves [of r m ref w r' m' w'] refresh_cells_evolve [of r m E ref w _ r' m' w']
  by (auto simp: refresh_from_event_def split: if_splits prod.splits)

lemma at_path_evolves:
  "cache_ok r m \<Longrightarrow> refresh_at_path E clean op ref (r, m, w) = (ev, r', m', w') \<Longrightarrow> cells_evolve (r, m) (r', m')"
  using event_evolves [of r m E _ op ref w ev r' m' w']
  by (auto simp: refresh_at_path_def cells_evolve_refl split: sum.splits)

lemma refresh_each_evolves:
  assumes step: "\<And>r m w ref ev r' m' w'. cache_ok r m \<Longrightarrow> f ref (r, m, w) = (ev, r', m', w') \<Longrightarrow> cells_evolve (r, m) (r', m')"
  shows "cache_ok r m \<Longrightarrow> refresh_each f refs (r, m, w) = (evs, r', m', w') \<Longrightarrow> cells_evolve (r, m) (r', m')"
proof (induction refs arbitrary: r m w evs)
  case (Cons ref refs)
  obtain ev r1 m1 w1 where f: "f ref (r, m, w) = (ev, r1, m1, w1)" by (metis prod.collapse)
  note e1 = step [OF Cons.prems(1) f]
  obtain evs1 where rest: "refresh_each f refs (r1, m1, w1) = (evs1, r', m', w')"
    using Cons.prems(2) by (auto simp: f split: prod.splits)
  from Cons.IH [OF cells_evolve_cache_ok [OF e1] rest] show ?case by (rule cells_evolve_trans [OF Cons.prems(1) e1])
qed (simp add: cells_evolve_refl)

lemma watch_event_evolves:
  assumes "cache_ok r m" and "handle_watch_event E ev paths by_dir (r, m, w) = (evs, r', m', w')"
  shows "cells_evolve (r, m) (r', m')"
  using assms refresh_each_evolves [of "refresh_from_event E _ _", OF event_evolves]
    refresh_each_evolves [of "refresh_at_path E _ _", OF at_path_evolves]
  by (auto simp: handle_watch_event_def Let_def split: option.splits if_splits)

text \<open>
  A run: what callers and the watcher do with the reader, the values that callers hold (with the bytes
  they were given) and every cell the cache ever owned. A caller may destroy a value it holds.
\<close>

datatype vol_step =
    StepRead reference
  | StepRefresh reference
  | StepForget reference
  | StepEvent fs_event ref_index ref_index
  | StepDestroy nat

record 'w vol_sys =
  vs_state :: "'w vol_state"
  vs_held :: "(nat \<times> bytes) list"
  vs_ever :: "nat list"

definition vol_settle :: "'w vol_sys \<Rightarrow> (goerr + nat) \<Rightarrow> 'w vol_state \<Rightarrow> 'w vol_sys" where
  "vol_settle s res st =
     \<lparr>vs_state = st,
      vs_held = (case res of Inl _ \<Rightarrow> vs_held s | Inr v \<Rightarrow> (v, vm_cells (fst (snd st)) v) # vs_held s),
      vs_ever = map (\<lambda>k. the (mget (vr_cache (fst st)) k)) (mkeys (vr_cache (fst st))) @ vs_ever s\<rparr>"

fun vol_do :: "'w vol_env \<Rightarrow> 'w vol_sys \<Rightarrow> vol_step \<Rightarrow> 'w vol_sys" where
  "vol_do E s (StepRead ref) = (let (res, st) = read_value E ref (vs_state s) in vol_settle s res st)"
| "vol_do E s (StepRefresh ref) = (let (res, st) = refresh_value E ref (vs_state s) in vol_settle s res st)"
| "vol_do E s (StepForget ref) = vol_settle s (Inl (Sent OsErrNotExist)) (forget_value ref (vs_state s))"
| "vol_do E s (StepEvent ev paths by_dir) =
     vol_settle s (Inl (Sent OsErrNotExist)) (snd (handle_watch_event E ev paths by_dir (vs_state s)))"
| "vol_do E s (StepDestroy a) =
     (if a \<in> fst ` set (vs_held s)
      then s\<lparr>vs_state := (case vs_state s of (r, m, w) \<Rightarrow> (r, zero_bytes a m, w)),
             vs_held := filter (\<lambda>h. fst h \<noteq> a) (vs_held s)\<rparr>
      else s)"

definition vol_inv :: "'w vol_sys \<Rightarrow> bool" where
  "vol_inv s \<longleftrightarrow> (case vs_state s of (r, m, w) \<Rightarrow>
     cache_ok r m \<and>
     (\<forall>(a, c) \<in> set (vs_held s). a < vm_next m \<and> a \<notin> cached r \<and> vm_cells m a = c) \<and>
     (\<forall>a \<in> set (vs_ever s). a < vm_next m \<and> (a \<in> cached r \<or> zeroed m a) \<and> a \<notin> fst ` set (vs_held s)))"

lemma vol_settle_inv:
  assumes inv: "vol_inv s" and st: "vs_state s = (r, m, w)"
    and ev: "cells_evolve (r, m) (r', m')" and own: "owned m res r' m'"
  shows "vol_inv (vol_settle s res (r', m', w'))"
proof -
  have ok: "cache_ok r' m'" "vm_next m \<le> vm_next m'"
    and keep: "\<And>a. a < vm_next m \<Longrightarrow> a \<notin> cached r \<Longrightarrow> vm_cells m' a = vm_cells m a \<and> a \<notin> cached r'"
    and out: "\<And>a. a \<in> cached r \<Longrightarrow> a \<in> cached r' \<or> zeroed m' a"
    using ev by (simp_all add: cells_evolve_def)
  have held: "a < vm_next m" "a \<notin> cached r" "vm_cells m a = c" if "(a, c) \<in> set (vs_held s)" for a c
    using inv that by (auto simp: vol_inv_def st)
  have ever: "a < vm_next m" "a \<in> cached r \<or> zeroed m a" "(a, c) \<notin> set (vs_held s)" if "a \<in> set (vs_ever s)" for a c
    using inv that by (force simp: vol_inv_def st)+
  have ever': "a < vm_next m' \<and> (a \<in> cached r' \<or> zeroed m' a)" if "a \<in> set (vs_ever s)" for a
  proof (cases "a \<in> cached r")
    case True
    then show ?thesis using out ever(1) [OF that] ok(2) by auto
  next
    case False
    then have "zeroed m a" using ever(2) [OF that] by blast
    then show ?thesis using keep [OF ever(1) [OF that] False] ever(1) [OF that] ok(2) by (simp add: zeroed_def)
  qed
  have now: "set (map (\<lambda>k. the (mget (vr_cache r') k)) (mkeys (vr_cache r'))) = cached r'"
    unfolding set_map by (force simp: cached_def ran_def dom_mget [symmetric] image_iff)
  have low: "a < vm_next m' \<and> a \<notin> cached r' \<and> vm_cells m' a = c" if "(a, c) \<in> set (vs_held s)" for a c
    using held [OF that] keep [of a] ok(2) by auto
  have cur: "a < vm_next m'" "(a, c) \<notin> set (vs_held s)" if "a \<in> cached r'" for a c
    using ok(1) that low by (auto simp: cache_ok_def)
  show ?thesis
  proof (cases res)
    case (Inl e)
    then show ?thesis using ok low ever' ever(3) cur now
      by (auto simp: vol_inv_def vol_settle_def)
  next
    case (Inr v)
    have v: "vm_next m \<le> v" "v < vm_next m'" "v \<notin> cached r'" using own by (simp_all add: owned_def Inr)
    have "v \<notin> set (vs_ever s)" using ever(1) [of v] v(1) by auto
    then show ?thesis using ok low ever' ever(3) cur now v
      by (auto simp: vol_inv_def vol_settle_def Inr)
  qed
qed

lemma vol_do_inv: "vol_inv s \<Longrightarrow> vol_inv (vol_do E s st)"
proof -
  assume inv: "vol_inv s"
  obtain r m w where st: "vs_state s = (r, m, w)" by (metis prod.collapse)
  have ok: "cache_ok r m" using inv by (simp add: vol_inv_def st)
  note settle = vol_settle_inv [OF inv st]
  show ?thesis
  proof (cases st)
    case (StepRead ref)
    obtain res r' m' w' where e: "read_value E ref (r, m, w) = (res, r', m', w')" by (metis prod.collapse)
    show ?thesis using settle read_evolves [OF ok e] by (simp add: StepRead st e)
  next
    case (StepRefresh ref)
    obtain res r' m' w' where e: "refresh_value E ref (r, m, w) = (res, r', m', w')" by (metis prod.collapse)
    show ?thesis using settle refresh_cells_evolve [OF ok e] by (simp add: StepRefresh st e)
  next
    case (StepForget ref)
    obtain r' m' w' where e: "forget_value ref (r, m, w) = (r', m', w')" by (metis prod.collapse)
    show ?thesis using settle forget_evolves [OF ok e] by (simp add: StepForget st e owned_def)
  next
    case (StepEvent ev paths by_dir)
    obtain evs r' m' w' where e: "handle_watch_event E ev paths by_dir (r, m, w) = (evs, r', m', w')" by (metis prod.collapse)
    show ?thesis using settle watch_event_evolves [OF ok e] by (simp add: StepEvent st e owned_def)
  next
    case (StepDestroy a)
    show ?thesis
    proof (cases "a \<in> fst ` set (vs_held s)")
      case True
      then have a: "a \<notin> cached r" "a \<notin> set (vs_ever s)" using inv by (auto simp: vol_inv_def st)
      then have "zeroed (zero_bytes a m) b = zeroed m b" if "b \<in> set (vs_ever s)" for b
        using that by (cases "b = a") (simp_all add: zeroed_def)
      with True inv show ?thesis unfolding StepDestroy by (auto simp: vol_inv_def st)
    qed (simp add: StepDestroy inv)
  qed
qed

interpretation vol_system: step_system "vol_do E" vol_inv
  by unfold_locales (rule vol_do_inv)

text \<open>C35: Plaintext is never shared and never left in retired storage: after any sequence of reads, refreshes, forgets,
  watcher events and destructions by callers on a new reader, every value a caller holds still has the bytes it was
  given and is not storage of the cache, no two references share a cell, and every cell that the cache owned and
  does not own any more is zeroed.\<close>
theorem volume_memory_discipline:
  assumes "new_file_volume_reader mount = Inr r"
  shows "vol_inv (foldl (vol_do E) \<lparr>vs_state = (r, m, w), vs_held = [], vs_ever = []\<rparr> steps)"
proof (rule vol_system.inv_run)
  have "vr_cache r = []" using assms by (auto simp: new_file_volume_reader_def split: if_splits)
  then have "cached r = {}" by (auto simp: in_cached)
  with \<open>vr_cache r = []\<close> show "vol_inv \<lparr>vs_state = (r, m, w), vs_held = [], vs_ever = []\<rparr>"
    by (simp add: vol_inv_def cache_ok_def)
qed

definition sample_volume_env :: "nat vol_env" where
  "sample_volume_env =
     \<lparr>ve_ctx_err = (\<lambda>w. (None, w)),
      ve_read_file = (\<lambda>p w. (Inr (if w = 0 then ''old'' else ''new''), Suc w)),
      ve_new_watcher = (\<lambda>w. (None, w)), ve_watcher_add = (\<lambda>d w. (None, w)), ve_remove_flag = 4\<rparr>"

definition sample_reference :: reference where
  "sample_reference = \<lparr>rf_id = ''i'', rf_namespace = ''n'', rf_name = ''s'', rf_key = ''k''\<rparr>"

definition sample_vmem :: vmem where
  "sample_vmem = \<lparr>vm_cells = (\<lambda>_. []), vm_next = 0\<rparr>"

definition sample_vol_run :: "nat vol_sys" where
  "sample_vol_run =
     foldl (vol_do sample_volume_env)
       \<lparr>vs_state = (\<lparr>vr_mount = ''/m'', vr_cache = []\<rparr>, sample_vmem, 0), vs_held = [], vs_ever = []\<rparr>
       [StepRead sample_reference, StepRefresh sample_reference, StepRead sample_reference]"

lemma sample_volume_path: "volume_path \<lparr>vr_mount = ''/m'', vr_cache = c\<rparr> sample_reference = Inr ''/m/n/s/k''"
  unfolding volume_path_def by code_simp

lemma sample_validates: "validate_reference sample_reference = None"
  by code_simp

text \<open>The run hands out the old and twice the new bytes; the cell that held the old ones for the cache is zero.\<close>

lemma sample_vol_run_values:
  "map snd (vs_held sample_vol_run) = [''new'', ''new'', ''old''] \<and>
   (case vs_state sample_vol_run of (r, m, w) \<Rightarrow> vm_cells m 1 = [CHR 0x00, CHR 0x00, CHR 0x00])"
  unfolding sample_vol_run_def
  by (simp add: sample_volume_env_def sample_reference_def sample_vmem_def vol_settle_def read_value_def refresh_value_def
      valloc_def copy_value_def zero_bytes_def sample_volume_path [unfolded sample_reference_def] sample_validates [unfolded sample_reference_def])

theorem volume_memory_discipline_witness:
  "vol_inv sample_vol_run \<and> map snd (vs_held sample_vol_run) = [''new'', ''new'', ''old'']"
proof
  have "new_file_volume_reader ''/m/'' = Inr \<lparr>vr_mount = ''/m'', vr_cache = []\<rparr>" by code_simp
  from volume_memory_discipline [OF this] show "vol_inv sample_vol_run" unfolding sample_vol_run_def .
qed (use sample_vol_run_values in blast)

text \<open>
  \<open>NewValue(v.Bytes())\<close> copies twice: the first copy has no owner and keeps the plaintext.
\<close>

lemma bytes_copy_left_behind:
  "case copy_value a m of (v, m') \<Rightarrow> v \<noteq> vm_next m \<and> vm_cells m' (vm_next m) = vm_cells m a"
  by (simp add: copy_value_def valloc_def Let_def)

end
