(* ===== verification/GoFlag.thy ===== *)
theory GoFlag
  imports GoTime Parser
begin

text \<open>
  The command line of both programs: package flag (\<open>FlagSet.Parse\<close> on string, boolean, duration, integer and
  float flags) and the value parsers of the standard library, of which \<open>strconv.ParseBool\<close> is spelled out
  and the numeric ones are a parameter.
\<close>

record go_parse =
  gp_duration :: "string \<Rightarrow> goerr + duration"
  gp_atoi :: "string \<Rightarrow> goerr + int"
  gp_int :: "string \<Rightarrow> goerr + int"
  gp_float :: "string \<Rightarrow> goerr + gofloat"
  gp_show_float :: "gofloat \<Rightarrow> string"

definition parse_bool :: "string \<Rightarrow> bool option" where
  "parse_bool s =
     (if s \<in> {''1'', ''t'', ''T'', ''true'', ''TRUE'', ''True''} then Some True
      else if s \<in> {''0'', ''f'', ''F'', ''false'', ''FALSE'', ''False''} then Some False
      else None)"

datatype 'c flag_kind =
    FlagString "string \<Rightarrow> 'c \<Rightarrow> 'c"
  | FlagBool "bool \<Rightarrow> 'c \<Rightarrow> 'c"
  | FlagDuration "duration \<Rightarrow> 'c \<Rightarrow> 'c"
  | FlagInt "int \<Rightarrow> 'c \<Rightarrow> 'c"
  | FlagFloat "gofloat \<Rightarrow> 'c \<Rightarrow> 'c"

definition flag_set :: "go_parse \<Rightarrow> 'c flag_kind \<Rightarrow> string \<Rightarrow> 'c \<Rightarrow> goerr + 'c" where
  "flag_set P k v c =
     (case k of
        FlagString f \<Rightarrow> Inr (f v c)
      | FlagBool f \<Rightarrow> (case parse_bool v of None \<Rightarrow> Inl (errf [''parse error'']) | Some b \<Rightarrow> Inr (f b c))
      | FlagDuration f \<Rightarrow> (case gp_duration P v of Inl e \<Rightarrow> Inl (errf [''parse error'']) | Inr d \<Rightarrow> Inr (f d c))
      | FlagInt f \<Rightarrow> (case gp_int P v of Inl e \<Rightarrow> Inl e | Inr i \<Rightarrow> Inr (f i c))
      | FlagFloat f \<Rightarrow> (case gp_float P v of Inl e \<Rightarrow> Inl e | Inr x \<Rightarrow> Inr (f x c)))"

fun is_bool_flag :: "'c flag_kind \<Rightarrow> bool" where
  "is_bool_flag (FlagBool f) = True"
| "is_bool_flag k = False"

text \<open>\<open>-name\<close> or \<open>-name=value\<close>: the name and the value after the first equals sign.\<close>

definition split_flag :: "string \<Rightarrow> string \<times> string option" where
  "split_flag s =
     (let (name, rest) = (takeWhile (\<lambda>c. c \<noteq> CHR ''='') s, dropWhile (\<lambda>c. c \<noteq> CHR ''='') s)
      in (name, case rest of [] \<Rightarrow> None | _ # v \<Rightarrow> Some v))"

text \<open>
  \<open>FlagSet.Parse\<close>: the configuration, the names that were set (for \<open>flag.Visit\<close>), or the first error.
  Parsing stops at the first argument that is no flag and after \<open>--\<close>.
\<close>

fun flag_parse :: "go_parse \<Rightarrow> (string \<times> 'c flag_kind) list \<Rightarrow> string list \<Rightarrow> 'c \<times> string list \<Rightarrow> goerr + 'c \<times> string list" where
  "flag_parse P table [] (c, seen) = Inr (c, seen)"
| "flag_parse P table (arg # args) (c, seen) =
     (case arg of
        [] \<Rightarrow> Inr (c, seen)
      | dash # r \<Rightarrow>
          if dash \<noteq> CHR ''-'' \<or> r = [] then Inr (c, seen)
          else if r = ''-'' then Inr (c, seen)
          else
            (let body = (if hd r = CHR ''-'' then tl r else r) in
             if body = [] \<or> hd body = CHR ''-'' \<or> hd body = CHR ''='' then Inl (errf [''bad flag syntax: '', arg])
             else
               (let (name, v) = split_flag body in
                case map_of table name of
                  None \<Rightarrow>
                    if name = ''help'' \<or> name = ''h'' then Inl (errf [''flag: help requested''])
                    else Inl (errf [''flag provided but not defined: -'', name])
                | Some k \<Rightarrow>
                    if is_bool_flag k then
                      (case flag_set P k (case v of Some x \<Rightarrow> x | None \<Rightarrow> ''true'') c of
                         Inl e \<Rightarrow> Inl (errf [''invalid boolean value '', quote (case v of Some x \<Rightarrow> x | None \<Rightarrow> ''true''), '' for -'', name, '': '', err_msg e])
                       | Inr c \<Rightarrow> flag_parse P table args (c, name # seen))
                    else
                      (case v of
                         Some x \<Rightarrow>
                           (case flag_set P k x c of
                              Inl e \<Rightarrow> Inl (errf [''invalid value '', quote x, '' for flag -'', name, '': '', err_msg e])
                            | Inr c \<Rightarrow> flag_parse P table args (c, name # seen))
                       | None \<Rightarrow>
                           (case args of
                              [] \<Rightarrow> Inl (errf [''flag needs an argument: -'', name])
                            | x # args' \<Rightarrow>
                                (case flag_set P k x c of
                                   Inl e \<Rightarrow> Inl (errf [''invalid value '', quote x, '' for flag -'', name, '': '', err_msg e])
                                 | Inr c \<Rightarrow> flag_parse P table args' (c, name # seen)))))))"

end
