(* ===== verification/AgentConfig.thy ===== *)
theory AgentConfig
  imports GoFlag AgentClient Debounce FetchLoop
begin

text \<open>
  The settings of the Config Agent (internal/agent/config.go) from the environment and the command line,
  their validation, and the dry run (internal/agent/dryrun.go).
\<close>

record agent_config =
  ac_config_server_url :: string
  ac_org :: string
  ac_project :: string
  ac_service :: string
  ac_api_key :: string
  ac_dry_run :: bool
  ac_resolve_secrets :: bool
  ac_http_timeout :: duration
  ac_log_level :: string
  ac_target_namespace :: string
  ac_target_config_map :: string
  ac_target_secret :: string
  ac_target_deployment :: string
  ac_poll_interval :: duration
  ac_debounce_cooldown :: duration
  ac_debounce_quiet :: duration
  ac_debounce_max_wait :: duration

type_synonym getenv = "string \<Rightarrow> string"

fun first_env :: "getenv \<Rightarrow> string list \<Rightarrow> string" where
  "first_env getenv [] = []"
| "first_env getenv (key # keys) =
     (let v = trim_space (getenv key) in if v \<noteq> [] then v else first_env getenv keys)"

definition first_env_with_default :: "getenv \<Rightarrow> string \<Rightarrow> string list \<Rightarrow> string" where
  "first_env_with_default getenv fallback keys =
     (let v = first_env getenv keys in if v \<noteq> [] then v else fallback)"

definition agent_env_bool :: "getenv \<Rightarrow> string \<Rightarrow> bool \<Rightarrow> goerr + bool" where
  "agent_env_bool getenv key fallback =
     (let raw = trim_space (getenv key) in
      if raw = [] then Inr fallback
      else (case parse_bool raw of None \<Rightarrow> Inl (errf [key, '' must be a boolean'']) | Some b \<Rightarrow> Inr b))"

definition agent_env_duration :: "go_parse \<Rightarrow> getenv \<Rightarrow> string \<Rightarrow> duration \<Rightarrow> goerr + duration" where
  "agent_env_duration P getenv key fallback =
     (let raw = trim_space (getenv key) in
      if raw = [] then Inr fallback
      else (case gp_duration P raw of Inl e \<Rightarrow> Inl (wrapf [key, '' must be a duration''] e) | Inr d \<Rightarrow> Inr d))"

definition agent_trim_strings :: "agent_config \<Rightarrow> agent_config" where
  "agent_trim_strings c =
     c\<lparr>ac_config_server_url := trim_space (ac_config_server_url c),
       ac_org := trim_space (ac_org c),
       ac_project := trim_space (ac_project c),
       ac_service := trim_space (ac_service c),
       ac_api_key := trim_space (ac_api_key c),
       ac_log_level := trim_space (ac_log_level c),
       ac_target_namespace := trim_space (ac_target_namespace c),
       ac_target_config_map := trim_space (ac_target_config_map c),
       ac_target_secret := trim_space (ac_target_secret c),
       ac_target_deployment := trim_space (ac_target_deployment c)\<rparr>"

definition required :: "string \<Rightarrow> string \<Rightarrow> goerr option" where
  "required v msg = (if v = [] then Some (errf [msg]) else None)"

text \<open>The checks of \<open>url.Parse\<close> and of scheme and host that the settings and the clients share.\<close>

definition check_http_url :: "(string \<Rightarrow> goerr + go_url) \<Rightarrow> string \<Rightarrow> (goerr \<Rightarrow> goerr) \<Rightarrow> goerr \<Rightarrow> goerr \<Rightarrow> goerr option" where
  "check_http_url parse raw invalid scheme host =
     (case parse raw of
        Inl e \<Rightarrow> Some (invalid e)
      | Inr u \<Rightarrow>
          if url_scheme u \<noteq> ''http'' \<and> url_scheme u \<noteq> ''https'' then Some scheme
          else if url_host u = [] then Some host else None)"

text \<open>\<open>Validate\<close>: trims the strings in place and checks.\<close>

definition check_agent_config :: "(string \<Rightarrow> goerr + go_url) \<Rightarrow> agent_config \<Rightarrow> goerr option" where
  "check_agent_config parse c =
     or_err (required (ac_config_server_url c) ''CONFIG_SERVER_URL is required (or pass --config-server)'')
     (or_err (check_http_url parse (ac_config_server_url c) (wrapf [''CONFIG_SERVER_URL is invalid''])
               (errf [''CONFIG_SERVER_URL must use http or https'']) (errf [''CONFIG_SERVER_URL must include a host'']))
     (or_err (required (ac_org c) ''CONFIG_AGENT_ORG is required (or pass --org)'')
     (or_err (required (ac_project c) ''CONFIG_AGENT_PROJECT is required (or pass --project)'')
     (or_err (required (ac_service c) ''CONFIG_AGENT_SERVICE is required (or pass --service)'')
     (or_err (positive_duration ''CONFIG_AGENT_HTTP_TIMEOUT'' (ac_http_timeout c))
     (or_err (positive_duration ''CONFIG_AGENT_POLL_INTERVAL'' (ac_poll_interval c))
     (or_err (positive_duration ''CONFIG_AGENT_DEBOUNCE_COOLDOWN'' (ac_debounce_cooldown c))
     (or_err (positive_duration ''CONFIG_AGENT_DEBOUNCE_QUIET_PERIOD'' (ac_debounce_quiet c))
     (or_err (positive_duration ''CONFIG_AGENT_DEBOUNCE_MAX_WAIT'' (ac_debounce_max_wait c))
     (or_err (if ac_debounce_max_wait c < ac_debounce_quiet c
              then Some (errf [''CONFIG_AGENT_DEBOUNCE_MAX_WAIT must be >= CONFIG_AGENT_DEBOUNCE_QUIET_PERIOD'']) else None)
     (or_err (if ac_debounce_max_wait c < ac_debounce_cooldown c
              then Some (errf [''CONFIG_AGENT_DEBOUNCE_MAX_WAIT must be >= CONFIG_AGENT_DEBOUNCE_COOLDOWN'']) else None)
     (or_err (if ac_resolve_secrets c \<and> ac_api_key c = []
              then Some (errf [''CONFIG_AGENT_API_KEY or API_KEY is required when --resolve-secrets is enabled'']) else None)
             (if \<not> ac_dry_run c then Some (errf [''only --dry-run mode is implemented in this slice'']) else None)))))))))))))"

definition validate_agent_config :: "(string \<Rightarrow> goerr + go_url) \<Rightarrow> agent_config \<Rightarrow> goerr + agent_config" where
  "validate_agent_config parse c =
     (let c = agent_trim_strings c in
      case check_agent_config parse c of Some e \<Rightarrow> Inl e | None \<Rightarrow> Inr c)"

definition agent_service_ref :: "agent_config \<Rightarrow> service_ref" where
  "agent_service_ref c = \<lparr>ref_org = ac_org c, ref_project = ac_project c, ref_service = ac_service c\<rparr>"

definition agent_env_strings :: "getenv \<Rightarrow> agent_config" where
  "agent_env_strings getenv =
     \<lparr>ac_config_server_url = first_env getenv [''CONFIG_SERVER_URL'', ''CONFIG_AGENT_CONFIG_SERVER_URL''],
      ac_org = first_env getenv [''CONFIG_AGENT_ORG'', ''ORG''],
      ac_project = first_env getenv [''CONFIG_AGENT_PROJECT'', ''PROJECT''],
      ac_service = first_env getenv [''CONFIG_AGENT_SERVICE'', ''SERVICE''],
      ac_api_key = first_env getenv [''CONFIG_AGENT_API_KEY'', ''API_KEY''],
      ac_dry_run = False, ac_resolve_secrets = False,
      ac_http_timeout = 5 * second,
      ac_log_level = first_env_with_default getenv ''info'' [''CONFIG_AGENT_LOG_LEVEL'', ''LOG_LEVEL''],
      ac_target_namespace = getenv ''CONFIG_AGENT_TARGET_NAMESPACE'',
      ac_target_config_map = getenv ''CONFIG_AGENT_TARGET_CONFIGMAP'',
      ac_target_secret = getenv ''CONFIG_AGENT_TARGET_SECRET'',
      ac_target_deployment = getenv ''CONFIG_AGENT_TARGET_DEPLOYMENT'',
      ac_poll_interval = default_poll_interval,
      ac_debounce_cooldown = 10 * second,
      ac_debounce_quiet = 10 * second,
      ac_debounce_max_wait = 120 * second\<rparr>"

definition agent_flags :: "(string \<times> agent_config flag_kind) list" where
  "agent_flags =
     [(''config-server'', FlagString (\<lambda>v c. c\<lparr>ac_config_server_url := v\<rparr>)),
      (''org'', FlagString (\<lambda>v c. c\<lparr>ac_org := v\<rparr>)),
      (''project'', FlagString (\<lambda>v c. c\<lparr>ac_project := v\<rparr>)),
      (''service'', FlagString (\<lambda>v c. c\<lparr>ac_service := v\<rparr>)),
      (''dry-run'', FlagBool (\<lambda>v c. c\<lparr>ac_dry_run := v\<rparr>)),
      (''resolve-secrets'', FlagBool (\<lambda>v c. c\<lparr>ac_resolve_secrets := v\<rparr>)),
      (''http-timeout'', FlagDuration (\<lambda>v c. c\<lparr>ac_http_timeout := v\<rparr>)),
      (''log-level'', FlagString (\<lambda>v c. c\<lparr>ac_log_level := v\<rparr>)),
      (''target-namespace'', FlagString (\<lambda>v c. c\<lparr>ac_target_namespace := v\<rparr>)),
      (''target-configmap'', FlagString (\<lambda>v c. c\<lparr>ac_target_config_map := v\<rparr>)),
      (''target-secret'', FlagString (\<lambda>v c. c\<lparr>ac_target_secret := v\<rparr>)),
      (''target-deployment'', FlagString (\<lambda>v c. c\<lparr>ac_target_deployment := v\<rparr>)),
      (''poll-interval'', FlagDuration (\<lambda>v c. c\<lparr>ac_poll_interval := v\<rparr>)),
      (''debounce-cooldown'', FlagDuration (\<lambda>v c. c\<lparr>ac_debounce_cooldown := v\<rparr>)),
      (''debounce-quiet-period'', FlagDuration (\<lambda>v c. c\<lparr>ac_debounce_quiet := v\<rparr>)),
      (''debounce-max-wait'', FlagDuration (\<lambda>v c. c\<lparr>ac_debounce_max_wait := v\<rparr>))]"

definition load_agent_env :: "go_parse \<Rightarrow> getenv \<Rightarrow> goerr + agent_config" where
  "load_agent_env P getenv =
     (let c = agent_env_strings getenv in
      ebind (agent_env_bool getenv ''CONFIG_AGENT_DRY_RUN'' False) (\<lambda>dry.
      ebind (agent_env_bool getenv ''CONFIG_AGENT_RESOLVE_SECRETS'' False) (\<lambda>resolve.
      ebind (agent_env_duration P getenv ''CONFIG_AGENT_HTTP_TIMEOUT'' (ac_http_timeout c)) (\<lambda>http.
      ebind (agent_env_duration P getenv ''CONFIG_AGENT_POLL_INTERVAL'' (ac_poll_interval c)) (\<lambda>poll.
      ebind (agent_env_duration P getenv ''CONFIG_AGENT_DEBOUNCE_COOLDOWN'' (ac_debounce_cooldown c)) (\<lambda>cool.
      ebind (agent_env_duration P getenv ''CONFIG_AGENT_DEBOUNCE_QUIET_PERIOD'' (ac_debounce_quiet c)) (\<lambda>quiet.
      ebind (agent_env_duration P getenv ''CONFIG_AGENT_DEBOUNCE_MAX_WAIT'' (ac_debounce_max_wait c)) (\<lambda>max_wait.
        Inr (c\<lparr>ac_dry_run := dry, ac_resolve_secrets := resolve, ac_http_timeout := http, ac_poll_interval := poll,
               ac_debounce_cooldown := cool, ac_debounce_quiet := quiet, ac_debounce_max_wait := max_wait\<rparr>)))))))))"

definition load_agent_config ::
  "go_parse \<Rightarrow> (string \<Rightarrow> goerr + go_url) \<Rightarrow> string list \<Rightarrow> getenv option \<Rightarrow> goerr + agent_config" where
  "load_agent_config P parse args getenv =
     ebind (load_agent_env P (case getenv of None \<Rightarrow> (\<lambda>_. []) | Some g \<Rightarrow> g)) (\<lambda>c.
     ebind (flag_parse P agent_flags args (c, [])) (\<lambda>(c, _).
       validate_agent_config parse c))"

subsection \<open>The dry run\<close>

record dry_run_result =
  dr_ref :: service_ref
  dr_version :: string
  dr_config_updated :: bool
  dr_env_updated :: bool
  dr_config_keys :: nat
  dr_plain_env_vars :: nat
  dr_secret_refs :: nat
  dr_resolved_secrets :: nat
  dr_resolve_secrets :: bool

text \<open>A client answers snapshots; a nil snapshot without an error would panic (\<open>None\<close>).\<close>

definition run_dry_run ::
  "agent_config option \<Rightarrow> 'w snapshot_client option \<Rightarrow> 'w \<Rightarrow> (goerr + dry_run_result) option \<times> 'w" where
  "run_dry_run cfg client w =
     (case cfg of
        None \<Rightarrow> (Some (Inl (errf [''agent config is required''])), w)
      | Some cfg \<Rightarrow>
          (case client of
             None \<Rightarrow> (Some (Inl (errf [''snapshot client is required''])), w)
           | Some cl \<Rightarrow>
               (let ref = agent_service_ref cfg in
                case sc_fetch_config cl ref w of
                  (Inl e, w) \<Rightarrow> (Some (Inl e), w)
                | (Inr cs, w) \<Rightarrow>
                    (case sc_fetch_env_vars cl ref (ac_resolve_secrets cfg) w of
                       (Inl e, w) \<Rightarrow> (Some (Inl e), w)
                     | (Inr es, w) \<Rightarrow>
                         (case (cs, es) of
                            (Some cs, Some es) \<Rightarrow>
                              (Some (Inr
                                \<lparr>dr_ref = ref,
                                 dr_version = (if am_version (cs_metadata cs) = [] then am_version (es_metadata es) else am_version (cs_metadata cs)),
                                 dr_config_updated = (am_updated_at (cs_metadata cs) \<noteq> 0),
                                 dr_env_updated = (am_updated_at (es_metadata es) \<noteq> 0),
                                 dr_config_keys = length (nz (cs_config cs)),
                                 dr_plain_env_vars = length (av_plain (es_env_vars es)),
                                 dr_secret_refs = length (av_secret_refs (es_env_vars es)),
                                 dr_resolved_secrets = length (av_secrets (es_env_vars es)),
                                 dr_resolve_secrets = ac_resolve_secrets cfg\<rparr>), w)
                          | _ \<Rightarrow> (None, w))))))"

end
