(* ===== verification/AgentConfigProps.thy ===== *)
theory AgentConfigProps
  imports AgentConfig
begin

text \<open>
  The settings the agent accepts are the settings its parts accept, and a flag overrides the environment.
\<close>

lemma check_http_url_None:
  "check_http_url parse raw invalid scheme host = None \<longleftrightarrow>
   (\<exists>u. parse raw = Inr u \<and> (url_scheme u = ''http'' \<or> url_scheme u = ''https'') \<and> url_host u \<noteq> [])"
  by (auto simp: check_http_url_def split: sum.split)

lemma required_None [simp]: "required v msg = None \<longleftrightarrow> v \<noteq> []"
  by (simp add: required_def)

text \<open>The fetch loop and the debouncer as the settings describe them\<close>

definition agent_fetch_config :: "agent_config \<Rightarrow> fetch_loop_config" where
  "agent_fetch_config c =
     \<lparr>fc_ref = agent_service_ref c, fc_resolve_secrets = ac_resolve_secrets c, fc_poll_interval = ac_poll_interval c,
      fc_retry_initial_backoff = 0, fc_retry_max_backoff = 0\<rparr>"

definition agent_debounce_config :: "agent_config \<Rightarrow> debounce_config" where
  "agent_debounce_config c =
     \<lparr>bc_cooldown = ac_debounce_cooldown c, bc_quiet_period = ac_debounce_quiet c, bc_max_wait = ac_debounce_max_wait c\<rparr>"

lemma load_agent_config_checked:
  assumes "load_agent_config P parse args getenv = Inr c"
  shows "check_agent_config parse c = None \<and> agent_trim_strings c = c"
proof -
  from assms obtain c0 where "validate_agent_config parse c0 = Inr c"
    by (auto simp: load_agent_config_def)
  then show ?thesis
    by (auto simp: validate_agent_config_def Let_def agent_trim_strings_def split: option.splits)
qed

text \<open>Accepted settings are accepted everywhere: when the agent loads its settings without an error, from whatever
  environment and command line, then the client, the fetch loop and the debouncer built from them are all constructed,
  the service reference is complete, and secrets are only resolved with an API key.\<close>
theorem loaded_settings_work:
  assumes "load_agent_config P (parse_url C) args getenv = Inr c"
  shows "\<not> isl (new_client C \<lparr>co_base_url = ac_config_server_url c, co_api_key = ac_api_key c, co_max_response_bytes = 0\<rparr>) \<and>
    \<not> isl (new_fetch_loop (Some client) (agent_fetch_config c)) \<and>
    \<not> isl (new_debouncer (agent_debounce_config c)) \<and>
    validate_ref (agent_service_ref c) = None \<and> (if ac_resolve_secrets c then ac_api_key c \<noteq> [] else True)"
proof -
  from load_agent_config_checked [OF assms] have chk: "check_agent_config (parse_url C) c = None"
    and trim: "agent_trim_strings c = c" by blast+
  from trim have t: "trim_space (ac_config_server_url c) = ac_config_server_url c" "trim_space (ac_org c) = ac_org c"
    "trim_space (ac_project c) = ac_project c" "trim_space (ac_service c) = ac_service c"
    by (cases c; simp add: agent_trim_strings_def)+
  note facts = chk [unfolded check_agent_config_def or_err_None_iff check_http_url_None required_None positive_duration_None]
  have ref: "validate_ref (agent_service_ref c) = None"
    using facts by (simp add: validate_ref_def ref_normalized_def agent_service_ref_def t Let_def)
  have "\<not> isl (new_client C \<lparr>co_base_url = ac_config_server_url c, co_api_key = ac_api_key c, co_max_response_bytes = 0\<rparr>)"
    using facts by (auto simp: new_client_def t)
  moreover have "validate_debounce (agent_debounce_config c) = None"
    unfolding validate_debounce_def or_err_None_iff positive_duration_None using facts
    by (simp add: agent_debounce_config_def split: if_splits)
  then have "\<not> isl (new_debouncer (agent_debounce_config c))" by (simp add: new_debouncer_def)
  moreover have norm: "ref_normalized (agent_service_ref c) = agent_service_ref c"
    by (simp add: ref_normalized_def agent_service_ref_def t)
  have "validate_fetch_config (fetch_config_with_defaults (agent_fetch_config c)) = None"
    unfolding validate_fetch_config_def or_err_None_iff positive_duration_None using facts ref norm
    by (simp add: fetch_config_with_defaults_def agent_fetch_config_def second_def)
  then have "\<not> isl (new_fetch_loop (Some client) (agent_fetch_config c))" by (simp add: new_fetch_loop_def Let_def)
  ultimately show ?thesis using facts ref by (auto split: if_splits)
qed

text \<open>A flag on the command line overrides the environment.\<close>

lemma flag_overrides_environment:
  "flag_parse P agent_flags [''--org'', v] (c, []) = Inr (c\<lparr>ac_org := v\<rparr>, [''org''])"
  by (simp add: agent_flags_def split_flag_def flag_set_def)

definition sample_go_parse :: go_parse where
  "sample_go_parse =
     \<lparr>gp_duration = (\<lambda>s. Inl (errf [''no duration''])), gp_atoi = (\<lambda>s. Inl (errf [''no number''])),
      gp_int = (\<lambda>s. Inl (errf [''no number''])), gp_float = (\<lambda>s. Inl (errf [''no number''])), gp_show_float = (\<lambda>f. [])\<rparr>"

definition sample_parse_url :: "string \<Rightarrow> goerr + go_url" where
  "sample_parse_url s =
     Inr \<lparr>url_scheme = ''http'', url_host = s, url_path = [], url_raw_path = [], url_raw_query = [], url_fragment = []\<rparr>"

definition sample_agent_args :: "string list" where
  "sample_agent_args = [''--config-server'', ''h'', ''--org=o'', ''--project'', ''p'', ''--service'', ''s'', ''--dry-run'']"

definition sample_agent_lib :: "unit client_lib" where
  "sample_agent_lib =
     \<lparr>parse_url = sample_parse_url, escaped_path = url_path,
      http_do = (\<lambda>u hs w. (Inl (errf [''offline'']), w)),
      decode_config = (\<lambda>b. Inl (errf [''empty''])), decode_env_vars = (\<lambda>b. Inl (errf [''empty'']))\<rparr>"

definition sample_agent_config :: agent_config where
  "sample_agent_config =
     (agent_env_strings (\<lambda>_. []))\<lparr>ac_config_server_url := ''h'', ac_org := ''o'', ac_project := ''p'', ac_service := ''s'',
       ac_dry_run := True\<rparr>"

lemma sample_agent_load:
  "load_agent_config sample_go_parse (parse_url sample_agent_lib) sample_agent_args None = Inr sample_agent_config"
proof -
  have env: "load_agent_env sample_go_parse (\<lambda>_. []) = Inr (agent_env_strings (\<lambda>_. []))"
    by (simp add: load_agent_env_def agent_env_bool_def agent_env_duration_def agent_env_strings_def Let_def)
  have parse: "\<exists>seen. flag_parse sample_go_parse agent_flags sample_agent_args (c, []) =
    Inr (c\<lparr>ac_config_server_url := ''h'', ac_org := ''o'', ac_project := ''p'', ac_service := ''s'', ac_dry_run := True\<rparr>, seen)" for c
    by (simp add: sample_agent_args_def agent_flags_def split_flag_def flag_set_def parse_bool_def)
  then obtain seen where p: "flag_parse sample_go_parse agent_flags sample_agent_args (agent_env_strings (\<lambda>_. []), []) = Inr (sample_agent_config, seen)"
    unfolding sample_agent_config_def by blast
  have trim: "agent_trim_strings sample_agent_config = sample_agent_config"
    by (simp add: agent_trim_strings_def sample_agent_config_def agent_env_strings_def first_env_with_default_def trim_space_printable printable_def Let_def)
  have "check_agent_config (parse_url sample_agent_lib) sample_agent_config = None"
    by (simp add: check_agent_config_def sample_agent_config_def agent_env_strings_def sample_agent_lib_def sample_parse_url_def
        check_http_url_def second_def default_poll_interval_def)
  then show ?thesis
    by (simp add: load_agent_config_def env p validate_agent_config_def trim)
qed

theorem loaded_settings_work_witness: "validate_ref (agent_service_ref sample_agent_config) = None"
  using loaded_settings_work [OF sample_agent_load] by blast

end
