(* ===== verification/AgentKube.thy ===== *)
theory AgentKube
  imports GoTime
begin

text \<open>
  The agent's writes to Kubernetes: the target ConfigMap and Secret (internal/agent/apply.go), the rollout of
  the target Deployment (internal/agent/rollout.go) and the leader election settings
  (internal/agent/leader.go). The Kubernetes API and its name checks are the parameter \<open>kube\<close>: a merge patch is
  the data it sets, every call answers an error or not and a new world.
\<close>

record 'w kube =
  kb_dns_label_errs :: "string \<Rightarrow> string list"
  kb_dns_subdomain_errs :: "string \<Rightarrow> string list"
  kb_is_not_found :: "goerr \<Rightarrow> bool"
  kb_is_already_exists :: "goerr \<Rightarrow> bool"
  kb_patch_config_map :: "string \<Rightarrow> string \<Rightarrow> (string, string) gomap \<Rightarrow> 'w \<Rightarrow> goerr option \<times> 'w"
  kb_create_config_map :: "string \<Rightarrow> string \<Rightarrow> (string, string) gomap \<Rightarrow> 'w \<Rightarrow> goerr option \<times> 'w"
  kb_patch_secret :: "string \<Rightarrow> string \<Rightarrow> (string, bytes) gomap \<Rightarrow> 'w \<Rightarrow> goerr option \<times> 'w"
  kb_create_secret :: "string \<Rightarrow> string \<Rightarrow> (string, bytes) gomap \<Rightarrow> 'w \<Rightarrow> goerr option \<times> 'w"
  kb_patch_deployment :: "string \<Rightarrow> string \<Rightarrow> (string, string) gomap \<Rightarrow> 'w \<Rightarrow> goerr option \<times> 'w"
  kb_ctx_err :: "'w \<Rightarrow> goerr option"
  kb_now :: "'w \<Rightarrow> gotime \<times> 'w"
  kb_format_time :: "gotime \<Rightarrow> string"
  kb_sha256_hex :: "bytes \<Rightarrow> string"

subsection \<open>ConfigMap and Secret\<close>

record apply_target =
  at_namespace :: string
  at_config_map_name :: string
  at_secret_name :: string

record apply_payloads =
  ap_config_yaml :: bytes
  ap_env_sh :: bytes

definition config_map_data_key :: string where "config_map_data_key = ''config.yaml''"
definition env_sh_data_key :: string where "env_sh_data_key = ''env.sh''"

definition new_kubernetes_applier :: "bool \<Rightarrow> duration \<Rightarrow> goerr option" where
  "new_kubernetes_applier has_client timeout =
     or_err (if \<not> has_client then Some (errf [''kubernetes client is required'']) else None)
            (positive_duration ''kubernetes apply timeout'' timeout)"

definition apply_target_normalized :: "apply_target \<Rightarrow> apply_target" where
  "apply_target_normalized t =
     \<lparr>at_namespace = trim_space (at_namespace t), at_config_map_name = trim_space (at_config_map_name t),
      at_secret_name = trim_space (at_secret_name t)\<rparr>"

text \<open>A required name and its check by \<open>validation.IsDNS1123...\<close>\<close>

definition check_kube_name :: "string \<Rightarrow> (string \<Rightarrow> string list) \<Rightarrow> string \<Rightarrow> goerr option" where
  "check_kube_name what errs v =
     (if v = [] then Some (errf [what, '' is required''])
      else if length (errs v) > 0
      then Some (errf [what, '' '', quote v, '' is invalid: '', join ''; '' (errs v)]) else None)"

definition validate_apply_target :: "'w kube \<Rightarrow> apply_target \<Rightarrow> goerr option" where
  "validate_apply_target K t =
     or_err (check_kube_name ''target namespace'' (kb_dns_label_errs K) (at_namespace t))
     (or_err (check_kube_name ''target configmap name'' (kb_dns_subdomain_errs K) (at_config_map_name t))
             (check_kube_name ''target secret name'' (kb_dns_subdomain_errs K) (at_secret_name t)))"

text \<open>
  \<open>applyConfigMap\<close> and \<open>applySecret\<close>: patch; when the resource does not exist create it; when it was created
  meanwhile patch again.
\<close>

definition patch_or_create ::
  "'w kube \<Rightarrow> string \<Rightarrow> string \<Rightarrow> string \<Rightarrow> ('w \<Rightarrow> goerr option \<times> 'w) \<Rightarrow> ('w \<Rightarrow> goerr option \<times> 'w) \<Rightarrow> 'w \<Rightarrow> goerr option \<times> 'w" where
  "patch_or_create K what namespace name patch create w =
     (let failed = (\<lambda>e. Some (wrapf [''create/patch '', what, '' '', namespace, ''/'', name] e)) in
      case patch w of
        (None, w) \<Rightarrow> (None, w)
      | (Some e, w) \<Rightarrow>
          if \<not> kb_is_not_found K e then (Some (wrapf [''patch '', what, '' '', namespace, ''/'', name] e), w)
          else
            (case create w of
               (None, w) \<Rightarrow> (None, w)
             | (Some e, w) \<Rightarrow>
                 if kb_is_already_exists K e
                 then (case patch w of (None, w) \<Rightarrow> (None, w) | (Some e, w) \<Rightarrow> (failed e, w))
                 else (failed e, w)))"

definition apply_config_map :: "'w kube \<Rightarrow> apply_target \<Rightarrow> bytes \<Rightarrow> 'w \<Rightarrow> goerr option \<times> 'w" where
  "apply_config_map K t config_yaml w =
     patch_or_create K ''configmap'' (at_namespace t) (at_config_map_name t)
       (kb_patch_config_map K (at_namespace t) (at_config_map_name t) [(config_map_data_key, config_yaml)])
       (kb_create_config_map K (at_namespace t) (at_config_map_name t) [(config_map_data_key, config_yaml)]) w"

definition apply_secret :: "'w kube \<Rightarrow> apply_target \<Rightarrow> bytes \<Rightarrow> 'w \<Rightarrow> goerr option \<times> 'w" where
  "apply_secret K t env_sh w =
     patch_or_create K ''secret'' (at_namespace t) (at_secret_name t)
       (kb_patch_secret K (at_namespace t) (at_secret_name t) [(env_sh_data_key, env_sh)])
       (kb_create_secret K (at_namespace t) (at_secret_name t) [(env_sh_data_key, env_sh)]) w"

definition apply_rendered_payloads :: "'w kube \<Rightarrow> apply_target \<Rightarrow> apply_payloads \<Rightarrow> 'w \<Rightarrow> goerr option \<times> 'w" where
  "apply_rendered_payloads K target payloads w =
     (case kb_ctx_err K w of
        Some e \<Rightarrow> (Some e, w)
      | None \<Rightarrow>
          (let target = apply_target_normalized target in
           case validate_apply_target K target of
             Some e \<Rightarrow> (Some e, w)
           | None \<Rightarrow>
               (case apply_config_map K target (ap_config_yaml payloads) w of
                  (Some e, w) \<Rightarrow> (Some e, w)
                | (None, w) \<Rightarrow> apply_secret K target (ap_env_sh payloads) w)))"

subsection \<open>Rollout\<close>

record rollout_target =
  rt_namespace :: string
  rt_deployment_name :: string

record rollout_result =
  rr_config_hash :: string
  rr_restart_at :: string

definition rollout_target_normalized :: "rollout_target \<Rightarrow> rollout_target" where
  "rollout_target_normalized t =
     \<lparr>rt_namespace = trim_space (rt_namespace t), rt_deployment_name = trim_space (rt_deployment_name t)\<rparr>"

definition validate_rollout_target :: "'w kube \<Rightarrow> rollout_target \<Rightarrow> goerr option" where
  "validate_rollout_target K t =
     or_err (check_kube_name ''target namespace'' (kb_dns_label_errs K) (rt_namespace t))
            (check_kube_name ''target deployment name'' (kb_dns_subdomain_errs K) (rt_deployment_name t))"

text \<open>The bytes that \<open>payloadConfigHash\<close> feeds to SHA-256\<close>

definition hash_input :: "apply_payloads \<Rightarrow> bytes" where
  "hash_input p =
     config_map_data_key @ [CHR 0x00] @ ap_config_yaml p @ [CHR 0x00] @ env_sh_data_key @ [CHR 0x00] @ ap_env_sh p"

definition payload_config_hash :: "'w kube \<Rightarrow> apply_payloads \<Rightarrow> string" where
  "payload_config_hash K p = kb_sha256_hex K (hash_input p)"

definition trigger_rollout :: "'w kube \<Rightarrow> rollout_target \<Rightarrow> apply_payloads \<Rightarrow> 'w \<Rightarrow> (goerr + rollout_result) \<times> 'w" where
  "trigger_rollout K target payloads w =
     (case kb_ctx_err K w of
        Some e \<Rightarrow> (Inl e, w)
      | None \<Rightarrow>
          (let target = rollout_target_normalized target in
           case validate_rollout_target K target of
             Some e \<Rightarrow> (Inl e, w)
           | None \<Rightarrow>
               (let (now, w) = kb_now K w;
                    result = \<lparr>rr_config_hash = payload_config_hash K payloads, rr_restart_at = kb_format_time K now\<rparr>
                in case kb_patch_deployment K (rt_namespace target) (rt_deployment_name target)
                          [(''config-agent/config-hash'', rr_config_hash result), (''config-agent/restart-at'', rr_restart_at result)] w of
                     (Some e, w) \<Rightarrow> (Inl (wrapf [''patch deployment '', rt_namespace target, ''/'', rt_deployment_name target] e), w)
                   | (None, w) \<Rightarrow> (Inr result, w))))"

subsection \<open>Leader election\<close>

record leader_config =
  lc_namespace :: string
  lc_lease_name :: string
  lc_identity :: string
  lc_lease_duration :: duration
  lc_renew_deadline :: duration
  lc_retry_period :: duration
  lc_release_on_cancel :: bool

definition default_leader_config :: "string \<Rightarrow> string \<Rightarrow> string \<Rightarrow> leader_config" where
  "default_leader_config namespace lease_name identity =
     \<lparr>lc_namespace = namespace, lc_lease_name = lease_name, lc_identity = identity, lc_lease_duration = 15 * second,
      lc_renew_deadline = 10 * second, lc_retry_period = 2 * second, lc_release_on_cancel = True\<rparr>"

definition leader_normalized :: "leader_config \<Rightarrow> leader_config" where
  "leader_normalized c =
     c\<lparr>lc_namespace := trim_space (lc_namespace c), lc_lease_name := trim_space (lc_lease_name c),
       lc_identity := trim_space (lc_identity c)\<rparr>"

text \<open>
  A positive integer to float64 and the product with the float64 constant 1.2, both rounded to 53 bits (to
  nearest, ties to even), and back to an integer.
\<close>

fun bit_len :: "nat \<Rightarrow> nat" where
  "bit_len n = (if n = 0 then 0 else Suc (bit_len (n div 2)))"

declare bit_len.simps [simp del]

definition round53 :: "nat \<Rightarrow> nat" where
  "round53 m =
     (let s = bit_len m - 53; d = 2 ^ s; q = m div d; r = m mod d
      in (if 2 * r > d \<or> (2 * r = d \<and> odd q) then Suc q else q) * d)"

definition float_times_1_2 :: "nat \<Rightarrow> nat" where
  "float_times_1_2 n = round53 (round53 n * 5404319552844595) div 2 ^ 52"

definition check_leader_name :: "string \<Rightarrow> (string \<Rightarrow> string list) \<Rightarrow> string \<Rightarrow> goerr option" where
  "check_leader_name what errs v =
     (if v = [] then Some (errf [what, '' is required''])
      else if length (errs v) > 0 then Some (errf [what, '' is invalid: '', join ''; '' (errs v)]) else None)"

definition validate_leader :: "'w kube \<Rightarrow> leader_config \<Rightarrow> goerr option" where
  "validate_leader K c0 =
     (let c = leader_normalized c0 in
      or_err (check_leader_name ''leader election namespace'' (kb_dns_label_errs K) (lc_namespace c))
     (or_err (check_leader_name ''leader election lease name'' (kb_dns_subdomain_errs K) (lc_lease_name c))
     (or_err (if lc_identity c = [] then Some (errf [''leader election identity is required'']) else None)
     (or_err (positive_duration ''leader election lease duration'' (lc_lease_duration c))
     (or_err (positive_duration ''leader election renew deadline'' (lc_renew_deadline c))
     (or_err (positive_duration ''leader election retry period'' (lc_retry_period c))
     (or_err (if lc_lease_duration c \<le> lc_renew_deadline c
              then Some (errf [''leader election lease duration must be greater than renew deadline'']) else None)
     (or_err (if lc_renew_deadline c \<le> lc_retry_period c
              then Some (errf [''leader election renew deadline must be greater than retry period'']) else None)
             (if lc_renew_deadline c \<le> int (float_times_1_2 (nat (lc_retry_period c)))
              then Some (errf [''leader election renew deadline must be greater than retry period * 1.2'']) else None)))))))))"

end
