(* ===== verification/ServerConfig.thy ===== *)
theory ServerConfig
  imports GoFlag AgentConfig Registry SecretVolume
begin

text \<open>
  The settings of the Config Server (internal/config/config.go): environment, flags, defaults and
  validation. A malformed environment value falls back to its default with a warning (the log is left
  out). The five rate limits are one record each.
\<close>

record rate_limit_config =
  rl_requests_per_second :: gofloat
  rl_burst :: int

record server_config =
  sv_addr :: string
  sv_git_url :: string
  sv_git_branch :: string
  sv_git_local_path :: string
  sv_git_poll_interval :: duration
  sv_git_ssh_key_path :: string
  sv_git_username :: string
  sv_git_password :: string
  sv_api_key :: string
  sv_allow_unauthenticated_dev :: bool
  sv_secret_mount_path :: string
  sv_controller_namespace :: string
  sv_controller_name :: string
  sv_sealed_secret_scope :: string
  sv_k8s_apply_timeout :: duration
  sv_secret_audit_log_enabled :: "bool option"
  sv_console_api_url :: string
  sv_console_api_timeout :: duration
  sv_bootstrap_attempts :: int
  sv_bootstrap_initial_backoff :: duration
  sv_bootstrap_max_backoff :: duration
  sv_rate_admin :: rate_limit_config
  sv_rate_secret_resolve :: rate_limit_config
  sv_rate_watch :: rate_limit_config
  sv_rate_batch :: rate_limit_config
  sv_rate_read :: rate_limit_config
  sv_log_level :: string
  sv_k8s_apply_timeout_explicit :: bool

subsection \<open>Environment\<close>

definition env_or :: "getenv \<Rightarrow> string \<Rightarrow> string \<Rightarrow> string" where
  "env_or getenv key fallback = (if getenv key \<noteq> [] then getenv key else fallback)"

definition env_parsed :: "(string \<Rightarrow> goerr + 'a) \<Rightarrow> getenv \<Rightarrow> string \<Rightarrow> 'a \<Rightarrow> 'a" where
  "env_parsed parse getenv key fallback =
     (if getenv key = [] then fallback
      else (case parse (getenv key) of Inl e \<Rightarrow> fallback | Inr x \<Rightarrow> x))"

definition env_duration :: "go_parse \<Rightarrow> getenv \<Rightarrow> string \<Rightarrow> duration \<Rightarrow> duration" where
  "env_duration P = env_parsed (gp_duration P)"

definition env_int :: "go_parse \<Rightarrow> getenv \<Rightarrow> string \<Rightarrow> int \<Rightarrow> int" where
  "env_int P = env_parsed (gp_atoi P)"

definition env_float :: "go_parse \<Rightarrow> getenv \<Rightarrow> string \<Rightarrow> gofloat \<Rightarrow> gofloat" where
  "env_float P = env_parsed (gp_float P)"

definition env_bool :: "getenv \<Rightarrow> string \<Rightarrow> bool \<Rightarrow> bool" where
  "env_bool getenv key fallback =
     (let v = getenv key in
      if v = [] then fallback
      else if v \<in> {''1'', ''true'', ''TRUE'', ''True'', ''yes'', ''on''} then True
      else if v \<in> {''0'', ''false'', ''FALSE'', ''False'', ''no'', ''off''} then False
      else fallback)"

subsection \<open>Validation\<close>

definition apply_defaults :: "server_config \<Rightarrow> server_config" where
  "apply_defaults c =
     c\<lparr>sv_secret_mount_path := (if sv_secret_mount_path c = [] then ''/secrets'' else sv_secret_mount_path c),
       sv_controller_namespace := (if sv_controller_namespace c = [] then ''kube-system'' else sv_controller_namespace c),
       sv_controller_name := (if sv_controller_name c = [] then ''sealed-secrets-controller'' else sv_controller_name c),
       sv_sealed_secret_scope := (if sv_sealed_secret_scope c = [] then ''strict'' else sv_sealed_secret_scope c),
       sv_k8s_apply_timeout := (if sv_k8s_apply_timeout c = 0 \<and> \<not> sv_k8s_apply_timeout_explicit c then 10 * second
                                else sv_k8s_apply_timeout c),
       sv_secret_audit_log_enabled := (case sv_secret_audit_log_enabled c of None \<Rightarrow> Some True | Some b \<Rightarrow> Some b),
       sv_console_api_timeout := (if sv_console_api_timeout c = 0 then 5 * second else sv_console_api_timeout c),
       sv_bootstrap_attempts := (if sv_bootstrap_attempts c = 0 then 5 else sv_bootstrap_attempts c),
       sv_bootstrap_initial_backoff := (if sv_bootstrap_initial_backoff c = 0 then second else sv_bootstrap_initial_backoff c),
       sv_bootstrap_max_backoff := (if sv_bootstrap_max_backoff c = 0 then 30 * second else sv_bootstrap_max_backoff c)\<rparr>"

fun float_sign :: "gofloat \<Rightarrow> int" where
  "float_sign (FFin m e) = sgn m"
| "float_sign (FInf neg) = (if neg then -1 else 1)"
| "float_sign FNaN = 0"

fun is_finite :: "gofloat \<Rightarrow> bool" where
  "is_finite (FFin m e) = True"
| "is_finite f = False"

definition validate_rate_limit_config :: "go_parse \<Rightarrow> string \<Rightarrow> rate_limit_config \<Rightarrow> goerr option" where
  "validate_rate_limit_config P prefix cfg =
     (let rps = rl_requests_per_second cfg; burst = rl_burst cfg in
      if \<not> is_finite rps then Some (errf [prefix, ''_RPS must be finite, got '', gp_show_float P rps])
      else if float_sign rps < 0 then Some (errf [prefix, ''_RPS must be >= 0, got '', gp_show_float P rps])
      else if burst < 0 then Some (errf [prefix, ''_BURST must be >= 0, got '', show_int burst])
      else if float_sign rps = 0 \<and> burst = 0 then None
      else if float_sign rps \<le> 0 \<or> burst \<le> 0
      then Some (errf [prefix, '' rate limit requires both '', prefix, ''_RPS > 0 and '', prefix, ''_BURST > 0''])
      else None)"

definition failing :: "bool \<Rightarrow> string list \<Rightarrow> goerr option" where
  "failing bad msg = (if bad then Some (errf msg) else None)"

definition check_server_config :: "go_parse \<Rightarrow> (string \<Rightarrow> goerr + go_url) \<Rightarrow> server_config \<Rightarrow> goerr option" where
  "check_server_config P parse c =
     or_err (failing (sv_git_url c = []) [''GIT_URL is required (set via env or -git-url flag)''])
     (or_err (positive_duration ''GIT_POLL_INTERVAL'' (sv_git_poll_interval c))
     (or_err (failing (sv_api_key c = [] \<and> \<not> sv_allow_unauthenticated_dev c)
               [''API_KEY is required. Set ALLOW_UNAUTHENTICATED_DEV=true only for local dev/test''])
     (or_err (failing (sv_git_ssh_key_path c \<noteq> [] \<and> (sv_git_username c \<noteq> [] \<or> sv_git_password c \<noteq> []))
               [''set either GIT_SSH_KEY or GIT_USERNAME/GIT_PASSWORD, not both''])
     (or_err (failing ((sv_git_username c \<noteq> []) \<noteq> (sv_git_password c \<noteq> []))
               [''GIT_USERNAME and GIT_PASSWORD must be set together''])
     (or_err (failing (sv_secret_mount_path c = []) [''SECRET_MOUNT_PATH is required''])
     (or_err (failing (\<not> has_prefix (sv_secret_mount_path c) ''/'')
               [''SECRET_MOUNT_PATH must be absolute, got '', quote (sv_secret_mount_path c)])
     (or_err (failing (sv_controller_namespace c = []) [''SEALED_SECRET_CONTROLLER_NAMESPACE is required''])
     (or_err (failing (sv_controller_name c = []) [''SEALED_SECRET_CONTROLLER_NAME is required''])
     (or_err (failing (sv_sealed_secret_scope c \<notin> {''strict'', ''namespace-wide'', ''cluster-wide''})
               [''SEALED_SECRET_SCOPE must be one of '', quote ''strict'', '', '', quote ''namespace-wide'', '', or '',
                quote ''cluster-wide'', '', got '', quote (sv_sealed_secret_scope c)])
     (or_err (positive_duration ''K8S_APPLY_TIMEOUT'' (sv_k8s_apply_timeout c))
     (or_err (if sv_console_api_url c \<noteq> []
              then check_http_url parse (sv_console_api_url c) (wrapf [''CONSOLE_API_URL is invalid''])
                     (errf [''CONSOLE_API_URL must use http or https'']) (errf [''CONSOLE_API_URL must include a host''])
              else None)
     (or_err (positive_duration ''CONSOLE_API_TIMEOUT'' (sv_console_api_timeout c))
     (or_err (failing (sv_bootstrap_attempts c \<le> 0)
               [''CONSOLE_REGISTRY_BOOTSTRAP_ATTEMPTS must be > 0, got '', show_int (sv_bootstrap_attempts c)])
     (or_err (positive_duration ''CONSOLE_REGISTRY_BOOTSTRAP_INITIAL_BACKOFF'' (sv_bootstrap_initial_backoff c))
     (or_err (positive_duration ''CONSOLE_REGISTRY_BOOTSTRAP_MAX_BACKOFF'' (sv_bootstrap_max_backoff c))
     (or_err (failing (sv_bootstrap_max_backoff c < sv_bootstrap_initial_backoff c)
               [''CONSOLE_REGISTRY_BOOTSTRAP_MAX_BACKOFF must be >= CONSOLE_REGISTRY_BOOTSTRAP_INITIAL_BACKOFF''])
     (or_err (validate_rate_limit_config P ''RATE_LIMIT_ADMIN'' (sv_rate_admin c))
     (or_err (validate_rate_limit_config P ''RATE_LIMIT_SECRET_RESOLVE'' (sv_rate_secret_resolve c))
     (or_err (validate_rate_limit_config P ''RATE_LIMIT_WATCH'' (sv_rate_watch c))
     (or_err (validate_rate_limit_config P ''RATE_LIMIT_BATCH'' (sv_rate_batch c))
             (validate_rate_limit_config P ''RATE_LIMIT_READ'' (sv_rate_read c))))))))))))))))))))))"

definition validate_server_config ::
  "go_parse \<Rightarrow> (string \<Rightarrow> goerr + go_url) \<Rightarrow> server_config \<Rightarrow> goerr + server_config" where
  "validate_server_config P parse c =
     (let c = apply_defaults c in case check_server_config P parse c of Some e \<Rightarrow> Inl e | None \<Rightarrow> Inr c)"

definition secret_audit_enabled :: "server_config \<Rightarrow> bool" where
  "secret_audit_enabled c = (case sv_secret_audit_log_enabled c of None \<Rightarrow> True | Some b \<Rightarrow> b)"

subsection \<open>Loading\<close>

definition rate_env :: "go_parse \<Rightarrow> getenv \<Rightarrow> string \<Rightarrow> rate_limit_config" where
  "rate_env P getenv name =
     \<lparr>rl_requests_per_second = env_float P getenv (''RATE_LIMIT_'' @ name @ ''_RPS'') (FFin 0 0),
      rl_burst = env_int P getenv (''RATE_LIMIT_'' @ name @ ''_BURST'') 0\<rparr>"

text \<open>The defaults of the flags, from the environment, and the settings that have no flag\<close>

definition server_env :: "go_parse \<Rightarrow> getenv \<Rightarrow> server_config" where
  "server_env P getenv =
     \<lparr>sv_addr = env_or getenv ''ADDR'' '':8080'',
      sv_git_url = env_or getenv ''GIT_URL'' [],
      sv_git_branch = env_or getenv ''GIT_BRANCH'' ''main'',
      sv_git_local_path = env_or getenv ''GIT_LOCAL_PATH'' ''/tmp/aap-helm-charts'',
      sv_git_poll_interval = env_duration P getenv ''GIT_POLL_INTERVAL'' (30 * second),
      sv_git_ssh_key_path = env_or getenv ''GIT_SSH_KEY'' [],
      sv_git_username = env_or getenv ''GIT_USERNAME'' [],
      sv_git_password = getenv ''GIT_PASSWORD'',
      sv_api_key = getenv ''API_KEY'',
      sv_allow_unauthenticated_dev = env_bool getenv ''ALLOW_UNAUTHENTICATED_DEV'' False,
      sv_secret_mount_path = env_or getenv ''SECRET_MOUNT_PATH'' ''/secrets'',
      sv_controller_namespace = env_or getenv ''SEALED_SECRET_CONTROLLER_NAMESPACE'' ''kube-system'',
      sv_controller_name = env_or getenv ''SEALED_SECRET_CONTROLLER_NAME'' ''sealed-secrets-controller'',
      sv_sealed_secret_scope = env_or getenv ''SEALED_SECRET_SCOPE'' ''strict'',
      sv_k8s_apply_timeout = env_duration P getenv ''K8S_APPLY_TIMEOUT'' (10 * second),
      sv_secret_audit_log_enabled = Some (env_bool getenv ''SECRET_AUDIT_LOG_ENABLED'' True),
      sv_console_api_url = env_or getenv ''CONSOLE_API_URL'' [],
      sv_console_api_timeout = env_duration P getenv ''CONSOLE_API_TIMEOUT'' (5 * second),
      sv_bootstrap_attempts = env_int P getenv ''CONSOLE_REGISTRY_BOOTSTRAP_ATTEMPTS'' 5,
      sv_bootstrap_initial_backoff = env_duration P getenv ''CONSOLE_REGISTRY_BOOTSTRAP_INITIAL_BACKOFF'' second,
      sv_bootstrap_max_backoff = env_duration P getenv ''CONSOLE_REGISTRY_BOOTSTRAP_MAX_BACKOFF'' (30 * second),
      sv_rate_admin = rate_env P getenv ''ADMIN'',
      sv_rate_secret_resolve = rate_env P getenv ''SECRET_RESOLVE'',
      sv_rate_watch = rate_env P getenv ''WATCH'',
      sv_rate_batch = rate_env P getenv ''BATCH'',
      sv_rate_read = rate_env P getenv ''READ'',
      sv_log_level = env_or getenv ''LOG_LEVEL'' ''info'',
      sv_k8s_apply_timeout_explicit = False\<rparr>"

definition server_flags :: "(string \<times> server_config flag_kind) list" where
  "server_flags =
     [(''addr'', FlagString (\<lambda>v c. c\<lparr>sv_addr := v\<rparr>)),
      (''git-url'', FlagString (\<lambda>v c. c\<lparr>sv_git_url := v\<rparr>)),
      (''git-branch'', FlagString (\<lambda>v c. c\<lparr>sv_git_branch := v\<rparr>)),
      (''git-local-path'', FlagString (\<lambda>v c. c\<lparr>sv_git_local_path := v\<rparr>)),
      (''git-poll-interval'', FlagDuration (\<lambda>v c. c\<lparr>sv_git_poll_interval := v\<rparr>)),
      (''git-ssh-key'', FlagString (\<lambda>v c. c\<lparr>sv_git_ssh_key_path := v\<rparr>)),
      (''git-username'', FlagString (\<lambda>v c. c\<lparr>sv_git_username := v\<rparr>)),
      (''secret-mount-path'', FlagString (\<lambda>v c. c\<lparr>sv_secret_mount_path := v\<rparr>)),
      (''sealed-secret-controller-namespace'', FlagString (\<lambda>v c. c\<lparr>sv_controller_namespace := v\<rparr>)),
      (''sealed-secret-controller-name'', FlagString (\<lambda>v c. c\<lparr>sv_controller_name := v\<rparr>)),
      (''sealed-secret-scope'', FlagString (\<lambda>v c. c\<lparr>sv_sealed_secret_scope := v\<rparr>)),
      (''k8s-apply-timeout'', FlagDuration (\<lambda>v c. c\<lparr>sv_k8s_apply_timeout := v\<rparr>)),
      (''secret-audit-log-enabled'', FlagBool (\<lambda>v c. c\<lparr>sv_secret_audit_log_enabled := Some v\<rparr>)),
      (''console-api-url'', FlagString (\<lambda>v c. c\<lparr>sv_console_api_url := v\<rparr>)),
      (''console-api-timeout'', FlagDuration (\<lambda>v c. c\<lparr>sv_console_api_timeout := v\<rparr>)),
      (''console-registry-bootstrap-attempts'', FlagInt (\<lambda>v c. c\<lparr>sv_bootstrap_attempts := v\<rparr>)),
      (''console-registry-bootstrap-initial-backoff'', FlagDuration (\<lambda>v c. c\<lparr>sv_bootstrap_initial_backoff := v\<rparr>)),
      (''console-registry-bootstrap-max-backoff'', FlagDuration (\<lambda>v c. c\<lparr>sv_bootstrap_max_backoff := v\<rparr>)),
      (''rate-limit-admin-rps'', FlagFloat (\<lambda>v c. c\<lparr>sv_rate_admin := (sv_rate_admin c)\<lparr>rl_requests_per_second := v\<rparr>\<rparr>)),
      (''rate-limit-admin-burst'', FlagInt (\<lambda>v c. c\<lparr>sv_rate_admin := (sv_rate_admin c)\<lparr>rl_burst := v\<rparr>\<rparr>)),
      (''rate-limit-secret-resolve-rps'', FlagFloat (\<lambda>v c. c\<lparr>sv_rate_secret_resolve := (sv_rate_secret_resolve c)\<lparr>rl_requests_per_second := v\<rparr>\<rparr>)),
      (''rate-limit-secret-resolve-burst'', FlagInt (\<lambda>v c. c\<lparr>sv_rate_secret_resolve := (sv_rate_secret_resolve c)\<lparr>rl_burst := v\<rparr>\<rparr>)),
      (''rate-limit-watch-rps'', FlagFloat (\<lambda>v c. c\<lparr>sv_rate_watch := (sv_rate_watch c)\<lparr>rl_requests_per_second := v\<rparr>\<rparr>)),
      (''rate-limit-watch-burst'', FlagInt (\<lambda>v c. c\<lparr>sv_rate_watch := (sv_rate_watch c)\<lparr>rl_burst := v\<rparr>\<rparr>)),
      (''rate-limit-batch-rps'', FlagFloat (\<lambda>v c. c\<lparr>sv_rate_batch := (sv_rate_batch c)\<lparr>rl_requests_per_second := v\<rparr>\<rparr>)),
      (''rate-limit-batch-burst'', FlagInt (\<lambda>v c. c\<lparr>sv_rate_batch := (sv_rate_batch c)\<lparr>rl_burst := v\<rparr>\<rparr>)),
      (''rate-limit-read-rps'', FlagFloat (\<lambda>v c. c\<lparr>sv_rate_read := (sv_rate_read c)\<lparr>rl_requests_per_second := v\<rparr>\<rparr>)),
      (''rate-limit-read-burst'', FlagInt (\<lambda>v c. c\<lparr>sv_rate_read := (sv_rate_read c)\<lparr>rl_burst := v\<rparr>\<rparr>)),
      (''log-level'', FlagString (\<lambda>v c. c\<lparr>sv_log_level := v\<rparr>))]"

text \<open>\<open>Load\<close>; the flag package ends the process on a bad command line, which is the error here.\<close>

definition load_server_config ::
  "go_parse \<Rightarrow> (string \<Rightarrow> goerr + go_url) \<Rightarrow> string list \<Rightarrow> getenv \<Rightarrow> goerr + server_config" where
  "load_server_config P parse args getenv =
     ebind (flag_parse P server_flags args (server_env P getenv, [])) (\<lambda>(c, seen).
       validate_server_config P parse
         (c\<lparr>sv_k8s_apply_timeout_explicit := (getenv ''K8S_APPLY_TIMEOUT'' \<noteq> [] \<or> ''k8s-apply-timeout'' \<in> set seen)\<rparr>))"

end
