(* ===== verification/ServerConfigProps.thy ===== *)
theory ServerConfigProps
  imports ServerConfig AgentConfigProps
begin

text \<open>
  What loading the server's settings guarantees: credentials come from the environment only, and accepted
  settings are accepted by the parts that are built from them.
\<close>

fun flag_keeps :: "('c \<Rightarrow> 'a) \<Rightarrow> 'c flag_kind \<Rightarrow> bool" where
  "flag_keeps f (FlagString g) = (\<forall>v c. f (g v c) = f c)"
| "flag_keeps f (FlagBool g) = (\<forall>v c. f (g v c) = f c)"
| "flag_keeps f (FlagDuration g) = (\<forall>v c. f (g v c) = f c)"
| "flag_keeps f (FlagInt g) = (\<forall>v c. f (g v c) = f c)"
| "flag_keeps f (FlagFloat g) = (\<forall>v c. f (g v c) = f c)"

lemma flag_set_keeps: "flag_keeps f k \<Longrightarrow> flag_set P k v c = Inr c' \<Longrightarrow> f c' = f c"
  by (cases k) (auto simp: flag_set_def split: option.splits sum.splits)

lemma flag_parse_step:
  assumes "flag_parse P table (arg # args) (c, seen) = Inr r"
  obtains "r = (c, seen)"
  | name k v c2 args2 where "map_of table name = Some k" "flag_set P k v c = Inr c2" "length args2 \<le> length args"
      "flag_parse P table args2 (c2, name # seen) = Inr r"
proof (cases "case arg of [] \<Rightarrow> True | dash # q \<Rightarrow> dash \<noteq> CHR ''-'' \<or> q = [] \<or> q = ''-''")
  case True
  with assms have "r = (c, seen)" by (auto split: list.splits if_splits)
  then show thesis by (rule that(1))
next
  case False
  then obtain q where q: "arg = CHR ''-'' # q" "q \<noteq> []" "q \<noteq> ''-''" by (auto split: list.splits)
  define body where "body = (if hd q = CHR ''-'' then tl q else q)"
  obtain name v where nv: "split_flag body = (name, v)" by (cases "split_flag body")
  note step = assms [unfolded q(1) flag_parse.simps list.case Let_def, folded body_def, unfolded nv prod.case]
  from step obtain k where k: "map_of table name = Some k"
    using q by (auto split: if_splits option.splits)
  note step' = step [unfolded k option.case]
  show thesis
  proof (cases "is_bool_flag k")
    case True
    with step' q show thesis
      by (auto split: if_splits sum.splits intro: that(2) [OF k])
  next
    case False
    show thesis
    proof (cases v)
      case (Some x)
      with step' q False show thesis
        by (auto split: if_splits sum.splits intro: that(2) [OF k])
    next
      case None
      with step' q False obtain x args' where a: "args = x # args'" by (cases args) (auto split: if_splits)
      with step' q False None obtain c2 where "flag_set P k x c = Inr c2" "flag_parse P table args' (c2, name # seen) = Inr r"
        by (auto split: if_splits sum.splits)
      then show thesis using that(2) [OF k, of x c2 args'] a by simp
    qed
  qed
qed

lemma flag_parse_keeps:
  "flag_parse P table args (c, seen) = Inr (c', seen') \<Longrightarrow> list_all (\<lambda>(n, k). flag_keeps f k) table \<Longrightarrow> f c' = f c"
proof (induction "length args" arbitrary: args c seen rule: less_induct)
  case less
  show ?case
  proof (cases args)
    case Nil
    with less.prems show ?thesis by simp
  next
    case (Cons arg args1)
    from less.prems(1) [unfolded Cons] show ?thesis
    proof (cases rule: flag_parse_step)
      case 1
      then show ?thesis by simp
    next
      case (2 name k v c2 args2)
      have "flag_keeps f k" using map_of_SomeD [OF 2(1)] less.prems(2) unfolding list_all_iff by auto
      then have "f c2 = f c" by (rule flag_set_keeps [OF _ 2(2)])
      moreover have "f c' = f c2" using less.hyps [OF _ 2(4) less.prems(2)] 2(3) Cons by simp
      ultimately show ?thesis by simp
    qed
  qed
qed

lemma apply_defaults_keeps [simp]:
  "sv_api_key (apply_defaults c) = sv_api_key c" "sv_git_password (apply_defaults c) = sv_git_password c"
  "sv_allow_unauthenticated_dev (apply_defaults c) = sv_allow_unauthenticated_dev c"
  by (simp_all add: apply_defaults_def)

lemma server_flags_keep_credentials:
  "list_all (\<lambda>(n, k). flag_keeps sv_api_key k) server_flags"
  "list_all (\<lambda>(n, k). flag_keeps sv_git_password k) server_flags"
  "list_all (\<lambda>(n, k). flag_keeps sv_allow_unauthenticated_dev k) server_flags"
  by (simp_all add: server_flags_def)

text \<open>The credentials of the server come from the environment only: no command line changes the API key, the Git
  password or the switch that allows running without an API key.\<close>
theorem credentials_only_from_environment:
  "case load_server_config P parse args getenv of Inl e \<Rightarrow> True
   | Inr c \<Rightarrow> sv_api_key c = getenv ''API_KEY'' \<and> sv_git_password c = getenv ''GIT_PASSWORD'' \<and>
       sv_allow_unauthenticated_dev c = env_bool getenv ''ALLOW_UNAUTHENTICATED_DEV'' False \<and>
       (if sv_api_key c = [] then sv_allow_unauthenticated_dev c else True)"
proof (cases "load_server_config P parse args getenv")
  case (Inr c)
  then obtain c0 seen where fp: "flag_parse P server_flags args (server_env P getenv, []) = Inr (c0, seen)"
    and v: "validate_server_config P parse
      (c0\<lparr>sv_k8s_apply_timeout_explicit := (getenv ''K8S_APPLY_TIMEOUT'' \<noteq> [] \<or> ''k8s-apply-timeout'' \<in> set seen)\<rparr>) = Inr c"
    by (auto simp: load_server_config_def)
  from v have c: "c = apply_defaults (c0\<lparr>sv_k8s_apply_timeout_explicit := (getenv ''K8S_APPLY_TIMEOUT'' \<noteq> [] \<or> ''k8s-apply-timeout'' \<in> set seen)\<rparr>)"
    and chk: "check_server_config P parse c = None"
    by (auto simp: validate_server_config_def Let_def split: option.splits)
  have "sv_api_key c = getenv ''API_KEY''" "sv_git_password c = getenv ''GIT_PASSWORD''"
    "sv_allow_unauthenticated_dev c = env_bool getenv ''ALLOW_UNAUTHENTICATED_DEV'' False"
    using server_flags_keep_credentials [THEN flag_parse_keeps [OF fp]] by (simp_all add: c server_env_def)
  moreover have "sv_api_key c \<noteq> [] \<or> sv_allow_unauthenticated_dev c"
    using chk unfolding check_server_config_def or_err_None_iff by (simp add: failing_def split: if_splits)
  ultimately show ?thesis using Inr by simp
qed simp

end
