(* ===== verification/Http.thy ===== *)
theory Http
  imports ServerConfig AgentKube GitRepo StoreSystem
begin

text \<open>
  The HTTP side of the handlers (internal/handler/handler.go, ratelimit.go): requests, the response writer, JSON
  bodies, the error mapping, authentication, the cache validators with content negotiation, the query parameters
  and the rate limiter. What net/http, encoding/json and the limiter of golang.org/x/time/rate do is the
  parameter \<open>http_env\<close>; the responses keep JSON as a tree, encoding it is the library's.
\<close>

subsection \<open>Requests and responses\<close>

datatype json =
    JNull
  | JBool bool
  | JInt int
  | JStr string
  | JTime gotime
  | JArr "json list"
  | JObj "(string \<times> json) list"
  | JVal cval

record body_stream =
  bs_data :: bytes
  bs_err :: "goerr option"

text \<open>Header, query and path lookups answer the first value, or the empty string.\<close>

record http_request =
  rq_method :: string
  rq_path :: "string \<Rightarrow> string"
  rq_query :: "string \<Rightarrow> string"
  rq_header :: "string \<Rightarrow> string"
  rq_body :: body_stream

datatype http_payload = NoBody | TextBody string | JsonBody json | GzipBody json

record http_writer =
  hw_header :: smap
  hw_status :: "nat option"
  hw_body :: http_payload

definition new_writer :: http_writer where
  "new_writer = \<lparr>hw_header = [], hw_status = None, hw_body = NoBody\<rparr>"

text \<open>\<open>statusRecorder\<close>: the first status counts, a body without one is a 200, and so is a handler that writes nothing.\<close>

definition write_header :: "nat \<Rightarrow> http_writer \<Rightarrow> http_writer" where
  "write_header code w = (if hw_status w \<noteq> None then w else w\<lparr>hw_status := Some code\<rparr>)"

definition write_body :: "http_payload \<Rightarrow> http_writer \<Rightarrow> http_writer" where
  "write_body b w = (if hw_status w = None then w\<lparr>hw_status := Some 200, hw_body := b\<rparr> else w\<lparr>hw_body := b\<rparr>)"

definition status_code :: "http_writer \<Rightarrow> nat" where
  "status_code w = (case hw_status w of None \<Rightarrow> 200 | Some c \<Rightarrow> c)"

definition set_header :: "string \<Rightarrow> string \<Rightarrow> http_writer \<Rightarrow> http_writer" where
  "set_header k v w = w\<lparr>hw_header := mput k v (hw_header w)\<rparr>"

definition del_header :: "string \<Rightarrow> http_writer \<Rightarrow> http_writer" where
  "del_header k w = w\<lparr>hw_header := mdel k (hw_header w)\<rparr>"

definition header_of :: "http_writer \<Rightarrow> string \<Rightarrow> string" where
  "header_of w k = (case mget (hw_header w) k of None \<Rightarrow> [] | Some v \<Rightarrow> v)"

definition respond_json :: "nat \<Rightarrow> json \<Rightarrow> http_writer \<Rightarrow> http_writer" where
  "respond_json code v w =
     write_body (JsonBody v) (write_header code (set_header ''Content-Type'' ''application/json'' w))"

definition respond_gzip_json :: "nat \<Rightarrow> json \<Rightarrow> http_writer \<Rightarrow> http_writer" where
  "respond_gzip_json code v w =
     write_body (GzipBody v) (write_header code (set_header ''Content-Encoding'' ''gzip''
       (set_header ''Content-Type'' ''application/json'' w)))"

text \<open>\<open>http.Error\<close>\<close>

definition http_error :: "string \<Rightarrow> nat \<Rightarrow> http_writer \<Rightarrow> http_writer" where
  "http_error msg code w =
     write_body (TextBody (msg @ [CHR 0x0A])) (write_header code
       (set_header ''X-Content-Type-Options'' ''nosniff'' (set_header ''Content-Type'' ''text/plain; charset=utf-8''
         (del_header ''Content-Length'' w))))"

subsection \<open>Errors\<close>

record error_detail =
  ed_code :: string
  ed_message :: string

definition detail_json :: "error_detail \<Rightarrow> json" where
  "detail_json d = JObj [(''code'', JStr (ed_code d)), (''message'', JStr (ed_message d))]"

definition error_body :: "error_detail \<Rightarrow> json" where
  "error_body d = JObj [(''error'', detail_json d)]"

definition respond_error_code :: "nat \<Rightarrow> string \<Rightarrow> string \<Rightarrow> http_writer \<Rightarrow> http_writer" where
  "respond_error_code status code message w =
     respond_json status (error_body \<lparr>ed_code = code, ed_message = message\<rparr>) w"

definition internal_detail :: error_detail where
  "internal_detail = \<lparr>ed_code = ''internal'', ed_message = ''internal server error''\<rparr>"

definition error_detail_for :: "goerr \<Rightarrow> error_detail" where
  "error_detail_for e =
     (case err_as_app e of
        None \<Rightarrow> internal_detail
      | Some (c, m) \<Rightarrow>
          (case c of
             CodeNotFound \<Rightarrow> \<lparr>ed_code = ''not_found'', ed_message = m\<rparr>
           | CodeValidation \<Rightarrow> \<lparr>ed_code = ''validation'', ed_message = m\<rparr>
           | CodeConflict \<Rightarrow> \<lparr>ed_code = ''conflict'', ed_message = m\<rparr>
           | CodeUnauthorized \<Rightarrow> \<lparr>ed_code = ''unauthorized'', ed_message = m\<rparr>
           | CodeGitPush \<Rightarrow> \<lparr>ed_code = ''git_push_failed'', ed_message = m\<rparr>
           | CodeInternal \<Rightarrow> internal_detail))"

definition respond_error :: "goerr \<Rightarrow> http_writer \<Rightarrow> http_writer" where
  "respond_error e w =
     (if err_is CtxCanceled e then respond_error_code 499 ''client_closed_request'' ''client cancelled request'' w
      else if err_is CtxDeadlineExceeded e then respond_error_code 504 ''deadline_exceeded'' ''request deadline exceeded'' w
      else
        (case err_as_app e of
           Some (CodeNotFound, m) \<Rightarrow> respond_error_code 404 ''not_found'' m w
         | Some (CodeValidation, m) \<Rightarrow> respond_error_code 400 ''validation'' m w
         | Some (CodeConflict, m) \<Rightarrow> respond_error_code 409 ''conflict'' m w
         | Some (CodeUnauthorized, m) \<Rightarrow> respond_error_code 401 ''unauthorized'' m w
         | Some (CodeGitPush, m) \<Rightarrow> respond_error_code 503 ''git_push_failed'' m w
         | Some (CodeInternal, m) \<Rightarrow> respond_error_code 500 ''internal'' ''internal server error'' w
         | None \<Rightarrow> respond_error_code 500 ''internal'' ''internal server error'' w))"

text \<open>\<open>http.MaxBytesReader\<close>: reading past the limit is an error.\<close>

definition max_bytes_reader :: "nat \<Rightarrow> body_stream \<Rightarrow> body_stream" where
  "max_bytes_reader n b =
     (if n < length (bs_data b) then \<lparr>bs_data = take n (bs_data b), bs_err = Some (Sent MaxBytesError)\<rparr> else b)"

definition explain_decode_error :: "goerr \<Rightarrow> string" where
  "explain_decode_error e =
     (let msg = err_msg e in
      if contains_str msg ''unknown field'' then ''request contains an unknown field: '' @ msg
      else ''invalid JSON body: '' @ msg)"

definition handle_decode_error :: "goerr \<Rightarrow> http_writer \<Rightarrow> http_writer" where
  "handle_decode_error e w =
     (if err_is MaxBytesError e
      then respond_error_code 413 ''payload_too_large'' ''request body must be at most 1MiB'' w
      else respond_error_code 400 ''invalid_body'' (explain_decode_error e) w)"

subsection \<open>Strings\<close>

text \<open>
  \<open>strings.EqualFold\<close> against a literal of ASCII letters other than k and s (which alone have further case folds), and
  \<open>strings.ToLower\<close> where the result is compared with an ASCII literal: the two non-ASCII characters whose lower
  case is ASCII are U+0130 and U+212A.
\<close>

definition ascii_lower :: "char \<Rightarrow> char" where
  "ascii_lower c = (if of_char c \<ge> (65 :: nat) \<and> of_char c \<le> (90 :: nat) then char_of (of_char c + 32 :: nat) else c)"

definition equal_fold :: "string \<Rightarrow> string \<Rightarrow> bool" where
  "equal_fold s t = (map ascii_lower s = map ascii_lower t)"

fun to_lower :: "string \<Rightarrow> string" where
  "to_lower [] = []"
| "to_lower (c # s) =
     (if has_prefix (c # s) [CHR 0xC4, CHR 0xB0] then CHR ''i'' # to_lower (drop 1 s)
      else if has_prefix (c # s) [CHR 0xE2, CHR 0x84, CHR 0xAA] then CHR ''k'' # to_lower (drop 2 s)
      else ascii_lower c # to_lower s)"

text \<open>\<open>strings.Cut\<close> at a character\<close>

definition cut_at :: "char \<Rightarrow> string \<Rightarrow> (string \<times> string) option" where
  "cut_at c s = (case dropWhile (\<lambda>x. x \<noteq> c) s of [] \<Rightarrow> None | _ # rest \<Rightarrow> Some (takeWhile (\<lambda>x. x \<noteq> c) s, rest))"

subsection \<open>Authentication\<close>

text \<open>The comparison in constant time decides equality.\<close>

definition constant_time_equal :: "string \<Rightarrow> string \<Rightarrow> bool" where
  "constant_time_equal a b = (if length a \<noteq> length b then False else a = b)"

definition authorized :: "http_request \<Rightarrow> string \<Rightarrow> bool" where
  "authorized r key =
     (let fallback = (if rq_header r ''X-API-Key'' \<noteq> [] then constant_time_equal (rq_header r ''X-API-Key'') key else False)
      in if rq_header r ''Authorization'' \<noteq> [] then
           (case cut_at CHR '' '' (rq_header r ''Authorization'') of
              Some (scheme, token) \<Rightarrow> if equal_fold scheme ''bearer'' then constant_time_equal token key else fallback
            | None \<Rightarrow> fallback)
         else fallback)"

text \<open>\<open>authenticate\<close>: the writer with the 401, or None when the request may go on\<close>

definition authenticate :: "string \<Rightarrow> http_request \<Rightarrow> http_writer \<Rightarrow> http_writer option" where
  "authenticate api_key r w =
     (if api_key = [] then None
      else if \<not> authorized r api_key
      then Some (respond_error_code 401 ''unauthorized'' ''missing or invalid API key'' w)
      else None)"

subsection \<open>Content negotiation and cache validators\<close>

definition param_disables :: "go_parse \<Rightarrow> string \<Rightarrow> bool" where
  "param_disables P param =
     (case cut_at CHR ''='' (trim_space param) of
        None \<Rightarrow> False
      | Some (key, v) \<Rightarrow>
          equal_fold key ''q'' \<and>
          (case gp_float P (trim_space v) of Inl e \<Rightarrow> False | Inr q \<Rightarrow> q \<noteq> FNaN \<and> float_sign q \<le> 0))"

text \<open>The loop of \<open>acceptsGzip\<close>; the state is gzipSpecified, gzipAccepted and wildcardAccepted.\<close>

fun negotiate :: "go_parse \<Rightarrow> string list \<Rightarrow> bool \<times> bool \<times> bool \<Rightarrow> bool \<times> bool \<times> bool" where
  "negotiate P [] st = st"
| "negotiate P (candidate # cs) (specified, gzip, wild) =
     (let parts = split_on CHR '';'' candidate;
          coding = trim_space (to_lower (hd parts));
          enabled = \<not> list_ex (param_disables P) (tl parts)
      in if coding = ''gzip'' then negotiate P cs (True, enabled, wild)
         else if coding = ''*'' then negotiate P cs (specified, gzip, enabled)
         else negotiate P cs (specified, gzip, wild))"

definition accepts_gzip :: "go_parse \<Rightarrow> string \<Rightarrow> bool" where
  "accepts_gzip P raw =
     (case negotiate P (split_on CHR '','' raw) (False, False, False) of
        (specified, gzip, wild) \<Rightarrow> if specified then gzip else wild)"

definition response_content_encoding :: "go_parse \<Rightarrow> http_request \<Rightarrow> string" where
  "response_content_encoding P r =
     (if accepts_gzip P (rq_header r ''Accept-Encoding'') then ''gzip'' else ''identity'')"

definition add_vary :: "string \<Rightarrow> http_writer \<Rightarrow> http_writer" where
  "add_vary v w =
     (let current = header_of w ''Vary'' in
      if current = [] then set_header ''Vary'' v w
      else if list_ex (\<lambda>x. equal_fold (trim_space x) ''*'' \<or> equal_fold (trim_space x) v) (split_on CHR '','' current) then w
      else set_header ''Vary'' (current @ '', '' @ v) w)"

definition if_none_match :: "http_request \<Rightarrow> string \<Rightarrow> bool" where
  "if_none_match r etag =
     (let raw = rq_header r ''If-None-Match'' in
      raw \<noteq> [] \<and>
      list_ex (\<lambda>x. let c = trim_space x in
                 c = ''*'' \<or> c = etag \<or> (has_prefix c ''W/'' \<and> trim_space (trim_prefix c ''W/'') = etag))
        (split_on CHR '','' raw))"

definition show_bool :: "bool \<Rightarrow> string" where
  "show_bool b = (if b then ''true'' else ''false'')"

text \<open>The text that \<open>responseETag\<close> hashes\<close>

definition etag_input ::
  "(gotime \<Rightarrow> string) \<Rightarrow> string \<Rightarrow> string \<Rightarrow> string \<Rightarrow> string \<Rightarrow> string \<Rightarrow> gotime \<Rightarrow> bool \<Rightarrow> string \<Rightarrow> string" where
  "etag_input nano resource org project service version updated_at inherit encoding =
     join [CHR 0x00] [resource, org, project, service, version, nano updated_at, show_bool inherit, encoding]"

definition hash_etag :: "go_lib \<Rightarrow> bytes \<Rightarrow> string" where
  "hash_etag L raw = [CHR 0x22] @ sha256_hex L raw @ [CHR 0x22]"

subsection \<open>Query parameters\<close>

definition parse_bool_query :: "http_request \<Rightarrow> string \<Rightarrow> goerr + bool" where
  "parse_bool_query r name =
     (if rq_query r name = [] then Inr False
      else (case parse_bool (rq_query r name) of None \<Rightarrow> Inl (errf [name, '' must be a boolean'']) | Some b \<Rightarrow> Inr b))"

definition parse_inherit_query :: "http_request \<Rightarrow> goerr + bool" where
  "parse_inherit_query r =
     (if rq_query r ''inherit'' = [] then Inr True
      else (case parse_bool (rq_query r ''inherit'') of
              None \<Rightarrow> Inl (errf [''inherit must be a boolean'']) | Some b \<Rightarrow> Inr b))"

definition max_watch_timeout :: duration where
  "max_watch_timeout = 30 * second"

definition default_watch_timeout :: duration where
  "default_watch_timeout = 30 * second"

definition parse_watch_timeout :: "go_parse \<Rightarrow> http_request \<Rightarrow> goerr + duration" where
  "parse_watch_timeout P r =
     (let raw = trim_space (rq_query r ''timeout'') in
      if raw = [] then Inr default_watch_timeout
      else
        (case gp_duration P raw of
           Inl e \<Rightarrow> Inl (errf [''timeout must be a duration like 30s''])
         | Inr d \<Rightarrow>
             if d \<le> 0 then Inl (errf [''timeout must be greater than 0''])
             else if max_watch_timeout < d then Inl (errf [''timeout must be less than or equal to 30s''])
             else Inr d))"

definition default_history_limit :: int where "default_history_limit = 20"
definition max_history_limit :: int where "max_history_limit = 100"

definition parse_history_options :: "go_parse \<Rightarrow> http_request \<Rightarrow> goerr + history_options" where
  "parse_history_options P r =
     (let opts = \<lparr>ho_org = [], ho_project = [], ho_service = [], ho_file = trim_space (rq_query r ''file''),
                  ho_limit = default_history_limit, ho_before = trim_space (rq_query r ''before'')\<rparr>;
          raw_limit = trim_space (rq_query r ''limit'')
      in if \<not> (ho_file opts = [] \<or> ho_file opts = ''config'' \<or> ho_file opts = ''env_vars'' \<or> ho_file opts = ''secrets'')
         then Inl (errf [''file must be one of config, env_vars, or secrets''])
         else if raw_limit = [] then Inr opts
         else
           (case gp_atoi P raw_limit of
              Inl e \<Rightarrow> Inl (errf [''limit must be an integer''])
            | Inr limit \<Rightarrow>
                if limit \<le> 0 then Inl (errf [''limit must be greater than 0''])
                else if max_history_limit < limit then Inl (errf [''limit must be less than or equal to 100''])
                else Inr (opts\<lparr>ho_limit := limit\<rparr>)))"

subsection \<open>Rate limiting\<close>

text \<open>
  A limiter is its settings; whether it has a token is asked of the outside world. \<open>float_recip_ceil\<close> is
  \<open>math.Ceil(1.0 / x)\<close> of a positive float64: the quotient is computed with a sticky bit and rounded to 53 bits.
\<close>

record endpoint_rate_limiters =
  el_admin :: "rate_limit_config option"
  el_secret_resolve :: "rate_limit_config option"
  el_watch :: "rate_limit_config option"
  el_batch :: "rate_limit_config option"
  el_read :: "rate_limit_config option"

definition rate_limit_enabled :: "rate_limit_config \<Rightarrow> bool" where
  "rate_limit_enabled c = (float_sign (rl_requests_per_second c) > 0 \<and> rl_burst c > 0)"

definition new_rate_limiter :: "rate_limit_config \<Rightarrow> rate_limit_config option" where
  "new_rate_limiter c = (if \<not> rate_limit_enabled c then None else Some c)"

definition new_endpoint_rate_limiters ::
  "rate_limit_config \<Rightarrow> rate_limit_config \<Rightarrow> rate_limit_config \<Rightarrow> rate_limit_config \<Rightarrow> rate_limit_config \<Rightarrow> endpoint_rate_limiters" where
  "new_endpoint_rate_limiters admin secret_resolve watch batch rd =
     \<lparr>el_admin = new_rate_limiter admin, el_secret_resolve = new_rate_limiter secret_resolve,
      el_watch = new_rate_limiter watch, el_batch = new_rate_limiter batch, el_read = new_rate_limiter rd\<rparr>"

definition float_recip_ceil :: "nat \<Rightarrow> int \<Rightarrow> int" where
  "float_recip_ceil m e =
     (let k = 55 + bit_len m;
          q = 2 ^ k div m;
          n = round53 (2 * q + (if 2 ^ k mod m = 0 then 0 else 1));
          sh = int k + 1 + e
      in if 0 \<le> sh then - ((- int n) div 2 ^ nat sh) else int n * 2 ^ nat (- sh))"

text \<open>The conversion of a float that does not fit an int64 yields the least one (amd64).\<close>

definition retry_after_seconds :: "rate_limit_config \<Rightarrow> string" where
  "retry_after_seconds c =
     (let secs = (case rl_requests_per_second c of FFin m e \<Rightarrow> float_recip_ceil (nat m) e | _ \<Rightarrow> 0);
          secs = (if secs < 1 then 1 else secs)
      in show_int (if 2 ^ 63 \<le> secs then - (2 ^ 63) else secs))"

end
