(* ===== verification/Handler.thy ===== *)
theory Handler
  imports Http
begin

text \<open>
  The HTTP handlers (internal/handler/handler.go): the reads with their cache validators, the blocking watch,
  the batch read, secret resolution, history and the admin writes, each as a function on the request, the response
  writer and the state of the server (store, app registry, mounted-secret reader with its memory cells, outside
  world). Every handler is atomic except the watch, whose waiting lets the world replace the store.
\<close>

subsection \<open>The server\<close>

datatype endpoint_group = AdminGroup | SecretResolveGroup | WatchGroup | BatchGroup | ReadGroup

record app_registry_webhook_request =
  aw_action :: string
  aw_app :: "app option"
  aw_org :: string
  aw_project :: string
  aw_service :: string
  aw_name :: string
  aw_updated_at :: string

record batch_read_query =
  bq_org :: string
  bq_project :: string
  bq_service :: string

record batch_read_request =
  br_queries :: "batch_read_query list"
  br_inherit :: "bool option"

record secret_write_body =
  sb_namespace :: string
  sb_data :: smap

record post_changes_request =
  pc_org :: string
  pc_project :: string
  pc_service :: string
  pc_config :: "cmap option"
  pc_env_vars :: "env_vars option"
  pc_secrets :: "(string, secret_write_body) gomap option"
  pc_message :: string

record delete_changes_request =
  dq_org :: string
  dq_project :: string
  dq_service :: string

text \<open>
  \<open>hv_decode_*\<close> is \<open>json.Decoder.Decode\<close> with unknown fields forbidden; \<open>hv_wait\<close> is \<open>WaitForVersionChange\<close> on the
  context with the deadline, during which other requests may change the store; \<open>hv_allow\<close> takes a token of a limiter.
\<close>

record 'w http_env =
  hv_store :: "'w store_env"
  hv_ctx :: "'w ctx"
  hv_ready :: "('w \<Rightarrow> bool) option"
  hv_volume :: "'w vol_env option"
  hv_deps :: "'w secret_deps"
  hv_parse :: go_parse
  hv_time_parser :: time_parser
  hv_now :: "'w \<Rightarrow> gotime \<times> 'w"
  hv_format_nano :: "gotime \<Rightarrow> string"
  hv_marshal :: "json \<Rightarrow> goerr + bytes"
  hv_allow :: "endpoint_group \<Rightarrow> 'w \<Rightarrow> bool \<times> 'w"
  hv_with_timeout :: "duration \<Rightarrow> 'w \<Rightarrow> 'w"
  hv_wait_err :: "'w \<Rightarrow> goerr option"
  hv_wait :: "string \<Rightarrow> store \<times> 'w \<Rightarrow> (string \<times> bool \<times> goerr option) \<times> store \<times> 'w"
  hv_decode_webhook :: "body_stream \<Rightarrow> goerr + app_registry_webhook_request"
  hv_decode_batch :: "body_stream \<Rightarrow> goerr + batch_read_request"
  hv_decode_changes :: "body_stream \<Rightarrow> goerr + post_changes_request"
  hv_decode_revert :: "body_stream \<Rightarrow> goerr + revert_request"
  hv_decode_delete :: "body_stream \<Rightarrow> goerr + delete_changes_request"

record 'w handler =
  hn_env :: "'w http_env"
  hn_api_key :: string
  hn_limiters :: endpoint_rate_limiters

record server_state =
  hs_store :: store
  hs_registry :: reg_cache
  hs_volume :: volume_reader
  hs_mem :: vmem
  hs_leftover :: secret_writes

text \<open>
  \<open>hs_leftover\<close> is what is left in memory of the secret values of the last admin write.
  A nil slice in a JSON body is the empty array here (encoding/json writes null for it).
\<close>

type_synonym 'w hst = "server_state \<times> 'w"
type_synonym 'w handler_func = "http_request \<Rightarrow> http_writer \<Rightarrow> 'w hst \<Rightarrow> http_writer \<times> 'w hst"

abbreviation henv :: "'w handler \<Rightarrow> 'w http_env" where "henv \<equiv> hn_env"
abbreviation hlib :: "'w handler \<Rightarrow> go_lib" where "hlib H \<equiv> en_lib (hv_store (hn_env H))"

definition mib :: nat where "mib = 2 ^ 20"

fun limiter_of :: "endpoint_rate_limiters \<Rightarrow> endpoint_group \<Rightarrow> rate_limit_config option" where
  "limiter_of l AdminGroup = el_admin l"
| "limiter_of l SecretResolveGroup = el_secret_resolve l"
| "limiter_of l WatchGroup = el_watch l"
| "limiter_of l BatchGroup = el_batch l"
| "limiter_of l ReadGroup = el_read l"

text \<open>\<open>allowRateLimited\<close>: the writer with the 429, or None when the request may go on\<close>

definition allow_rate_limited :: "'w handler \<Rightarrow> endpoint_group \<Rightarrow> http_writer \<Rightarrow> 'w \<Rightarrow> http_writer option \<times> 'w" where
  "allow_rate_limited H g wr w =
     (case limiter_of (hn_limiters H) g of
        None \<Rightarrow> (None, w)
      | Some c \<Rightarrow>
          (case hv_allow (henv H) g w of
             (True, w) \<Rightarrow> (None, w)
           | (False, w) \<Rightarrow>
               (Some (respond_error_code 429 ''rate_limited'' ''rate limit exceeded''
                  (set_header ''Retry-After'' (retry_after_seconds c) wr)), w)))"

definition limit_endpoint :: "'w handler \<Rightarrow> endpoint_group \<Rightarrow> 'w handler_func \<Rightarrow> 'w handler_func" where
  "limit_endpoint H g next_handler r wr = (\<lambda>(s, w).
     case allow_rate_limited H g wr w of
       (Some wr, w) \<Rightarrow> (wr, s, w)
     | (None, w) \<Rightarrow> next_handler r wr (s, w))"

definition require_key :: "'w handler \<Rightarrow> 'w handler_func \<Rightarrow> 'w handler_func" where
  "require_key H next_handler r wr st =
     (case authenticate (hn_api_key H) r wr of Some wr \<Rightarrow> (wr, st) | None \<Rightarrow> next_handler r wr st)"

definition with_store :: "store \<Rightarrow> server_state \<Rightarrow> server_state" where
  "with_store s ss = ss\<lparr>hs_store := s\<rparr>"

text \<open>\<open>recordSecretAudit\<close> of the handler, on the handler's own dependencies\<close>

definition handler_audit :: "'w handler \<Rightarrow> audit_event \<Rightarrow> 'w \<Rightarrow> 'w" where
  "handler_audit H event w =
     record_secret_audit ((hv_store (henv H))\<lparr>en_deps := hv_deps (henv H), en_now := hv_now (henv H)\<rparr>) event w"

subsection \<open>Health and status\<close>

definition healthz :: "'w handler_func" where
  "healthz r wr st = (write_body (TextBody ''ok'') (write_header 200 wr), st)"

definition readyz :: "'w handler \<Rightarrow> 'w handler_func" where
  "readyz H r wr = (\<lambda>(s, w).
     (if (case hv_ready (henv H) of None \<Rightarrow> False | Some ready \<Rightarrow> \<not> ready w) then http_error ''not ready'' 503 wr
      else if is_degraded (hs_store s) then http_error ''degraded'' 503 wr
      else write_body (TextBody ''ok'') (write_header 200 wr), s, w))"

definition registry_status_body :: "go_lib \<Rightarrow> reg_status \<Rightarrow> json" where
  "registry_status_body L st =
     JObj ([(''status'', JStr (if rs_state st = [] then ''not_configured'' else rs_state st)),
            (''apps_loaded'', JInt (int (rs_apps_loaded st)))] @
           (if rs_last_loaded_at st \<noteq> 0 then [(''last_loaded_at'', JStr (format_rfc3339 L (rs_last_loaded_at st)))] else []) @
           (if rs_last_updated_at st \<noteq> 0 then [(''last_updated_at'', JStr (format_rfc3339 L (rs_last_updated_at st)))] else []) @
           (if rs_last_load_error st \<noteq> [] then [(''last_load_error'', JStr (rs_last_load_error st))] else []))"

definition degraded_components :: "store_status \<Rightarrow> reg_status \<Rightarrow> string list" where
  "degraded_components si rs =
     (if ss_is_degraded si then [''store''] else []) @ (if rs_is_degraded rs then [''app_registry''] else [])"

definition get_status :: "'w handler \<Rightarrow> 'w handler_func" where
  "get_status H r wr = (\<lambda>(s, w).
     (let si = status_info (hs_store s); rs = cache_status (hs_registry s); bad = degraded_components si rs in
      (respond_json 200
         (JObj ([(''status'', JStr (if 0 < length bad then ''degraded'' else ''ok'')),
                 (''version'', JStr (ss_status_version si)), (''services_loaded'', JInt (int (ss_services_loaded si))),
                 (''app_registry'', registry_status_body (hlib H) rs)] @
                (if ss_last_reload_at si \<noteq> 0 then [(''last_reload_at'', JStr (format_rfc3339 (hlib H) (ss_last_reload_at si)))] else []) @
                (if ss_is_degraded si then [(''last_reload_error'', JStr (ss_last_reload_error si))] else []) @
                (if 0 < length bad then [(''is_degraded'', JBool True), (''degraded_components'', JArr (map JStr bad))] else [])))
         wr, s, w)))"

definition admin_reload :: "'w handler \<Rightarrow> 'w handler_func" where
  "admin_reload H r wr = (\<lambda>(s, w).
     case reload_from_repo (hv_store (henv H)) (hs_store s) w of
       ((updated, Some e), st, w) \<Rightarrow>
         (respond_json 503 (JObj [(''status'', JStr ''reload_failed''), (''reload_error'', JStr (err_msg e)),
                                  (''version'', JStr (head_version st))]) wr, with_store st s, w)
     | ((updated, None), st, w) \<Rightarrow>
         (respond_json 200 (JObj [(''status'', JStr ''ok''), (''updated'', JBool updated),
                                  (''version'', JStr (head_version st))]) wr, with_store st s, w))"

definition git_webhook :: "'w handler \<Rightarrow> 'w handler_func" where
  "git_webhook H r wr = (\<lambda>(s, w).
     case bs_err (max_bytes_reader mib (rq_body r)) of
       Some e \<Rightarrow>
         ((if err_is MaxBytesError e
           then respond_error_code 413 ''payload_too_large'' ''webhook payload must be at most 1MiB'' wr
           else respond_error_code 400 ''invalid_body'' ''failed to read webhook payload'' wr), s, w)
     | None \<Rightarrow>
         (case refresh_from_repo (hv_store (henv H)) (hs_store s) w of
            ((updated, Some e), st, w) \<Rightarrow>
              (respond_json 503 (JObj [(''status'', JStr ''refresh_failed''), (''refresh_error'', JStr (err_msg e)),
                                       (''version'', JStr (head_version st))]) wr, with_store st s, w)
          | ((updated, None), st, w) \<Rightarrow>
              (respond_json 200 (JObj [(''status'', JStr ''ok''), (''updated'', JBool updated),
                                       (''version'', JStr (head_version st))]) wr, with_store st s, w)))"

definition registry_app :: "app_registry_webhook_request \<Rightarrow> app" where
  "registry_app b =
     (let a = (case aw_app b of Some a \<Rightarrow> a
               | None \<Rightarrow> \<lparr>app_org = [], app_project = [], app_service = [], app_name = [], app_updated_at = []\<rparr>);
          pick = (\<lambda>x y. if x = [] then y else x)
      in \<lparr>app_org = pick (app_org a) (aw_org b), app_project = pick (app_project a) (aw_project b),
          app_service = pick (app_service a) (aw_service b), app_name = pick (app_name a) (aw_name b),
          app_updated_at = pick (app_updated_at a) (aw_updated_at b)\<rparr>)"

text \<open>The change of the cache: the error of an event that is refused, or the cache after it\<close>

definition registry_event :: "time_parser \<Rightarrow> string \<Rightarrow> app \<Rightarrow> gotime \<Rightarrow> reg_cache \<Rightarrow> goerr option \<times> reg_cache" where
  "registry_event P action a now c =
     (let keep = (\<lambda>copt. case copt of None \<Rightarrow> c | Some c \<Rightarrow> c) in
      if action = ''create'' \<or> action = ''update'' \<or> action = ''upsert'' then
        (case upsert P a now (Some c) of (Inl e, copt) \<Rightarrow> (Some e, keep copt) | (Inr _, copt) \<Rightarrow> (None, keep copt))
      else if action = ''delete'' then
        (case delete_app P a now (Some c) of (Inl e, copt) \<Rightarrow> (Some e, keep copt) | (Inr _, copt) \<Rightarrow> (None, keep copt))
      else (Some (errf [''action must be one of create, update, upsert, or delete'']), c))"

definition app_registry_webhook :: "'w handler \<Rightarrow> 'w handler_func" where
  "app_registry_webhook H r wr = (\<lambda>(s, w).
     case hv_decode_webhook (henv H) (max_bytes_reader mib (rq_body r)) of
       Inl e \<Rightarrow> (handle_decode_error e wr, s, w)
     | Inr body \<Rightarrow>
         (let action = to_lower (trim_space (aw_action body)); (now, w) = hv_now (henv H) w in
          case registry_event (hv_time_parser (henv H)) action (registry_app body) now (hs_registry s) of
            (Some e, c) \<Rightarrow> (respond_error_code 400 ''validation'' (err_msg e) wr, s\<lparr>hs_registry := c\<rparr>, w)
          | (None, c) \<Rightarrow>
              (respond_json 200 (JObj [(''status'', JStr ''ok''), (''action'', JStr action),
                                       (''apps_loaded'', JInt (int (rs_apps_loaded (cache_status c))))]) wr,
               s\<lparr>hs_registry := c\<rparr>, w)))"

subsection \<open>Listings\<close>

definition handle_list_orgs :: "'w handler_func" where
  "handle_list_orgs r wr st =
     (respond_json 200 (JObj [(''orgs'', JArr (map JStr (list_orgs (hs_store (fst st)))))]) wr, st)"

definition handle_list_projects :: "'w handler_func" where
  "handle_list_projects r wr st =
     (respond_json 200 (JObj [(''org'', JStr (rq_path r ''org'')),
        (''projects'', JArr (map JStr (list_projects (hs_store (fst st)) (rq_path r ''org''))))]) wr, st)"

definition service_entry :: "service_info \<Rightarrow> json" where
  "service_entry i =
     JObj [(''name'', JStr (si_name i)), (''has_config'', JBool (si_has_config i)), (''has_env_vars'', JBool (si_has_env_vars i)),
           (''has_secrets'', JBool (si_has_secrets i)), (''updated_at'', JTime (si_updated_at i))]"

definition handle_list_services :: "'w handler_func" where
  "handle_list_services r wr st =
     (respond_json 200 (JObj [(''org'', JStr (rq_path r ''org'')), (''project'', JStr (rq_path r ''project'')),
        (''services'', JArr (map service_entry (list_services (hs_store (fst st)) (rq_path r ''org'') (rq_path r ''project''))))]) wr, st)"

subsection \<open>Reads\<close>

definition config_meta :: "go_lib \<Rightarrow> string \<Rightarrow> string \<Rightarrow> string \<Rightarrow> string \<Rightarrow> gotime \<Rightarrow> json" where
  "config_meta L org project service version updated_at =
     JObj [(''org'', JStr org), (''project'', JStr project), (''service'', JStr service), (''version'', JStr version),
           (''updated_at'', JStr (format_rfc3339 L updated_at))]"

definition response_etag :: "'w handler \<Rightarrow> http_request \<Rightarrow> string \<Rightarrow> string \<Rightarrow> string \<Rightarrow> string \<Rightarrow> string \<Rightarrow> gotime \<Rightarrow> bool \<Rightarrow> string" where
  "response_etag H r resource org project service version updated_at inherit =
     hash_etag (hlib H) (etag_input (hv_format_nano (henv H)) resource org project service version updated_at inherit
       (response_content_encoding (hv_parse (henv H)) r))"

definition body_etag :: "'w handler \<Rightarrow> http_request \<Rightarrow> json \<Rightarrow> string" where
  "body_etag H r v =
     hash_etag (hlib H) (response_content_encoding (hv_parse (henv H)) r @ [CHR 0x00] @
       (case hv_marshal (henv H) v of Inl e \<Rightarrow> err_msg e | Inr body \<Rightarrow> body))"

definition respond_cacheable_json :: "'w handler \<Rightarrow> http_request \<Rightarrow> string \<Rightarrow> json \<Rightarrow> http_writer \<Rightarrow> http_writer" where
  "respond_cacheable_json H r etag v wr =
     (let wr = set_header ''ETag'' etag (add_vary ''Accept-Encoding'' wr) in
      if if_none_match r etag then
        (if rq_method r \<noteq> ''GET'' \<and> rq_method r \<noteq> ''HEAD'' then write_header 412 wr else write_header 304 wr)
      else if response_content_encoding (hv_parse (henv H)) r = ''gzip'' then respond_gzip_json 200 v wr
      else respond_json 200 v wr)"

definition has_inherited_config_source :: "service_data \<Rightarrow> bool" where
  "has_inherited_config_source d = list_ex ds_has_config (sd_inherited_sources d)"

definition has_inherited_env_vars_source :: "service_data \<Rightarrow> bool" where
  "has_inherited_env_vars_source d = list_ex ds_has_env_vars (sd_inherited_sources d)"

record cacheable_read_payload =
  cp_body :: json
  cp_version :: string
  cp_updated_at :: gotime

definition config_json :: "service_config option \<Rightarrow> json" where
  "config_json cfg = JVal (CMap (case cfg of None \<Rightarrow> [] | Some c \<Rightarrow> (case sc_config c of None \<Rightarrow> [] | Some m \<Rightarrow> m)))"

text \<open>\<open>head\<close> is what \<open>HeadVersion\<close> answers after \<open>d\<close> was read.\<close>

definition config_payload_from_data ::
  "go_lib \<Rightarrow> string \<Rightarrow> service_data \<Rightarrow> string \<Rightarrow> string \<Rightarrow> string \<Rightarrow> bool \<Rightarrow> cacheable_read_payload" where
  "config_payload_from_data L head d org project service inherit =
     (let version = (if inherit \<and> has_inherited_config_source d then head else sd_config_rv d);
          version = (if version = [] then head else version);
          cfg = (if inherit \<and> sd_inherited_config d \<noteq> None then sd_inherited_config d else sd_config d)
      in \<lparr>cp_body = JObj [(''metadata'', config_meta L org project service version (sd_updated_at d)), (''config'', config_json cfg)],
          cp_version = version, cp_updated_at = sd_updated_at d\<rparr>)"

definition smap_json :: "smap option \<Rightarrow> json" where
  "smap_json m = JObj (map (\<lambda>(k, v). (k, JStr v)) (nz m))"

definition env_vars_json :: "env_vars_config option \<Rightarrow> json" where
  "env_vars_json ev =
     JObj [(''plain'', smap_json (case ev of None \<Rightarrow> None | Some c \<Rightarrow> ev_plain (ec_env c))),
           (''secret_refs'', smap_json (case ev of None \<Rightarrow> None | Some c \<Rightarrow> ev_secret_refs (ec_env c)))]"

definition env_vars_payload_from_data ::
  "go_lib \<Rightarrow> string \<Rightarrow> service_data \<Rightarrow> string \<Rightarrow> string \<Rightarrow> string \<Rightarrow> bool \<Rightarrow> cacheable_read_payload" where
  "env_vars_payload_from_data L head d org project service inherit =
     (let version = (if (\<not> inherit \<or> \<not> has_inherited_env_vars_source d) \<and> sd_env_vars_rv d \<noteq> [] then sd_env_vars_rv d else head);
          version = (if version = [] then head else version);
          ev = (if inherit \<and> sd_inherited_env_vars d \<noteq> None then sd_inherited_env_vars d else sd_env_vars d)
      in \<lparr>cp_body = JObj [(''metadata'', config_meta L org project service version (sd_updated_at d)), (''env_vars'', env_vars_json ev)],
          cp_version = version, cp_updated_at = sd_updated_at d\<rparr>)"

definition current_payload ::
  "(go_lib \<Rightarrow> string \<Rightarrow> service_data \<Rightarrow> string \<Rightarrow> string \<Rightarrow> string \<Rightarrow> bool \<Rightarrow> cacheable_read_payload) \<Rightarrow>
   go_lib \<Rightarrow> store \<Rightarrow> string \<Rightarrow> string \<Rightarrow> string \<Rightarrow> bool \<Rightarrow> goerr + cacheable_read_payload" where
  "current_payload payload L s org project service inherit =
     (case get_config s org project service of
        Inl e \<Rightarrow> Inl e
      | Inr d \<Rightarrow> Inr (payload L (head_version s) d org project service inherit))"

definition current_config_payload ::
  "go_lib \<Rightarrow> store \<Rightarrow> string \<Rightarrow> string \<Rightarrow> string \<Rightarrow> bool \<Rightarrow> goerr + cacheable_read_payload" where
  "current_config_payload = current_payload config_payload_from_data"

definition current_env_vars_payload ::
  "go_lib \<Rightarrow> store \<Rightarrow> string \<Rightarrow> string \<Rightarrow> string \<Rightarrow> bool \<Rightarrow> goerr + cacheable_read_payload" where
  "current_env_vars_payload = current_payload env_vars_payload_from_data"

text \<open>The cacheable response of a payload\<close>

definition write_payload ::
  "'w handler \<Rightarrow> http_request \<Rightarrow> string \<Rightarrow> string \<Rightarrow> string \<Rightarrow> string \<Rightarrow> bool \<Rightarrow> goerr + cacheable_read_payload \<Rightarrow> http_writer \<Rightarrow> http_writer" where
  "write_payload H r resource org project service inherit p wr =
     (case p of
        Inl e \<Rightarrow> respond_error e wr
      | Inr p \<Rightarrow>
          respond_cacheable_json H r
            (response_etag H r resource org project service (cp_version p) (cp_updated_at p) inherit) (cp_body p) wr)"

definition write_config_response :: "'w handler \<Rightarrow> http_request \<Rightarrow> string \<Rightarrow> string \<Rightarrow> string \<Rightarrow> bool \<Rightarrow> store \<Rightarrow> http_writer \<Rightarrow> http_writer" where
  "write_config_response H r org project service inherit s wr =
     write_payload H r ''config'' org project service inherit (current_config_payload (hlib H) s org project service inherit) wr"

definition write_config_at_version_response ::
  "'w handler \<Rightarrow> http_request \<Rightarrow> string \<Rightarrow> string \<Rightarrow> string \<Rightarrow> string \<Rightarrow> bool \<Rightarrow> http_writer \<Rightarrow> 'w hst \<Rightarrow> http_writer \<times> 'w hst" where
  "write_config_at_version_response H r org project service version inherit wr = (\<lambda>(s, w).
     case (if inherit then get_inherited_config_at_version (hv_store (henv H)) (hs_store s) (hv_ctx (henv H)) org project service version w
           else get_config_at_version (hv_store (henv H)) (hs_store s) (hv_ctx (henv H)) org project service version w) of
       (Inl e, w) \<Rightarrow> (respond_error e wr, s, w)
     | (Inr d, w) \<Rightarrow>
         (let cfg = (if inherit \<and> sd_inherited_config d \<noteq> None then sd_inherited_config d else sd_config d) in
          (respond_cacheable_json H r (response_etag H r ''config'' org project service version (sd_updated_at d) inherit)
             (JObj [(''metadata'', config_meta (hlib H) org project service version (sd_updated_at d)), (''config'', config_json cfg)]) wr,
           s, w)))"

definition write_env_vars_at_version_response ::
  "'w handler \<Rightarrow> http_request \<Rightarrow> string \<Rightarrow> string \<Rightarrow> string \<Rightarrow> string \<Rightarrow> bool \<Rightarrow> http_writer \<Rightarrow> 'w hst \<Rightarrow> http_writer \<times> 'w hst" where
  "write_env_vars_at_version_response H r org project service version inherit wr = (\<lambda>(s, w).
     case (if inherit then get_inherited_env_vars_at_version (hv_store (henv H)) (hs_store s) (hv_ctx (henv H)) org project service version w
           else get_env_vars_at_version (hv_store (henv H)) (hs_store s) (hv_ctx (henv H)) org project service version w) of
       (Inl e, w) \<Rightarrow> (respond_error e wr, s, w)
     | (Inr d, w) \<Rightarrow>
         (let ev = (if inherit \<and> sd_inherited_env_vars d \<noteq> None then sd_inherited_env_vars d else sd_env_vars d) in
          (respond_cacheable_json H r (response_etag H r ''env_vars'' org project service version (sd_updated_at d) inherit)
             (JObj [(''metadata'', config_meta (hlib H) org project service version (sd_updated_at d)), (''env_vars'', env_vars_json ev)]) wr,
           s, w)))"

definition get_config_handler :: "'w handler \<Rightarrow> 'w handler_func" where
  "get_config_handler H r wr = (\<lambda>(s, w).
     (let org = rq_path r ''org''; project = rq_path r ''project''; service = rq_path r ''service'';
          version = trim_space (rq_query r ''version'')
      in case parse_inherit_query r of
           Inl e \<Rightarrow> (respond_error_code 400 ''invalid_query'' (err_msg e) wr, s, w)
         | Inr inherit \<Rightarrow>
             if version \<noteq> [] then write_config_at_version_response H r org project service version inherit wr (s, w)
             else (write_config_response H r org project service inherit (hs_store s) wr, s, w)))"

end
