(* ===== verification/Routes.thy ===== *)
theory Routes
  imports Handler
begin

text \<open>
  The rest of internal/handler/handler.go: env vars with secret resolution, the blocking watch, the batch read,
  secret metadata, history, the admin writes, and the routing table that says which of them need the API key and
  which limiter guards them.
\<close>

subsection \<open>Env vars and secrets\<close>

definition bad_query :: "goerr \<Rightarrow> http_writer \<Rightarrow> http_writer" where
  "bad_query e wr = respond_error_code 400 ''invalid_query'' (err_msg e) wr"

definition secret_ref_audit_ids :: "smap \<Rightarrow> string list" where
  "secret_ref_audit_ids refs = keys_of (filter (\<lambda>i. i \<noteq> []) (map snd refs))"

text \<open>The metadata entries by id; None when an id occurs twice\<close>

fun index_by_id :: "secret_entry list \<Rightarrow> (string, secret_entry) gomap \<Rightarrow> (string, secret_entry) gomap option" where
  "index_by_id [] m = Some m"
| "index_by_id (e # es) m = (if mget m (se_id e) \<noteq> None then None else index_by_id es (mput (se_id e) e m))"

definition reference_of :: "secret_entry \<Rightarrow> reference" where
  "reference_of e =
     \<lparr>rf_id = se_id e, rf_namespace = ks_namespace (se_k8s e), rf_name = ks_name (se_k8s e), rf_key = ks_key (se_k8s e)\<rparr>"

text \<open>
  The loop of \<open>resolveEnvSecrets\<close>: the value is copied out of its cell as a string, the value and the copied bytes are
  zeroed. An error carries the result that is audited.
\<close>

fun resolve_refs ::
  "'w vol_env \<Rightarrow> (string, secret_entry) gomap \<Rightarrow> smap \<Rightarrow> smap \<Rightarrow> 'w vol_state \<Rightarrow> (string \<times> goerr + smap) \<times> 'w vol_state" where
  "resolve_refs V by_id [] resolved st = (Inr resolved, st)"
| "resolve_refs V by_id ((env_name, secret_id) # refs) resolved st =
     (case mget by_id secret_id of
        None \<Rightarrow> (Inl (''unknown_secret_id'', app_new CodeInternal ''env var secret_ref references unknown secret metadata id''), st)
      | Some entry \<Rightarrow>
          (case refresh_value V (reference_of entry) st of
             (Inl e, st) \<Rightarrow> (Inl (''read_failed'', app_wrap CodeInternal ''read mounted secret value'' e), st)
           | (Inr v, vr, m, w) \<Rightarrow>
               (let (b, m) = valloc (vm_cells m v) m; data = vm_cells m b
                in resolve_refs V by_id refs (mput env_name data resolved) (vr, zero_bytes b (zero_bytes v m), w))))"

definition resolve_with_metadata ::
  "'w handler \<Rightarrow> service_data \<Rightarrow> smap \<Rightarrow> 'w hst \<Rightarrow> (string \<times> goerr + smap) \<times> 'w hst" where
  "resolve_with_metadata H d refs = (\<lambda>(s, w).
     if length refs = 0 then (Inr [], s, w)
     else
       (case hv_volume (henv H) of
          None \<Rightarrow> (Inl (''configuration_error'', app_new CodeInternal ''secret volume reader is not configured''), s, w)
        | Some V \<Rightarrow>
            (case sd_secrets d of
               None \<Rightarrow> (Inl (''metadata_missing'', app_new CodeInternal ''secret metadata is required to resolve env var secret_refs''), s, w)
             | Some sec \<Rightarrow>
                 (case index_by_id (ss_secrets sec) [] of
                    None \<Rightarrow> (Inl (''duplicate_secret_id'', app_new CodeInternal ''secret metadata contains duplicate id''), s, w)
                  | Some by_id \<Rightarrow>
                      (case resolve_refs V by_id refs [] (hs_volume s, hs_mem s, w) of
                         (r, vr, m, w) \<Rightarrow> (r, s\<lparr>hs_volume := vr, hs_mem := m\<rparr>, w))))))"

definition resolve_audit :: "string \<Rightarrow> string \<Rightarrow> string \<Rightarrow> string \<Rightarrow> string list \<Rightarrow> audit_event" where
  "resolve_audit result org project service ids =
     \<lparr>ae_at = 0, ae_action = ''secret_env_resolve'', ae_result = result, ae_org = org, ae_project = project,
      ae_service = service, ae_secret_ids = ids\<rparr>"

definition resolve_env_secrets ::
  "'w handler \<Rightarrow> string \<Rightarrow> string \<Rightarrow> string \<Rightarrow> service_data \<Rightarrow> env_vars_config \<Rightarrow> 'w hst \<Rightarrow> (goerr + smap) \<times> 'w hst" where
  "resolve_env_secrets H org project service d ev st =
     (let refs = nz (ev_secret_refs (ec_env ev)) in
      case resolve_with_metadata H d refs st of
        (Inl (result, e), s, w) \<Rightarrow>
          (Inl e, s, handler_audit H (resolve_audit result org project service (secret_ref_audit_ids refs)) w)
      | (Inr resolved, s, w) \<Rightarrow>
          (Inr resolved, s, handler_audit H (resolve_audit ''success'' org project service (secret_ref_audit_ids refs)) w))"

definition write_resolved_response ::
  "'w handler \<Rightarrow> string \<Rightarrow> string \<Rightarrow> string \<Rightarrow> bool \<Rightarrow> http_writer \<Rightarrow> 'w hst \<Rightarrow> http_writer \<times> 'w hst" where
  "write_resolved_response H org project service inherit wr = (\<lambda>(s, w).
     case get_config (hs_store s) org project service of
       Inl e \<Rightarrow> (respond_error e wr, s, w)
     | Inr d \<Rightarrow>
         (let meta = config_meta (hlib H) org project service (head_version (hs_store s)) (sd_updated_at d);
              ev = (if inherit \<and> sd_inherited_env_vars d \<noteq> None then sd_inherited_env_vars d else sd_env_vars d);
              answer = (\<lambda>plain secrets. JObj [(''metadata'', meta),
                 (''env_vars'', JObj [(''plain'', smap_json plain), (''secrets'', smap_json (Some secrets))])])
          in case ev of
               None \<Rightarrow>
                 (respond_json 200 (answer None []) wr, s, handler_audit H (resolve_audit ''no_env_vars'' org project service []) w)
             | Some ev \<Rightarrow>
                 (case resolve_env_secrets H org project service d ev (s, w) of
                    (Inl e, st) \<Rightarrow> (respond_error e wr, st)
                  | (Inr resolved, st) \<Rightarrow> (respond_json 200 (answer (ev_plain (ec_env ev)) resolved) wr, st))))"

definition write_env_vars_response ::
  "'w handler \<Rightarrow> http_request \<Rightarrow> string \<Rightarrow> string \<Rightarrow> string \<Rightarrow> bool \<Rightarrow> bool \<Rightarrow> http_writer \<Rightarrow> 'w hst \<Rightarrow> http_writer \<times> 'w hst" where
  "write_env_vars_response H r org project service resolve_secrets inherit wr st =
     (if \<not> resolve_secrets
      then (write_payload H r ''env_vars'' org project service inherit
              (current_env_vars_payload (hlib H) (hs_store (fst st)) org project service inherit) wr, st)
      else write_resolved_response H org project service inherit wr st)"

definition get_env_vars :: "'w handler \<Rightarrow> 'w handler_func" where
  "get_env_vars H r wr = (\<lambda>(s, w).
     (let org = rq_path r ''org''; project = rq_path r ''project''; service = rq_path r ''service'';
          version = trim_space (rq_query r ''version'')
      in case parse_bool_query r ''resolve_secrets'' of
           Inl e \<Rightarrow> (bad_query e wr, s, w)
         | Inr resolve_secrets \<Rightarrow>
             (case parse_inherit_query r of
                Inl e \<Rightarrow> (bad_query e wr, s, w)
              | Inr inherit \<Rightarrow>
                  if version \<noteq> [] \<and> resolve_secrets
                  then (bad_query (errf [''version cannot be combined with resolve_secrets'']) wr, s, w)
                  else if resolve_secrets then
                    (case authenticate (hn_api_key H) r wr of
                       Some wr \<Rightarrow> (wr, s, w)
                     | None \<Rightarrow>
                         (case allow_rate_limited H SecretResolveGroup wr w of
                            (Some wr, w) \<Rightarrow> (wr, s, w)
                          | (None, w) \<Rightarrow>
                              write_env_vars_response H r org project service True inherit
                                (del_header ''ETag'' (set_header ''Cache-Control'' ''no-store'' wr)) (s, w)))
                  else if version \<noteq> [] then write_env_vars_at_version_response H r org project service version inherit wr (s, w)
                  else write_env_vars_response H r org project service False inherit wr (s, w))))"

definition entry_json :: "secret_entry \<Rightarrow> json" where
  "entry_json e =
     JObj [(''ID'', JStr (se_id e)), (''Description'', JStr (se_description e)),
           (''K8sSecret'', JObj [(''Name'', JStr (ks_name (se_k8s e))), (''Namespace'', JStr (ks_namespace (se_k8s e))),
                                 (''Key'', JStr (ks_key (se_k8s e)))])]"

definition get_secrets :: "'w handler \<Rightarrow> 'w handler_func" where
  "get_secrets H r wr = (\<lambda>(s, w).
     (let org = rq_path r ''org''; project = rq_path r ''project''; service = rq_path r ''service'' in
      case get_config (hs_store s) org project service of
        Inl e \<Rightarrow> (respond_error e wr, s, w)
      | Inr d \<Rightarrow>
          (respond_json 200
             (JObj [(''metadata'', config_meta (hlib H) org project service (head_version (hs_store s)) (sd_updated_at d)),
                    (''secrets'', JArr (case sd_secrets d of None \<Rightarrow> [] | Some sec \<Rightarrow> map entry_json (ss_secrets sec)))]) wr,
           s, w)))"

subsection \<open>Watching\<close>

definition watched_version ::
  "store \<Rightarrow> string \<Rightarrow> string \<Rightarrow> string \<Rightarrow> string \<Rightarrow> bool \<Rightarrow> goerr + string \<times> string" where
  "watched_version s org project service resource inherit =
     (case resource_version s org project service resource of
        (Inl e, head) \<Rightarrow> Inl e
      | (Inr rv, head) \<Rightarrow>
          if \<not> inherit then Inr (rv, head)
          else
            (case get_config s org project service of
               Inl e \<Rightarrow> Inl e
             | Inr d \<Rightarrow>
                 if resource = ''config'' \<and> has_inherited_config_source d then Inr (head, head)
                 else if resource = ''env_vars'' \<and> has_inherited_env_vars_source d then Inr (head, head)
                 else Inr (rv, head)))"

definition watch_outcome :: "'w handler \<Rightarrow> 'w \<Rightarrow> string" where
  "watch_outcome H w =
     (case hv_ctx (henv H) w of
        None \<Rightarrow> ''timeout''
      | Some e \<Rightarrow> if err_is CtxCanceled e then ''client_canceled'' else ''timeout'')"

text \<open>The loop of \<open>waitForWatchChange\<close>: whether to answer with the resource, the metric outcome and the writer\<close>

partial_function (option) watch_wait ::
  "'w handler \<Rightarrow> string \<Rightarrow> string \<Rightarrow> string \<Rightarrow> string \<Rightarrow> bool \<Rightarrow> string \<Rightarrow> http_writer \<Rightarrow> server_state \<Rightarrow> 'w \<Rightarrow>
   ((bool \<times> string \<times> http_writer) \<times> server_state \<times> 'w) option" where
  "watch_wait H org project service resource inherit version wr s w =
     (if hv_wait_err (henv H) w \<noteq> None then Some ((False, watch_outcome H w, write_header 304 wr), s, w)
      else
        (case watched_version (hs_store s) org project service resource inherit of
           Inl e \<Rightarrow> Some ((False, ''error'', respond_error e wr), s, w)
         | Inr (rv, head) \<Rightarrow>
             if rv \<noteq> version then Some ((True, ''changed'', wr), s, w)
             else
               (case hv_wait (henv H) head (hs_store s, w) of
                  ((current, changed, Some e), st, w) \<Rightarrow>
                    if \<not> changed \<and> (err_is CtxDeadlineExceeded e \<or> err_is CtxCanceled e)
                    then Some ((False, watch_outcome H w, write_header 304 wr), with_store st s, w)
                    else Some ((False, ''error'', respond_error_code 500 ''internal'' ''internal server error'' wr), with_store st s, w)
                | ((current, changed, None), st, w) \<Rightarrow>
                    if \<not> changed then Some ((False, watch_outcome H w, write_header 304 wr), with_store st s, w)
                    else watch_wait H org project service resource inherit version wr (with_store st s) w)))"

definition wait_for_watch_change ::
  "'w handler \<Rightarrow> http_request \<Rightarrow> string \<Rightarrow> string \<Rightarrow> string \<Rightarrow> string \<Rightarrow> bool \<Rightarrow> http_writer \<Rightarrow> 'w hst \<Rightarrow>
   ((bool \<times> string \<times> http_writer) \<times> 'w hst) option" where
  "wait_for_watch_change H r org project service resource inherit wr = (\<lambda>(s, w).
     (let version = trim_space (rq_query r ''version'') in
      if version = [] then Some ((False, [], bad_query (errf [''version query parameter is required'']) wr), s, w)
      else
        (case parse_watch_timeout (hv_parse (henv H)) r of
           Inl e \<Rightarrow> Some ((False, [], bad_query e wr), s, w)
         | Inr timeout \<Rightarrow>
             watch_wait H org project service resource inherit version wr s (hv_with_timeout (henv H) timeout w))))"

definition watch_resource ::
  "'w handler \<Rightarrow> string \<Rightarrow> (string \<Rightarrow> string \<Rightarrow> string \<Rightarrow> bool \<Rightarrow> http_writer \<Rightarrow> 'w hst \<Rightarrow> http_writer \<times> 'w hst) \<Rightarrow>
   http_request \<Rightarrow> http_writer \<Rightarrow> 'w hst \<Rightarrow> (http_writer \<times> 'w hst) option" where
  "watch_resource H resource answer r wr st =
     (let org = rq_path r ''org''; project = rq_path r ''project''; service = rq_path r ''service'' in
      case parse_inherit_query r of
        Inl e \<Rightarrow> Some (bad_query e wr, st)
      | Inr inherit \<Rightarrow>
          (case wait_for_watch_change H r org project service resource inherit wr st of
             None \<Rightarrow> None
           | Some ((False, outcome, wr), st) \<Rightarrow> Some (wr, st)
           | Some ((True, outcome, wr), st) \<Rightarrow> Some (answer org project service inherit wr st)))"

definition watch_config ::
  "'w handler \<Rightarrow> http_request \<Rightarrow> http_writer \<Rightarrow> 'w hst \<Rightarrow> (http_writer \<times> 'w hst) option" where
  "watch_config H r =
     watch_resource H ''config''
       (\<lambda>org project service inherit wr st.
          (write_config_response H r org project service inherit (hs_store (fst st)) wr, st)) r"

definition watch_env_vars ::
  "'w handler \<Rightarrow> http_request \<Rightarrow> http_writer \<Rightarrow> 'w hst \<Rightarrow> (http_writer \<times> 'w hst) option" where
  "watch_env_vars H r =
     watch_resource H ''env_vars''
       (\<lambda>org project service inherit wr st. write_env_vars_response H r org project service False inherit wr st) r"

subsection \<open>Batch read\<close>

definition query_normalized :: "batch_read_query \<Rightarrow> batch_read_query" where
  "query_normalized q =
     \<lparr>bq_org = trim_space (bq_org q), bq_project = trim_space (bq_project q), bq_service = trim_space (bq_service q)\<rparr>"

definition validate_query :: "batch_read_query \<Rightarrow> goerr option" where
  "validate_query q =
     (if bq_org q = [] then Some (errf [''query org is required''])
      else if bq_project q = [] then Some (errf [''query project is required''])
      else if bq_service q = [] then Some (errf [''query service is required'']) else None)"

definition batch_result :: "go_lib \<Rightarrow> store \<Rightarrow> bool \<Rightarrow> batch_read_query \<Rightarrow> json" where
  "batch_result L s inherit q =
     JObj ([(''org'', JStr (bq_org q)), (''project'', JStr (bq_project q)), (''service'', JStr (bq_service q))] @
       (case get_config s (bq_org q) (bq_project q) (bq_service q) of
          Inl e \<Rightarrow> [(''error'', detail_json (error_detail_for e))]
        | Inr d \<Rightarrow>
            [(''config'', cp_body (config_payload_from_data L (head_version s) d (bq_org q) (bq_project q) (bq_service q) inherit)),
             (''env_vars'', cp_body (env_vars_payload_from_data L (head_version s) d (bq_org q) (bq_project q) (bq_service q) inherit))]))"

fun batch_results :: "go_lib \<Rightarrow> store \<Rightarrow> bool \<Rightarrow> batch_read_query list \<Rightarrow> goerr + json list" where
  "batch_results L s inherit [] = Inr []"
| "batch_results L s inherit (q # qs) =
     (let q = query_normalized q in
      case validate_query q of
        Some e \<Rightarrow> Inl e
      | None \<Rightarrow> ebind (batch_results L s inherit qs) (\<lambda>js. Inr (batch_result L s inherit q # js)))"

definition max_batch_read_queries :: nat where "max_batch_read_queries = 100"

definition validation_failure :: "string \<Rightarrow> http_writer \<Rightarrow> http_writer" where
  "validation_failure msg wr = respond_error_code 400 ''validation'' msg wr"

definition post_configs_batch :: "'w handler \<Rightarrow> 'w handler_func" where
  "post_configs_batch H r wr st =
     (case hv_decode_batch (henv H) (max_bytes_reader mib (rq_body r)) of
        Inl e \<Rightarrow> handle_decode_error e wr
      | Inr body \<Rightarrow>
          if length (br_queries body) = 0 then validation_failure ''queries must not be empty'' wr
          else if max_batch_read_queries < length (br_queries body)
          then validation_failure ''queries must contain at most 100 items'' wr
          else
            (let inherit = (case br_inherit body of None \<Rightarrow> True | Some b \<Rightarrow> b) in
             case batch_results (hlib H) (hs_store (fst st)) inherit (br_queries body) of
               Inl e \<Rightarrow> validation_failure (err_msg e) wr
             | Inr results \<Rightarrow>
                 (let resp = JObj [(''results'', JArr results)]
                  in respond_cacheable_json H r (body_etag H r resp) resp wr)), st)"

subsection \<open>History\<close>

definition history_entry_json :: "go_lib \<Rightarrow> history_entry \<Rightarrow> json" where
  "history_entry_json L e =
     JObj [(''version'', JStr (hx_version e)), (''message'', JStr (hx_message e)), (''author'', JStr (hx_author e)),
           (''timestamp'', JStr (format_rfc3339 L (hx_timestamp e))), (''files_changed'', JArr (map JStr (hx_files_changed e)))]"

definition get_history :: "'w handler \<Rightarrow> 'w handler_func" where
  "get_history H r wr = (\<lambda>(s, w).
     case parse_history_options (hv_parse (henv H)) r of
       Inl e \<Rightarrow> (bad_query e wr, s, w)
     | Inr opts \<Rightarrow>
         (let opts = opts\<lparr>ho_org := rq_path r ''org'', ho_project := rq_path r ''project'', ho_service := rq_path r ''service''\<rparr> in
          case history (hv_store (henv H)) (hs_store s) opts w of
            (Inl e, w) \<Rightarrow> (respond_error e wr, s, w)
          | (Inr entries, w) \<Rightarrow>
              (respond_json 200
                 (JObj [(''metadata'', JObj [(''org'', JStr (ho_org opts)), (''project'', JStr (ho_project opts)),
                                             (''service'', JStr (ho_service opts))]),
                        (''history'', JArr (map (history_entry_json (hlib H)) entries))]) wr, s, w)))"

subsection \<open>Admin writes\<close>

definition change_request_of :: "post_changes_request \<Rightarrow> change_request" where
  "change_request_of b =
     \<lparr>cr_org = pc_org b, cr_project = pc_project b, cr_service = pc_service b, cr_config = pc_config b,
      cr_env_vars = pc_env_vars b,
      cr_secrets = (case pc_secrets b of None \<Rightarrow> []
                    | Some m \<Rightarrow> map (\<lambda>(name, sw). (name, \<lparr>sw_namespace = sb_namespace sw, sw_data = sb_data sw\<rparr>)) m),
      cr_message = pc_message b\<rparr>"

text \<open>The status word and the code of a write that was committed\<close>

definition write_status :: "string \<Rightarrow> bool \<Rightarrow> bool \<Rightarrow> string \<times> nat" where
  "write_status done apply_failed reload_failed =
     (if apply_failed \<and> reload_failed then (done @ ''_but_apply_and_reload_failed'', 503)
      else if apply_failed then (done @ ''_but_apply_failed'', 503)
      else if reload_failed then (done @ ''_but_reload_failed'', 503)
      else (done, 200))"

definition failure_fields :: "bool \<Rightarrow> string \<Rightarrow> bool \<Rightarrow> string \<Rightarrow> (string \<times> json) list" where
  "failure_fields reload_failed reload_error apply_failed apply_error =
     (if reload_failed \<and> reload_error \<noteq> [] then [(''reload_error'', JStr reload_error)] else []) @
     (if apply_failed \<and> apply_error \<noteq> [] then [(''apply_error'', JStr apply_error)] else [])"

definition post_changes :: "'w handler \<Rightarrow> 'w handler_func" where
  "post_changes H r wr = (\<lambda>(s, w).
     case hv_decode_changes (henv H) (max_bytes_reader mib (rq_body r)) of
       Inl e \<Rightarrow> (handle_decode_error e wr, s, w)
     | Inr body \<Rightarrow>
         (case apply_changes (hv_store (henv H)) (change_request_of body) (hs_store s) w of
            (Inl e, writes, st, w) \<Rightarrow> (respond_error e wr, (with_store st s)\<lparr>hs_leftover := destroy_secret_writes writes\<rparr>, w)
          | (Inr result, writes, st, w) \<Rightarrow>
              (let (status, code) = write_status ''committed'' (ch_apply_failed result) (ch_reload_failed result) in
               (respond_json code
                  (JObj ([(''status'', JStr status), (''version'', JStr (ch_version result)), (''updated_at'', JTime (ch_updated_at result)),
                          (''files'', JArr (map JStr (ch_files result)))] @
                         failure_fields (ch_reload_failed result) (ch_reload_error result) (ch_apply_failed result) (ch_apply_error result))) wr,
                (with_store st s)\<lparr>hs_leftover := destroy_secret_writes writes\<rparr>, w))))"

definition post_revert :: "'w handler \<Rightarrow> 'w handler_func" where
  "post_revert H r wr = (\<lambda>(s, w).
     case hv_decode_revert (henv H) (max_bytes_reader mib (rq_body r)) of
       Inl e \<Rightarrow> (handle_decode_error e wr, s, w)
     | Inr body \<Rightarrow>
         (case apply_revert (hv_store (henv H)) (Some body) (hs_store s) w of
            (Inl e, st, w) \<Rightarrow> (respond_error e wr, with_store st s, w)
          | (Inr result, st, w) \<Rightarrow>
              (let (status, code) = (if rv_noop result then (''noop'', 200)
                     else write_status ''rolled_back'' (rv_apply_failed result) (rv_reload_failed result))
               in (respond_json code
                    (JObj ([(''status'', JStr status), (''version'', JStr (rv_version result)),
                            (''target_version'', JStr (rv_target_version result)),
                            (''restored_files'', JArr (map JStr (rv_restored_files result))),
                            (''deleted_files'', JArr (map JStr (rv_deleted_files result))), (''updated_at'', JTime (rv_updated_at result))] @
                           failure_fields (rv_reload_failed result) (rv_reload_error result) (rv_apply_failed result) (rv_apply_error result))) wr,
                   with_store st s, w))))"

definition handle_delete_changes :: "'w handler \<Rightarrow> 'w handler_func" where
  "handle_delete_changes H r wr = (\<lambda>(s, w).
     case hv_decode_delete (henv H) (max_bytes_reader mib (rq_body r)) of
       Inl e \<Rightarrow> (handle_decode_error e wr, s, w)
     | Inr body \<Rightarrow>
         (case delete_changes (hv_store (henv H)) (dq_org body) (dq_project body) (dq_service body) (hs_store s) w of
            (Inl e, st, w) \<Rightarrow> (respond_error e wr, with_store st s, w)
          | (Inr result, st, w) \<Rightarrow>
              (let (status, code) = (if dr_reload_failed result then (''deleted_but_reload_failed'', 503) else (''deleted'', 200)) in
               (respond_json code
                  (JObj ([(''status'', JStr status), (''version'', JStr (dr_version result)),
                          (''deleted_files'', JArr (map JStr (dr_deleted_files result)))] @
                         failure_fields (dr_reload_failed result) (dr_reload_error result) False [])) wr,
                with_store st s, w))))"

subsection \<open>Routes\<close>

datatype route =
    RHealthz | RReadyz | RStatus | ROrgs | RProjects | RServices | RConfig | RConfigWatch | REnvVars | REnvVarsWatch
  | RBatch | RHistory | RSecrets | RPostChanges | RRevert | RDelete | RReload | RGitWebhook | RRegistryWebhook

text \<open>The handlers that always return, and \<open>serve\<close>, the whole table with the two that wait\<close>

definition admin_route :: "'w handler \<Rightarrow> 'w handler_func \<Rightarrow> 'w handler_func" where
  "admin_route H h = require_key H (limit_endpoint H AdminGroup h)"

definition watch_route ::
  "'w handler \<Rightarrow> (http_request \<Rightarrow> http_writer \<Rightarrow> 'w hst \<Rightarrow> (http_writer \<times> 'w hst) option) \<Rightarrow>
   http_request \<Rightarrow> http_writer \<Rightarrow> 'w hst \<Rightarrow> (http_writer \<times> 'w hst) option" where
  "watch_route H h r wr = (\<lambda>(s, w).
     case allow_rate_limited H WatchGroup wr w of
       (Some wr, w) \<Rightarrow> Some (wr, s, w)
     | (None, w) \<Rightarrow> h r wr (s, w))"

fun serve :: "'w handler \<Rightarrow> route \<Rightarrow> http_request \<Rightarrow> http_writer \<Rightarrow> 'w hst \<Rightarrow> (http_writer \<times> 'w hst) option" where
  "serve H RHealthz r wr st = Some (healthz r wr st)"
| "serve H RReadyz r wr st = Some (readyz H r wr st)"
| "serve H RStatus r wr st = Some (get_status H r wr st)"
| "serve H ROrgs r wr st = Some (handle_list_orgs r wr st)"
| "serve H RProjects r wr st = Some (handle_list_projects r wr st)"
| "serve H RServices r wr st = Some (handle_list_services r wr st)"
| "serve H RConfig r wr st = Some (get_config_handler H r wr st)"
| "serve H RConfigWatch r wr st = watch_route H (watch_config H) r wr st"
| "serve H REnvVars r wr st = Some (get_env_vars H r wr st)"
| "serve H REnvVarsWatch r wr st = watch_route H (watch_env_vars H) r wr st"
| "serve H RBatch r wr st = Some (limit_endpoint H BatchGroup (post_configs_batch H) r wr st)"
| "serve H RHistory r wr st = Some (limit_endpoint H ReadGroup (get_history H) r wr st)"
| "serve H RSecrets r wr st = Some (require_key H (get_secrets H) r wr st)"
| "serve H RPostChanges r wr st = Some (admin_route H (post_changes H) r wr st)"
| "serve H RRevert r wr st = Some (admin_route H (post_revert H) r wr st)"
| "serve H RDelete r wr st = Some (admin_route H (handle_delete_changes H) r wr st)"
| "serve H RReload r wr st = Some (admin_route H (admin_reload H) r wr st)"
| "serve H RGitWebhook r wr st = Some (admin_route H (git_webhook H) r wr st)"
| "serve H RRegistryWebhook r wr st = Some (admin_route H (app_registry_webhook H) r wr st)"

end
