(* ===== verification/HandlerSample.thy ===== *)
theory HandlerSample
  imports Routes AgentConfigProps Samples
begin

text \<open>A concrete server on a given repository and secret mount, on which the witnesses of the handlers evaluate.\<close>

text \<open>A timestamp format that is faithful: a unary count with a digit for the sign\<close>

definition unary_time :: "gotime \<Rightarrow> string" where
  "unary_time t = (if t < 0 then replicate (nat (- t)) (CHR ''-'') else replicate (nat t) (CHR ''+''))"

lemma unary_time_inj: "inj unary_time"
proof (rule injI)
  fix a b assume "unary_time a = unary_time b"
  then show "a = b" by (auto simp: unary_time_def replicate_eq_replicate split: if_splits)
qed

lemma unary_time_no_nul: "CHR 0x00 \<notin> set (unary_time t)"
  by (simp add: unary_time_def)

definition sample_limits :: endpoint_rate_limiters where
  "sample_limits = \<lparr>el_admin = None, el_secret_resolve = None, el_watch = None, el_batch = None, el_read = None\<rparr>"

definition sample_http_env :: "'w store_env \<Rightarrow> 'w vol_env option \<Rightarrow> 'w http_env" where
  "sample_http_env E V =
     \<lparr>hv_store = E, hv_ctx = (\<lambda>w. None), hv_ready = None, hv_volume = V, hv_deps = en_deps E, hv_parse = sample_go_parse,
      hv_time_parser = (\<lambda>s. Inr 1), hv_now = en_now E, hv_format_nano = unary_time, hv_marshal = (\<lambda>v. Inr []),
      hv_allow = (\<lambda>g w. (True, w)), hv_with_timeout = (\<lambda>d w. w), hv_wait_err = (\<lambda>w. None),
      hv_wait = (\<lambda>v (s, w). ((v, False, Some (Sent CtxDeadlineExceeded)), s, w)),
      hv_decode_webhook = (\<lambda>b. Inl (errf [''EOF''])), hv_decode_batch = (\<lambda>b. Inl (errf [''EOF''])),
      hv_decode_changes = (\<lambda>b. Inl (errf [''EOF''])), hv_decode_revert = (\<lambda>b. Inl (errf [''EOF''])),
      hv_decode_delete = (\<lambda>b. Inl (errf [''EOF'']))\<rparr>"

definition sample_handler :: "'w store_env \<Rightarrow> 'w vol_env option \<Rightarrow> 'w handler" where
  "sample_handler E V = \<lparr>hn_env = sample_http_env E V, hn_api_key = ''key'', hn_limiters = sample_limits\<rparr>"

definition plain_request :: http_request where
  "plain_request =
     \<lparr>rq_method = ''GET'', rq_path = (\<lambda>n. if n = ''org'' then ''o'' else if n = ''project'' then ''p'' else ''s''),
      rq_query = (\<lambda>n. []), rq_header = (\<lambda>n. []), rq_body = \<lparr>bs_data = [], bs_err = None\<rparr>\<rparr>"

definition server_at :: "store \<Rightarrow> server_state" where
  "server_at s = \<lparr>hs_store = s, hs_registry = new_cache, hs_volume = \<lparr>vr_mount = ''/secrets'', vr_cache = []\<rparr>,
     hs_mem = \<lparr>vm_cells = (\<lambda>_. []), vm_next = 0\<rparr>, hs_leftover = []\<rparr>"

text \<open>A repository whose only file holds the state of the world, and whose hashes name it\<close>

definition one_file_repo :: "string git_repo" where
  "one_file_repo =
     \<lparr>gr_clone_or_open = (\<lambda>w. (None, w)), gr_pull = (\<lambda>w. (Inr (CHR ''h'' # w, False), w)),
      gr_commit_and_push = (\<lambda>msg files w. (Inl (errf [''read only'']), w)),
      gr_commit_and_push_func = (\<lambda>msg build w. ((Inl (errf [''read only'']), []), w)),
      gr_delete_and_push = (\<lambda>msg paths w. (Inl (errf [''read only'']), w)),
      gr_restore_and_push = (\<lambda>msg org project service files w. (Inl (errf [''read only'']), w)),
      gr_snapshot = (\<lambda>w. (Inr (CHR ''h'' # w, [(sample_path, w)]), w)),
      gr_read_file_at_commit = (\<lambda>h p w. (Inl (Sent ErrCommitNotFound), w)),
      gr_read_service_files_at_commit = (\<lambda>h org project service w. (Inl (Sent ErrCommitNotFound), w)),
      gr_history = (\<lambda>org project service w. (([], None), w))\<rparr>"

definition one_file_env :: "string store_env" where
  "one_file_env =
     \<lparr>en_git = one_file_repo, en_deps = \<lparr>dep_sealer = None, dep_applier = None, dep_auditor = None\<rparr>, en_lib = sample_lib,
      en_now = (\<lambda>w. (1, w))\<rparr>"

definition one_file_state :: store where
  "one_file_state = fst (snd (reload_unlocked one_file_env new_store ''a''))"

end
