(* ===== verification/Validators.thy ===== *)
theory Validators
  imports HandlerSample
begin

text \<open>
  The cache validators are sound where they can be: what a current read answers is determined by the text that its
  ETag hashes, across reloads, restarts and replicas. The exception is a service that gains or loses inherited
  defaults, for which one version names two answers; the watch compares the same version, and misses the same change.
\<close>

subsection \<open>A service as a function of its commits\<close>

text \<open>A commit hash names its tree.\<close>

definition names_content :: "(string \<Rightarrow> (string \<times> bytes) list) \<Rightarrow> 'w store_env \<Rightarrow> bool" where
  "names_content content E \<longleftrightarrow>
     (\<forall>w h files w1. gr_snapshot (en_git E) w = (Inr (h, files), w1) \<longrightarrow> h \<noteq> [] \<and> files = content h)"

definition config_at :: "go_lib \<Rightarrow> (string \<times> bytes) list \<Rightarrow> string \<Rightarrow> service_config option" where
  "config_at L files key = map_option (\<lambda>raw. projr (parse_config L raw)) (file_for files key ''config'')"

definition env_vars_at :: "go_lib \<Rightarrow> (string \<times> bytes) list \<Rightarrow> string \<Rightarrow> env_vars_config option" where
  "env_vars_at L files key = map_option (\<lambda>raw. projr (parse_env_vars L raw)) (file_for files key ''env_vars'')"

definition entries_at :: "go_lib \<Rightarrow> (string \<times> bytes) list \<Rightarrow> string \<Rightarrow> string \<Rightarrow> defaults_entry list" where
  "entries_at L files org project = defaults_entries_for org project (fst (snd (loaded L files)))"

definition served_by_content :: "(string \<Rightarrow> (string \<times> bytes) list) \<Rightarrow> go_lib \<Rightarrow> store \<Rightarrow> bool" where
  "served_by_content content L s \<longleftrightarrow>
     (\<forall>org project service d. get_config s org project service = Inr d \<longrightarrow>
        (let key = service_key org project service; entries = entries_at L (content (head_version s)) org project in
         sd_config_rv d \<noteq> [] \<and> sd_env_vars_rv d \<noteq> [] \<and> head_version s \<noteq> [] \<and>
         sd_config d = config_at L (content (sd_config_rv d)) key \<and>
         sd_env_vars d = env_vars_at L (content (sd_env_vars_rv d)) key \<and>
         matches_files L (content (head_version s)) key d \<and>
         sd_inherited_config d = inherited_config_for org project service d entries \<and>
         sd_inherited_env_vars d = inherited_env_vars_for org project service d entries \<and>
         sd_inherited_sources d = map de_source entries))"

lemma next_version_content:
  assumes "at h = cur"
    and "\<And>p. prev = Some p \<Longrightarrow> at (prev_version p) = val p \<and> prev_present p = (val p \<noteq> None)"
    and "\<And>p. prev = Some p \<Longrightarrow> cur \<noteq> None \<Longrightarrow> val p \<noteq> None \<Longrightarrow> digest = prev_digest p \<Longrightarrow> cur = val p"
  shows "at (next_resource_version (cur \<noteq> None) digest h prev prev_present prev_digest prev_version) = cur"
  using assms by (auto simp: next_resource_version_def split: option.splits)

lemma next_version_nonempty:
  "h \<noteq> [] \<Longrightarrow> next_resource_version present digest h prev prev_present prev_digest prev_version \<noteq> []"
  by (auto simp: next_resource_version_def split: option.splits)

lemma with_versions_env_rv:
  "sd_env_vars_rv (with_versions s h key sd) =
     next_resource_version (sd_env_vars sd \<noteq> None) (sd_env_vars_digest sd) h (mget (sn_data (st_snapshot s)) key)
       (\<lambda>d. sd_env_vars d \<noteq> None) sd_env_vars_digest sd_env_vars_rv"
  by (simp add: with_versions_def Let_def)

lemma with_defaults_sources:
  assumes "slash \<notin> set org" and "slash \<notin> set project" and "slash \<notin> set service"
  shows "sd_inherited_sources (with_versions s v k (with_defaults_of di (service_key org project service) sd)) =
      map de_source (defaults_entries_for org project di)"
  using split_service_key [OF assms(1,2), of service] split_on_no_sep [OF assms(3)]
  by (simp add: with_versions_def with_defaults_of_def apply_inherited_fields_def Let_def)

text \<open>A service that is found has slash-free names.\<close>

lemma service_key_slashes:
  assumes "service_key org project service = service_key a b c" and "slash \<notin> set a" "slash \<notin> set b" "slash \<notin> set c"
  shows "slash \<notin> set org \<and> slash \<notin> set project \<and> slash \<notin> set service"
proof -
  have none: "filter (\<lambda>x. x = slash) s = [] \<longleftrightarrow> slash \<notin> set s" for s :: string by (auto simp: filter_empty_conv)
  have "length (filter (\<lambda>x. x = slash) (service_key org project service)) = 2"
    using assms(2-4) unfolding assms(1) none [symmetric] by (simp add: service_key_def del: filter_empty_conv)
  then show ?thesis unfolding none [symmetric] by (simp add: service_key_def del: filter_empty_conv)
qed

lemma found_names:
  assumes "keys_ok (sn_data (st_snapshot s))" and "get_config s org project service = Inr d"
  shows "slash \<notin> set org" and "slash \<notin> set project" and "slash \<notin> set service"
proof -
  have "service_key org project service \<in> fst ` set (sn_data (st_snapshot s))"
    using assms(2) get_config_found by blast
  with assms(1) obtain a b c where "service_key org project service = service_key a b c"
      "slash \<notin> set a" "slash \<notin> set b" "slash \<notin> set c" unfolding keys_ok_def by metis
  from service_key_slashes [OF this] show "slash \<notin> set org" "slash \<notin> set project" "slash \<notin> set service" by auto
qed

lemma same_digest_config:
  assumes "inj (sha256_hex L)" and "matches_files L files key a" and "matches_files L files' key b"
    and "sd_config a \<noteq> None" and "sd_config b \<noteq> None" and "sd_config_digest a = sd_config_digest b"
  shows "sd_config a = sd_config b"
proof -
  obtain x y where x: "file_for files key ''config'' = Some x" and y: "file_for files' key ''config'' = Some y"
    using assms(2-5) by (auto simp: matches_files_def)
  with assms(2,3,6) have "sha256_hex L x = sha256_hex L y" by (simp add: matches_files_def digest_bytes_def)
  with assms(1) have "x = y" by (rule injD)
  with x y assms(2,3) show ?thesis by (simp add: matches_files_def)
qed

lemma same_digest_env:
  assumes "inj (sha256_hex L)" and "matches_files L files key a" and "matches_files L files' key b"
    and "sd_env_vars a \<noteq> None" and "sd_env_vars b \<noteq> None" and "sd_env_vars_digest a = sd_env_vars_digest b"
  shows "sd_env_vars a = sd_env_vars b"
proof -
  obtain x y where x: "file_for files key ''env_vars'' = Some x" and y: "file_for files' key ''env_vars'' = Some y"
    using assms(2-5) by (auto simp: matches_files_def)
  with assms(2,3,6) have "sha256_hex L x = sha256_hex L y" by (simp add: matches_files_def digest_bytes_def)
  with assms(1) have "x = y" by (rule injD)
  with x y assms(2,3) show ?thesis by (simp add: matches_files_def)
qed

lemma served_by_contentD:
  assumes "served_by_content content L s" and "get_config s org project service = Inr d"
  shows "sd_config_rv d \<noteq> []" and "sd_env_vars_rv d \<noteq> []" and "head_version s \<noteq> []"
    and "sd_config d = config_at L (content (sd_config_rv d)) (service_key org project service)"
    and "sd_env_vars d = env_vars_at L (content (sd_env_vars_rv d)) (service_key org project service)"
    and "matches_files L (content (head_version s)) (service_key org project service) d"
    and "sd_inherited_config d =
      inherited_config_for org project service d (entries_at L (content (head_version s)) org project)"
    and "sd_inherited_env_vars d =
      inherited_env_vars_for org project service d (entries_at L (content (head_version s)) org project)"
    and "sd_inherited_sources d = map de_source (entries_at L (content (head_version s)) org project)"
  using assms unfolding served_by_content_def Let_def by blast+

lemma reload_by_content:
  assumes "served_by_content content (en_lib E) s" and "names_content content E" and "inj (sha256_hex (en_lib E))"
    and "keys_ok (sn_data (st_snapshot s))" and "reload_unlocked E s w = (r, s', w')"
  shows "served_by_content content (en_lib E) s'"
proof (cases rule: reload_cases [where E = E and s = s and w = w])
  case (failed e at w2)
  with assms(5) have "st_snapshot s' = st_snapshot s" by auto
  with assms(1) show ?thesis by (simp add: served_by_content_def get_config_def head_version_def)
next
  case (ok hash files w1 now at w2)
  let ?L = "en_lib E"
  have files: "hash \<noteq> []" "files = content hash" using assms(2) ok(1) unfolding names_content_def by blast+
  have s': "st_snapshot s' = new_snapshot (served_data ?L s files now hash) hash" and none: "reload_unlocked E s w = (None, s', w')"
    using ok(3) assms(5) by auto
  have head: "head_version s' = hash" by (simp add: head_version_def s' new_snapshot_def)
  have keys: "keys_ok (sn_data (st_snapshot s'))" by (rule reload_keys_ok [OF none])
  show ?thesis unfolding served_by_content_def Let_def head
  proof (intro allI impI)
    fix org project service d
    assume d: "get_config s' org project service = Inr d"
    let ?key = "service_key org project service" and ?di = "fst (snd (loaded ?L files))"
    note names = found_names [OF keys d]
    from d obtain sd0 where sd0: "d = with_versions s hash ?key (with_defaults_of ?di ?key (with_fallback now sd0))"
      by (auto simp: get_config_def s' new_snapshot_def served_data_get split: option.splits)
    have m: "matches_files ?L files ?key d" using served_service [OF ok(1) none, of org project service] d by simp
    have cur: "config_at ?L (content hash) ?key = sd_config d" "env_vars_at ?L (content hash) ?key = sd_env_vars d"
      using m by (simp_all add: matches_files_def config_at_def env_vars_at_def files(2))
    have prev: "sd_config p = config_at ?L (content (sd_config_rv p)) ?key"
      "sd_env_vars p = env_vars_at ?L (content (sd_env_vars_rv p)) ?key"
      "matches_files ?L (content (head_version s)) ?key p" if "mget (sn_data (st_snapshot s)) ?key = Some p" for p
    proof -
      have "get_config s org project service = Inr p" using that by (simp add: get_config_def)
      from served_by_contentD(4,5,6) [OF assms(1) this]
      show "sd_config p = config_at ?L (content (sd_config_rv p)) ?key"
        "sd_env_vars p = env_vars_at ?L (content (sd_env_vars_rv p)) ?key"
        "matches_files ?L (content (head_version s)) ?key p" .
    qed
    have rv: "sd_config_rv d = next_resource_version (sd_config d \<noteq> None) (sd_config_digest d) hash
        (mget (sn_data (st_snapshot s)) ?key) (\<lambda>d. sd_config d \<noteq> None) sd_config_digest sd_config_rv"
      "sd_env_vars_rv d = next_resource_version (sd_env_vars d \<noteq> None) (sd_env_vars_digest d) hash
        (mget (sn_data (st_snapshot s)) ?key) (\<lambda>d. sd_env_vars d \<noteq> None) sd_env_vars_digest sd_env_vars_rv"
      by (simp_all add: sd0 with_versions_rv with_versions_env_rv)
    have "config_at ?L (content (sd_config_rv d)) ?key = sd_config d" unfolding rv(1)
      by (rule next_version_content [where at = "\<lambda>v. config_at ?L (content v) ?key" and val = sd_config, OF cur(1)])
        (use prev same_digest_config [OF assms(3) m] in auto)
    moreover have "env_vars_at ?L (content (sd_env_vars_rv d)) ?key = sd_env_vars d" unfolding rv(2)
      by (rule next_version_content [where at = "\<lambda>v. env_vars_at ?L (content v) ?key" and val = sd_env_vars, OF cur(2)])
        (use prev same_digest_env [OF assms(3) m] in auto)
    moreover have "sd_config_rv d \<noteq> []" "sd_env_vars_rv d \<noteq> []"
      unfolding rv using files(1) by (simp_all add: next_version_nonempty)
    moreover have "sd_inherited_sources d = map de_source (entries_at ?L files org project)"
      by (simp add: sd0 with_defaults_sources [OF names] entries_at_def)
    ultimately show "sd_config_rv d \<noteq> [] \<and> sd_env_vars_rv d \<noteq> [] \<and> hash \<noteq> [] \<and>
       sd_config d = config_at ?L (content (sd_config_rv d)) ?key \<and>
       sd_env_vars d = env_vars_at ?L (content (sd_env_vars_rv d)) ?key \<and> matches_files ?L (content hash) ?key d \<and>
       sd_inherited_config d = inherited_config_for org project service d (entries_at ?L (content hash) org project) \<and>
       sd_inherited_env_vars d = inherited_env_vars_for org project service d (entries_at ?L (content hash) org project) \<and>
       sd_inherited_sources d = map de_source (entries_at ?L (content hash) org project)"
      using served_inherited [OF none ok(1) names d] m files by (simp add: entries_at_def)
  qed
qed

lemma evolves_by_content:
  assumes "evolves E new_store s" and "names_content content E" and "inj (sha256_hex (en_lib E))"
  shows "served_by_content content (en_lib E) s"
  using assms(1)
proof (induction new_store s rule: evolves.induct)
  case refl
  show ?case by (simp add: served_by_content_def get_config_def new_store_def new_snapshot_def)
next
  case (reload s1 w r s' w')
  have "store_inv E s1" by (rule evolves_inv [OF reload.hyps(1) new_store_inv])
  then have "keys_ok (sn_data (st_snapshot s1))" by (simp add: store_inv_def)
  then show ?case by (rule reload_by_content [OF reload.hyps(2) assms(2,3) _ reload.hyps(3)])
qed

subsection \<open>Defaults without content\<close>

definition entry_consistent :: "defaults_entry \<Rightarrow> bool" where
  "entry_consistent e \<longleftrightarrow>
     ds_has_config (de_source e) = (0 < length (nz (dc_config (de_config e)))) \<and>
     ds_has_env_vars (de_source e) = has_env_vars (dc_env (de_config e))"

definition index_consistent :: "defaults_index \<Rightarrow> bool" where
  "index_consistent di \<longleftrightarrow>
     (\<forall>e \<in> set_option (di_global di) \<union> snd ` set (di_org di) \<union> snd ` set (di_project di). entry_consistent e)"

lemma mput_entries: "x \<in> snd ` set (mput k v m) \<Longrightarrow> x = v \<or> x \<in> snd ` set m"
  by (induction m) (auto split: if_splits)

lemma index_consistent_put:
  "index_consistent di \<Longrightarrow> entry_consistent e \<Longrightarrow>
     index_consistent (di\<lparr>di_global := Some e\<rparr>) \<and> index_consistent (di\<lparr>di_org := mput k e (di_org di)\<rparr>) \<and>
     index_consistent (di\<lparr>di_project := mput k e (di_project di)\<rparr>)"
  unfolding index_consistent_def by (auto simp del: set_map dest!: mput_entries [OF imageI, simplified])

lemma parse_and_store_defaults_consistent:
  "index_consistent di \<Longrightarrow> index_consistent (snd (parse_and_store_defaults L path raw di))"
  by (auto simp: parse_and_store_defaults_def Let_def entry_consistent_def index_consistent_put
      split: option.split sum.split defaults_scope.split)

lemma loaded_consistent: "index_consistent (fst (snd (loaded L files)))"
proof (induction files rule: rev_induct)
  case Nil
  show ?case by (simp add: loaded_def index_consistent_def new_defaults_index_def)
next
  case (snoc f files)
  then show ?case
    by (auto simp: loaded_step Let_def split_beta parse_and_store_defaults_consistent)
qed

lemma mget_entry: "Some v = mget m k \<Longrightarrow> v \<in> snd ` set m"
  by (force simp: mget_def dest: map_of_SomeD [OF sym])

lemma entries_at_consistent: "e \<in> set (entries_at L files org project) \<Longrightarrow> entry_consistent e"
  using loaded_consistent [of L files]
  by (auto simp: entries_at_def defaults_entries_for_def index_consistent_def dest: mget_entry split: option.splits)

lemma no_config_merge:
  "list_all (\<lambda>e. nz (dc_config (de_config e)) = []) es \<Longrightarrow> merge_default_configs has merged es = (has, merged)"
  by (induction es) auto

lemma no_env_merge:
  "list_all (\<lambda>e. \<not> has_env_vars (dc_env (de_config e))) es \<Longrightarrow> merge_default_envs has merged es = (has, merged)"
  by (induction es) auto

lemma no_source_config:
  assumes "\<not> list_ex ds_has_config (map de_source es)" and "\<And>e. e \<in> set es \<Longrightarrow> entry_consistent e"
  shows "inherited_config_for org project service sd es = inherited_config_for org project service sd []"
proof -
  have "list_all (\<lambda>e. nz (dc_config (de_config e)) = []) es"
    using assms by (auto simp: list_ex_iff list_all_iff entry_consistent_def)
  then show ?thesis by (simp add: inherited_config_for_def no_config_merge)
qed

lemma no_source_env:
  assumes "\<not> list_ex ds_has_env_vars (map de_source es)" and "\<And>e. e \<in> set es \<Longrightarrow> entry_consistent e"
  shows "inherited_env_vars_for org project service sd es = inherited_env_vars_for org project service sd []"
proof -
  have "list_all (\<lambda>e. \<not> has_env_vars (dc_env (de_config e))) es"
    using assms by (auto simp: list_ex_iff list_all_iff entry_consistent_def)
  then show ?thesis by (simp add: inherited_env_vars_for_def no_env_merge)
qed

subsection \<open>Payloads\<close>

text \<open>Both kinds of read at once\<close>

definition read_payload ::
  "string \<Rightarrow> go_lib \<Rightarrow> store \<Rightarrow> service_data \<Rightarrow> string \<Rightarrow> string \<Rightarrow> string \<Rightarrow> bool \<Rightarrow> cacheable_read_payload" where
  "read_payload resource L s d org project service inherit =
     (if resource = ''config'' then config_payload_from_data L (head_version s) d org project service inherit
      else env_vars_payload_from_data L (head_version s) d org project service inherit)"

definition has_inherited_source :: "string \<Rightarrow> service_data \<Rightarrow> bool" where
  "has_inherited_source resource d =
     (if resource = ''config'' then has_inherited_config_source d else has_inherited_env_vars_source d)"

lemma config_version:
  assumes "sd_config_rv d \<noteq> []" and "head \<noteq> []"
  shows "cp_version (config_payload_from_data L head d org project service inherit) =
    (if inherit \<and> has_inherited_config_source d then head else sd_config_rv d)"
  using assms by (simp add: config_payload_from_data_def Let_def)

lemma env_version:
  assumes "sd_env_vars_rv d \<noteq> []" and "head \<noteq> []"
  shows "cp_version (env_vars_payload_from_data L head d org project service inherit) =
    (if inherit \<and> has_inherited_env_vars_source d then head else sd_env_vars_rv d)"
  using assms by (simp add: env_vars_payload_from_data_def Let_def)

text \<open>Payloads of one version, updated at one time, are equal.\<close>

lemma same_version_same_body:
  assumes c: "served_by_content content L s1" "served_by_content content L s2"
    and d: "get_config s1 org project service = Inr d1" "get_config s2 org project service = Inr d2"
    and src: "inherit \<Longrightarrow> has_inherited_source resource d1 = has_inherited_source resource d2"
    and v: "cp_version (read_payload resource L s1 d1 org project service inherit) =
      cp_version (read_payload resource L s2 d2 org project service inherit)"
    and t: "sd_updated_at d1 = sd_updated_at d2"
  shows "cp_body (read_payload resource L s1 d1 org project service inherit) =
      cp_body (read_payload resource L s2 d2 org project service inherit)"
proof -
  note D1 = served_by_contentD [OF c(1) d(1)] and D2 = served_by_contentD [OF c(2) d(2)]
  let ?es1 = "entries_at L (content (head_version s1)) org project"
  let ?es2 = "entries_at L (content (head_version s2)) org project"
  show ?thesis
  proof (cases "resource = ''config''")
    case True
    have same: "sd_config d1 = sd_config d2 \<and> (if inherit then sd_inherited_config d1 = sd_inherited_config d2 else True)"
    proof (cases "inherit \<and> has_inherited_config_source d1")
      case inh: True
      with src True have "has_inherited_config_source d2" by (simp add: has_inherited_source_def)
      with v inh True have heads: "head_version s1 = head_version s2"
        by (simp add: read_payload_def config_version D1(1,3) D2(1,3))
      then have cfg: "sd_config d1 = sd_config d2" using D1(6) D2(6) by (simp add: matches_files_def)
      then show ?thesis using inherited_from(1) [OF cfg] D1(7) D2(7) heads by simp
    next
      case False
      with src True have "\<not> (inherit \<and> has_inherited_config_source d2)" by (auto simp: has_inherited_source_def)
      with v False True have "sd_config_rv d1 = sd_config_rv d2"
        by (simp add: read_payload_def config_version D1(1,3) D2(1,3) del: de_Morgan_conj)
      then have cfg: "sd_config d1 = sd_config d2" using D1(4) D2(4) by simp
      have "sd_inherited_config d1 = sd_inherited_config d2" if inherit
      proof -
        have "\<not> list_ex ds_has_config (map de_source ?es1)" "\<not> list_ex ds_has_config (map de_source ?es2)"
          using that False \<open>\<not> (inherit \<and> has_inherited_config_source d2)\<close> D1(9) D2(9)
          by (auto simp: has_inherited_config_source_def)
        then show ?thesis
          using D1(7) D2(7) no_source_config [of ?es1] no_source_config [of ?es2] entries_at_consistent
            inherited_from(1) [OF cfg] by metis
      qed
      with cfg show ?thesis by simp
    qed
    with True v t show ?thesis
      by (cases inherit) (simp_all add: read_payload_def config_payload_from_data_def Let_def)
  next
    case False
    have same: "sd_env_vars d1 = sd_env_vars d2 \<and> (if inherit then sd_inherited_env_vars d1 = sd_inherited_env_vars d2 else True)"
    proof (cases "inherit \<and> has_inherited_env_vars_source d1")
      case inh: True
      with src False have "has_inherited_env_vars_source d2" by (simp add: has_inherited_source_def)
      with v inh False have heads: "head_version s1 = head_version s2"
        by (simp add: read_payload_def env_version D1(2,3) D2(2,3))
      then have cfg: "sd_env_vars d1 = sd_env_vars d2" using D1(6) D2(6) by (simp add: matches_files_def)
      then show ?thesis using inherited_from(2) [OF cfg] D1(8) D2(8) heads by simp
    next
      case ninh: False
      with src False have "\<not> (inherit \<and> has_inherited_env_vars_source d2)" by (auto simp: has_inherited_source_def)
      with v ninh False have "sd_env_vars_rv d1 = sd_env_vars_rv d2"
        by (simp add: read_payload_def env_version D1(2,3) D2(2,3) del: de_Morgan_conj)
      then have cfg: "sd_env_vars d1 = sd_env_vars d2" using D1(5) D2(5) by simp
      have "sd_inherited_env_vars d1 = sd_inherited_env_vars d2" if inherit
      proof -
        have "\<not> list_ex ds_has_env_vars (map de_source ?es1)" "\<not> list_ex ds_has_env_vars (map de_source ?es2)"
          using that ninh \<open>\<not> (inherit \<and> has_inherited_env_vars_source d2)\<close> D1(9) D2(9)
          by (auto simp: has_inherited_env_vars_source_def)
        then show ?thesis
          using D1(8) D2(8) no_source_env [of ?es1] no_source_env [of ?es2] entries_at_consistent
            inherited_from(2) [OF cfg] by metis
      qed
      with cfg show ?thesis by simp
    qed
    with False v t show ?thesis
      by (cases inherit) (simp_all add: read_payload_def env_vars_payload_from_data_def Let_def)
  qed
qed

subsection \<open>ETags\<close>

lemma etag_input_inj:
  assumes "\<And>t. CHR 0x00 \<notin> set (nano t)" and "inj nano" and "CHR 0x00 \<notin> set enc" and "CHR 0x00 \<notin> set enc'"
    and "etag_input nano resource org project service v t inherit enc =
      etag_input nano resource org project service v' t' inherit enc'"
  shows "v = v' \<and> t = t' \<and> enc = enc'"
proof -
  have b: "CHR 0x00 \<notin> set (show_bool inherit)" by (simp add: show_bool_def)
  let ?tail = "\<lambda>v t enc. v @ [CHR 0x00] @ nano t @ [CHR 0x00] @ show_bool inherit @ [CHR 0x00] @ enc"
  from assms(5) have "?tail v t enc = ?tail v' t' enc'" by (simp add: etag_input_def)
  then have "rev (?tail v t enc) = rev (?tail v' t' enc')" by simp
  then have "rev enc @ CHR 0x00 # rev (show_bool inherit) @ CHR 0x00 # rev (nano t) @ CHR 0x00 # rev v =
      rev enc' @ CHR 0x00 # rev (show_bool inherit) @ CHR 0x00 # rev (nano t') @ CHR 0x00 # rev v'" by simp
  then have "rev enc = rev enc' \<and> rev (nano t) = rev (nano t') \<and> rev v = rev v'"
    using assms(1,3,4) b by (simp add: append_sep_inj)
  then show ?thesis using assms(2) by (auto dest: injD)
qed

lemma hash_etag_inj: "inj (sha256_hex L) \<Longrightarrow> hash_etag L a = hash_etag L b \<Longrightarrow> a = b"
  by (auto simp: hash_etag_def dest: injD)

definition payload_etag ::
  "'w handler \<Rightarrow> http_request \<Rightarrow> string \<Rightarrow> string \<Rightarrow> string \<Rightarrow> string \<Rightarrow> cacheable_read_payload \<Rightarrow> bool \<Rightarrow> string" where
  "payload_etag H r resource org project service p inherit =
     response_etag H r resource org project service (cp_version p) (cp_updated_at p) inherit"

lemma payload_updated_at: "cp_updated_at (read_payload resource L s d org project service inherit) = sd_updated_at d"
  by (simp add: read_payload_def config_payload_from_data_def env_vars_payload_from_data_def Let_def)

text \<open>C8: The cache validators of the reads are sound: take any two states of the store (of one server, of a restarted one
  or of two replicas) reached by any operations on a repository whose hashes name their trees; when the ETags of a
  service's config (or env vars) in the two states are equal, and the service has inherited defaults of that kind in both
  or in neither, then the bodies and the encodings of the answers are equal. SHA-256 is taken as injective and the
  timestamp format as faithful and free of NUL.\<close>
theorem equal_etags_equal_answers:
  assumes "evolves (hv_store (hn_env H)) new_store s1" and "evolves (hv_store (hn_env H)) new_store s2"
    and "names_content content (hv_store (hn_env H))" and "inj (sha256_hex (hlib H))"
    and "inj (hv_format_nano (hn_env H))" and "\<And>t. CHR 0x00 \<notin> set (hv_format_nano (hn_env H) t)"
    and "get_config s1 org project service = Inr d1" and "get_config s2 org project service = Inr d2"
    and "inherit \<Longrightarrow> has_inherited_source resource d1 = has_inherited_source resource d2"
    and "payload_etag H r1 resource org project service (read_payload resource (hlib H) s1 d1 org project service inherit) inherit =
      payload_etag H r2 resource org project service (read_payload resource (hlib H) s2 d2 org project service inherit) inherit"
  shows "cp_body (read_payload resource (hlib H) s1 d1 org project service inherit) =
      cp_body (read_payload resource (hlib H) s2 d2 org project service inherit) \<and>
    response_content_encoding (hv_parse (hn_env H)) r1 = response_content_encoding (hv_parse (hn_env H)) r2"
proof -
  let ?enc = "\<lambda>r. response_content_encoding (hv_parse (hn_env H)) r"
  have enc: "CHR 0x00 \<notin> set (?enc r)" for r by (simp add: response_content_encoding_def)
  have c: "served_by_content content (hlib H) s1" "served_by_content content (hlib H) s2"
    using evolves_by_content [OF assms(1,3,4)] evolves_by_content [OF assms(2,3,4)] .
  note eq = etag_input_inj [OF assms(6,5) enc enc
      hash_etag_inj [OF assms(4) assms(10) [unfolded payload_etag_def response_etag_def payload_updated_at]]]
  from same_version_same_body [OF c assms(7,8,9)] eq show ?thesis by simp
qed

subsection \<open>The exception\<close>

text \<open>A library whose defaults carry the raw text too, and a commit with defaults before one without\<close>

definition defaults_lib :: go_lib where
  "defaults_lib = sample_lib\<lparr>dec_defaults :=
     (\<lambda>raw. Inr \<lparr>dc_config = Some [(''k'', CStr raw)], dc_env = \<lparr>ev_plain = None, ev_secret_refs = None\<rparr>\<rparr>)\<rparr>"

definition defaults_path :: string where "defaults_path = ''configs/_defaults/common.yaml''"

definition defaults_env :: "mem_commit list store_env" where
  "defaults_env = sample_env\<lparr>en_lib := defaults_lib\<rparr>"

definition with_defaults_commit :: "mem_commit list" where
  "with_defaults_commit = [(''c1'', [(defaults_path, ''d''), (sample_path, ''a'')])]"

definition without_defaults_commit :: "mem_commit list" where
  "without_defaults_commit = [(''c2'', [(sample_path, ''a'')])]"

definition state_with_defaults :: store where
  "state_with_defaults = fst (snd (reload_unlocked defaults_env new_store with_defaults_commit))"

definition state_without_defaults :: store where
  "state_without_defaults = fst (snd (reload_unlocked defaults_env state_with_defaults without_defaults_commit))"

lemma classify_global_defaults: "classify_defaults_path defaults_path =
    Some \<lparr>ds_scope = ScopeGlobal, ds_org = [], ds_project = [], ds_path = defaults_path, ds_has_config = False, ds_has_env_vars = False\<rparr>"
  by (simp add: classify_defaults_path_def defaults_path_def)

lemma defaults_parse:
  "parse_defaults defaults_lib raw = Inr \<lparr>dc_config = Some [(''k'', CStr raw)], dc_env = \<lparr>ev_plain = None, ev_secret_refs = None\<rparr>\<rparr>"
  by (simp add: parse_defaults_def defaults_lib_def sample_lib_def validate_defaults_schema_def root_mapping_def
      validate_mapping_keys_def child_def validate_env_vars_block_def)

lemma defaults_parse_config: "parse_config defaults_lib raw = Inr (sample_config raw)"
  using sample_parse_config [of raw] by (simp add: parse_config_def defaults_lib_def validate_config_schema_def root_mapping_def sample_lib_def)

lemma sample_no_defaults: "classify_defaults_path sample_path = None"
  by (rule service_path_no_defaults) (simp add: classify_sample_path)

abbreviation sample_key :: string where "sample_key \<equiv> service_key ''o'' ''p'' ''s''"

definition own_data :: service_data where
  "own_data = empty_service_data\<lparr>sd_config := Some (sample_config ''a''), sd_config_digest := ''xa''\<rparr>"

definition global_entry :: defaults_entry where
  "global_entry = \<lparr>de_source = \<lparr>ds_scope = ScopeGlobal, ds_org = [], ds_project = [], ds_path = defaults_path,
       ds_has_config = True, ds_has_env_vars = False\<rparr>,
     de_config = \<lparr>dc_config = Some [(''k'', CStr ''d'')], dc_env = \<lparr>ev_plain = None, ev_secret_refs = None\<rparr>\<rparr>\<rparr>"

lemma load_own: "load_files defaults_lib [(sample_path, ''a'')] ([], di, []) = ([(sample_key, own_data)], di, [])"
  by (simp add: parse_and_store_defaults_def sample_no_defaults parse_and_store_def classify_sample_path Let_def
      defaults_parse_config own_data_def digest_bytes_def apply_metadata_updated_at_def sample_config_def sample_metadata_def)
    (simp add: defaults_lib_def sample_lib_def empty_service_data_def)

lemma load_with: "loaded defaults_lib [(defaults_path, ''d''), (sample_path, ''a'')] =
    ([(sample_key, own_data)], new_defaults_index\<lparr>di_global := Some global_entry\<rparr>, [])"
proof -
  have "parse_and_store_defaults defaults_lib defaults_path ''d'' new_defaults_index =
      ((True, None), new_defaults_index\<lparr>di_global := Some global_entry\<rparr>)"
    by (simp add: parse_and_store_defaults_def classify_global_defaults defaults_parse global_entry_def has_env_vars_def)
  then have first: "load_files defaults_lib [(defaults_path, ''d'')] ([], new_defaults_index, []) =
      ([], new_defaults_index\<lparr>di_global := Some global_entry\<rparr>, [])" by simp
  have "[(defaults_path, ''d''), (sample_path, ''a'')] = [(defaults_path, ''d'')] @ [(sample_path, ''a'')]" by simp
  then show ?thesis unfolding loaded_def by (simp only: load_files_append first load_own)
qed

lemma load_without: "loaded defaults_lib [(sample_path, ''a'')] = ([(sample_key, own_data)], new_defaults_index, [])"
  unfolding loaded_def by (rule load_own)

lemma defaults_snapshot: "gr_snapshot (en_git defaults_env) [(h, fs)] = (Inr (h, fs), [(h, fs)])"
  by (simp add: defaults_env_def sample_env_def mem_repo_def mem_head_def mem_files_def)

lemma defaults_now: "en_now defaults_env w = (1, w)"
  by (simp add: defaults_env_def sample_env_def)

lemma defaults_env_lib: "en_lib defaults_env = defaults_lib"
  by (simp add: defaults_env_def)

lemma defaults_reload:
  assumes "loaded defaults_lib files = (data, di, [])"
  shows "sn_data (st_snapshot (fst (snd (reload_unlocked defaults_env s [(h, files)])))) = served_data defaults_lib s files 1 h"
    and "sn_version (st_snapshot (fst (snd (reload_unlocked defaults_env s [(h, files)])))) = h"
  using assms
  by (simp_all add: reload_unlocked_def defaults_snapshot defaults_now defaults_env_lib loaded_def served_data_def
      new_snapshot_def notify_version_change_def Let_def)

lemma key_split: "split_on slash sample_key = [''o'', ''p'', ''s'']"
  by (simp add: service_key_def)

definition data_with_defaults :: service_data where
  "data_with_defaults = own_data\<lparr>sd_updated_at := 1, sd_inherited_sources := [de_source global_entry],
     sd_inherited_config := inherited_config_for ''o'' ''p'' ''s'' own_data [global_entry], sd_config_rv := ''c1'', sd_env_vars_rv := ''c1''\<rparr>"

definition data_without_defaults :: service_data where
  "data_without_defaults = own_data\<lparr>sd_updated_at := 1, sd_inherited_sources := [],
     sd_inherited_config := inherited_config_for ''o'' ''p'' ''s'' own_data [], sd_config_rv := ''c1'', sd_env_vars_rv := ''c1''\<rparr>"

lemma inherited_of_own:
  "inherited_config_for ''o'' ''p'' ''s'' (own_data\<lparr>sd_updated_at := 1\<rparr>) es = inherited_config_for ''o'' ''p'' ''s'' own_data es"
  "inherited_env_vars_for ''o'' ''p'' ''s'' (own_data\<lparr>sd_updated_at := 1\<rparr>) [global_entry] = None"
  "inherited_env_vars_for ''o'' ''p'' ''s'' (own_data\<lparr>sd_updated_at := 1\<rparr>) [] = None"
proof -
  show "inherited_config_for ''o'' ''p'' ''s'' (own_data\<lparr>sd_updated_at := 1\<rparr>) es = inherited_config_for ''o'' ''p'' ''s'' own_data es"
    by (rule inherited_from(1)) simp
  have "sd_env_vars (own_data\<lparr>sd_updated_at := 1\<rparr>) = None" by (simp add: own_data_def empty_service_data_def)
  then show "inherited_env_vars_for ''o'' ''p'' ''s'' (own_data\<lparr>sd_updated_at := 1\<rparr>) [global_entry] = None"
    "inherited_env_vars_for ''o'' ''p'' ''s'' (own_data\<lparr>sd_updated_at := 1\<rparr>) [] = None"
    by (simp_all add: inherited_env_vars_for_def global_entry_def has_env_vars_def)
qed

lemma served_data_of:
  assumes "loaded defaults_lib files = ([(sample_key, own_data)], di, [])"
  shows "get_config (fst (snd (reload_unlocked defaults_env s [(h, files)]))) ''o'' ''p'' ''s'' =
    Inr (with_versions s h sample_key (apply_inherited_fields ''o'' ''p'' ''s'' (own_data\<lparr>sd_updated_at := 1\<rparr>) di))"
proof -
  have "with_fallback 1 own_data = own_data\<lparr>sd_updated_at := 1\<rparr>"
    by (simp add: with_fallback_def own_data_def empty_service_data_def)
  then show ?thesis
    by (simp add: get_config_def defaults_reload [OF assms] served_data_get assms with_defaults_of_def key_split)
qed

lemma own_digest: "sd_config_digest own_data = ''xa''" "sd_config own_data = Some (sample_config ''a'')" "sd_env_vars own_data = None"
  by (simp_all add: own_data_def empty_service_data_def)

lemma served_with: "get_config state_with_defaults ''o'' ''p'' ''s'' = Inr data_with_defaults"
proof -
  have "mget (sn_data (st_snapshot new_store)) sample_key = None" by (simp add: new_store_def new_snapshot_def)
  then show ?thesis
    unfolding state_with_defaults_def with_defaults_commit_def served_data_of [OF load_with] with_versions_def
    by (simp add: next_resource_version_def apply_inherited_fields_def defaults_entries_for_def new_defaults_index_def
        inherited_of_own data_with_defaults_def)
      (simp add: own_data_def empty_service_data_def)
qed

lemma served_without: "get_config state_without_defaults ''o'' ''p'' ''s'' = Inr data_without_defaults"
proof -
  have prev: "mget (sn_data (st_snapshot state_with_defaults)) sample_key = Some data_with_defaults"
    using served_with by (simp add: get_config_def split: option.splits)
  have old: "sd_config data_with_defaults = Some (sample_config ''a'')" "sd_env_vars data_with_defaults = None"
    "sd_config_digest data_with_defaults = ''xa''" "sd_config_rv data_with_defaults = ''c1''" "sd_env_vars_rv data_with_defaults = ''c1''"
    by (simp_all add: data_with_defaults_def own_digest)
  show ?thesis
    unfolding state_without_defaults_def without_defaults_commit_def served_data_of [OF load_without] with_versions_def prev
    by (simp add: next_resource_version_def old own_digest apply_inherited_fields_def defaults_entries_for_def
        new_defaults_index_def inherited_of_own data_without_defaults_def)
      (simp add: own_data_def empty_service_data_def)
qed

lemma defaults_heads: "head_version state_with_defaults = ''c1''" "head_version state_without_defaults = ''c2''"
  unfolding head_version_def state_with_defaults_def with_defaults_commit_def state_without_defaults_def without_defaults_commit_def
  using defaults_reload(2) [OF load_with] defaults_reload(2) [OF load_without] by simp_all

text \<open>
  When the last defaults of a service go away (or lose their config) and its own config stays as it is, the version
  falls back to the service's own resource version, which can be the very version under which the merged config was
  served: the ETag is unchanged although the body is not, and a watch on that version does not fire.
\<close>

lemma removed_defaults_keep_etag:
  "let p1 = read_payload ''config'' L state_with_defaults data_with_defaults ''o'' ''p'' ''s'' True;
       p2 = read_payload ''config'' L state_without_defaults data_without_defaults ''o'' ''p'' ''s'' True
   in payload_etag H r ''config'' ''o'' ''p'' ''s'' p1 True = payload_etag H r ''config'' ''o'' ''p'' ''s'' p2 True \<and>
      cp_body p1 \<noteq> cp_body p2 \<and>
      watched_version state_without_defaults ''o'' ''p'' ''s'' ''config'' True = Inr (cp_version p1, ''c2'')"
proof -
  have rv: "resource_version state_without_defaults ''o'' ''p'' ''s'' ''config'' = (Inr ''c1'', ''c2'')"
  proof -
    have "mget (sn_data (st_snapshot state_without_defaults)) sample_key = Some data_without_defaults"
      using served_without by (simp add: get_config_def split: option.splits)
    then show ?thesis using defaults_heads(2)
      by (simp add: resource_version_def resource_version_of_def data_without_defaults_def head_version_def)
  qed
  show ?thesis
    by (simp add: read_payload_def config_payload_from_data_def payload_etag_def defaults_heads watched_version_def rv served_without
        Let_def has_inherited_config_source_def data_with_defaults_def data_without_defaults_def)
      (simp add: inherited_config_for_def own_data_def global_entry_def sample_config_def config_json_def empty_service_data_def)
qed

subsection \<open>Witness\<close>

lemma one_file_snapshot: "gr_snapshot (en_git one_file_env) w = (Inr (CHR ''h'' # w, [(sample_path, w)]), w)"
  by (simp add: one_file_env_def one_file_repo_def)

lemma one_file_lib: "en_lib one_file_env = sample_lib"
  by (simp add: one_file_env_def)

lemma one_file_evolves: "evolves one_file_env new_store one_file_state"
  unfolding one_file_state_def by (rule evolves_fst)

lemma one_file_found: "\<exists>d. get_config one_file_state ''o'' ''p'' ''s'' = Inr d"
proof -
  have "\<forall>f \<in> set [(sample_path, ''a'')]. repo_file_ok (en_lib one_file_env) f" by (simp add: one_file_lib sample_file_ok)
  from reload_ok [OF one_file_snapshot this, of new_store]
  obtain s w2 where s: "reload_unlocked one_file_env new_store ''a'' = (None, s, w2)" by blast
  then have "s = one_file_state" by (simp add: one_file_state_def)
  with s have r: "reload_unlocked one_file_env new_store ''a'' = (None, one_file_state, w2)" by simp
  have "has_files [(sample_path, ''a'')] (service_key ''o'' ''p'' ''s'')" using classify_sample_path by (auto simp: has_files_def)
  with served_service [OF one_file_snapshot r, of "''o''" "''p''" "''s''"] show ?thesis
    by (cases "get_config one_file_state ''o'' ''p'' ''s''") simp_all
qed

lemma sample_sha_inj: "inj (sha256_hex sample_lib)"
  by (auto simp: inj_def sample_lib_def)

definition reloaded_state :: store where
  "reloaded_state = fst (snd (reload_unlocked one_file_env one_file_state ''a''))"

lemma one_file_served:
  "sn_data (st_snapshot (fst (snd (reload_unlocked one_file_env s ''a'')))) = served_data sample_lib s [(sample_path, ''a'')] 1 ''ha''"
  "sn_version (st_snapshot (fst (snd (reload_unlocked one_file_env s ''a'')))) = ''ha''"
proof -
  have "snd (snd (loaded sample_lib [(sample_path, ''a'')])) = []" using loaded_ok [of sample_lib] sample_file_ok by simp
  then obtain data di where l: "loaded sample_lib [(sample_path, ''a'')] = (data, di, [])"
    by (cases "loaded sample_lib [(sample_path, ''a'')]") auto
  have now: "en_now one_file_env w = (1, w)" for w by (simp add: one_file_env_def)
  show "sn_data (st_snapshot (fst (snd (reload_unlocked one_file_env s ''a'')))) = served_data sample_lib s [(sample_path, ''a'')] 1 ''ha''"
    "sn_version (st_snapshot (fst (snd (reload_unlocked one_file_env s ''a'')))) = ''ha''"
    using l by (simp_all add: reload_unlocked_def one_file_snapshot now one_file_lib loaded_def served_data_def
        new_snapshot_def notify_version_change_def Let_def)
qed

lemma reloaded_same: "get_config reloaded_state ''o'' ''p'' ''s'' = get_config one_file_state ''o'' ''p'' ''s''"
proof -
  have none: "mget (sn_data (st_snapshot new_store)) sample_key = None" by (simp add: new_store_def new_snapshot_def)
  show ?thesis
    unfolding get_config_def reloaded_state_def one_file_served(1) served_data_get
    by (cases "mget (fst (loaded sample_lib [(sample_path, ''a'')])) sample_key")
      (simp_all add: one_file_state_def one_file_served(1) served_data_get with_versions_def none next_resource_version_def Let_def)
qed

theorem equal_etags_equal_answers_witness:
  "\<exists>d. get_config one_file_state ''o'' ''p'' ''s'' = Inr d \<and> get_config reloaded_state ''o'' ''p'' ''s'' = Inr d \<and>
     cp_body (read_payload ''config'' sample_lib one_file_state d ''o'' ''p'' ''s'' True) =
       cp_body (read_payload ''config'' sample_lib reloaded_state d ''o'' ''p'' ''s'' True)"
proof -
  let ?H = "sample_handler one_file_env None"
  have h: "hv_store (hn_env ?H) = one_file_env" "hv_format_nano (hn_env ?H) = unary_time"
    by (simp_all add: sample_handler_def sample_http_env_def)
  obtain d where d: "get_config one_file_state ''o'' ''p'' ''s'' = Inr d" using one_file_found by blast
  then have d2: "get_config reloaded_state ''o'' ''p'' ''s'' = Inr d" by (simp add: reloaded_same)
  have names: "names_content (\<lambda>h. [(sample_path, tl h)]) one_file_env"
    by (auto simp: names_content_def one_file_snapshot)
  have ev2: "evolves one_file_env new_store reloaded_state"
    unfolding reloaded_state_def by (rule evolves_trans [OF evolves_fst one_file_evolves])
  have "head_version one_file_state = head_version reloaded_state"
    by (simp add: head_version_def one_file_state_def reloaded_state_def one_file_served(2))
  then have etag: "payload_etag ?H plain_request ''config'' ''o'' ''p'' ''s'' (read_payload ''config'' (hlib ?H) one_file_state d ''o'' ''p'' ''s'' True) True =
      payload_etag ?H plain_request ''config'' ''o'' ''p'' ''s'' (read_payload ''config'' (hlib ?H) reloaded_state d ''o'' ''p'' ''s'' True) True"
    by (simp add: read_payload_def)
  note equal_etags_equal_answers [where H = ?H, unfolded h one_file_lib, OF one_file_evolves ev2 names sample_sha_inj
      unary_time_inj unary_time_no_nul d d2 HOL.refl etag [unfolded h one_file_lib]]
  with d d2 show ?thesis by blast
qed

text \<open>A read that takes the data before a reload and the head after it has the validator of a read after both.\<close>

lemma torn_read_same_etag:
  assumes "has_inherited_config_source old" and "has_inherited_config_source new" and "sd_updated_at old = sd_updated_at new"
  shows "payload_etag H r ''config'' org project service (config_payload_from_data L head old org project service True) True =
    payload_etag H r ''config'' org project service (config_payload_from_data L head new org project service True) True"
  using assms by (simp add: payload_etag_def config_payload_from_data_def Let_def)

end
