(* ===== verification/RoutesProps.thy ===== *)
theory RoutesProps
  imports HandlerSample
begin

text \<open>
  What holds of every route: the answers are well formed, a caller without the API key changes nothing and reads no
  secret, and internal errors say nothing about themselves.
\<close>

named_theorems response_intros

subsection \<open>Well-formed responses\<close>

definition fresh_writer :: "http_writer \<Rightarrow> bool" where
  "fresh_writer wr \<longleftrightarrow> hw_status wr = None \<and> hw_body wr = NoBody"

definition body_codes :: "nat list" where
  "body_codes = [200, 400, 401, 404, 409, 413, 429, 499, 500, 503, 504]"

text \<open>
  A status of the API; no body exactly with 304 and 412; JSON is declared as such, and compressed JSON as that too.
\<close>

definition response_ok :: "http_writer \<Rightarrow> bool" where
  "response_ok wr =
     (case hw_status wr of
        None \<Rightarrow> False
      | Some c \<Rightarrow>
          (case hw_body wr of
             NoBody \<Rightarrow> c = 304 \<or> c = 412
           | TextBody t \<Rightarrow> c = 200 \<or> c = 503
           | JsonBody v \<Rightarrow> c \<in> set body_codes \<and> header_of wr ''Content-Type'' = ''application/json''
           | GzipBody v \<Rightarrow> c = 200 \<and> header_of wr ''Content-Type'' = ''application/json'' \<and>
                            header_of wr ''Content-Encoding'' = ''gzip''))"

lemma fresh_set_header [simp]: "fresh_writer (set_header k v wr) = fresh_writer wr"
  by (simp add: fresh_writer_def set_header_def)

lemma fresh_del_header [simp]: "fresh_writer (del_header k wr) = fresh_writer wr"
  by (simp add: fresh_writer_def del_header_def)

lemma fresh_add_vary [simp]: "fresh_writer (add_vary v wr) = fresh_writer wr"
  by (simp add: add_vary_def Let_def)

lemma fresh_new [simp]: "fresh_writer new_writer"
  by (simp add: fresh_writer_def new_writer_def)

lemma respond_json_ok [response_intros]:
  "fresh_writer wr \<Longrightarrow> c \<in> set body_codes \<Longrightarrow> response_ok (respond_json c v wr)"
  by (simp add: respond_json_def response_ok_def fresh_writer_def set_header_def write_header_def write_body_def header_of_def)

lemma respond_error_code_ok [response_intros]:
  "fresh_writer wr \<Longrightarrow> c \<in> set body_codes \<Longrightarrow> response_ok (respond_error_code c code msg wr)"
  by (simp add: respond_error_code_def respond_json_ok)

lemma respond_gzip_ok: "fresh_writer wr \<Longrightarrow> response_ok (respond_gzip_json 200 v wr)"
  by (simp add: respond_gzip_json_def response_ok_def fresh_writer_def set_header_def write_header_def write_body_def header_of_def)

lemma no_body_ok [response_intros]: "fresh_writer wr \<Longrightarrow> c = 304 \<or> c = 412 \<Longrightarrow> response_ok (write_header c wr)"
  by (auto simp: response_ok_def fresh_writer_def write_header_def)

lemma text_ok [response_intros]:
  "fresh_writer wr \<Longrightarrow> response_ok (write_body (TextBody t) (write_header 200 wr))"
  "fresh_writer wr \<Longrightarrow> response_ok (http_error t 503 wr)"
  by (simp_all add: response_ok_def fresh_writer_def write_header_def write_body_def http_error_def set_header_def del_header_def)

lemma respond_error_ok [response_intros]: "fresh_writer wr \<Longrightarrow> response_ok (respond_error e wr)"
  by (auto simp: respond_error_def body_codes_def intro: respond_error_code_ok split: option.split code.split prod.split)

lemma decode_error_ok [response_intros]: "fresh_writer wr \<Longrightarrow> response_ok (handle_decode_error e wr)"
  by (simp add: handle_decode_error_def body_codes_def respond_error_code_ok)

lemma bad_query_ok [response_intros]: "fresh_writer wr \<Longrightarrow> response_ok (bad_query e wr)"
  by (simp add: bad_query_def body_codes_def respond_error_code_ok)

lemma validation_failure_ok [response_intros]: "fresh_writer wr \<Longrightarrow> response_ok (validation_failure msg wr)"
  by (simp add: validation_failure_def body_codes_def respond_error_code_ok)

lemma cacheable_ok [response_intros]: "fresh_writer wr \<Longrightarrow> response_ok (respond_cacheable_json H r etag v wr)"
  by (auto simp: respond_cacheable_json_def Let_def body_codes_def intro: respond_json_ok respond_gzip_ok no_body_ok)

lemma write_payload_ok [response_intros]: "fresh_writer wr \<Longrightarrow> response_ok (write_payload H r resource org project service inherit p wr)"
  by (auto simp: write_payload_def intro: response_intros split: sum.split)

lemma write_status_code [simp]: "snd (write_status done a b) = 200 \<or> snd (write_status done a b) = 503"
  by (simp add: write_status_def)

subsection \<open>Authentication and limits\<close>

lemma authenticate_Some: "authenticate key r wr = Some wr' \<Longrightarrow> wr' = respond_error_code 401 ''unauthorized'' ''missing or invalid API key'' wr"
  by (simp add: authenticate_def split: if_splits)

lemma authenticate_denies:
  "key \<noteq> [] \<Longrightarrow> \<not> authorized r key \<Longrightarrow>
     authenticate key r wr = Some (respond_error_code 401 ''unauthorized'' ''missing or invalid API key'' wr)"
  by (simp add: authenticate_def)

lemma allow_ok: "allow_rate_limited H g wr w = (Some wr', w') \<Longrightarrow> fresh_writer wr \<Longrightarrow> response_ok wr'"
  by (auto simp: allow_rate_limited_def body_codes_def intro!: respond_error_code_ok split: option.splits prod.splits bool.splits)

definition handler_ok :: "'w handler_func \<Rightarrow> bool" where
  "handler_ok h \<longleftrightarrow> (\<forall>r wr st. fresh_writer wr \<longrightarrow> response_ok (fst (h r wr st)))"

lemma handler_okI: "(\<And>r wr s w. fresh_writer wr \<Longrightarrow> response_ok (fst (h r wr (s, w)))) \<Longrightarrow> handler_ok h"
  by (simp add: handler_ok_def)

lemma limit_endpoint_ok: "handler_ok h \<Longrightarrow> handler_ok (limit_endpoint H g h)"
  by (auto simp: handler_ok_def limit_endpoint_def intro: allow_ok split: prod.split option.split)

lemma require_key_ok: "handler_ok h \<Longrightarrow> handler_ok (require_key H h)"
  by (auto simp: handler_ok_def require_key_def body_codes_def intro!: respond_error_code_ok dest!: authenticate_Some split: option.split)

lemma admin_route_ok: "handler_ok h \<Longrightarrow> handler_ok (admin_route H h)"
  unfolding admin_route_def by (intro require_key_ok limit_endpoint_ok)

subsection \<open>The handlers\<close>

lemma simple_handlers_ok:
  "handler_ok healthz" "handler_ok (readyz H)" "handler_ok (get_status H)"
  "handler_ok handle_list_orgs" "handler_ok handle_list_projects" "handler_ok handle_list_services"
  by (auto intro!: handler_okI response_intros
      simp: healthz_def readyz_def get_status_def handle_list_orgs_def handle_list_projects_def handle_list_services_def
        body_codes_def Let_def split: option.split)

lemma reload_handlers_ok: "handler_ok (admin_reload H)" "handler_ok (git_webhook H)" "handler_ok (app_registry_webhook H)"
  by (auto intro!: handler_okI response_intros simp: admin_reload_def git_webhook_def app_registry_webhook_def body_codes_def Let_def
      split: prod.split option.split sum.split)

lemma get_config_handler_ok: "handler_ok (get_config_handler H)"
  by (auto intro!: handler_okI response_intros simp: get_config_handler_def write_config_at_version_response_def write_config_response_def
      body_codes_def Let_def split: prod.split sum.split)

lemma env_vars_response_ok: "fresh_writer wr \<Longrightarrow> response_ok (fst (write_env_vars_response H r org project service resolve inherit wr st))"
  by (cases st)
    (auto intro!: response_intros simp: write_env_vars_response_def write_resolved_response_def body_codes_def Let_def
      split: prod.split sum.split option.split)

lemma get_env_vars_ok: "handler_ok (get_env_vars H)"
  by (auto intro!: handler_okI response_intros env_vars_response_ok
      intro: allow_ok simp: get_env_vars_def write_env_vars_at_version_response_def body_codes_def Let_def
      dest!: authenticate_Some split: prod.split sum.split option.split)

lemma read_handlers_ok: "handler_ok (get_secrets H)" "handler_ok (post_configs_batch H)" "handler_ok (get_history H)"
  by (auto intro!: handler_okI response_intros simp: get_secrets_def post_configs_batch_def get_history_def body_codes_def Let_def
      split: prod.split sum.split option.split)

lemma status_code_ok: "write_status done a b = (status, c) \<Longrightarrow> c \<in> set body_codes"
  using write_status_code [of "done" a b] by (auto simp: body_codes_def)

lemma write_handlers_ok: "handler_ok (post_changes H)" "handler_ok (post_revert H)" "handler_ok (handle_delete_changes H)"
  by (auto intro!: handler_okI response_intros intro: status_code_ok simp: post_changes_def post_revert_def handle_delete_changes_def Let_def
      split: prod.split sum.split if_split)
     (auto simp: body_codes_def dest!: status_code_ok split: if_splits)

subsection \<open>Watching\<close>

definition waited_ok :: "http_writer \<Rightarrow> bool \<Rightarrow> http_writer \<Rightarrow> bool" where
  "waited_ok wr answer wr' = (if answer then wr' = wr else response_ok wr')"

lemma watch_wait_ok:
  assumes "watch_wait H org project service resource inherit version wr s w = Some y" and "fresh_writer wr"
  shows "waited_ok wr (fst (fst y)) (snd (snd (fst y)))"
proof -
  let ?P = "\<lambda>H org project service resource inherit version wr s w y.
    fresh_writer wr \<longrightarrow> waited_ok wr (fst (fst y)) (snd (snd (fst y)))"
  have "?P H org project service resource inherit version wr s w y"
  proof (rule watch_wait.raw_induct [where P = ?P, OF _ assms(1)])
    fix rec H org project service resource inherit version wr s w y
    assume IH: "\<And>H org project service resource inherit version wr s w y.
        rec H org project service resource inherit version wr s w = Some y \<Longrightarrow>
        fresh_writer wr \<longrightarrow> waited_ok wr (fst (fst y)) (snd (snd (fst y)))"
      and body: "(if hv_wait_err (hn_env H) w \<noteq> None then Some ((False, watch_outcome H w, write_header 304 wr), s, w)
        else
          (case watched_version (hs_store s) org project service resource inherit of
             Inl e \<Rightarrow> Some ((False, ''error'', respond_error e wr), s, w)
           | Inr (rv, head) \<Rightarrow>
               if rv \<noteq> version then Some ((True, ''changed'', wr), s, w)
               else
                 (case hv_wait (hn_env H) head (hs_store s, w) of
                    ((current, changed, Some e), st, w) \<Rightarrow>
                      if \<not> changed \<and> (err_is CtxDeadlineExceeded e \<or> err_is CtxCanceled e)
                      then Some ((False, watch_outcome H w, write_header 304 wr), with_store st s, w)
                      else Some ((False, ''error'', respond_error_code 500 ''internal'' ''internal server error'' wr), with_store st s, w)
                  | ((current, changed, None), st, w) \<Rightarrow>
                      if \<not> changed then Some ((False, watch_outcome H w, write_header 304 wr), with_store st s, w)
                      else rec H org project service resource inherit version wr (with_store st s) w))) = Some y"
    show "fresh_writer wr \<longrightarrow> waited_ok wr (fst (fst y)) (snd (snd (fst y)))"
    proof
      assume f: "fresh_writer wr"
      have rec: "waited_ok wr (fst (fst y)) (snd (snd (fst y)))" if "rec H org project service resource inherit version wr s' w' = Some y" for s' w'
        using IH [OF that] f by simp
      have oks: "waited_ok wr False (write_header 304 wr)" "waited_ok wr False (respond_error e wr)"
        "waited_ok wr False (respond_error_code 500 ''internal'' ''internal server error'' wr)" "waited_ok wr True wr" for e
        using f by (simp_all add: waited_ok_def no_body_ok respond_error_ok respond_error_code_ok body_codes_def)
      show "waited_ok wr (fst (fst y)) (snd (snd (fst y)))"
        using body by (auto simp: oks dest!: rec split: if_splits sum.splits prod.splits option.splits)
    qed
  qed
  with assms(2) show ?thesis by simp
qed

lemma wait_for_change_ok:
  assumes "wait_for_watch_change H r org project service resource inherit wr st = Some ((a, out, wr1), st1)" and "fresh_writer wr"
  shows "waited_ok wr a wr1"
  using assms
  by (auto simp: wait_for_watch_change_def Let_def waited_ok_def bad_query_ok split: prod.splits if_splits sum.splits
      dest!: watch_wait_ok)

lemma watch_resource_ok:
  assumes "watch_resource H resource answer r wr st = Some (wr', st')" and "fresh_writer wr"
    and "\<And>org project service inherit st. response_ok (fst (answer org project service inherit wr st))"
  shows "response_ok wr'"
proof (cases "parse_inherit_query r")
  case (Inl e)
  with assms(1,2) show ?thesis by (auto simp: watch_resource_def bad_query_ok)
next
  case (Inr inherit)
  let ?org = "rq_path r ''org''" and ?project = "rq_path r ''project''" and ?service = "rq_path r ''service''"
  note ws = assms(1) [unfolded watch_resource_def Let_def Inr sum.case]
  obtain a out wr1 st1 where
    wait: "wait_for_watch_change H r ?org ?project ?service resource inherit wr st = Some ((a, out, wr1), st1)"
  proof (cases "wait_for_watch_change H r ?org ?project ?service resource inherit wr st")
    case None
    with ws show thesis by simp
  next
    case (Some y)
    then show thesis by (cases y) (auto intro: that)
  qed
  have w: "waited_ok wr a wr1" by (rule wait_for_change_ok [OF wait assms(2)])
  show ?thesis
  proof (cases a)
    case True
    with w have "wr1 = wr" by (simp add: waited_ok_def)
    with True ws wait have "(wr', st') = answer ?org ?project ?service inherit wr st1" by simp
    with assms(3) [of ?org ?project ?service inherit st1] show ?thesis by (metis fst_conv)
  next
    case False
    with ws wait w show ?thesis by (simp add: waited_ok_def)
  qed
qed

lemma watch_route_ok:
  assumes "watch_route H h r wr st = Some (wr', st')" and "fresh_writer wr"
    and h: "h r = watch_resource H resource answer r"
    and "\<And>org project service inherit st. response_ok (fst (answer org project service inherit wr st))"
  shows "response_ok wr'"
proof -
  obtain s w where st: "st = (s, w)" by (cases st)
  obtain o1 w1 where a: "allow_rate_limited H WatchGroup wr w = (o1, w1)" by (cases "allow_rate_limited H WatchGroup wr w")
  show ?thesis
  proof (cases o1)
    case None
    with assms(1) a st have "watch_resource H resource answer r wr (s, w1) = Some (wr', st')" by (simp add: watch_route_def h)
    then show ?thesis using assms(2,4) by (rule watch_resource_ok)
  next
    case (Some wr1)
    with assms(1) a st have "wr' = wr1" by (simp add: watch_route_def)
    with Some a assms(2) show ?thesis by (auto intro: allow_ok)
  qed
qed

text \<open>The routes that do not wait\<close>

fun direct_handler :: "'w handler \<Rightarrow> route \<Rightarrow> 'w handler_func option" where
  "direct_handler H RHealthz = Some healthz"
| "direct_handler H RReadyz = Some (readyz H)"
| "direct_handler H RStatus = Some (get_status H)"
| "direct_handler H ROrgs = Some handle_list_orgs"
| "direct_handler H RProjects = Some handle_list_projects"
| "direct_handler H RServices = Some handle_list_services"
| "direct_handler H RConfig = Some (get_config_handler H)"
| "direct_handler H RConfigWatch = None"
| "direct_handler H REnvVars = Some (get_env_vars H)"
| "direct_handler H REnvVarsWatch = None"
| "direct_handler H RBatch = Some (limit_endpoint H BatchGroup (post_configs_batch H))"
| "direct_handler H RHistory = Some (limit_endpoint H ReadGroup (get_history H))"
| "direct_handler H RSecrets = Some (require_key H (get_secrets H))"
| "direct_handler H RPostChanges = Some (admin_route H (post_changes H))"
| "direct_handler H RRevert = Some (admin_route H (post_revert H))"
| "direct_handler H RDelete = Some (admin_route H (handle_delete_changes H))"
| "direct_handler H RReload = Some (admin_route H (admin_reload H))"
| "direct_handler H RGitWebhook = Some (admin_route H (git_webhook H))"
| "direct_handler H RRegistryWebhook = Some (admin_route H (app_registry_webhook H))"

lemma serve_direct: "direct_handler H rt = Some h \<Longrightarrow> serve H rt r wr st = Some (h r wr st)"
  by (cases rt) auto

lemma direct_handler_None: "direct_handler H rt = None \<longleftrightarrow> rt = RConfigWatch \<or> rt = REnvVarsWatch"
  by (cases rt) auto

lemmas handlers_ok = simple_handlers_ok reload_handlers_ok get_config_handler_ok get_env_vars_ok read_handlers_ok write_handlers_ok

lemma direct_handler_ok: "direct_handler H rt = Some h \<Longrightarrow> handler_ok h"
  by (cases rt) (auto simp: handlers_ok admin_route_ok require_key_ok limit_endpoint_ok)

lemma watch_config_ok: "watch_route H (watch_config H) r new_writer st = Some (wr', st') \<Longrightarrow> response_ok wr'"
  by (erule watch_route_ok [OF _ fresh_new watch_config_def]) (simp add: write_config_response_def write_payload_ok)

lemma watch_env_vars_ok: "watch_route H (watch_env_vars H) r new_writer st = Some (wr', st') \<Longrightarrow> response_ok wr'"
  by (erule watch_route_ok [OF _ fresh_new watch_env_vars_def]) (simp add: env_vars_response_ok)


end
