(* ===== verification/RouteSafety.thy ===== *)
theory RouteSafety
  imports RoutesProps
begin

text \<open>
  What a caller without the API key can do: the reads leave the server as it is, a watch lets others change the store
  while it waits, and everything else is refused before it has any effect.
\<close>

subsection \<open>Reads\<close>

definition reads_only :: "'w handler_func \<Rightarrow> bool" where
  "reads_only h \<longleftrightarrow> (\<forall>r wr s w. fst (snd (h r wr (s, w))) = s)"

lemma reads_onlyI: "(\<And>r wr s w. fst (snd (h r wr (s, w))) = s) \<Longrightarrow> reads_only h"
  by (simp add: reads_only_def)

lemma limit_reads_only: "reads_only h \<Longrightarrow> reads_only (limit_endpoint H g h)"
  by (auto simp: reads_only_def limit_endpoint_def split: prod.split option.split)

lemma simple_reads_only:
  "reads_only healthz" "reads_only (readyz H)" "reads_only (get_status H)"
  "reads_only handle_list_orgs" "reads_only handle_list_projects" "reads_only handle_list_services"
  by (auto intro!: reads_onlyI simp: healthz_def readyz_def get_status_def handle_list_orgs_def handle_list_projects_def
      handle_list_services_def Let_def split: option.split)

lemma read_reads_only: "reads_only (get_config_handler H)" "reads_only (post_configs_batch H)" "reads_only (get_history H)"
  by (auto intro!: reads_onlyI simp: get_config_handler_def write_config_at_version_response_def post_configs_batch_def get_history_def Let_def
      split: prod.split sum.split option.split)

text \<open>Which routes need the key: those of \<open>privileged\<close>, and the env vars when secrets are to be resolved.\<close>

definition privileged :: "route set" where
  "privileged = {RSecrets, RPostChanges, RRevert, RDelete, RReload, RGitWebhook, RRegistryWebhook}"

definition needs_key :: "route \<Rightarrow> http_request \<Rightarrow> bool" where
  "needs_key rt r \<longleftrightarrow> rt \<in> privileged \<or> (rt = REnvVars \<and> parse_bool_query r ''resolve_secrets'' = Inr True)"

definition denied :: "http_writer \<Rightarrow> http_writer" where
  "denied wr = respond_error_code 401 ''unauthorized'' ''missing or invalid API key'' wr"

definition locked_out :: "'w handler \<Rightarrow> http_request \<Rightarrow> bool" where
  "locked_out H r \<longleftrightarrow> hn_api_key H \<noteq> [] \<and> \<not> authorized r (hn_api_key H)"

lemma require_key_denies: "locked_out H r \<Longrightarrow> require_key H h r wr st = (denied wr, st)"
  by (simp add: locked_out_def require_key_def authenticate_denies denied_def)

lemma privileged_denied: "locked_out H r \<Longrightarrow> rt \<in> privileged \<Longrightarrow> serve H rt r wr st = Some (denied wr, st)"
  by (auto simp: privileged_def admin_route_def require_key_denies)

lemma env_vars_denied:
  assumes "locked_out H r"
  shows "fst (snd (get_env_vars H r wr (s, w))) = s"
  using assms
  by (auto simp: get_env_vars_def Let_def locked_out_def authenticate_denies write_env_vars_at_version_response_def write_env_vars_response_def
      split: prod.split sum.split option.split)

lemma env_secrets_denied:
  assumes "locked_out H r" and "parse_bool_query r ''resolve_secrets'' = Inr True"
  shows "snd (get_env_vars H r wr st) = st \<and>
    (fst (get_env_vars H r wr st) = denied wr \<or> (\<exists>e. fst (get_env_vars H r wr st) = bad_query e wr))"
  using assms by (cases st) (auto simp: get_env_vars_def Let_def locked_out_def authenticate_denies denied_def split: sum.split)

subsection \<open>Watching\<close>

text \<open>The store apart\<close>

definition rest_of :: "server_state \<Rightarrow> reg_cache \<times> volume_reader \<times> vmem \<times> secret_writes" where
  "rest_of s = (hs_registry s, hs_volume s, hs_mem s, hs_leftover s)"

lemma rest_of_with_store [simp]: "rest_of (with_store st s) = rest_of s"
  by (simp add: rest_of_def with_store_def)

lemma watch_wait_rest:
  assumes "watch_wait H org project service resource inherit version wr s w = Some y"
  shows "rest_of (fst (snd y)) = rest_of s"
proof (rule watch_wait.raw_induct [where P = "\<lambda>H org project service resource inherit version wr s w y. rest_of (fst (snd y)) = rest_of s",
      OF _ assms])
  fix rec H org project service resource inherit version wr s w y
  assume IH: "\<And>H org project service resource inherit version wr s w y.
      rec H org project service resource inherit version wr s w = Some y \<Longrightarrow> rest_of (fst (snd y)) = rest_of s"
    and body: "(if hv_wait_err (hn_env H) w \<noteq> None then Some ((False, watch_outcome H w, write_header 304 wr), s, w)
      else
        (case watched_version (hs_store s) org project service resource inherit of
           Inl e \<Rightarrow> Some ((False, ''error'', respond_error e wr), s, w)
         | Inr (rv, head) \<Rightarrow>
             if rv \<noteq> version then Some ((True, ''changed'', wr), s, w)
             else
               (case hv_wait (hn_env H) head (hs_store s, w) of
                  ((current, changed, Some e), st, w) \<Rightarrow>
                    if \<not> changed \<and> (err_is CtxDeadlineExceeded e \<or> err_is CtxCanceled e)
                    then Some ((False, watch_outcome H w, write_header 304 wr), with_store st s, w)
                    else Some ((False, ''error'', respond_error_code 500 ''internal'' ''internal server error'' wr), with_store st s, w)
                | ((current, changed, None), st, w) \<Rightarrow>
                    if \<not> changed then Some ((False, watch_outcome H w, write_header 304 wr), with_store st s, w)
                    else rec H org project service resource inherit version wr (with_store st s) w))) = Some y"
  have rec: "rest_of (fst (snd y)) = rest_of s'" if "rec H org project service resource inherit version wr s' w' = Some y" for s' w'
    using IH [OF that] .
  show "rest_of (fst (snd y)) = rest_of s"
    using body by (auto dest!: rec split: if_splits sum.splits prod.splits option.splits)
qed

lemma wait_for_change_rest:
  "wait_for_watch_change H r org project service resource inherit wr (s, w) = Some (a, s1, w1) \<Longrightarrow> rest_of s1 = rest_of s"
  by (auto simp: wait_for_watch_change_def Let_def split: if_splits sum.splits dest!: watch_wait_rest)

lemma watch_resource_rest:
  assumes "watch_resource H resource answer r wr (s, w) = Some (wr', s', w')"
    and "\<And>org project service inherit wr st. snd (answer org project service inherit wr st) = st"
  shows "rest_of s' = rest_of s"
proof -
  have keep: "st' = st" if "(wr', st') = answer org project service inherit wr0 st" for org project service inherit wr0 st st'
    using assms(2) [of org project service inherit wr0 st] that [symmetric] by simp
  show ?thesis using assms(1)
    by (auto simp: watch_resource_def Let_def split: sum.splits option.splits prod.splits bool.splits
        dest!: wait_for_change_rest keep [OF sym])
qed

lemma watch_routes_rest:
  "watch_route H (watch_config H) r wr (s, w) = Some (wr', s', w') \<Longrightarrow> rest_of s' = rest_of s"
  "watch_route H (watch_env_vars H) r wr (s, w) = Some (wr', s', w') \<Longrightarrow> rest_of s' = rest_of s"
  by (auto simp: watch_route_def watch_config_def watch_env_vars_def write_env_vars_response_def split: prod.splits option.splits
      elim!: watch_resource_rest)

subsection \<open>Without the key\<close>

lemma open_routes:
  "rt \<notin> privileged \<Longrightarrow> rt \<noteq> REnvVars \<Longrightarrow> direct_handler H rt = Some h \<Longrightarrow> reads_only h"
  by (cases rt) (auto simp: privileged_def simple_reads_only read_reads_only limit_reads_only)

text \<open>C4: Without the API key nothing can be changed and no secret is read: when a key is set and the request does not present
  it, an answered request leaves store, app registry, mounted-secret reader and memory as they were, a watch lets only
  the store move on while it waits, and a privileged route answers 401 without any effect on the world; so does the
  env vars route when it is asked for resolved secrets, unless it refuses the query first.\<close>
theorem unauthorized_changes_nothing:
  assumes "locked_out H r" and "serve H rt r wr (s, w) = Some (wr', s', w')"
  shows "(if rt = RConfigWatch \<or> rt = REnvVarsWatch then rest_of s' = rest_of s else s' = s) \<and>
    (if rt \<in> privileged then wr' = denied wr \<and> w' = w else if needs_key rt r then w' = w \<and> (wr' = denied wr \<or> (\<exists>e. wr' = bad_query e wr)) else True)"
proof (cases "rt \<in> privileged")
  case True
  with privileged_denied [OF assms(1) True, of wr "(s, w)"] assms(2) show ?thesis by (auto simp: privileged_def)
next
  case opn: False
  show ?thesis
  proof (cases "direct_handler H rt")
    case None
    with assms(2) opn show ?thesis by (auto simp: direct_handler_None needs_key_def dest: watch_routes_rest)
  next
    case (Some h)
    then have h: "h r wr (s, w) = (wr', s', w')" using assms(2) by (simp add: serve_direct)
    have watch: "rt \<noteq> RConfigWatch" "rt \<noteq> REnvVarsWatch" using Some by auto
    show ?thesis
    proof (cases "rt = REnvVars")
      case True
      with Some h have g: "get_env_vars H r wr (s, w) = (wr', s', w')" by simp
      have "w' = w \<and> (wr' = denied wr \<or> (\<exists>e. wr' = bad_query e wr))" if "parse_bool_query r ''resolve_secrets'' = Inr True"
        using env_secrets_denied [OF assms(1) that, of wr "(s, w)"] g by simp
      moreover have "s' = s" using env_vars_denied [OF assms(1), of wr s w] g by simp
      ultimately show ?thesis using opn True by (simp add: needs_key_def)
    next
      case False
      with open_routes [OF opn False Some] h have "s' = s" unfolding reads_only_def by (metis fst_conv snd_conv)
      with opn False watch show ?thesis by (simp add: needs_key_def)
    qed
  qed
qed

lemma sample_locked_out: "locked_out (sample_handler one_file_env None) plain_request"
  by (simp add: locked_out_def sample_handler_def authorized_def plain_request_def)

theorem unauthorized_changes_nothing_witness:
  "\<exists>wr' s' w'. serve (sample_handler one_file_env None) RPostChanges plain_request new_writer (server_at one_file_state, ''a'') = Some (wr', s', w') \<and>
     s' = server_at one_file_state \<and> wr' = denied new_writer \<and> w' = ''a''"
proof -
  have s: "serve (sample_handler one_file_env None) RPostChanges plain_request new_writer (server_at one_file_state, ''a'') =
      Some (denied new_writer, server_at one_file_state, ''a'')"
    by (rule privileged_denied [OF sample_locked_out]) (simp add: privileged_def)
  from unauthorized_changes_nothing [OF sample_locked_out s] s show ?thesis by (simp add: privileged_def)
qed

end
