(* ===== verification/ReadProps.thy ===== *)
theory ReadProps
  imports RouteSafety
begin

text \<open>
  The reads agree with one another: the version a watch compares is the version a read serves, and a batch answers what
  the single reads answer. On a schedule of reloads a watch ends, and what it answers is news to its caller.
\<close>

subsection \<open>One version\<close>

definition current_read :: "string \<Rightarrow> go_lib \<Rightarrow> store \<Rightarrow> string \<Rightarrow> string \<Rightarrow> string \<Rightarrow> bool \<Rightarrow> goerr + cacheable_read_payload" where
  "current_read resource = (if resource = ''config'' then current_config_payload else current_env_vars_payload)"

lemmas current_reads_def = current_read_def current_config_payload_def current_env_vars_payload_def current_payload_def

text \<open>The watch compares what the reads serve: for both resources, with and without inherited defaults, in every state of
  the store, the version a watch compares with its caller's is the version in the answer of a read of that state, the
  head it waits on is the state's, and it fails exactly when the read fails, with the same error.\<close>
theorem watched_version_is_served:
  "list_all (\<lambda>resource.
     case watched_version s org project service resource inherit of
       Inl e \<Rightarrow> current_read resource L s org project service inherit = Inl e
     | Inr (version, head) \<Rightarrow>
         head = head_version s \<and>
         (case current_read resource L s org project service inherit of Inl e \<Rightarrow> False | Inr p \<Rightarrow> cp_version p = version))
   [''config'', ''env_vars'']"
  by (auto simp: watched_version_def resource_version_def resource_version_of_def get_config_def current_reads_def
      config_payload_from_data_def env_vars_payload_from_data_def head_version_def Let_def split: option.splits)

lemma watched_error:
  "watched_version s org project service resource inherit = Inl e \<Longrightarrow> current_read resource L s org project service inherit = Inl e"
  by (auto simp: watched_version_def resource_version_def get_config_def current_reads_def Let_def split: option.splits if_splits)

lemma watched_config:
  "watched_version s org project service ''config'' inherit = Inr (version, head) \<Longrightarrow>
     \<exists>p. current_config_payload L s org project service inherit = Inr p \<and> cp_version p = version"
  by (auto simp: watched_version_def resource_version_def resource_version_of_def get_config_def current_reads_def
      config_payload_from_data_def head_version_def Let_def split: option.splits if_splits)

lemma watched_env_vars:
  "watched_version s org project service ''env_vars'' inherit = Inr (version, head) \<Longrightarrow>
     \<exists>p. current_env_vars_payload L s org project service inherit = Inr p \<and> cp_version p = version"
  by (auto simp: watched_version_def resource_version_def resource_version_of_def get_config_def current_reads_def
      env_vars_payload_from_data_def head_version_def Let_def split: option.splits if_splits)

lemma watched_head: "watched_version s org project service resource inherit = Inr (version, head) \<Longrightarrow> head = head_version s"
  by (auto simp: watched_version_def resource_version_def head_version_def Let_def split: option.splits sum.splits if_splits)

subsection \<open>Batch reads\<close>

text \<open>What the single reads answer for a query\<close>

definition answer_of_reads :: "go_lib \<Rightarrow> store \<Rightarrow> bool \<Rightarrow> batch_read_query \<Rightarrow> json" where
  "answer_of_reads L s inherit q =
     (let org = trim_space (bq_org q); project = trim_space (bq_project q); service = trim_space (bq_service q) in
      JObj ([(''org'', JStr org), (''project'', JStr project), (''service'', JStr service)] @
        (case (current_config_payload L s org project service inherit, current_env_vars_payload L s org project service inherit) of
           (Inr c, Inr v) \<Rightarrow> [(''config'', cp_body c), (''env_vars'', cp_body v)]
         | (Inl e, _) \<Rightarrow> [(''error'', detail_json (error_detail_for e))]
         | (Inr c, Inl e) \<Rightarrow> [(''error'', detail_json (error_detail_for e))])))"

lemma batch_result_reads: "batch_result L s inherit (query_normalized q) = answer_of_reads L s inherit q"
  by (simp add: batch_result_def answer_of_reads_def query_normalized_def current_reads_def Let_def split: sum.split)

lemma batch_results_cases:
  "case batch_results L s inherit qs of
     Inl e \<Rightarrow> list_ex (\<lambda>q. validate_query (query_normalized q) \<noteq> None) qs
   | Inr js \<Rightarrow> list_all (\<lambda>q. validate_query (query_normalized q) = None) qs \<and> js = map (answer_of_reads L s inherit) qs"
  by (induction qs) (auto simp: batch_result_reads Let_def split: option.split sum.splits)

text \<open>C38: A batch answers exactly what the single reads answer: for at most 100 queries, all with a name in each part, the
  results are the bodies of the config and the env vars read of each query in the order of the request, or its error;
  a longer, an empty or an ill-formed batch is refused as a whole; the state is as before.\<close>
theorem batch_equals_single_reads:
  "post_configs_batch H r wr st =
     (case hv_decode_batch (hn_env H) (max_bytes_reader mib (rq_body r)) of
        Inl e \<Rightarrow> handle_decode_error e wr
      | Inr body \<Rightarrow>
          if br_queries body = [] then validation_failure ''queries must not be empty'' wr
          else if 100 < length (br_queries body) then validation_failure ''queries must contain at most 100 items'' wr
          else if list_all (\<lambda>q. trim_space (bq_org q) \<noteq> [] \<and> trim_space (bq_project q) \<noteq> [] \<and> trim_space (bq_service q) \<noteq> []) (br_queries body)
          then (let answer = JObj [(''results'', JArr (map (answer_of_reads (hlib H) (hs_store (fst st))
                                       (case br_inherit body of None \<Rightarrow> True | Some b \<Rightarrow> b)) (br_queries body)))]
                in respond_cacheable_json H r (body_etag H r answer) answer wr)
          else validation_failure (err_msg (hd (List.map_filter (\<lambda>q. validate_query (query_normalized q)) (br_queries body)))) wr,
      st)"
proof -
  have valid: "validate_query (query_normalized q) = None \<longleftrightarrow>
      trim_space (bq_org q) \<noteq> [] \<and> trim_space (bq_project q) \<noteq> [] \<and> trim_space (bq_service q) \<noteq> []" for q
    by (simp add: validate_query_def query_normalized_def)
  have first: "batch_results L s inherit qs = Inl e \<Longrightarrow>
      hd (List.map_filter (\<lambda>q. validate_query (query_normalized q)) qs) = e" for L s inherit qs e
    by (induction qs) (auto simp: Let_def elim!: ebind.elims split: option.splits)
  show ?thesis
  proof (cases "hv_decode_batch (hn_env H) (max_bytes_reader mib (rq_body r))")
    case (Inl e)
    then show ?thesis by (simp add: post_configs_batch_def)
  next
    case (Inr body)
    let ?inherit = "case br_inherit body of None \<Rightarrow> True | Some b \<Rightarrow> b"
    note cases = batch_results_cases [where L = "hlib H" and s = "hs_store (fst st)" and inherit = ?inherit and qs = "br_queries body"]
    show ?thesis
    proof (cases "batch_results (hlib H) (hs_store (fst st)) ?inherit (br_queries body)")
      case err: (Inl e)
      with cases have "\<not> list_all (\<lambda>q. validate_query (query_normalized q) = None) (br_queries body)"
        by (auto simp: list_ex_iff list_all_iff)
      then have "\<not> list_all (\<lambda>q. trim_space (bq_org q) \<noteq> [] \<and> trim_space (bq_project q) \<noteq> [] \<and> trim_space (bq_service q) \<noteq> []) (br_queries body)"
        by (simp add: valid)
      with Inr err first [OF err] show ?thesis by (simp add: post_configs_batch_def max_batch_read_queries_def)
    next
      case oks: (Inr js)
      with cases Inr show ?thesis by (simp add: post_configs_batch_def max_batch_read_queries_def valid Let_def)
    qed
  qed
qed

end
