(* ===== verification/WatchProps.thy ===== *)
theory WatchProps
  imports ReadProps
begin

text \<open>
  The blocking watch on a schedule: the stores that other requests install while the handler waits, one after the
  other; when they are used up the deadline of the request expires. On every schedule the watch answers, and an answer
  with the resource is news.
\<close>

subsection \<open>Waiting\<close>

text \<open>
  \<open>WaitForVersionChange\<close> (internal/store/store.go). A reload that keeps the version does not close the channel, so
  the waiter goes on waiting with the new snapshot in place. \<open>expiry\<close> is the context's error once it is done.
\<close>

fun wait_for_version_change :: "goerr \<Rightarrow> string \<Rightarrow> store \<Rightarrow> store list \<Rightarrow> (string \<times> bool \<times> goerr option) \<times> store \<times> store list" where
  "wait_for_version_change expiry version s [] =
     (if head_version s \<noteq> version then (head_version s, True, None) else (head_version s, False, Some expiry), s, [])"
| "wait_for_version_change expiry version s (next_store # later) =
     (if head_version s \<noteq> version then ((head_version s, True, None), s, next_store # later)
      else wait_for_version_change expiry version next_store later)"

definition waits :: "goerr \<Rightarrow> string \<Rightarrow> store \<times> 'o \<times> store list \<Rightarrow> (string \<times> bool \<times> goerr option) \<times> store \<times> 'o \<times> store list" where
  "waits expiry version = (\<lambda>(s, o1, later).
     case wait_for_version_change expiry version s later of (r, s, later) \<Rightarrow> (r, s, o1, later))"

definition on_schedule :: "bool \<Rightarrow> ('o \<times> store list) handler \<Rightarrow> ('o \<times> store list) handler" where
  "on_schedule canceled H =
     H\<lparr>hn_env := (hn_env H)\<lparr>hv_wait := waits (Sent (if canceled then CtxCanceled else CtxDeadlineExceeded))\<rparr>\<rparr>"

lemma wait_outcome:
  assumes "wait_for_version_change e version s later = ((current, changed, err), s', later')"
  shows "current = head_version s' \<and> changed = (current \<noteq> version) \<and> err = (if changed then None else Some e) \<and>
    length later' \<le> length later \<and> (head_version s = version \<and> changed \<longrightarrow> length later' < length later)"
  using assms
proof (induction later arbitrary: s)
  case Nil
  then show ?case by (auto split: if_splits)
next
  case (Cons n later)
  show ?case
  proof (cases "head_version s = version")
    case True
    with Cons.prems have "wait_for_version_change e version n later = ((current, changed, err), s', later')" by simp
    from Cons.IH [OF this] show ?thesis by auto
  next
    case False
    with Cons.prems show ?thesis by auto
  qed
qed

text \<open>The three ways a wait ends\<close>

definition wait_ended :: "'w handler \<Rightarrow> string \<Rightarrow> string \<Rightarrow> string \<Rightarrow> string \<Rightarrow> bool \<Rightarrow> string \<Rightarrow> http_writer \<Rightarrow>
   ((bool \<times> string \<times> http_writer) \<times> server_state \<times> 'w) \<Rightarrow> bool" where
  "wait_ended H org project service resource inherit version wr y \<longleftrightarrow>
     (case y of ((answer, outcome, wr'), s', w') \<Rightarrow>
        if answer then wr' = wr \<and> (\<exists>rv head. watched_version (hs_store s') org project service resource inherit = Inr (rv, head) \<and> rv \<noteq> version)
        else (\<exists>e. wr' = respond_error e wr \<and> watched_version (hs_store s') org project service resource inherit = Inl e) \<or>
             wr' = write_header 304 wr \<and>
             (hv_wait_err (hn_env H) w' \<noteq> None \<or>
              (\<exists>st. watched_version st org project service resource inherit = Inr (version, head_version (hs_store s')))))"

text \<open>The whole answer: refused before it waits, or ended without the resource, or the resource of the store as it is\<close>

definition watch_answered ::
  "'w handler \<Rightarrow> http_request \<Rightarrow> string \<Rightarrow>
   (string \<Rightarrow> string \<Rightarrow> string \<Rightarrow> bool \<Rightarrow> http_writer \<Rightarrow> 'w hst \<Rightarrow> http_writer \<times> 'w hst) \<Rightarrow> http_writer \<Rightarrow>
   http_writer \<times> 'w hst \<Rightarrow> bool" where
  "watch_answered H r resource answer wr y \<longleftrightarrow>
     (let org = rq_path r ''org''; project = rq_path r ''project''; service = rq_path r ''service''; version = trim_space (rq_query r ''version'')
      in (\<exists>e. fst y = bad_query e wr) \<or>
         (\<exists>inherit. parse_inherit_query r = Inr inherit \<and>
            ((\<exists>out. wait_ended H org project service resource inherit version wr ((False, out, fst y), snd y)) \<or>
             (\<exists>st rv head. watched_version (hs_store (fst st)) org project service resource inherit = Inr (rv, head) \<and> rv \<noteq> version \<and>
                y = answer org project service inherit wr st))))"

subsection \<open>The interface of the watch\<close>

text \<open>
  What the watch relies on: a wait that reports a change uses up some of the schedule, one that does not says
  which error ended it.
\<close>

locale version_wait =
  fixes H :: "'w handler" and left :: "'w \<Rightarrow> nat"
  assumes waited: "hv_wait (hn_env H) version (s, w) = ((current, changed, err), s', w') \<Longrightarrow>
    current = head_version s' \<and> changed = (current \<noteq> version) \<and>
    (if changed then err = None else \<exists>e. err = Some e \<and> (err_is CtxDeadlineExceeded e \<or> err_is CtxCanceled e)) \<and>
    (version = head_version s \<and> changed \<longrightarrow> left w' < left w)"
begin

lemma watch_wait_ends:
  "\<exists>y. watch_wait H org project service resource inherit version wr s w = Some y \<and> wait_ended H org project service resource inherit version wr y"
proof (induction "left w" arbitrary: s w rule: less_induct)
  case less
  consider (over) "hv_wait_err (hn_env H) w \<noteq> None"
    | (failed) e where "hv_wait_err (hn_env H) w = None" "watched_version (hs_store s) org project service resource inherit = Inl e"
    | (news) rv head where "hv_wait_err (hn_env H) w = None" "watched_version (hs_store s) org project service resource inherit = Inr (rv, head)"
        "rv \<noteq> version"
    | (waiting) head where "hv_wait_err (hn_env H) w = None"
        "watched_version (hs_store s) org project service resource inherit = Inr (version, head)"
    by (metis old.sum.exhaust surj_pair)
  then show ?case
  proof cases
    case over
    then show ?thesis by (subst watch_wait.simps) (simp add: wait_ended_def)
  next
    case failed
    then show ?thesis by (subst watch_wait.simps) (simp add: wait_ended_def)
  next
    case news
    then show ?thesis by (subst watch_wait.simps) (simp add: wait_ended_def)
  next
    case waiting
    then have head: "head = head_version (hs_store s)" by (blast dest: watched_head)
    obtain current changed err st w' where wait: "hv_wait (hn_env H) head (hs_store s, w) = ((current, changed, err), st, w')"
      by (metis prod.collapse)
    note law = waited [OF wait]
    show ?thesis
    proof (cases changed)
      case True
      with law head have e: "err = None" and l: "left w' < left w" by auto
      have "watch_wait H org project service resource inherit version wr s w =
          watch_wait H org project service resource inherit version wr (with_store st s) w'"
        by (subst watch_wait.simps) (simp add: waiting wait e True)
      with less.hyps [OF l, of "with_store st s"] show ?thesis by metis
    next
      case False
      with law obtain e where e: "err = Some e" "err_is CtxDeadlineExceeded e \<or> err_is CtxCanceled e" and c: "head_version st = head" by auto
      have "watch_wait H org project service resource inherit version wr s w =
          Some ((False, watch_outcome H w', write_header 304 wr), with_store st s, w')"
        by (subst watch_wait.simps) (use e(2) in \<open>auto simp: waiting wait e(1) False\<close>)
      moreover have "wait_ended H org project service resource inherit version wr ((False, watch_outcome H w', write_header 304 wr), with_store st s, w')"
        using waiting(2) c by (auto simp: wait_ended_def with_store_def)
      ultimately show ?thesis by blast
    qed
  qed
qed

lemma watch_resource_answers:
  "\<exists>y. watch_resource H resource answer r wr (s, w) = Some y \<and> watch_answered H r resource answer wr y"
proof (cases "parse_inherit_query r")
  case (Inl e)
  then show ?thesis by (auto simp: watch_resource_def watch_answered_def Let_def)
next
  case (Inr inherit)
  let ?org = "rq_path r ''org''" and ?project = "rq_path r ''project''" and ?service = "rq_path r ''service''"
  let ?version = "trim_space (rq_query r ''version'')"
  show ?thesis
  proof (cases "?version = [] \<or> (\<exists>e. parse_watch_timeout (hv_parse (hn_env H)) r = Inl e)")
    case True
    then show ?thesis by (auto simp: watch_resource_def wait_for_watch_change_def Inr watch_answered_def Let_def split: sum.split)
  next
    case False
    then obtain d where d: "parse_watch_timeout (hv_parse (hn_env H)) r = Inr d" and v: "?version \<noteq> []"
      by (cases "parse_watch_timeout (hv_parse (hn_env H)) r") auto
    obtain y where y: "watch_wait H ?org ?project ?service resource inherit ?version wr s (hv_with_timeout (hn_env H) d w) = Some y"
      "wait_ended H ?org ?project ?service resource inherit ?version wr y"
      using watch_wait_ends by blast
    obtain a out wr' s' w' where p: "y = ((a, out, wr'), s', w')" by (metis prod.collapse)
    have r: "watch_resource H resource answer r wr (s, w) =
        Some (if a then answer ?org ?project ?service inherit wr' (s', w') else (wr', s', w'))"
      using d v y(1) by (simp add: watch_resource_def wait_for_watch_change_def Inr p Let_def split: bool.split)
    show ?thesis
    proof (cases a)
      case True
      with y(2) have "wr' = wr" "\<exists>rv head. watched_version (hs_store s') ?org ?project ?service resource inherit = Inr (rv, head) \<and> rv \<noteq> ?version"
        by (auto simp: wait_ended_def p)
      with r True Inr show ?thesis by (fastforce simp: watch_answered_def Let_def)
    next
      case False
      with r Inr y(2) show ?thesis by (auto simp: watch_answered_def p Let_def)
    qed
  qed
qed

end

lemma wait_law:
  "hv_wait (hn_env (on_schedule canceled H)) version (s, w) = ((current, changed, err), s', w') \<Longrightarrow>
    current = head_version s' \<and> changed = (current \<noteq> version) \<and>
    (if changed then err = None else \<exists>e. err = Some e \<and> (err_is CtxDeadlineExceeded e \<or> err_is CtxCanceled e)) \<and>
    (version = head_version s \<and> changed \<longrightarrow> length (snd w') < length (snd w))"
  by (cases w) (auto simp: on_schedule_def waits_def split: prod.splits if_splits dest!: wait_outcome)

interpretation scheduled: version_wait "on_schedule canceled H" "\<lambda>w. length (snd w)"
  by unfold_locales (rule wait_law)

subsection \<open>The answer of a watch\<close>

text \<open>
  Refused by the rate limit, a bad query, or a read of the store as it is then: its payload if its version is not the
  caller's, its error, or 304, and then the deadline was over or the caller's version was that of a store with the
  same head.
\<close>

definition watch_result :: "'w handler \<Rightarrow> http_request \<Rightarrow> string \<Rightarrow> http_writer \<Rightarrow> http_writer \<times> 'w hst \<Rightarrow> bool" where
  "watch_result H r resource wr y \<longleftrightarrow>
     (let org = rq_path r ''org''; project = rq_path r ''project''; service = rq_path r ''service'';
          version = trim_space (rq_query r ''version''); served = hs_store (fst (snd y));
          read = (\<lambda>s inherit. current_read resource (hlib H) s org project service inherit)
      in (\<exists>w w1. allow_rate_limited H WatchGroup wr w = (Some (fst y), w1)) \<or>
         (\<exists>e. fst y = bad_query e wr) \<or>
         (\<exists>inherit. parse_inherit_query r = Inr inherit \<and>
            ((\<exists>p. read served inherit = Inr p \<and> cp_version p \<noteq> version \<and>
                  fst y = write_payload H r resource org project service inherit (Inr p) wr) \<or>
             (\<exists>e. read served inherit = Inl e \<and> fst y = respond_error e wr) \<or>
             fst y = write_header 304 wr \<and>
               (hv_wait_err (hn_env H) (snd (snd y)) \<noteq> None \<or>
                (\<exists>s p. head_version s = head_version served \<and> read s inherit = Inr p \<and> cp_version p = version)))))"

lemma watched_reads:
  assumes "resource = ''config'' \<or> resource = ''env_vars''"
  shows "watched_version s org project service resource inherit = Inr (version, head) \<Longrightarrow>
      \<exists>p. current_read resource L s org project service inherit = Inr p \<and> cp_version p = version"
    and "watched_version s org project service resource inherit = Inl e \<Longrightarrow> current_read resource L s org project service inherit = Inl e"
  using assms by (auto dest: watched_config watched_env_vars watched_error simp: current_read_def)

lemma watch_result_of_answer:
  assumes "resource = ''config'' \<or> resource = ''env_vars''" and "watch_answered H r resource answer wr y"
    and answer: "\<And>org project service inherit st. answer org project service inherit wr st =
      (write_payload H r resource org project service inherit
         (current_read resource (hlib H) (hs_store (fst st)) org project service inherit) wr, st)"
  shows "watch_result H r resource wr y"
proof -
  note reads = watched_reads [OF assms(1), where L = "hlib H"]
  obtain wr' s' w' where y: "y = (wr', s', w')" by (metis prod.collapse)
  let ?org = "rq_path r ''org''" and ?project = "rq_path r ''project''" and ?service = "rq_path r ''service''"
  let ?version = "trim_space (rq_query r ''version'')"
  from assms(2) consider (bad) e where "wr' = bad_query e wr"
    | (ended) inherit out where "parse_inherit_query r = Inr inherit"
        "wait_ended H ?org ?project ?service resource inherit ?version wr ((False, out, wr'), s', w')"
    | (news) inherit st rv head where "parse_inherit_query r = Inr inherit"
        "watched_version (hs_store (fst st)) ?org ?project ?service resource inherit = Inr (rv, head)" "rv \<noteq> ?version"
        "(wr', s', w') = answer ?org ?project ?service inherit wr st"
    by (auto simp: watch_answered_def Let_def y)
  then show ?thesis
  proof cases
    case bad
    then show ?thesis by (auto simp: watch_result_def y Let_def)
  next
    case ended
    then consider (err) e where "wr' = respond_error e wr" "watched_version (hs_store s') ?org ?project ?service resource inherit = Inl e"
      | (over) "wr' = write_header 304 wr" "hv_wait_err (hn_env H) w' \<noteq> None"
      | (same) st where "wr' = write_header 304 wr"
          "watched_version st ?org ?project ?service resource inherit = Inr (?version, head_version (hs_store s'))"
      by (auto simp: wait_ended_def)
    then show ?thesis
    proof cases
      case err
      with reads(2) [OF err(2)] ended(1) show ?thesis by (auto simp: watch_result_def y Let_def)
    next
      case over
      with ended(1) show ?thesis by (auto simp: watch_result_def y Let_def)
    next
      case same
      with reads(1) [OF same(2)] watched_head [OF same(2)] ended(1) show ?thesis by (auto simp: watch_result_def y Let_def)
    qed
  next
    case news
    from reads(1) [OF news(2)] obtain p where p: "current_read resource (hlib H) (hs_store (fst st)) ?org ?project ?service inherit = Inr p"
      "cp_version p = rv" by blast
    from news(4) p(1) have "wr' = write_payload H r resource ?org ?project ?service inherit (Inr p) wr" "(s', w') = st"
      by (simp_all add: answer)
    with p news(1,3) show ?thesis by (auto simp: watch_result_def y Let_def)
  qed
qed

lemma watch_route_result:
  assumes "resource = ''config'' \<or> resource = ''env_vars''" and h: "h = (\<lambda>r. watch_resource (on_schedule canceled H) resource (answer r) r)"
    and answer: "\<And>org project service inherit st. answer r org project service inherit wr st =
      (write_payload (on_schedule canceled H) r resource org project service inherit
         (current_read resource (hlib (on_schedule canceled H)) (hs_store (fst st)) org project service inherit) wr, st)"
  shows "\<exists>y. watch_route (on_schedule canceled H) h r wr (s, w) = Some y \<and> watch_result (on_schedule canceled H) r resource wr y"
proof -
  obtain o1 w1 where a: "allow_rate_limited (on_schedule canceled H) WatchGroup wr w = (o1, w1)" by (metis prod.collapse)
  show ?thesis
  proof (cases o1)
    case None
    obtain y where y: "watch_resource (on_schedule canceled H) resource (answer r) r wr (s, w1) = Some y"
      "watch_answered (on_schedule canceled H) r resource (answer r) wr y"
      using scheduled.watch_resource_answers by blast
    have "watch_result (on_schedule canceled H) r resource wr y"
      using assms(1) y(2) answer by (rule watch_result_of_answer)
    with y(1) None a h show ?thesis by (simp add: watch_route_def)
  next
    case (Some wr1)
    with a have "watch_route (on_schedule canceled H) h r wr (s, w) = Some (wr1, s, w1)" by (simp add: watch_route_def)
    moreover from Some a have "watch_result (on_schedule canceled H) r resource wr (wr1, s, w1)"
      unfolding watch_result_def Let_def by (intro disjI1 exI [of _ w] exI [of _ w1]) simp
    ultimately show ?thesis by blast
  qed
qed


end
