(* ===== verification/SecretReads.thy ===== *)
theory SecretReads
  imports RouteSafety VolumeProps
begin

text \<open>
  Resolved secrets: what the env vars route answers when it is asked for them is exactly the mounted files, every other
  outcome says nothing but that it failed, and no cache may keep the answer.
\<close>

subsection \<open>The mounted files\<close>

text \<open>A mount whose files do not change during the request, read in time\<close>

definition mounted :: "'w vol_env \<Rightarrow> (string \<Rightarrow> goerr + bytes) \<Rightarrow> bool" where
  "mounted V F \<longleftrightarrow> (\<forall>w. fst (ve_ctx_err V w) = None \<and> (\<forall>p. fst (ve_read_file V p w) = F p))"

definition file_of :: "(string \<Rightarrow> goerr + bytes) \<Rightarrow> string \<Rightarrow> secret_entry \<Rightarrow> bytes option" where
  "file_of F mount e =
     (case volume_path \<lparr>vr_mount = mount, vr_cache = []\<rparr> (reference_of e) of
        Inl _ \<Rightarrow> None
      | Inr p \<Rightarrow> (case F p of Inl _ \<Rightarrow> None | Inr data \<Rightarrow> Some data))"

definition file_of_id :: "(string \<Rightarrow> goerr + bytes) \<Rightarrow> string \<Rightarrow> secret_entry list \<Rightarrow> string \<Rightarrow> bytes option" where
  "file_of_id F mount entries i = (case find (\<lambda>e. se_id e = i) entries of None \<Rightarrow> None | Some e \<Rightarrow> file_of F mount e)"

text \<open>The secrets of a service: every reference resolved, or none\<close>

definition mounted_secrets :: "(string \<Rightarrow> goerr + bytes) \<Rightarrow> string \<Rightarrow> secret_entry list option \<Rightarrow> smap \<Rightarrow> smap option" where
  "mounted_secrets F mount entries refs =
     (if refs = [] then Some []
      else
        (case entries of
           None \<Rightarrow> None
         | Some es \<Rightarrow>
             if distinct (map se_id es) \<and> list_all (\<lambda>(name, i). file_of_id F mount es i \<noteq> None) refs
             then Some (foldl (\<lambda>m (name, i). mput name (the (file_of_id F mount es i)) m) [] refs)
             else None))"

lemma volume_path_mount: "vr_mount r = mount \<Longrightarrow> volume_path r ref = volume_path \<lparr>vr_mount = mount, vr_cache = []\<rparr> ref"
  by (cases "validate_reference ref") (simp_all add: volume_path_def)

lemma refresh_mounted:
  assumes "mounted V F" and ok: "cache_ok vr m" and mount: "vr_mount vr = mount"
    and res: "refresh_value V (reference_of e) (vr, m, w) = (res, vr', m', w')"
  shows "cache_ok vr' m' \<and> vr_mount vr' = mount \<and>
    (case file_of F mount e of None \<Rightarrow> (\<exists>err. res = Inl err) | Some data \<Rightarrow> (\<exists>v. res = Inr v \<and> vm_cells m' v = data))"
proof -
  have ctx: "fst (ve_ctx_err V w) = None" "fst (ve_read_file V p w) = F p" for w p using assms(1) by (auto simp: mounted_def)
  have mount': "vr_mount vr' = mount"
    using res mount by (auto simp: refresh_value_def Let_def split: option.splits sum.splits prod.splits)
  from refresh_cells_evolve [OF ok res] have ok': "cache_ok vr' m'" by (auto dest: cells_evolve_cache_ok)
  obtain w0 where c0: "ve_ctx_err V w = (None, w0)" using ctx(1) [of w] by (metis prod.collapse)
  show ?thesis
  proof (cases "volume_path vr (reference_of e)")
    case (Inl err)
    with res have "res = Inl err" by (simp add: refresh_value_def c0)
    with Inl mount mount' ok' show ?thesis by (simp add: file_of_def volume_path_mount [of vr mount])
  next
    case (Inr p)
    obtain w1 where rd: "ve_read_file V p w0 = (F p, w1)" using ctx(2) [of p w0] by (metis prod.collapse)
    show ?thesis
    proof (cases "F p")
      case (Inl err)
      with res Inr rd have "\<exists>err. res = Inl err" by (auto simp: refresh_value_def c0)
      with Inr Inl mount mount' ok' show ?thesis by (simp add: file_of_def volume_path_mount [of vr mount])
    next
      case data: (Inr data)
      obtain w2 where c1: "ve_ctx_err V w1 = (None, w2)" using ctx(1) [of w1] by (metis prod.collapse)
      have old: "old \<noteq> Suc (vm_next m)" if "mget (vr_cache vr) (reference_of e) = Some old" for old
      proof -
        have "old \<in> cached vr" using that by (auto simp: in_cached)
        with ok have "old < vm_next m" unfolding cache_ok_def by blast
        then show ?thesis by simp
      qed
      have "\<exists>v. res = Inr v \<and> vm_cells m' v = data"
      proof (cases "mget (vr_cache vr) (reference_of e)")
        case None
        with res Inr rd data c0 c1 show ?thesis
          by (auto simp: refresh_value_def copy_value_def valloc_def zero_bytes_def)
      next
        case (Some a)
        with res Inr rd data c0 c1 old [OF Some] show ?thesis
          by (auto simp: refresh_value_def copy_value_def valloc_def zero_bytes_def)
      qed
      with Inr data mount mount' ok' show ?thesis by (simp add: file_of_def volume_path_mount [of vr mount])
    qed
  qed
qed

lemma index_by_id_find:
  "case index_by_id es m of
     None \<Rightarrow> \<not> distinct (map se_id es) \<or> list_ex (\<lambda>e. mget m (se_id e) \<noteq> None) es
   | Some m' \<Rightarrow> distinct (map se_id es) \<and> list_all (\<lambda>e. mget m (se_id e) = None) es \<and>
       (\<forall>i. mget m' i = (case find (\<lambda>e. se_id e = i) es of None \<Rightarrow> mget m i | Some e \<Rightarrow> Some e))"
proof (induction es m rule: index_by_id.induct)
  case (2 e es m)
  show ?case
  proof (cases "mget m (se_id e)")
    case None
    with 2 have IH: "case index_by_id es (mput (se_id e) e m) of
        None \<Rightarrow> \<not> distinct (map se_id es) \<or> list_ex (\<lambda>x. mget (mput (se_id e) e m) (se_id x) \<noteq> None) es
      | Some m' \<Rightarrow> distinct (map se_id es) \<and> list_all (\<lambda>x. mget (mput (se_id e) e m) (se_id x) = None) es \<and>
          (\<forall>i. mget m' i = (case find (\<lambda>x. se_id x = i) es of None \<Rightarrow> mget (mput (se_id e) e m) i | Some x \<Rightarrow> Some x))" by simp
    show ?thesis
    proof (cases "index_by_id es (mput (se_id e) e m)")
      case n: None
      with IH None show ?thesis by (auto simp: list_ex_iff split: if_splits) (metis imageI)
    next
      case (Some m')
      with IH None have a: "distinct (map se_id es)" "\<And>x. x \<in> set es \<Longrightarrow> se_id x \<noteq> se_id e \<and> mget m (se_id x) = None"
        and g: "\<And>i. mget m' i = (case find (\<lambda>x. se_id x = i) es of None \<Rightarrow> mget (mput (se_id e) e m) i | Some x \<Rightarrow> Some x)"
        by (auto simp: list_all_iff split: if_splits)
      have fe: "find (\<lambda>x. se_id x = se_id e) es = None" using a(2) by (auto simp: find_None_iff)
      have "se_id e \<notin> se_id ` set es"
      proof
        assume "se_id e \<in> se_id ` set es"
        then obtain x where "x \<in> set es" "se_id x = se_id e" by auto
        with a(2) [of x] show False by simp
      qed
      with a g Some None fe show ?thesis by (simp add: list_all_iff split: option.split)
    qed
  qed simp
qed simp

subsection \<open>Resolving\<close>

lemma index_lookup:
  "index_by_id es [] = Some m \<Longrightarrow> distinct (map se_id es) \<and> mget m i = find (\<lambda>e. se_id e = i) es"
  using index_by_id_find [of es "[]"] by (auto split: option.split)

lemma index_duplicate: "index_by_id es [] = None \<Longrightarrow> \<not> distinct (map se_id es)"
  using index_by_id_find [of es "[]"] by (auto simp: list_ex_iff)

text \<open>The loop on a mount that does not change\<close>

lemma resolve_refs_mounted:
  assumes "mounted V F" and "cache_ok vr m" and "vr_mount vr = mount"
    and "\<And>i. mget by_id i = find (\<lambda>e. se_id e = i) es"
    and "resolve_refs V by_id refs acc (vr, m, w) = (res, vr', m', w')"
  shows "case res of
      Inl _ \<Rightarrow> \<not> list_all (\<lambda>(name, i). file_of_id F mount es i \<noteq> None) refs
    | Inr resolved \<Rightarrow> list_all (\<lambda>(name, i). file_of_id F mount es i \<noteq> None) refs \<and>
        resolved = foldl (\<lambda>m (name, i). mput name (the (file_of_id F mount es i)) m) acc refs"
  using assms(2,3,5)
proof (induction refs arbitrary: acc vr m w)
  case (Cons ref refs)
  obtain name i where ref: "ref = (name, i)" by (cases ref)
  show ?case
  proof (cases "find (\<lambda>e. se_id e = i) es")
    case None
    with Cons.prems show ?thesis by (auto simp: ref assms(4) file_of_id_def)
  next
    case (Some e)
    obtain r1 vr1 m1 w1 where rf: "refresh_value V (reference_of e) (vr, m, w) = (r1, vr1, m1, w1)" by (metis prod.collapse)
    note R = refresh_mounted [OF assms(1) Cons.prems(1,2) rf]
    show ?thesis
    proof (cases "file_of F mount e")
      case None
      with R obtain err where "r1 = Inl err" by auto
      with Cons.prems(3) None Some rf show ?thesis by (auto simp: ref assms(4) file_of_id_def)
    next
      case data: (Some data)
      with R obtain v where v: "r1 = Inr v" "vm_cells m1 v = data" by auto
      let ?m2 = "zero_bytes (vm_next m1) (zero_bytes v (snd (valloc data m1)))"
      have ok: "cache_ok vr1 ?m2" using R by (simp add: cache_ok_more [of vr1 m1])
      have b: "vm_cells (snd (valloc data m1)) (vm_next m1) = data" by simp
      have "resolve_refs V by_id refs (mput name data acc) (vr1, ?m2, w1) = (res, vr', m', w')"
        using Cons.prems(3) Some rf v by (simp add: ref assms(4) valloc_def)
      from Cons.IH [OF ok _ this] R Some data show ?thesis by (simp add: ref file_of_id_def split: sum.splits)
    qed
  qed
qed auto

lemma resolve_env_secrets_mounted:
  assumes "hv_volume (hn_env H) = Some V" and "mounted V F" and "cache_ok (hs_volume s) (hs_mem s)"
    and "resolve_env_secrets H org project service d ev (s, w) = (res, st')"
  shows "case mounted_secrets F (vr_mount (hs_volume s)) (map_option ss_secrets (sd_secrets d)) (nz (ev_secret_refs (ec_env ev))) of
      None \<Rightarrow> \<exists>e. res = Inl e
    | Some secrets \<Rightarrow> res = Inr secrets"
proof -
  let ?refs = "nz (ev_secret_refs (ec_env ev))" and ?mount = "vr_mount (hs_volume s)"
  obtain r s1 w1 where r: "resolve_with_metadata H d ?refs (s, w) = (r, s1, w1)" by (metis prod.collapse)
  have res: "case r of Inl (result, e) \<Rightarrow> res = Inl e | Inr secrets \<Rightarrow> res = Inr secrets"
    using assms(4) by (auto simp: resolve_env_secrets_def r split: sum.splits)
  have "case mounted_secrets F ?mount (map_option ss_secrets (sd_secrets d)) ?refs of
      None \<Rightarrow> \<exists>e. r = Inl e | Some secrets \<Rightarrow> r = Inr secrets"
  proof (cases "?refs = []")
    case True
    with r show ?thesis by (auto simp: resolve_with_metadata_def mounted_secrets_def)
  next
    case refs: False
    show ?thesis
    proof (cases "sd_secrets d")
      case None
      with refs r assms(1) show ?thesis by (auto simp: resolve_with_metadata_def mounted_secrets_def)
    next
      case (Some sec)
      show ?thesis
      proof (cases "index_by_id (ss_secrets sec) []")
        case None
        with index_duplicate [OF None] refs r assms(1) Some show ?thesis
          by (auto simp: resolve_with_metadata_def mounted_secrets_def)
      next
        case by_id: (Some by_id)
        obtain r2 vr m w2 where rr: "resolve_refs V by_id ?refs [] (hs_volume s, hs_mem s, w) = (r2, vr, m, w2)" by (metis prod.collapse)
        note look = index_lookup [OF by_id]
        have "r = r2" using r refs assms(1) Some by_id rr by (simp add: resolve_with_metadata_def)
        with resolve_refs_mounted [OF assms(2,3) HOL.refl conjunct2 [OF look] rr] refs Some look
        show ?thesis by (cases r2) (auto simp: mounted_secrets_def)
      qed
    qed
  qed
  with res show ?thesis by (auto split: option.splits sum.splits)
qed

subsection \<open>The answer\<close>

definition no_store :: "http_writer \<Rightarrow> http_writer" where
  "no_store wr = del_header ''ETag'' (set_header ''Cache-Control'' ''no-store'' wr)"

text \<open>A failure whose answer depends on nothing but its kind\<close>

definition opaque_failure :: "http_writer \<Rightarrow> http_writer \<Rightarrow> bool" where
  "opaque_failure wr wr' \<longleftrightarrow>
     wr' = respond_error_code 500 ''internal'' ''internal server error'' wr \<or>
     wr' = respond_error_code 499 ''client_closed_request'' ''client cancelled request'' wr \<or>
     wr' = respond_error_code 504 ''deadline_exceeded'' ''request deadline exceeded'' wr"

lemma internal_opaque: "err_as_app e = Some (CodeInternal, m) \<Longrightarrow> opaque_failure wr (respond_error e wr)"
  by (simp add: respond_error_def opaque_failure_def)

lemma resolve_refs_error: "resolve_refs V by_id refs acc st = (Inl (result, e), st') \<Longrightarrow> \<exists>m. err_as_app e = Some (CodeInternal, m)"
  by (induction refs arbitrary: acc st) (auto simp: Let_def split: option.splits prod.splits sum.splits)

lemma resolve_error: "resolve_env_secrets H org project service d ev st = (Inl e, st') \<Longrightarrow> \<exists>m. err_as_app e = Some (CodeInternal, m)"
  by (cases st) (auto simp: resolve_env_secrets_def resolve_with_metadata_def Let_def
      split: prod.splits sum.splits option.splits if_splits dest!: resolve_refs_error)

lemma respond_json_headers:
  "header_of (respond_json c v wr) k = (if k = ''Content-Type'' then ''application/json'' else header_of wr k)"
  by (simp add: respond_json_def set_header_def write_header_def write_body_def header_of_def)

lemma no_store_headers: "header_of (no_store wr) ''Cache-Control'' = ''no-store''" "header_of (no_store wr) ''ETag'' = []"
  by (simp_all add: no_store_def del_header_def set_header_def header_of_def)

text \<open>The env vars a read serves\<close>

definition served_env_vars :: "bool \<Rightarrow> service_data \<Rightarrow> env_vars_config option" where
  "served_env_vars inherit d = (if inherit \<and> sd_inherited_env_vars d \<noteq> None then sd_inherited_env_vars d else sd_env_vars d)"

definition resolved_answer :: "'w handler \<Rightarrow> http_request \<Rightarrow> store \<Rightarrow> service_data \<Rightarrow> env_vars_config \<Rightarrow> smap \<Rightarrow> json" where
  "resolved_answer H r s d ev secrets =
     JObj [(''metadata'', config_meta (hlib H) (rq_path r ''org'') (rq_path r ''project'') (rq_path r ''service'') (head_version s) (sd_updated_at d)),
           (''env_vars'', JObj [(''plain'', smap_json (ev_plain (ec_env ev))), (''secrets'', smap_json (Some secrets))])]"

text \<open>The route for a caller with the key that asks for resolved secrets\<close>

lemma resolving_route:
  assumes "authenticate (hn_api_key H) r wr = None" and "allow_rate_limited H SecretResolveGroup wr w = (None, w1)"
    and "parse_bool_query r ''resolve_secrets'' = Inr True" and "parse_inherit_query r = Inr inherit"
    and "trim_space (rq_query r ''version'') = []"
    and "get_config (hs_store s) (rq_path r ''org'') (rq_path r ''project'') (rq_path r ''service'') = Inr d"
    and "served_env_vars inherit d = Some ev"
  shows "get_env_vars H r wr (s, w) =
     (case resolve_env_secrets H (rq_path r ''org'') (rq_path r ''project'') (rq_path r ''service'') d ev (s, w1) of
        (Inl e, st1) \<Rightarrow> (respond_error e (no_store wr), st1)
      | (Inr secrets, st1) \<Rightarrow> (respond_json 200 (resolved_answer H r (hs_store s) d ev secrets) (no_store wr), st1))"
proof -
  have "get_env_vars H r wr (s, w) =
      write_resolved_response H (rq_path r ''org'') (rq_path r ''project'') (rq_path r ''service'') inherit (no_store wr) (s, w1)"
    by (simp add: get_env_vars_def Let_def assms(1-5) write_env_vars_response_def no_store_def)
  moreover have "(if inherit \<and> sd_inherited_env_vars d \<noteq> None then sd_inherited_env_vars d else sd_env_vars d) = Some ev"
    using assms(7) by (simp add: served_env_vars_def)
  ultimately show ?thesis
    by (simp add: write_resolved_response_def assms(6) Let_def resolved_answer_def split: sum.split prod.split del: if_split)
qed

text \<open>C10: Resolved secrets are exactly the mounted files: for a caller with the key, on a mount that does not change meanwhile,
  the env vars route asked to resolve secrets answers with the content of the file of every reference of the served env
  vars, or, when an id is unknown or ambiguous or a file cannot be read, with a failure that tells nothing but that; the
  answer may not be stored by a cache and has no validator.\<close>
theorem resolved_secrets_exact:
  assumes "authenticate (hn_api_key H) r wr = None" and "allow_rate_limited H SecretResolveGroup wr w = (None, w1)"
    and "parse_bool_query r ''resolve_secrets'' = Inr True" and "parse_inherit_query r = Inr inherit"
    and "trim_space (rq_query r ''version'') = []"
    and "get_config (hs_store s) (rq_path r ''org'') (rq_path r ''project'') (rq_path r ''service'') = Inr d"
    and "served_env_vars inherit d = Some ev"
    and "hv_volume (hn_env H) = Some V" and "mounted V F" and "cache_ok (hs_volume s) (hs_mem s)"
    and "get_env_vars H r wr (s, w) = (wr', st')"
  shows "header_of wr' ''Cache-Control'' = ''no-store'' \<and> header_of wr' ''ETag'' = [] \<and>
    (case mounted_secrets F (vr_mount (hs_volume s)) (map_option ss_secrets (sd_secrets d)) (nz (ev_secret_refs (ec_env ev))) of
       Some secrets \<Rightarrow> wr' = respond_json 200 (resolved_answer H r (hs_store s) d ev secrets) (no_store wr)
     | None \<Rightarrow> opaque_failure (no_store wr) wr')"
proof -
  let ?org = "rq_path r ''org''" and ?project = "rq_path r ''project''" and ?service = "rq_path r ''service''"
  obtain res st1 where re: "resolve_env_secrets H ?org ?project ?service d ev (s, w1) = (res, st1)" by (metis prod.collapse)
  note M = resolve_env_secrets_mounted [OF assms(8-10) re]
  have g: "wr' = (case res of Inl e \<Rightarrow> respond_error e (no_store wr)
      | Inr secrets \<Rightarrow> respond_json 200 (resolved_answer H r (hs_store s) d ev secrets) (no_store wr))"
    using assms(11) unfolding resolving_route [OF assms(1-7)] re by (simp split: sum.splits)
  show ?thesis
  proof (cases res)
    case (Inl e)
    with re resolve_error obtain m where "err_as_app e = Some (CodeInternal, m)" by blast
    then have op: "opaque_failure (no_store wr) wr'" using g Inl internal_opaque by simp
    then have "header_of wr' ''Cache-Control'' = ''no-store''" "header_of wr' ''ETag'' = []"
      by (auto simp: opaque_failure_def respond_error_code_def respond_json_headers no_store_headers)
    with op M Inl show ?thesis by (simp split: option.splits)
  next
    case (Inr secrets)
    with g M show ?thesis by (simp add: respond_json_headers no_store_headers split: option.splits)
  qed
qed

subsection \<open>Witness\<close>

text \<open>A mount on which every file holds its own path, and a service with one reference\<close>

definition path_volume :: "string vol_env" where
  "path_volume =
     \<lparr>ve_ctx_err = (\<lambda>w. (None, w)), ve_read_file = (\<lambda>p w. (Inr p, w)), ve_new_watcher = (\<lambda>w. (None, w)),
      ve_watcher_add = (\<lambda>d w. (None, w)), ve_remove_flag = 4\<rparr>"

definition secret_env :: env_vars_config where
  "secret_env = \<lparr>ec_version = ''1'', ec_metadata = sample_metadata, ec_env = \<lparr>ev_plain = None, ev_secret_refs = Some [(''PASS'', ''i'')]\<rparr>\<rparr>"

definition secret_service :: service_data where
  "secret_service = empty_service_data
     \<lparr>sd_env_vars := Some secret_env,
      sd_secrets := Some \<lparr>ss_version = ''1'',
        ss_secrets = [\<lparr>se_id = ''i'', se_description = [], se_k8s = \<lparr>ks_name = ''s'', ks_namespace = ''n'', ks_key = ''k''\<rparr>\<rparr>]\<rparr>\<rparr>"

definition secret_store :: store where
  "secret_store = new_store\<lparr>st_snapshot := new_snapshot [(service_key ''o'' ''p'' ''s'', secret_service)] ''h''\<rparr>"

definition secret_request :: http_request where
  "secret_request = plain_request\<lparr>rq_query := (\<lambda>n. if n = ''resolve_secrets'' then ''true'' else []),
     rq_header := (\<lambda>n. if n = ''X-API-Key'' then ''key'' else [])\<rparr>"

lemma path_mounted: "mounted path_volume Inr"
  by (simp add: mounted_def path_volume_def)

lemma secret_file: "volume_path \<lparr>vr_mount = ''/secrets'', vr_cache = []\<rparr> \<lparr>rf_id = ''i'', rf_namespace = ''n'', rf_name = ''s'', rf_key = ''k''\<rparr>
    = Inr ''/secrets/n/s/k''"
  by code_simp

lemma secret_mounted: "mounted_secrets Inr ''/secrets'' (map_option ss_secrets (sd_secrets secret_service)) (nz (ev_secret_refs (ec_env secret_env)))
    = Some [(''PASS'', ''/secrets/n/s/k'')]"
  by (simp add: mounted_secrets_def secret_service_def secret_env_def file_of_id_def file_of_def reference_of_def secret_file)

theorem resolved_secrets_exact_witness:
  "hw_body (fst (get_env_vars (sample_handler one_file_env (Some path_volume)) secret_request new_writer (server_at secret_store, []))) =
     JsonBody (resolved_answer (sample_handler one_file_env (Some path_volume)) secret_request secret_store secret_service secret_env
       [(''PASS'', ''/secrets/n/s/k'')])"
proof -
  let ?H = "sample_handler one_file_env (Some path_volume)"
  obtain wr' st' where g: "get_env_vars ?H secret_request new_writer (server_at secret_store, []) = (wr', st')" by (metis prod.collapse)
  have key: "authenticate (hn_api_key ?H) secret_request new_writer = None"
    by (simp add: sample_handler_def authenticate_def authorized_def constant_time_equal_def secret_request_def plain_request_def)
  have limit: "allow_rate_limited ?H SecretResolveGroup new_writer [] = (None, [])"
    by (simp add: sample_handler_def allow_rate_limited_def sample_limits_def)
  have query: "parse_bool_query secret_request ''resolve_secrets'' = Inr True" "parse_inherit_query secret_request = Inr True"
    "trim_space (rq_query secret_request ''version'') = []"
    by (simp_all add: secret_request_def plain_request_def parse_bool_query_def parse_bool_def parse_inherit_query_def)
  have read: "get_config (hs_store (server_at secret_store)) (rq_path secret_request ''org'') (rq_path secret_request ''project'')
      (rq_path secret_request ''service'') = Inr secret_service"
    by (simp add: server_at_def get_config_def secret_store_def new_snapshot_def secret_request_def plain_request_def new_store_def)
  have env: "served_env_vars True secret_service = Some secret_env"
    by (simp add: served_env_vars_def secret_service_def empty_service_data_def)
  have vol: "hv_volume (hn_env ?H) = Some path_volume" by (simp add: sample_handler_def sample_http_env_def)
  have cache: "cache_ok (hs_volume (server_at secret_store)) (hs_mem (server_at secret_store))"
    by (simp add: server_at_def cache_ok_def cached_def ran_def)
  have "wr' = respond_json 200 (resolved_answer ?H secret_request secret_store secret_service secret_env [(''PASS'', ''/secrets/n/s/k'')])
      (no_store new_writer)"
    using resolved_secrets_exact [OF key limit query read env vol path_mounted cache g] secret_mounted by (simp add: server_at_def)
  with g show ?thesis by (simp add: respond_json_def write_body_def write_header_def)
qed

end
