(* ===== verification/WriteProps.thy ===== *)
theory WriteProps
  imports ReadProps
begin

text \<open>An admin write through the API: what the answer 200 promises, and what every other answer leaves behind.\<close>

subsection \<open>Read your writes\<close>

lemma status_of_post:
  assumes "fresh_writer wr" and "post_changes H r wr (s, w) = (wr', s', w')" and "hw_status wr' = Some 200"
    and "hv_decode_changes (hn_env H) (max_bytes_reader mib (rq_body r)) = Inr body"
  shows "\<exists>result secrets st. apply_changes (hv_store (hn_env H)) (change_request_of body) (hs_store s) w = (Inr result, secrets, st, w') \<and>
    hs_store s' = st \<and> \<not> ch_reload_failed result \<and> \<not> ch_apply_failed result \<and>
    hw_body wr' = JsonBody (JObj [(''status'', JStr ''committed''), (''version'', JStr (ch_version result)),
      (''updated_at'', JTime (ch_updated_at result)), (''files'', JArr (map JStr (ch_files result)))])"
proof -
  obtain res secrets st w1 where a: "apply_changes (hv_store (hn_env H)) (change_request_of body) (hs_store s) w = (res, secrets, st, w1)"
    by (metis prod.collapse)
  have status: "hw_status (respond_json c v wr) = Some c" "hw_body (respond_json c v wr) = JsonBody v" for c v
    using assms(1) by (simp_all add: respond_json_def write_body_def write_header_def set_header_def fresh_writer_def)
  have err: "hw_status (respond_error e wr) \<noteq> Some 200" for e
    by (auto simp: respond_error_def respond_error_code_def status split: option.split prod.split code.split)
  show ?thesis
  proof (cases res)
    case (Inl e)
    with assms(2-4) a err show ?thesis by (auto simp: post_changes_def)
  next
    case (Inr result)
    with assms(2,4) a have p: "wr' = respond_json (snd (write_status ''committed'' (ch_apply_failed result) (ch_reload_failed result)))
         (JObj ([(''status'', JStr (fst (write_status ''committed'' (ch_apply_failed result) (ch_reload_failed result)))),
            (''version'', JStr (ch_version result)), (''updated_at'', JTime (ch_updated_at result)), (''files'', JArr (map JStr (ch_files result)))] @
            failure_fields (ch_reload_failed result) (ch_reload_error result) (ch_apply_failed result) (ch_apply_error result))) wr"
      "hs_store s' = st" "w' = w1"
      by (auto simp: post_changes_def with_store_def split: prod.splits)
    from assms(3) p(1) status have "snd (write_status ''committed'' (ch_apply_failed result) (ch_reload_failed result)) = 200" by simp
    then have f: "\<not> ch_apply_failed result" "\<not> ch_reload_failed result" by (auto simp: write_status_def split: if_splits)
    with p a Inr show ?thesis by (auto simp: status write_status_def failure_fields_def)
  qed
qed

text \<open>Read your writes through the API: when POST changes answers 200 to a config write, on a repository whose snapshot after
  a commit is that commit's work tree and with a YAML library that decodes what it encoded, the very next read of that
  service without inherited defaults answers with exactly the config of the request, and the head of the store is the
  version that the answer reported.\<close>
theorem posted_config_is_read:
  assumes "fresh_writer wr" and "post_changes H r wr (s, w) = (wr', s', w')" and "hw_status wr' = Some 200"
    and "hv_decode_changes (hn_env H) (max_bytes_reader mib (rq_body r)) = Inr body"
    and "pc_secrets body = None" and "pc_config body = Some m" and E: "E = hv_store (hn_env H)" and req: "req = change_request_of body"
    and "\<And>base. base_files E req (fst (en_now E w)) = Inr base \<Longrightarrow> commit_visible E (fst base) (snd (en_now E w))"
    and "\<And>data cfg. cfg = \<lparr>sc_version = ''1'', sc_metadata = change_metadata E req (fst (en_now E w)), sc_config = Some m\<rparr> \<Longrightarrow>
      enc_config (en_lib E) cfg = Inr data \<Longrightarrow> parse_config (en_lib E) data = Inr cfg"
  shows "\<exists>updated files meta p.
    hw_body wr' = JsonBody (JObj [(''status'', JStr ''committed''), (''version'', JStr (head_version (hs_store s'))),
      (''updated_at'', updated), (''files'', files)]) \<and>
    current_config_payload (en_lib E) (hs_store s') (pc_org body) (pc_project body) (pc_service body) False = Inr p \<and>
    cp_body p = JObj [(''metadata'', meta), (''config'', JVal (CMap m))]"
proof -
  obtain result secrets where a: "apply_changes E req (hs_store s) w = (Inr result, secrets, hs_store s', w')"
    and f: "\<not> ch_reload_failed result"
    and b: "hw_body wr' = JsonBody (JObj [(''status'', JStr ''committed''), (''version'', JStr (ch_version result)),
      (''updated_at'', JTime (ch_updated_at result)), (''files'', JArr (map JStr (ch_files result)))])"
    using status_of_post [OF assms(1-4)] E req by blast
  have parts: "cr_secrets req = []" "cr_config req = Some m"
    "cr_org req = pc_org body" "cr_project req = pc_project body" "cr_service req = pc_service body"
    by (simp_all add: req change_request_of_def assms(5,6))
  obtain sd where sd: "get_config (hs_store s') (pc_org body) (pc_project body) (pc_service body) = Inr sd"
    "sd_config sd = Some \<lparr>sc_version = ''1'', sc_metadata = change_metadata E req (fst (en_now E w)), sc_config = Some m\<rparr>"
    "head_version (hs_store s') = ch_version result"
    using config_write_is_served [OF a parts(1,2) f assms(9,10), unfolded parts(3-5)] by blast
  show ?thesis
    using b sd by (auto simp: current_config_payload_def current_payload_def config_payload_from_data_def config_json_def Let_def)
qed

subsection \<open>Witness\<close>

definition sample_post :: post_changes_request where
  "sample_post = \<lparr>pc_org = ''o'', pc_project = ''p'', pc_service = ''s'', pc_config = Some [(''raw'', CStr ''a'')], pc_env_vars = None,
     pc_secrets = None, pc_message = []\<rparr>"

definition posting_handler :: "mem_commit list handler" where
  "posting_handler = (let H = sample_handler sample_env None in H\<lparr>hn_env := (hn_env H)\<lparr>hv_decode_changes := (\<lambda>b. Inr sample_post)\<rparr>\<rparr>)"

lemma sample_post_request: "change_request_of sample_post = sample_request"
  by (simp add: change_request_of_def sample_post_def sample_request_def)

lemma posting_handler_env: "hv_store (hn_env posting_handler) = sample_env" "hv_decode_changes (hn_env posting_handler) b = Inr sample_post"
  by (simp_all add: posting_handler_def sample_handler_def sample_http_env_def)

theorem posted_config_is_read_witness:
  "\<exists>wr' s' w' p meta. post_changes posting_handler plain_request new_writer (server_at new_store, []) = (wr', s', w') \<and>
     hw_status wr' = Some 200 \<and> current_config_payload sample_lib (hs_store s') ''o'' ''p'' ''s'' False = Inr p \<and>
     cp_body p = JObj [(''metadata'', meta), (''config'', JVal (CMap [(''raw'', CStr ''a'')]))]"
proof -
  obtain result st w' where a: "apply_changes sample_env sample_request new_store [] = (Inr result, [], st, w')"
    and f: "\<not> ch_reload_failed result" "\<not> ch_apply_failed result" by (rule sample_write)
  obtain wr' s' w1 where p: "post_changes posting_handler plain_request new_writer (server_at new_store, []) = (wr', s', w1)" by (metis prod.collapse)
  have st: "hw_status wr' = Some 200"
    using p a f by (auto simp: post_changes_def posting_handler_env sample_post_request server_at_def write_status_def respond_json_def
        write_body_def write_header_def set_header_def new_writer_def)
  have dec: "hv_decode_changes (hn_env posting_handler) (max_bytes_reader mib (rq_body plain_request)) = Inr sample_post"
    by (rule posting_handler_env(2))
  have post: "pc_secrets sample_post = None" "pc_config sample_post = Some [(''raw'', CStr ''a'')]" "pc_org sample_post = ''o''"
    "pc_project sample_post = ''p''" "pc_service sample_post = ''s''" by (simp_all add: sample_post_def)
  have visible: "commit_visible sample_env (fst base) (snd (en_now sample_env []))"
    if "base_files sample_env sample_request (fst (en_now sample_env [])) = Inr base" for base
    using that by (auto simp: sample_base_files sample_now sample_commit_visible)
  have yaml: "parse_config (en_lib sample_env) data = Inr cfg"
    if "cfg = \<lparr>sc_version = ''1'', sc_metadata = change_metadata sample_env sample_request (fst (en_now sample_env [])),
          sc_config = Some [(''raw'', CStr ''a'')]\<rparr>" and "enc_config (en_lib sample_env) cfg = Inr data" for data cfg
    using that by (auto simp: sample_now sample_change_metadata sample_parse_config) (simp add: sample_config_def sample_lib_def raw_of_def)
  have lib: "en_lib sample_env = sample_lib" by (simp add: sample_env_def)
  from posted_config_is_read [OF fresh_new p st dec post(1,2) posting_handler_env(1) [symmetric] sample_post_request [symmetric] visible yaml]
  show ?thesis using p st unfolding lib post by blast
qed

end
