(* ===== verification/RepoStore.thy ===== *)
theory RepoStore
  imports GitContent WriteProps
begin

text \<open>
  The store on its git repository. \<open>repository\<close> is what the store relies on when it commits and takes snapshots,
  \<open>git_store\<close> a store on such a repository; the publish loop and the snapshot of \<open>gitops\<close> meet that contract on
  every go-git that keeps its laws. From the two together: a config write that is answered 200 is on the remote
  branch, in a commit that changes nothing else, and every server that loads that commit serves it.
\<close>

subsection \<open>What the store relies on\<close>

locale repository =
  fixes R :: "'w git_repo"
    and ready :: "'w \<Rightarrow> bool"
    and head :: "'w \<Rightarrow> goerr + string"
    and published :: "'w \<Rightarrow> string \<Rightarrow> bool"
    and content :: "'w \<Rightarrow> string \<Rightarrow> string \<Rightarrow> bytes option"
    and tree :: "'w \<Rightarrow> bool"
  assumes commit_law: "ready w \<Longrightarrow> wf_map files \<Longrightarrow> list_all clean_path (mkeys files) \<Longrightarrow>
      gr_commit_and_push R msg files w = (Inr h, w') \<Longrightarrow>
      head w' = Inr h \<and> published w' h \<and> (\<exists>p. published w' p \<and> content w' h = overlay files (content w' p))"
    and snapshot_law: "gr_snapshot R w = (Inr (h, repo), w') \<Longrightarrow>
      w' = w \<and> head w = Inr h \<and> (\<forall>p. below ''configs'' p \<longrightarrow> mget repo p = content w h p)"
    and snapshot_tree: "gr_snapshot R w = (Inr (h, repo), w') \<Longrightarrow> tree w \<Longrightarrow> tree_like repo"

text \<open>A store whose clock does not touch the repository.\<close>

locale git_store = repository R ready head published content tree
  for R :: "'w git_repo" and ready head published content tree +
  fixes E :: "'w store_env"
  assumes git: "en_git E = R"
    and clock: "(ready w \<longrightarrow> ready (snd (en_now E w))) \<and> head (snd (en_now E w)) = head w \<and>
      published (snd (en_now E w)) = published w \<and> content (snd (en_now E w)) = content w \<and> tree (snd (en_now E w)) = tree w"

lemma config_path_below_configs: "below ''configs'' (service_path org project service @ ''/config.yaml'')"
  by (simp add: service_path_def has_prefix_iff)

lemma service_file_clean:
  assumes "check_service_names org project service = None" and "plain_comp f"
  shows "clean_path (path_join [service_path org project service, f])"
proof -
  note plain = check_service_names_None [OF assms(1)]
  let ?ws = "[''configs'', ''orgs'', org, ''projects'', project, ''services'', service, f]"
  have p: "list_all plain_comp ?ws" using plain assms(2) by (simp add: plain_comp_def)
  have j: "path_join [service_path org project service, f] = join ''/'' ?ws"
    using service_path_join [OF plain assms(2)] by (simp add: service_path_def)
  show ?thesis unfolding clean_path_def j using path_clean_plain [OF _ p] trim_slashes_plain [OF _ p]
    by (metis list.discI)
qed

lemma base_files_clean:
  assumes "base_files E req now = Inr base" and "check_service_names (cr_org req) (cr_project req) (cr_service req) = None"
  shows "wf_map (fst base) \<and> list_all clean_path (mkeys (fst base))"
proof -
  have f: "plain_comp ''config.yaml''" "plain_comp ''env_vars.yaml''" by (simp_all add: plain_comp_def)
  note cl = service_file_clean [OF assms(2) f(1)] service_file_clean [OF assms(2) f(2)]
  show ?thesis
  proof (rule base_files_result [OF assms(1)])
    fix st
    let ?env = "path_join [service_path (cr_org req) (cr_project req) (cr_service req), ''env_vars.yaml'']"
    assume st: "config_file E req now = Inr st"
      and b: "base = st \<or> (\<exists>d. base = (mput ?env d (fst st), snd st @ [''env_vars.yaml'']))"
    have "wf_map (fst st) \<and> list_all clean_path (mkeys (fst st))" using config_file_result [OF st] cl by auto
    moreover have "list_all clean_path (mkeys (mput ?env d (fst st)))" if "list_all clean_path (mkeys (fst st))" for d
    proof -
      have "\<forall>p \<in> insert ?env (fst ` set (fst st)). clean_path p" using that cl(2) by (auto simp: list_all_iff)
      then show ?thesis unfolding list_all_iff set_map set_mkeys_mput .
    qed
    ultimately show ?thesis using b by auto
  qed
qed

lemma reload_steps:
  assumes "reload_unlocked E s w = (None, s', w')"
  obtains repo w1 where "gr_snapshot (en_git E) w = (Inr (head_version s', repo), w1)"
    and "w' = snd (en_now E (snd (en_now E w1)))"
proof -
  from assms obtain hash repo w1 where snap: "gr_snapshot (en_git E) w = (Inr (hash, repo), w1)"
    by (auto simp: reload_unlocked_def Let_def split: prod.splits sum.splits)
  with assms have "head_version s' = hash \<and> w' = snd (en_now E (snd (en_now E w1)))"
    by (auto simp: reload_unlocked_def Let_def head_version_def new_snapshot_def notify_version_change_def
        split: prod.splits if_splits)
  with snap that show ?thesis by blast
qed

context git_store
begin

lemma write_is_published:
  assumes "ready w" and "apply_changes E req s w = (Inr r, secrets, s', w')"
    and "cr_secrets req = []" and "cr_config req = Some m" and "\<not> ch_reload_failed r"
  shows "head w' = Inr (ch_version r) \<and> published w' (ch_version r) \<and> head_version s' = ch_version r \<and>
    (\<exists>w1. reload_unlocked E s w1 = (None, s', w') \<and> content w1 = content w' \<and> tree w1 = tree w') \<and>
    (\<exists>base p data. base_files E req (fst (en_now E w)) = Inr base \<and> published w' p \<and>
      content w' (ch_version r) = overlay (fst base) (content w' p) \<and>
      enc_config (en_lib E) \<lparr>sc_version = ''1'', sc_metadata = change_metadata E req (fst (en_now E w)), sc_config = Some m\<rparr> = Inr data \<and>
      content w' (ch_version r) (service_path (cr_org req) (cr_project req) (cr_service req) @ ''/config.yaml'') = Some data)"
proof (rule config_write_committed [OF assms(2-5)])
  let ?now = "fst (en_now E w)" and ?v = "ch_version r"
  fix base w1 data
  assume names: "check_service_names (cr_org req) (cr_project req) (cr_service req) = None"
    and base: "base_files E req ?now = Inr base"
    and commit: "gr_commit_and_push (en_git E) (change_message req) (fst base) (snd (en_now E w)) = (Inr ?v, w1)"
    and reload: "reload_unlocked E s w1 = (None, s', w')"
    and enc: "enc_config (en_lib E) \<lparr>sc_version = ''1'', sc_metadata = change_metadata E req ?now, sc_config = Some m\<rparr> = Inr data"
    and has: "mget (fst base) (service_path (cr_org req) (cr_project req) (cr_service req) @ ''/config.yaml'') = Some data"
  have ready: "ready (snd (en_now E w))" using clock assms(1) by blast
  have top: "head w1 = Inr ?v \<and> published w1 ?v \<and> (\<exists>p. published w1 p \<and> content w1 ?v = overlay (fst base) (content w1 p))"
    using commit_law [OF ready] base_files_clean [OF base names] commit unfolding git by blast
  obtain repo where snap: "gr_snapshot R w1 = (Inr (head_version s', repo), w1)" and w': "w' = snd (en_now E (snd (en_now E w1)))"
    using reload_steps [OF reload] snapshot_law unfolding git by metis
  then have "head_version s' = ?v" using top snapshot_law by fastforce
  moreover have "head w' = head w1 \<and> published w' = published w1 \<and> content w' = content w1 \<and> tree w' = tree w1"
    unfolding w' using clock by simp
  moreover have "overlay (fst base) t (service_path (cr_org req) (cr_project req) (cr_service req) @ ''/config.yaml'') = Some data" for t
    by (simp add: overlay_def has)
  ultimately show ?thesis using top base enc reload by metis
qed

text \<open>Every store that loads the version, on whatever replica of the repository, serves the config.\<close>

lemma version_is_served:
  assumes "reload_unlocked E s w = (None, s', w')" and "tree w" and "check_service_names org project service = None"
    and "content w (head_version s') (service_path org project service @ ''/config.yaml'') = Some data"
    and "parse_config (en_lib E) data = Inr cfg"
  shows "\<exists>sd. get_config s' org project service = Inr sd \<and> sd_config sd = Some cfg"
proof (rule reload_steps [OF assms(1)])
  fix repo w1
  assume snap: "gr_snapshot (en_git E) w = (Inr (head_version s', repo), w1)"
  note laws = snapshot_law [OF snap [unfolded git]] snapshot_tree [OF snap [unfolded git] assms(2)]
  have "mget repo (service_path org project service @ ''/config.yaml'') = Some data"
    using laws(1) config_path_below_configs assms(4) by simp
  from reload_serves_config [OF snap assms(1) laws(2) this assms(5,3)] show ?thesis by blast
qed

end

subsection \<open>The publish loop and the snapshot keep the contract\<close>

definition disk_tree :: "'g git_view \<Rightarrow> 'g \<Rightarrow> bool" where
  "disk_tree V w \<longleftrightarrow> (\<forall>p q. gv_disk V w p \<noteq> None \<longrightarrow> below p q \<longrightarrow> gv_disk V w q = None)"

lemma snapshot_tree_like:
  assumes "reading_laws G V" and "repo_snapshot G w = Inr (h, repo)" and "disk_tree V w"
  shows "tree_like repo"
proof -
  from assms(2) have walk: "walk_configs_unlocked G w = Inr repo"
    by (auto simp: repo_snapshot_def head_hash_def split: sum.splits option.splits)
  have on_disk: "tree_like repo" if "distinct (mkeys repo)" "set (mkeys repo) \<subseteq> {q. gv_disk V w q \<noteq> None}"
    unfolding tree_like_def
  proof (intro conjI ballI)
    fix p q assume "p \<in> fst ` set repo" "q \<in> fst ` set repo"
    then have "gv_disk V w p \<noteq> None" "gv_disk V w q \<noteq> None" using that(2) by auto
    then show "\<not> below q p" using assms(3) unfolding disk_tree_def by metis
  qed (use that(1) in simp)
  show ?thesis
  proof (cases "repo = []")
    case False
    then obtain names where names: "os_walk G ''configs'' w = (names, None)" "read_all G names w = Inr repo"
      using walk by (auto simp: walk_configs_unlocked_def split: sum.splits option.splits if_splits prod.splits)
    from reading_lawsD(3) [OF assms(1) names(1)] read_all_content [OF assms(1) names(2)]
    show ?thesis by (intro on_disk) auto
  qed (simp add: tree_like_def)
qed

lemma commit_publishes:
  assumes "git_laws G V" and "head_ok G V w" and "clean G V w" and "wf_map files" and "list_all clean_path (mkeys files)"
    and "commit_and_push G msg files w = (Inr h, w')"
  shows "gg_head G w' = Inr h \<and> gv_published V w' h \<and> (\<exists>p. gv_published V w' p \<and> gv_tree V w' h = overlay files (gv_tree V w' p))"
proof -
  from assms(6) obtain written where c: "commit_and_push_func G msg (\<lambda>_. Inr (files, [])) w = ((Inr h, written), w')"
    by (auto simp: commit_and_push_def split: prod.splits)
  have "wf_map fs \<and> list_all clean_path (mkeys fs)" if "(Inr (files, []) :: goerr + _) = Inr (fs, v)" for fs and v :: "string list"
    using that assms(4,5) by simp
  with commit_content [OF assms(1-3) _ c] commit_settled [OF git_lawsD(1,3) [OF assms(1)] assms(2) c] show ?thesis
    by (auto simp: settled_def)
qed

text \<open>go-git, with the laws of its operations and of the file system\<close>

locale go_git =
  fixes G :: "'g gogit" and V :: "'g git_view"
  assumes laws: "git_laws G V"

sublocale go_git \<subseteq> repo: repository "repo_of G local_path remote_url" "\<lambda>w. head_ok G V w \<and> clean G V w" "gg_head G" "gv_published V"
    "gv_tree V" "disk_tree V"
  for local_path and remote_url
proof unfold_locales
  show "gg_head G w' = Inr h \<and> gv_published V w' h \<and> (\<exists>p. gv_published V w' p \<and> gv_tree V w' h = overlay files (gv_tree V w' p))"
    if "head_ok G V w \<and> clean G V w" "wf_map files" "list_all clean_path (mkeys files)"
      "gr_commit_and_push (repo_of G local_path remote_url) msg files w = (Inr h, w')" for w files msg h w'
    using commit_publishes [OF laws, of w files msg h w'] that by (simp add: repo_of_def)
  show "w' = w \<and> gg_head G w = Inr h \<and> (\<forall>p. below ''configs'' p \<longrightarrow> mget repo p = gv_tree V w h p)"
    if "gr_snapshot (repo_of G local_path remote_url) w = (Inr (h, repo), w')" for w h repo w'
    using snapshot_is_commit_content [OF git_lawsD(5) [OF laws], of w h repo] that by (auto simp: repo_of_def)
  show "tree_like repo" if "gr_snapshot (repo_of G local_path remote_url) w = (Inr (h, repo), w')" "disk_tree V w" for w h repo w'
    using snapshot_tree_like [OF git_lawsD(5) [OF laws], of w h repo] that by (auto simp: repo_of_def)
qed

context go_git
begin

lemma keeps_contract: "repository (repo_of G local_path remote_url) (\<lambda>w. head_ok G V w \<and> clean G V w) (gg_head G) (gv_published V)
    (gv_tree V) (disk_tree V)"
  by unfold_locales

end

interpretation mem_git: go_git mem_gogit mem_view
  by unfold_locales (rule mem_git_laws)

text \<open>A clock that leaves the repository alone\<close>

definition clock_apart :: "'g gogit \<Rightarrow> 'g git_view \<Rightarrow> 'g store_env \<Rightarrow> bool" where
  "clock_apart G V E \<longleftrightarrow> (\<forall>w. same_remote G V w (snd (en_now E w)) \<and> untouched V w (snd (en_now E w)))"

lemma git_store_of:
  assumes "git_laws G V" and "en_git E = repo_of G local_path remote_url" and "clock_apart G V E"
  shows "git_store (repo_of G local_path remote_url) (\<lambda>w. head_ok G V w \<and> clean G V w) (gg_head G) (gv_published V) (gv_tree V) (disk_tree V) E"
proof (intro git_store.intro git_store_axioms.intro)
  show "repository (repo_of G local_path remote_url) (\<lambda>w. head_ok G V w \<and> clean G V w) (gg_head G) (gv_published V) (gv_tree V) (disk_tree V)"
    by (rule go_git.keeps_contract [OF go_git.intro [OF assms(1)]])
qed (use assms(2,3) in \<open>auto simp: clock_apart_def same_remote_def untouched_def head_ok_def clean_def disk_tree_def split: sum.splits\<close>)

subsection \<open>A config write is durable\<close>

text \<open>A store answers a read of the service, without inherited defaults, with this config.\<close>

definition answers_config :: "go_lib \<Rightarrow> store \<Rightarrow> string \<Rightarrow> string \<Rightarrow> string \<Rightarrow> (string, cval) gomap \<Rightarrow> bool" where
  "answers_config L s org project service m =
     (case current_config_payload L s org project service False of
        Inl e \<Rightarrow> False
      | Inr p \<Rightarrow>
          (case cp_body p of
             JObj [(k1, meta), (k2, v)] \<Rightarrow> k1 = ''metadata'' \<and> k2 = ''config'' \<and> v = JVal (CMap m)
           | _ \<Rightarrow> False))"

lemma answers_config_stored:
  "get_config s org project service = Inr sd \<Longrightarrow> sd_config sd = Some cfg \<Longrightarrow> sc_config cfg = Some m \<Longrightarrow>
   answers_config L s org project service m"
  by (auto simp: answers_config_def current_config_payload_def current_payload_def config_payload_from_data_def config_json_def Let_def)

text \<open>
  A version carries the config of a service: every server, restarted or on another clone, that loads a repository
  in which the commit has this tree, answers with the config.
\<close>

definition carried :: "'g gogit \<Rightarrow> 'g git_view \<Rightarrow> go_lib \<Rightarrow> string \<Rightarrow> (string \<Rightarrow> bytes option) \<Rightarrow>
    string \<Rightarrow> string \<Rightarrow> string \<Rightarrow> (string, cval) gomap \<Rightarrow> bool" where
  "carried G V L v t org project service m \<longleftrightarrow>
     (\<forall>E local_path remote_url s w s' w'. en_git E = repo_of G local_path remote_url \<longrightarrow> en_lib E = L \<longrightarrow> clock_apart G V E \<longrightarrow>
        gv_tree V w v = t \<longrightarrow> disk_tree V w \<longrightarrow> reload_unlocked E s w = (None, s', w') \<longrightarrow> head_version s' = v \<longrightarrow>
        answers_config L s' org project service m)"

lemma version_carries:
  assumes "git_laws G V" and "check_service_names org project service = None"
    and "t (service_path org project service @ ''/config.yaml'') = Some data"
    and "parse_config L data = Inr cfg" and "sc_config cfg = Some m"
  shows "carried G V L v t org project service m"
  unfolding carried_def
proof (intro allI impI)
  fix E :: "'a store_env" and local_path remote_url s w s' w'
  assume E: "en_git E = repo_of G local_path remote_url" "en_lib E = L" "clock_apart G V E"
    and w: "gv_tree V w v = t" "disk_tree V w" "head_version s' = v"
    and r: "reload_unlocked E s w = (None, s', w')"
  note served = git_store.version_is_served [OF git_store_of [OF assms(1) E(1,3)] r]
  have "\<exists>sd. get_config s' org project service = Inr sd \<and> sd_config sd = Some cfg"
    by (rule served [OF w(2) assms(2)]) (use w assms(3,4) E(2) in simp_all)
  then show "answers_config L s' org project service m" using assms(5) by (auto intro: answers_config_stored)
qed


subsection \<open>A server on the in-memory repository\<close>

definition mem_env :: "mem_git store_env" where
  "mem_env =
     \<lparr>en_git = repo_of mem_gogit ''/repo'' ''origin'', en_deps = \<lparr>dep_sealer = None, dep_applier = None, dep_auditor = None\<rparr>,
      en_lib = sample_lib, en_now = (\<lambda>w. (1, w))\<rparr>"

lemma mem_env_fields [simp]:
  "en_git mem_env = repo_of mem_gogit ''/repo'' ''origin''" "en_lib mem_env = sample_lib" "en_now mem_env w = (1, w)"
  by (simp_all add: mem_env_def)

lemma mem_clock: "clock_apart mem_gogit mem_view mem_env"
  by (simp add: clock_apart_def untouched_def)

interpretation mem_store: git_store "repo_of mem_gogit ''/repo'' ''origin''" "\<lambda>w. head_ok mem_gogit mem_view w \<and> clean mem_gogit mem_view w"
  "gg_head mem_gogit" "gv_published mem_view" "gv_tree mem_view" "disk_tree mem_view" mem_env
  by (rule git_store_of [OF mem_git_laws mem_env_fields(1) mem_clock])

lemma mem_change_metadata: "change_metadata mem_env sample_request now = sample_metadata"
  by (simp add: change_metadata_def sample_metadata_def sample_lib_def)

lemma mem_base_files: "base_files mem_env sample_request now = Inr ([(sample_path, ''a'')], [''config.yaml''])"
  using sample_base_files [of now]
  by (simp add: base_files_def config_file_def mem_change_metadata sample_change_metadata)

definition mem_posted :: mem_git where
  "mem_posted = snd (commit_and_push mem_gogit (change_message sample_request) [(sample_path, ''a'')] (mem_world []))"

lemma mem_posted_run:
  "commit_and_push mem_gogit (change_message sample_request) [(sample_path, ''a'')] (mem_world []) = (Inr ''ccc'', mem_posted)"
  "repo_snapshot mem_gogit mem_posted = Inr (''ccc'', [(sample_path, ''a'')])"
  "mg_disk mem_posted = [(sample_path, ''a'')]"
  by code_simp+

lemma mem_write:
  obtains r s' where "apply_changes mem_env sample_request new_store (mem_world []) = (Inr r, [], s', mem_posted)"
    and "\<not> ch_reload_failed r" and "\<not> ch_apply_failed r"
proof -
  have snap: "gr_snapshot (en_git mem_env) mem_posted = (Inr (''ccc'', [(sample_path, ''a'')]), mem_posted)"
    by (simp add: repo_of_def mem_posted_run)
  have ok: "\<forall>f \<in> set [(sample_path, ''a'')]. repo_file_ok (en_lib mem_env) f" using sample_file_ok by simp
  obtain s' w' where "reload_unlocked mem_env new_store mem_posted = (None, s', w')" by (rule reload_ok [OF snap ok])
  moreover from reload_steps [OF this] snap have "w' = mem_posted" by fastforce
  ultimately have r: "reload_unlocked mem_env new_store mem_posted = (None, s', mem_posted)" by simp
  have commit: "gr_commit_and_push (en_git mem_env) (change_message sample_request) [(sample_path, ''a'')] (mem_world []) =
    (Inr ''ccc'', mem_posted)" by (simp add: repo_of_def mem_posted_run)
  show ?thesis
    by (rule that [of "\<lparr>ch_version = ''ccc'', ch_updated_at = 1, ch_files = [''config.yaml''], ch_apply_failed = False,
          ch_apply_error = [], ch_reload_failed = False, ch_reload_error = []\<rparr>" s'])
      (simp_all del: mem_env_fields(1) add: apply_changes_def sample_names validate_secret_writes_def commit_change_def
        mem_base_files commit finish_change_def r Let_def)
qed

definition mem_posting_handler :: "mem_git handler" where
  "mem_posting_handler = (let H = sample_handler mem_env None in H\<lparr>hn_env := (hn_env H)\<lparr>hv_decode_changes := (\<lambda>b. Inr sample_post)\<rparr>\<rparr>)"

lemma mem_posting_env: "hv_store (hn_env mem_posting_handler) = mem_env" "hv_decode_changes (hn_env mem_posting_handler) b = Inr sample_post"
  by (simp_all add: mem_posting_handler_def sample_handler_def sample_http_env_def)

lemma mem_yaml:
  assumes "cfg = \<lparr>sc_version = ''1'', sc_metadata = change_metadata mem_env sample_request now, sc_config = Some [(''raw'', CStr ''a'')]\<rparr>"
    and "enc_config (en_lib mem_env) cfg = Inr data"
  shows "parse_config (en_lib mem_env) data = Inr cfg"
  using assms by (auto simp: mem_change_metadata sample_parse_config) (simp add: sample_config_def sample_lib_def raw_of_def)

lemma mem_posted_tree: "disk_tree mem_view mem_posted"
proof -
  have "\<not> below sample_path sample_path" by (auto simp: has_prefix_iff)
  then show ?thesis by (auto simp: disk_tree_def mem_view_def mem_posted_run)
qed


end
