(* ===== verification/Certificates.thy ===== *)
theory Certificates
  imports Sealed GoTime
begin

text \<open>
  The sealing key (internal/secret/encrypt.go): the certificate of the SealedSecret controller is fetched through the
  Kubernetes service proxy, its first certificate is checked to be valid now, and its RSA key seals. The service lookup,
  the proxy, PEM and X.509 decoding are parameters; a PEM text is the list of its blocks, which is what the repeated
  calls of \<open>pem.Decode\<close> yield.
\<close>

record 'pk certificate =
  ct_not_before :: gotime
  ct_not_after :: gotime
  ct_rsa_key :: "'pk option"
  ct_key_type :: string

record ('w, 'pk) cert_env =
  ce_ctx :: "'w ctx"
  ce_service_ports :: "string \<Rightarrow> string \<Rightarrow> 'w \<Rightarrow> (goerr + (string \<times> int) list) \<times> 'w"
  ce_proxy_get :: "string \<Rightarrow> string \<Rightarrow> string \<Rightarrow> string \<Rightarrow> 'w \<Rightarrow> (goerr + bytes) option \<times> 'w"
  ce_now :: "'w \<Rightarrow> gotime \<times> 'w"
  ce_pem_blocks :: "bytes \<Rightarrow> (string \<times> bytes) list"
  ce_parse_certificates :: "bytes \<Rightarrow> goerr + 'pk certificate list"
  ce_format :: "gotime \<Rightarrow> string"

definition sealed_secret_cert_path :: string where
  "sealed_secret_cert_path = ''/v1/cert.pem''"

definition validate_public_key_request :: "string \<Rightarrow> string \<Rightarrow> goerr option" where
  "validate_public_key_request ns name =
     or_err (validate_path_segment ''controller namespace'' ns) (validate_path_segment ''controller name'' name)"

definition checked_certificate :: "(gotime \<Rightarrow> string) \<Rightarrow> gotime \<Rightarrow> 'pk certificate \<Rightarrow> goerr + 'pk" where
  "checked_certificate format now cert =
     (if now < ct_not_before cert then Inl (errf [''certificate is not valid before '', format (ct_not_before cert)])
      else if ct_not_after cert < now then Inl (errf [''certificate expired at '', format (ct_not_after cert)])
      else (case ct_rsa_key cert of
              None \<Rightarrow> Inl (errf [''certificate public key must be RSA, got '', ct_key_type cert])
            | Some k \<Rightarrow> Inr k))"

fun public_key_from_blocks :: "('w, 'pk) cert_env \<Rightarrow> gotime \<Rightarrow> (string \<times> bytes) list \<Rightarrow> goerr + 'pk" where
  "public_key_from_blocks C now [] = Inl (errf [''no PEM certificate found''])"
| "public_key_from_blocks C now ((block_type, der) # blocks) =
     (if block_type \<noteq> ''CERTIFICATE'' then public_key_from_blocks C now blocks
      else
        (case ce_parse_certificates C der of
           Inl e \<Rightarrow> Inl (wrapf [''parse PEM certificate''] e)
         | Inr [] \<Rightarrow> Inl (errf [''PEM block contained no certificates''])
         | Inr (cert # _) \<Rightarrow> checked_certificate (ce_format C) now cert))"

definition public_key_from_pem :: "('w, 'pk) cert_env \<Rightarrow> bytes \<Rightarrow> gotime \<Rightarrow> goerr + 'pk" where
  "public_key_from_pem C data now = public_key_from_blocks C now (ce_pem_blocks C data)"

text \<open>The port of the proxy call: the name of the first port of the service, or its number\<close>

definition port_ref :: "string \<Rightarrow> string \<Rightarrow> (string \<times> int) list \<Rightarrow> goerr + string" where
  "port_ref ns name ports =
     (case ports of
        [] \<Rightarrow> Inl (errf [''sealed secret controller service '', ns, ''/'', name, '' has no ports''])
      | (port_name, number) # _ \<Rightarrow>
          if port_name \<noteq> [] then Inr port_name
          else if number = 0
          then Inl (errf [''sealed secret controller service '', ns, ''/'', name, '' first port has no name or number''])
          else Inr (show_int number))"

definition controller_public_key :: "('w, 'pk) cert_env \<Rightarrow> string \<Rightarrow> string \<Rightarrow> 'w \<Rightarrow> (goerr + 'pk) \<times> 'w" where
  "controller_public_key C ns name w =
     (case or_err (ce_ctx C w) (validate_public_key_request ns name) of
        Some e \<Rightarrow> (Inl e, w)
      | None \<Rightarrow>
          (case ce_service_ports C ns name w of
             (Inl e, w) \<Rightarrow> (Inl (wrapf [''get sealed secret controller service '', ns, ''/'', name] e), w)
           | (Inr ports, w) \<Rightarrow>
               (case port_ref ns name ports of
                  Inl e \<Rightarrow> (Inl e, w)
                | Inr port \<Rightarrow>
                    (let at = [''fetch sealed secret controller certificate '', ns, ''/'', name] in
                     case ce_proxy_get C ns name port sealed_secret_cert_path w of
                       (None, w) \<Rightarrow> (Inl (errf (at @ ['': empty proxy response''])), w)
                     | (Some (Inl e), w) \<Rightarrow> (Inl (wrapf at e), w)
                     | (Some (Inr data), w) \<Rightarrow>
                         (let (now, w) = ce_now C w in
                          case public_key_from_pem C data now of
                            Inl e \<Rightarrow> (Inl (wrapf [''parse sealed secret controller certificate '', ns, ''/'', name] e), w)
                          | Inr k \<Rightarrow> (Inr k, w))))))"

text \<open>\<open>NewPublicKeyEncryptor\<close> and \<open>NewDeterministicSealer\<close>: the encryptor of the controller, and the sealer on it\<close>

definition check_encryptor :: "string \<Rightarrow> string \<Rightarrow> goerr option" where
  "check_encryptor ns name =
     or_err (validate_path_segment ''controller namespace'' ns) (validate_path_segment ''controller name'' name)"

definition controller_encrypt ::
  "('w, 'pk) cert_env \<Rightarrow> ('pk \<Rightarrow> bytes \<Rightarrow> bytes \<Rightarrow> 'w \<Rightarrow> (goerr + bytes) \<times> 'w) \<Rightarrow> (bytes \<Rightarrow> string) \<Rightarrow> string \<Rightarrow> string \<Rightarrow>
   encrypt_request \<Rightarrow> 'w \<Rightarrow> (goerr + string) \<times> 'w" where
  "controller_encrypt C hybrid base64 ns name =
     public_key_encrypt (\<lambda>ns name w. case controller_public_key C ns name w of (r, w) \<Rightarrow> (map_sum id Some r, w))
       hybrid base64 ns name (ce_ctx C)"

definition new_controller_sealer ::
  "('w, 'pk) cert_env \<Rightarrow> ('pk \<Rightarrow> bytes \<Rightarrow> bytes \<Rightarrow> 'w \<Rightarrow> (goerr + bytes) \<times> 'w) \<Rightarrow> (bytes \<Rightarrow> string) \<Rightarrow> (onode \<Rightarrow> goerr + bytes) \<Rightarrow>
   string \<Rightarrow> string \<Rightarrow> string \<Rightarrow> goerr + (seal_request \<Rightarrow> 'w \<Rightarrow> (goerr + sealed_manifest) \<times> 'w)" where
  "new_controller_sealer C hybrid base64 enc scope ns name =
     (case check_encryptor ns name of
        Some e \<Rightarrow> Inl e
      | None \<Rightarrow>
          (case normalize_seal_scope scope of
             Inl e \<Rightarrow> Inl e
           | Inr scope \<Rightarrow> Inr (seal enc (controller_encrypt C hybrid base64 ns name) scope (ce_ctx C))))"

subsection \<open>Only a valid certificate seals\<close>

lemma blocks_valid:
  "public_key_from_blocks C now blocks = Inr k \<Longrightarrow>
     \<exists>der cert certs. (''CERTIFICATE'', der) \<in> set blocks \<and> ce_parse_certificates C der = Inr (cert # certs) \<and>
       ct_not_before cert \<le> now \<and> now \<le> ct_not_after cert \<and> ct_rsa_key cert = Some k"
  by (induction C now blocks rule: public_key_from_blocks.induct)
    (auto simp: checked_certificate_def split: if_splits sum.splits list.splits option.splits)

lemma controller_key_valid:
  assumes "controller_public_key C ns name w = (Inr k, w')"
  shows "\<exists>port w1 data w2 now der cert certs.
    ce_proxy_get C ns name port sealed_secret_cert_path w1 = (Some (Inr data), w2) \<and> ce_now C w2 = (now, w') \<and>
    (''CERTIFICATE'', der) \<in> set (ce_pem_blocks C data) \<and> ce_parse_certificates C der = Inr (cert # certs) \<and>
    ct_not_before cert \<le> now \<and> now \<le> ct_not_after cert \<and> ct_rsa_key cert = Some k"
proof -
  obtain port w1 data w2 now where s: "ce_proxy_get C ns name port sealed_secret_cert_path w1 = (Some (Inr data), w2)"
    "ce_now C w2 = (now, w')" "public_key_from_blocks C now (ce_pem_blocks C data) = Inr k"
    using assms
    by (auto simp: controller_public_key_def public_key_from_pem_def Let_def split: option.splits prod.splits sum.splits)
  from blocks_valid [OF s(3)] s(1,2) show ?thesis by blast
qed

text \<open>C39: Only the key of a certificate that is valid now seals a secret: when the encryptor of the controller returns a
  ciphertext, the controller's certificate was fetched for this very request, the first certificate of a block of it
  was valid at the time that was read after the fetch, and its RSA key sealed exactly the value of the request under the
  label of its namespace, name and scope.\<close>
theorem sealed_under_valid_certificate:
  assumes "controller_encrypt C hybrid base64 ns name req w = (Inr out, w')"
  shows "\<exists>port w1 data w2 now w3 der cert certs k scope ciphertext.
    ce_proxy_get C ns name port ''/v1/cert.pem'' w1 = (Some (Inr data), w2) \<and> ce_now C w2 = (now, w3) \<and>
    (''CERTIFICATE'', der) \<in> set (ce_pem_blocks C data) \<and> ce_parse_certificates C der = Inr (cert # certs) \<and>
    ct_not_before cert \<le> now \<and> now \<le> ct_not_after cert \<and> ct_rsa_key cert = Some k \<and>
    normalize_seal_scope (er_scope req) = Inr scope \<and>
    hybrid k (er_value req) (sealed_secret_encryption_label (er_namespace req) (er_name req) scope) w3 = (Inr ciphertext, w') \<and>
    out = base64 ciphertext"
proof -
  obtain scope k w3 ciphertext where s: "normalize_seal_scope (er_scope req) = Inr scope" "controller_public_key C ns name w = (Inr k, w3)"
    "hybrid k (er_value req) (sealed_secret_encryption_label (er_namespace req) (er_name req) scope) w3 = (Inr ciphertext, w')"
    "out = base64 ciphertext"
    using assms
    by (auto simp: controller_encrypt_def public_key_encrypt_def split: option.splits prod.splits sum.splits)
      (auto simp: map_sum_def split: sum.splits)
  from controller_key_valid [OF s(2)] s show ?thesis unfolding sealed_secret_cert_path_def by blast
qed

definition sample_cert_env :: "(nat, nat) cert_env" where
  "sample_cert_env =
     \<lparr>ce_ctx = (\<lambda>w. None), ce_service_ports = (\<lambda>ns name w. (Inr [([], 8080)], w)),
      ce_proxy_get = (\<lambda>ns name port path w. (Some (Inr ''pem''), w)), ce_now = (\<lambda>w. (5, Suc w)),
      ce_pem_blocks = (\<lambda>data. [(''CERTIFICATE REQUEST'', ''x''), (''CERTIFICATE'', ''y'')]),
      ce_parse_certificates = (\<lambda>der. Inr [\<lparr>ct_not_before = 1, ct_not_after = 9, ct_rsa_key = Some 7, ct_key_type = []\<rparr>]),
      ce_format = (\<lambda>t. [])\<rparr>"

definition sample_encrypt_request :: encrypt_request where
  "sample_encrypt_request = \<lparr>er_namespace = ''n'', er_name = ''s'', er_key = ''k'', er_scope = ''strict'', er_value = ''v''\<rparr>"

theorem sealed_under_valid_certificate_witness:
  "\<exists>now (cert :: nat certificate) k. ct_not_before cert \<le> now \<and> now \<le> ct_not_after cert \<and> ct_rsa_key cert = Some k \<and> now = 5 \<and>
     fst (controller_encrypt sample_cert_env (\<lambda>k v label w. (Inr (v @ label), w)) (\<lambda>c. c) ''kube-system'' ''sealed'' sample_encrypt_request 0) =
       Inr ''vn/s''"
proof -
  have trim: "trim_space ''strict'' = ''strict''" by code_simp
  have c: "controller_encrypt sample_cert_env (\<lambda>k v label w. (Inr (v @ label), w)) (\<lambda>c. c) ''kube-system'' ''sealed'' sample_encrypt_request 0 =
      (Inr ''vn/s'', 1)"
    by (simp add: controller_encrypt_def public_key_encrypt_def controller_public_key_def validate_public_key_request_def port_ref_def
        public_key_from_pem_def checked_certificate_def sample_cert_env_def sample_encrypt_request_def validate_path_segment_def
        normalize_seal_scope_def scope_strict_def scope_namespace_wide_def scope_cluster_wide_def sealed_secret_encryption_label_def
        trim Let_def)
  obtain now w2 w3 and cert :: "nat certificate" and k :: nat where v: "ce_now sample_cert_env w2 = (now, w3)" "ct_not_before cert \<le> now" "now \<le> ct_not_after cert"
      "ct_rsa_key cert = Some k"
    using sealed_under_valid_certificate [OF c] by blast
  from v(1) have "now = 5" by (simp add: sample_cert_env_def)
  with v(2-4) c show ?thesis by (intro exI [of _ now] exI [of _ cert] exI [of _ k]) simp
qed

end
