(* ===== verification/Startup.thy ===== *)
theory Startup
  imports Routes Certificates
begin

text \<open>
  The process (cmd/config-server/main.go): the settings, the app registry from the console (internal/registry/client.go),
  the repository with its credentials (\<open>New\<close> of internal/gitops/repo.go), the secret adapters, the first load, the
  handler with its limiters and the readiness probe (internal/server/server.go), and the poll loop. What the process
  finds outside is the parameter \<open>process_env\<close>; the listener is left out.
\<close>

subsection \<open>The console\<close>

record 'w console_lib =
  co_parse_url :: "string \<Rightarrow> goerr + go_url"
  co_new_request :: "go_url \<Rightarrow> goerr option"
  co_http_do :: "go_url \<Rightarrow> (string \<times> string) list \<Rightarrow> 'w \<Rightarrow> (goerr + int \<times> (goerr + bytes)) \<times> 'w"
  co_dec_apps :: "bytes \<Rightarrow> goerr + app list"
  co_dec_envelope :: "bytes \<Rightarrow> goerr + app list option"
  co_time_parser :: time_parser

definition max_console_response_bytes :: int where
  "max_console_response_bytes = 4 * 2 ^ 20"

definition parse_base_url :: "(string \<Rightarrow> goerr + go_url) \<Rightarrow> string \<Rightarrow> goerr + go_url" where
  "parse_base_url parse raw =
     (if trim_space raw = [] then Inl (errf [''CONSOLE_API_URL is required''])
      else
        (case parse raw of
           Inl e \<Rightarrow> Inl (wrapf [''parse CONSOLE_API_URL''] e)
         | Inr u \<Rightarrow>
             if url_scheme u \<noteq> ''http'' \<and> url_scheme u \<noteq> ''https'' then Inl (errf [''CONSOLE_API_URL must use http or https''])
             else if url_host u = [] then Inl (errf [''CONSOLE_API_URL must include a host''])
             else Inr u))"

text \<open>A reader that fails does so before the limit is reached.\<close>

definition decode_apps :: "'w console_lib \<Rightarrow> goerr + bytes \<Rightarrow> goerr + app list" where
  "decode_apps C reader =
     (case reader of
        Inl e \<Rightarrow> Inl e
      | Inr body \<Rightarrow>
          (let raw = take (nat (max_console_response_bytes + 1)) body in
           if max_console_response_bytes < int (length raw)
           then Inl (errf [''response exceeds '', show_int max_console_response_bytes, '' bytes''])
           else
             (let raw = trim_space raw in
              if raw = [] then Inl (errf [''empty response''])
              else
                (case co_dec_apps C raw of
                   Inr apps \<Rightarrow> Inr apps
                 | Inl _ \<Rightarrow>
                     (case co_dec_envelope C raw of
                        Inl e \<Rightarrow> Inl e
                      | Inr None \<Rightarrow> Inl (errf [''response must be an app array or an object with apps''])
                      | Inr (Some apps) \<Rightarrow> Inr apps)))))"

definition apps_endpoint :: "go_url \<Rightarrow> go_url" where
  "apps_endpoint base = base\<lparr>url_path := trim_right_slashes (url_path base) @ ''/api/v1/apps'', url_raw_query := ''all=true''\<rparr>"

definition load_apps :: "'w console_lib \<Rightarrow> go_url \<Rightarrow> 'w loader" where
  "load_apps C base w =
     (case co_new_request C (apps_endpoint base) of
        Some e \<Rightarrow> (Inl (wrapf [''build console registry request''] e), w)
      | None \<Rightarrow>
          (case co_http_do C (apps_endpoint base) [(''Accept'', ''application/json'')] w of
             (Inl e, w) \<Rightarrow> (Inl (wrapf [''load console app registry''] e), w)
           | (Inr (code, reader), w) \<Rightarrow>
               if code < 200 \<or> 300 \<le> code
               then (Inl (errf [''load console app registry: unexpected status '', show_int code]), w)
               else
                 (case decode_apps C reader of
                    Inl e \<Rightarrow> (Inl (wrapf [''decode console app registry''] e), w)
                  | Inr apps \<Rightarrow> (normalize_apps (co_time_parser C) apps, w))))"

text \<open>The result is None when the console is not configured (\<open>Skipped\<close>).\<close>

definition bootstrap_app_registry ::
  "'w console_lib \<Rightarrow> 'w bootstrap_env \<Rightarrow> server_config \<Rightarrow> reg_cache \<Rightarrow> 'w \<Rightarrow> bootstrap_result option \<times> reg_cache \<times> 'w" where
  "bootstrap_app_registry C B cfg cache w =
     (if sv_console_api_url cfg = [] then (None, mark_load_skipped cache, w)
      else
        (case parse_base_url (co_parse_url C) (sv_console_api_url cfg) of
           Inl e \<Rightarrow> (Some (load_failed 0 e), mark_load_failed e cache, w)
         | Inr base \<Rightarrow>
             (case bootstrap B (Some (load_apps C base)) (co_time_parser C)
                     \<lparr>bo_max_attempts = sv_bootstrap_attempts cfg, bo_initial_backoff = sv_bootstrap_initial_backoff cfg,
                      bo_max_backoff = sv_bootstrap_max_backoff cfg\<rparr> cache w of
                (r, cache, w) \<Rightarrow> (Some r, cache, w))))"

subsection \<open>The repository\<close>

record repo_options =
  op_local_path :: string
  op_remote_url :: string
  op_branch :: string
  op_ssh_key_path :: string
  op_username :: string
  op_password :: string

datatype 'k git_auth = NoAuth | PublicKeys 'k | BasicAuth string string

definition build_auth ::
  "(string \<Rightarrow> 'w \<Rightarrow> goerr + bytes) \<Rightarrow> (bytes \<Rightarrow> goerr + 'k) \<Rightarrow> repo_options \<Rightarrow> 'w \<Rightarrow> goerr + 'k git_auth" where
  "build_auth read_file parse_key opts w =
     (if op_ssh_key_path opts \<noteq> [] then
        (case read_file (op_ssh_key_path opts) w of
           Inl e \<Rightarrow> Inl (wrapf [''read SSH key '', op_ssh_key_path opts] e)
         | Inr key_bytes \<Rightarrow>
             (case parse_key key_bytes of Inl e \<Rightarrow> Inl (wrapf [''parse SSH key''] e) | Inr signer \<Rightarrow> Inr (PublicKeys signer)))
      else if op_username opts \<noteq> [] \<or> op_password opts \<noteq> [] then Inr (BasicAuth (op_username opts) (op_password opts))
      else Inr NoAuth)"

record 'k repo_settings =
  rp_local_path :: string
  rp_remote_url :: string
  rp_branch :: string
  rp_auth :: "'k git_auth"

definition new_repo ::
  "(string \<Rightarrow> 'w \<Rightarrow> goerr + bytes) \<Rightarrow> (bytes \<Rightarrow> goerr + 'k) \<Rightarrow> repo_options \<Rightarrow> 'w \<Rightarrow> goerr + 'k repo_settings" where
  "new_repo read_file parse_key opts w =
     (let branch = (if op_branch opts = [] then ''main'' else op_branch opts) in
      case build_auth read_file parse_key opts w of
        Inl e \<Rightarrow> Inl (wrapf [''build git auth''] e)
      | Inr auth \<Rightarrow> Inr \<lparr>rp_local_path = op_local_path opts, rp_remote_url = op_remote_url opts, rp_branch = branch, rp_auth = auth\<rparr>)"

subsection \<open>Secret adapters\<close>

text \<open>
  \<open>pe_clients\<close> is the in-cluster configuration with its two clients: the certificate lookup and the dynamic client,
  or None when any of them cannot be made. The auditor that is switched on writes to the log.
\<close>

record ('w, 'k, 'pk, 'x) process_env =
  pe_console :: "'w console_lib"
  pe_bootstrap :: "'w bootstrap_env"
  pe_read_file :: "string \<Rightarrow> 'w \<Rightarrow> goerr + bytes"
  pe_parse_key :: "bytes \<Rightarrow> goerr + 'k"
  pe_git :: "'k repo_settings \<Rightarrow> 'w gogit"
  pe_http :: "'w http_env"
  pe_lib :: go_lib
  pe_now :: "'w \<Rightarrow> gotime \<times> 'w"
  pe_volume :: "'w vol_env"
  pe_log_audit :: "audit_event \<Rightarrow> 'w \<Rightarrow> 'w"
  pe_clients :: "'w \<Rightarrow> (('w, 'pk) cert_env \<times> ('w, 'x) Sealed.kube) option \<times> 'w"
  pe_hybrid_encrypt :: "'pk \<Rightarrow> bytes \<Rightarrow> bytes \<Rightarrow> 'w \<Rightarrow> (goerr + bytes) \<times> 'w"
  pe_base64 :: "bytes \<Rightarrow> string"
  pe_encode :: "onode \<Rightarrow> goerr + bytes"

definition slog_auditor ::
  "('w \<Rightarrow> gotime \<times> 'w) \<Rightarrow> (audit_event \<Rightarrow> 'w \<Rightarrow> 'w) \<Rightarrow> bool \<Rightarrow> audit_event \<Rightarrow> 'w \<Rightarrow> goerr option \<times> 'w" where
  "slog_auditor now log_audit enabled =
     (if \<not> enabled then noop_auditor
      else (\<lambda>event w.
        let (at, w) = (if ae_at event = 0 then now w else (ae_at event, w))
        in (None, log_audit (event\<lparr>ae_at := at, ae_secret_ids := sort (ae_secret_ids event)\<rparr>) w)))"

text \<open>\<open>NewDynamicApplier\<close>; the error of a timeout that is not positive is only logged\<close>

definition new_dynamic_applier ::
  "('w, 'x) Sealed.kube \<Rightarrow> 'w ctx \<Rightarrow> duration \<Rightarrow> (sealed_manifest \<Rightarrow> 'w \<Rightarrow> goerr option \<times> 'w) option" where
  "new_dynamic_applier K ctx timeout = (if timeout \<le> 0 then None else Some (apply_sealed_secret K ctx))"

definition configure_secret_dependencies ::
  "('w, 'k, 'pk, 'x) process_env \<Rightarrow> server_config \<Rightarrow> 'w \<Rightarrow> (volume_reader option \<times> 'w secret_deps) \<times> 'w" where
  "configure_secret_dependencies P cfg w =
     (let reader = (case new_file_volume_reader (sv_secret_mount_path cfg) of Inl e \<Rightarrow> None | Inr r \<Rightarrow> Some r);
          deps = \<lparr>dep_sealer = None, dep_applier = None, dep_auditor = Some (slog_auditor (pe_now P) (pe_log_audit P) (secret_audit_enabled cfg))\<rparr>
      in case pe_clients P w of
           (None, w) \<Rightarrow> ((reader, deps), w)
         | (Some (C, K), w) \<Rightarrow>
             (case new_controller_sealer C (pe_hybrid_encrypt P) (pe_base64 P) (pe_encode P)
                     (sv_sealed_secret_scope cfg) (sv_controller_namespace cfg) (sv_controller_name cfg) of
                Inl e \<Rightarrow> ((reader, deps), w)
              | Inr sealer \<Rightarrow>
                  (case new_dynamic_applier K (ce_ctx C) (sv_k8s_apply_timeout cfg) of
                     None \<Rightarrow> ((reader, deps), w)
                   | Some applier \<Rightarrow> ((reader, deps\<lparr>dep_sealer := Some sealer, dep_applier := Some applier\<rparr>), w))))"

subsection \<open>The process\<close>

record readiness_probe =
  rp_ready :: bool

definition is_ready :: "readiness_probe \<Rightarrow> bool" where "is_ready p = rp_ready p"
definition mark_ready :: "readiness_probe \<Rightarrow> readiness_probe" where "mark_ready p = p\<lparr>rp_ready := True\<rparr>"

definition rate_limit_from_config :: "rate_limit_config \<Rightarrow> rate_limit_config" where
  "rate_limit_from_config c = \<lparr>rl_requests_per_second = rl_requests_per_second c, rl_burst = rl_burst c\<rparr>"

definition handler_limiters :: "server_config \<Rightarrow> endpoint_rate_limiters" where
  "handler_limiters cfg =
     new_endpoint_rate_limiters (rate_limit_from_config (sv_rate_admin cfg)) (rate_limit_from_config (sv_rate_secret_resolve cfg))
       (rate_limit_from_config (sv_rate_watch cfg)) (rate_limit_from_config (sv_rate_batch cfg)) (rate_limit_from_config (sv_rate_read cfg))"

definition no_volume_reader :: volume_reader where
  "no_volume_reader = \<lparr>vr_mount = [], vr_cache = []\<rparr>"

definition new_handler ::
  "('w, 'k, 'pk, 'x) process_env \<Rightarrow> server_config \<Rightarrow> readiness_probe \<Rightarrow> 'w store_env \<Rightarrow> volume_reader option \<Rightarrow> 'w handler" where
  "new_handler P cfg probe E reader =
     \<lparr>hn_env = (pe_http P)\<lparr>hv_store := E, hv_ready := Some (\<lambda>_. is_ready probe), hv_deps := en_deps E,
        hv_volume := (case reader of None \<Rightarrow> None | Some _ \<Rightarrow> Some (pe_volume P))\<rparr>,
      hn_api_key = sv_api_key cfg, hn_limiters = handler_limiters cfg\<rparr>"

text \<open>
  \<open>main\<close> up to the listener: the exit code, or the handler with the state it serves. The reader that is not there is
  never asked, as the handler has no mount.
\<close>

definition start_server ::
  "('w, 'k, 'pk, 'x) process_env \<Rightarrow> server_config \<Rightarrow> 'w \<Rightarrow> (nat + 'w handler \<times> server_state) \<times> 'w" where
  "start_server P cfg w =
     (case bootstrap_app_registry (pe_console P) (pe_bootstrap P) cfg new_cache w of
        (_, registry, w) \<Rightarrow>
          (case new_repo (pe_read_file P) (pe_parse_key P)
                  \<lparr>op_local_path = sv_git_local_path cfg, op_remote_url = sv_git_url cfg, op_branch = sv_git_branch cfg,
                   op_ssh_key_path = sv_git_ssh_key_path cfg, op_username = sv_git_username cfg, op_password = sv_git_password cfg\<rparr> w of
             Inl e \<Rightarrow> (Inl 1, w)
           | Inr repo \<Rightarrow>
               (case configure_secret_dependencies P cfg w of
                  ((reader, deps), w) \<Rightarrow>
                    (let E = \<lparr>en_git = repo_of (pe_git P repo) (rp_local_path repo) (rp_remote_url repo), en_deps = deps,
                              en_lib = pe_lib P, en_now = pe_now P\<rparr>
                     in case load_from_repo E new_store w of
                          (Some e, st, w) \<Rightarrow> (Inl 1, w)
                        | (None, st, w) \<Rightarrow>
                            (let probe = \<lparr>rp_ready = False\<rparr>
                             in (Inr (new_handler P cfg (mark_ready probe) E reader,
                                      \<lparr>hs_store = st, hs_registry = registry,
                                       hs_volume = (case reader of None \<Rightarrow> no_volume_reader | Some r \<Rightarrow> r),
                                       hs_mem = \<lparr>vm_cells = (\<lambda>_. []), vm_next = 0\<rparr>, hs_leftover = []\<rparr>), w))))))"

definition server_main ::
  "('w, 'k, 'pk, 'x) process_env \<Rightarrow> go_parse \<Rightarrow> (string \<Rightarrow> goerr + go_url) \<Rightarrow> string list \<Rightarrow> getenv \<Rightarrow> 'w \<Rightarrow>
   (nat + 'w handler \<times> server_state) \<times> 'w" where
  "server_main P go_parse parse args getenv w =
     (case load_server_config go_parse parse args getenv of Inl e \<Rightarrow> (Inl 2, w) | Inr cfg \<Rightarrow> start_server P cfg w)"

text \<open>The poll loop after a number of ticks: a failed refresh is logged.\<close>

fun poll_ticks :: "'w store_env \<Rightarrow> nat \<Rightarrow> store \<Rightarrow> 'w \<Rightarrow> store \<times> 'w" where
  "poll_ticks E 0 s w = (s, w)"
| "poll_ticks E (Suc n) s w = (case refresh_from_repo E s w of (_, s, w) \<Rightarrow> poll_ticks E n s w)"

definition poll_loop :: "'w store_env \<Rightarrow> duration \<Rightarrow> nat \<Rightarrow> store \<Rightarrow> 'w \<Rightarrow> store \<times> 'w" where
  "poll_loop E interval ticks s w = (if interval \<le> 0 then (s, w) else poll_ticks E ticks s w)"

subsection \<open>The listener\<close>

record http_timeouts =
  ht_read :: duration
  ht_write :: duration
  ht_idle :: duration

record http_server =
  hs_addr :: string
  hs_timeouts :: http_timeouts

datatype server_event = ListenFailed goerr | ContextDone

text \<open>
  \<open>Run\<close> of internal/server/server.go: the listener runs until it fails or the context is done, which is what \<open>listen\<close>
  answers; then the graceful shutdown gets ten seconds.
\<close>

definition run_http_server ::
  "(http_server \<Rightarrow> 'w \<Rightarrow> server_event \<times> 'w) \<Rightarrow> (duration \<Rightarrow> 'w \<Rightarrow> goerr option \<times> 'w) \<Rightarrow> string \<Rightarrow> 'w \<Rightarrow> goerr option \<times> 'w" where
  "run_http_server listen shutdown addr w =
     (case listen \<lparr>hs_addr = addr, hs_timeouts = \<lparr>ht_read = 60 * second, ht_write = 60 * second, ht_idle = 120 * second\<rparr>\<rparr> w of
        (ListenFailed e, w) \<Rightarrow> (Some (wrapf [''listen''] e), w)
      | (ContextDone, w) \<Rightarrow>
          (case shutdown (10 * second) w of
             (Some e, w) \<Rightarrow> (Some (wrapf [''graceful shutdown''] e), w)
           | (None, w) \<Rightarrow> (None, w)))"

text \<open>\<open>main\<close> as a whole: its exit code. \<open>listen\<close> is given what it serves.\<close>

definition server_process ::
  "('w, 'k, 'pk, 'x) process_env \<Rightarrow> go_parse \<Rightarrow> (string \<Rightarrow> goerr + go_url) \<Rightarrow> string list \<Rightarrow> getenv \<Rightarrow>
   ('w handler \<times> server_state \<Rightarrow> http_server \<Rightarrow> 'w \<Rightarrow> server_event \<times> 'w) \<Rightarrow> (duration \<Rightarrow> 'w \<Rightarrow> goerr option \<times> 'w) \<Rightarrow> 'w \<Rightarrow> nat \<times> 'w" where
  "server_process P go_parse parse args getenv listen shutdown w =
     (case load_server_config go_parse parse args getenv of
        Inl e \<Rightarrow> (2, w)
      | Inr cfg \<Rightarrow>
          (case start_server P cfg w of
             (Inl code, w) \<Rightarrow> (code, w)
           | (Inr served, w) \<Rightarrow>
               (case run_http_server (listen served) shutdown (sv_addr cfg) w of
                  (Some e, w) \<Rightarrow> (1, w)
                | (None, w) \<Rightarrow> (0, w))))"

end
