(* ===== verification/StartupProps.thy ===== *)
theory StartupProps
  imports Startup RouteSafety ServerConfigProps SecretReads
begin

text \<open>A process that comes up is loaded, ready and locked; one that does not says so with its exit code.\<close>

lemma load_success:
  assumes "load_from_repo E new_store w = (None, s, w')"
  shows "\<not> is_degraded s \<and> (\<exists>w0 files w1 now. gr_snapshot (en_git E) w0 = (Inr (head_version s, files), w1) \<and>
    (\<forall>f \<in> set files. repo_file_ok (en_lib E) f) \<and> sn_data (st_snapshot s) = served_data (en_lib E) new_store files now (head_version s))"
proof -
  obtain w2 where r: "reload_unlocked E new_store w2 = (None, s, w')"
    using assms by (auto simp: load_from_repo_def reload_def split: prod.splits option.splits sum.splits if_splits)
  show ?thesis
  proof (cases rule: reload_cases [where E = E and s = new_store and w = w2])
    case (ok hash files w1 now at w3)
    with r have s: "s = new_store\<lparr>st_snapshot := new_snapshot (served_data (en_lib E) new_store files now hash) hash,
        st_last_reload := Some \<lparr>rl_at = at, rl_err = None\<rparr>,
        st_watch_gen := (if hash \<noteq> head_version new_store then Suc (st_watch_gen new_store) else st_watch_gen new_store)\<rparr>" by simp
    then have h: "head_version s = hash" "sn_data (st_snapshot s) = served_data (en_lib E) new_store files now hash" "\<not> is_degraded s"
      by (simp_all add: head_version_def new_snapshot_def is_degraded_def)
    with ok(1,2) show ?thesis by blast
  next
    case (failed e at w3)
    with r show ?thesis by simp
  qed
qed

lemma start_parts:
  assumes "start_server P cfg w = (Inr (H, s), w')"
  shows "\<exists>w1. load_from_repo (hv_store (hn_env H)) new_store w1 = (None, hs_store s, w')"
    and "hn_api_key H = sv_api_key cfg" and "hn_limiters H = handler_limiters cfg"
    and "hv_ready (hn_env H) = Some (\<lambda>_. True)"
    and "hv_volume (hn_env H) \<noteq> None \<longrightarrow> new_file_volume_reader (sv_secret_mount_path cfg) = Inr (hs_volume s)"
    and "vr_cache (hs_volume s) = [] \<and> hs_leftover s = []"
proof -
  obtain br registry w1 where b: "bootstrap_app_registry (pe_console P) (pe_bootstrap P) cfg new_cache w = (br, registry, w1)" by (metis prod.collapse)
  let ?opts = "\<lparr>op_local_path = sv_git_local_path cfg, op_remote_url = sv_git_url cfg, op_branch = sv_git_branch cfg,
      op_ssh_key_path = sv_git_ssh_key_path cfg, op_username = sv_git_username cfg, op_password = sv_git_password cfg\<rparr>"
  obtain repo where repo: "new_repo (pe_read_file P) (pe_parse_key P) ?opts w1 = Inr repo"
    using assms by (cases "new_repo (pe_read_file P) (pe_parse_key P) ?opts w1") (simp_all add: start_server_def b)
  obtain reader deps w2 where d: "configure_secret_dependencies P cfg w1 = ((reader, deps), w2)" by (metis prod.collapse)
  let ?E = "\<lparr>en_git = repo_of (pe_git P repo) (rp_local_path repo) (rp_remote_url repo), en_deps = deps, en_lib = pe_lib P, en_now = pe_now P\<rparr>"
  obtain e st w3 where l: "load_from_repo ?E new_store w2 = (e, st, w3)" by (metis prod.collapse)
  have e: "e = None" using assms by (cases e) (simp_all add: start_server_def b repo d l)
  have reader: "reader = (case new_file_volume_reader (sv_secret_mount_path cfg) of Inl e \<Rightarrow> None | Inr r \<Rightarrow> Some r)"
    using d by (auto simp: configure_secret_dependencies_def Let_def split: prod.splits option.splits sum.splits)
  have H: "H = new_handler P cfg (mark_ready \<lparr>rp_ready = False\<rparr>) ?E reader"
    and s: "s = \<lparr>hs_store = st, hs_registry = registry, hs_volume = (case reader of None \<Rightarrow> no_volume_reader | Some r \<Rightarrow> r),
        hs_mem = \<lparr>vm_cells = (\<lambda>_. []), vm_next = 0\<rparr>, hs_leftover = []\<rparr>" and w': "w' = w3"
    using assms by (simp_all add: start_server_def b repo d l e)
  show "\<exists>w1. load_from_repo (hv_store (hn_env H)) new_store w1 = (None, hs_store s, w')"
    using l by (auto simp: H s w' e new_handler_def)
  show "hn_api_key H = sv_api_key cfg" "hn_limiters H = handler_limiters cfg" "hv_ready (hn_env H) = Some (\<lambda>_. True)"
    by (simp_all add: H new_handler_def is_ready_def mark_ready_def)
  show "hv_volume (hn_env H) \<noteq> None \<longrightarrow> new_file_volume_reader (sv_secret_mount_path cfg) = Inr (hs_volume s)"
    by (auto simp: H s new_handler_def reader split: sum.splits)
  show "vr_cache (hs_volume s) = [] \<and> hs_leftover s = []"
    by (auto simp: s reader no_volume_reader_def new_file_volume_reader_def split: sum.splits option.splits if_splits)
qed

lemma limiters_of_config:
  "limiter_of (handler_limiters cfg) g =
     (let c = (case g of AdminGroup \<Rightarrow> sv_rate_admin cfg | SecretResolveGroup \<Rightarrow> sv_rate_secret_resolve cfg | WatchGroup \<Rightarrow> sv_rate_watch cfg
                 | BatchGroup \<Rightarrow> sv_rate_batch cfg | ReadGroup \<Rightarrow> sv_rate_read cfg)
      in if rate_limit_enabled c then Some c else None)"
  by (cases g) (simp_all add: handler_limiters_def new_endpoint_rate_limiters_def new_rate_limiter_def rate_limit_from_config_def rate_limit_enabled_def Let_def)

text \<open>C16: A process that comes up is loaded, ready and locked: when main hands a handler to the listener, the store holds a
  successful load of a whole commit whose files all parse and serves exactly those, the readiness probe answers 200, the
  API key is the one of the environment and is empty only if the environment allows running without, every request
  without that key is refused by the privileged routes, and the limiters are those of the settings; when it does not
  come up its exit code is 2 for bad settings, before anything outside is touched, and else 1.\<close>
theorem server_comes_up_loaded_and_locked:
  "case load_server_config go_parse parse args getenv of
     Inl e \<Rightarrow> server_main P go_parse parse args getenv w = (Inl 2, w)
   | Inr cfg \<Rightarrow>
       (case server_main P go_parse parse args getenv w of
          (Inl code, w') \<Rightarrow> code = 1
        | (Inr (H, s), w') \<Rightarrow>
            (let E = hv_store (hn_env H); st = hs_store s in
             (\<exists>w0 files w1 now. gr_snapshot (en_git E) w0 = (Inr (head_version st, files), w1) \<and>
                list_all (repo_file_ok (en_lib E)) files \<and>
                sn_data (st_snapshot st) = served_data (en_lib E) new_store files now (head_version st)) \<and>
             readyz H r new_writer (s, w') = (write_body (TextBody ''ok'') (write_header 200 new_writer), s, w') \<and>
             hn_api_key H = getenv ''API_KEY'' \<and>
             (if hn_api_key H = [] then env_bool getenv ''ALLOW_UNAUTHENTICATED_DEV'' False
              else if rt \<in> privileged
              then (if authorized r (hn_api_key H) then True else serve H rt r wr (s, w') = Some (denied wr, s, w'))
              else True) \<and>
             limiter_of (hn_limiters H) g =
               (let c = (case g of AdminGroup \<Rightarrow> sv_rate_admin cfg | SecretResolveGroup \<Rightarrow> sv_rate_secret_resolve cfg
                         | WatchGroup \<Rightarrow> sv_rate_watch cfg | BatchGroup \<Rightarrow> sv_rate_batch cfg | ReadGroup \<Rightarrow> sv_rate_read cfg)
                in if rate_limit_enabled c then Some c else None)))"
proof (cases "load_server_config go_parse parse args getenv")
  case (Inl e)
  then show ?thesis by (simp add: server_main_def)
next
  case (Inr cfg)
  have m: "server_main P go_parse parse args getenv w = start_server P cfg w" by (simp add: server_main_def Inr)
  have code: "code = 1" if "start_server P cfg w = (Inl code, w')" for code w'
    using that by (auto simp: start_server_def Let_def split: prod.splits sum.splits option.splits)
  note creds = credentials_only_from_environment [where P = go_parse and parse = parse and args = args and getenv = getenv, unfolded Inr sum.case]
  show ?thesis
  proof (cases "start_server P cfg w")
    case (Pair res w')
    show ?thesis
    proof (cases res)
      case (Inl code)
      with Pair code m Inr show ?thesis by simp
    next
      case run: (Inr Hs)
      obtain H s where Hs: "Hs = (H, s)" by (cases Hs)
      note parts = start_parts [OF Pair [unfolded run Hs]]
      obtain w1 where l: "load_from_repo (hv_store (hn_env H)) new_store w1 = (None, hs_store s, w')" using parts(1) by blast
      note loaded = load_success [OF l]
      have ready: "readyz H r new_writer (s, w') = (write_body (TextBody ''ok'') (write_header 200 new_writer), s, w')"
        using loaded parts(4) by (simp add: readyz_def)
      have key: "hn_api_key H = getenv ''API_KEY''" using creds parts(2) by simp
      have dev: "if hn_api_key H = [] then env_bool getenv ''ALLOW_UNAUTHENTICATED_DEV'' False
          else if rt \<in> privileged
          then (if authorized r (hn_api_key H) then True else serve H rt r wr (s, w') = Some (denied wr, s, w')) else True"
      proof (cases "hn_api_key H = []")
        case True
        with creds parts(2) show ?thesis by (auto split: if_splits)
      next
        case False
        then show ?thesis using privileged_denied [of H r rt wr "(s, w')"] by (simp add: locked_out_def)
      qed
      have files: "\<exists>w0 files w1 now. gr_snapshot (en_git (hv_store (hn_env H))) w0 = (Inr (head_version (hs_store s), files), w1) \<and>
          list_all (repo_file_ok (en_lib (hv_store (hn_env H)))) files \<and>
          sn_data (st_snapshot (hs_store s)) = served_data (en_lib (hv_store (hn_env H))) new_store files now (head_version (hs_store s))"
        using loaded unfolding list_all_iff by blast
      show ?thesis unfolding Inr sum.case m Pair run Hs prod.case Let_def parts(3)
        using files ready key dev limiters_of_config [of cfg g, unfolded Let_def] by blast
    qed
  qed
qed

end
