(* ===== verification/Metrics.thy ===== *)
theory Metrics
  imports Handler
begin

text \<open>
  The metrics (internal/metrics/metrics.go) and their endpoint: counters and histograms by name and labels, and the
  Prometheus text. Floating point is the parameter \<open>float_ops\<close>: addition, comparison, the value of a count and of a
  duration, and the shortest format.
\<close>

subsection \<open>Samples\<close>

record label =
  lb_name :: string
  lb_value :: string

record 'f float_ops =
  fo_add :: "'f \<Rightarrow> 'f \<Rightarrow> 'f"
  fo_le :: "'f \<Rightarrow> 'f \<Rightarrow> bool"
  fo_of_count :: "64 word \<Rightarrow> 'f"
  fo_seconds :: "duration \<Rightarrow> 'f"
  fo_format :: "'f \<Rightarrow> string"
  fo_buckets :: "'f list"

record 'f gauge_sample =
  ga_name :: string
  ga_labels :: "label list"
  ga_value :: 'f

record 'f counter_sample =
  co_name :: string
  co_labels :: "label list"
  co_value :: 'f

record 'f histogram_sample =
  hi_name :: string
  hi_labels :: "label list"
  hi_buckets :: "'f list"
  hi_counts :: "64 word list"
  hi_count :: "64 word"
  hi_sum :: 'f

record 'f metrics_registry =
  me_counters :: "(string, 'f counter_sample) gomap"
  me_histograms :: "(string, 'f histogram_sample) gomap"

definition new_metrics_registry :: "'f metrics_registry" where
  "new_metrics_registry = \<lparr>me_counters = [], me_histograms = []\<rparr>"

text \<open>\<open>sort.Slice\<close> may order labels of one name either way; the model keeps their order.\<close>

definition normalize_labels :: "label list \<Rightarrow> label list" where
  "normalize_labels ls = sort_key lb_name (filter (\<lambda>l. lb_name l \<noteq> []) ls)"

definition labels_key :: "label list \<Rightarrow> string" where
  "labels_key ls = (if length ls = 0 then [] else join '','' (map (\<lambda>l. lb_name l @ ''='' @ lb_value l) ls))"

definition sample_key :: "string \<Rightarrow> label list \<Rightarrow> string" where
  "sample_key name ls = name @ ''{'' @ labels_key ls @ ''}''"

subsection \<open>Recording\<close>

definition add_counter :: "'f float_ops \<Rightarrow> string \<Rightarrow> label list \<Rightarrow> 'f \<Rightarrow> 'f metrics_registry \<Rightarrow> 'f metrics_registry" where
  "add_counter F name labels delta m =
     (let labels = normalize_labels labels; key = sample_key name labels;
          sample = (case mget (me_counters m) key of
                      Some s \<Rightarrow> if co_name s = [] then \<lparr>co_name = name, co_labels = labels, co_value = fo_of_count F 0\<rparr> else s
                    | None \<Rightarrow> \<lparr>co_name = name, co_labels = labels, co_value = fo_of_count F 0\<rparr>)
      in m\<lparr>me_counters := mput key (sample\<lparr>co_value := fo_add F (co_value sample) delta\<rparr>) (me_counters m)\<rparr>)"

definition observe :: "'f float_ops \<Rightarrow> 'f \<Rightarrow> 'f histogram_sample \<Rightarrow> 'f histogram_sample" where
  "observe F v s =
     s\<lparr>hi_counts := map2 (\<lambda>upper c. if fo_le F v upper then c + 1 else c) (hi_buckets s) (hi_counts s),
       hi_count := hi_count s + 1, hi_sum := fo_add F (hi_sum s) v\<rparr>"

definition observe_histogram :: "'f float_ops \<Rightarrow> string \<Rightarrow> label list \<Rightarrow> 'f \<Rightarrow> 'f metrics_registry \<Rightarrow> 'f metrics_registry" where
  "observe_histogram F name labels v m =
     (let labels = normalize_labels labels; key = sample_key name labels;
          sample = (case mget (me_histograms m) key of
                      Some s \<Rightarrow> s
                    | None \<Rightarrow> \<lparr>hi_name = name, hi_labels = labels, hi_buckets = fo_buckets F,
                               hi_counts = map (\<lambda>_. 0) (fo_buckets F), hi_count = 0, hi_sum = fo_of_count F 0\<rparr>)
      in m\<lparr>me_histograms := mput key (observe F v sample) (me_histograms m)\<rparr>)"

definition record_sample :: "'f float_ops \<Rightarrow> string \<Rightarrow> string \<Rightarrow> label list \<Rightarrow> duration \<Rightarrow> 'f metrics_registry \<Rightarrow> 'f metrics_registry" where
  "record_sample F counter histogram labels d m =
     observe_histogram F histogram labels (fo_seconds F d) (add_counter F counter labels (fo_of_count F 1) m)"

definition two_labels :: "string \<Rightarrow> string \<Rightarrow> string \<Rightarrow> string \<Rightarrow> label list" where
  "two_labels n1 v1 n2 v2 = [\<lparr>lb_name = n1, lb_value = v1\<rparr>, \<lparr>lb_name = n2, lb_value = v2\<rparr>]"

definition record_http_request :: "'f float_ops \<Rightarrow> string \<Rightarrow> string \<Rightarrow> int \<Rightarrow> duration \<Rightarrow> 'f metrics_registry \<Rightarrow> 'f metrics_registry" where
  "record_http_request F meth route code d =
     record_sample F ''aap_config_server_http_requests_total'' ''aap_config_server_http_request_duration_seconds''
       (\<lparr>lb_name = ''code'', lb_value = show_int code\<rparr> # two_labels ''method'' meth ''route'' (if route = [] then ''unknown'' else route)) d"

definition record_reload :: "'f float_ops \<Rightarrow> string \<Rightarrow> string \<Rightarrow> duration \<Rightarrow> 'f metrics_registry \<Rightarrow> 'f metrics_registry" where
  "record_reload F mode outcome =
     record_sample F ''aap_config_server_reload_attempts_total'' ''aap_config_server_reload_duration_seconds''
       (two_labels ''mode'' mode ''outcome'' outcome)"

definition record_git_operation :: "'f float_ops \<Rightarrow> string \<Rightarrow> string \<Rightarrow> duration \<Rightarrow> 'f metrics_registry \<Rightarrow> 'f metrics_registry" where
  "record_git_operation F operation outcome =
     record_sample F ''aap_config_server_git_operations_total'' ''aap_config_server_git_operation_duration_seconds''
       (two_labels ''operation'' operation ''outcome'' outcome)"

definition record_watch_wait :: "'f float_ops \<Rightarrow> string \<Rightarrow> string \<Rightarrow> duration \<Rightarrow> 'f metrics_registry \<Rightarrow> 'f metrics_registry" where
  "record_watch_wait F resource outcome =
     record_sample F ''aap_config_server_watch_waits_total'' ''aap_config_server_watch_wait_duration_seconds''
       (two_labels ''outcome'' outcome ''resource'' resource)"

subsection \<open>Rendering\<close>

definition replace_char :: "char \<Rightarrow> string \<Rightarrow> string \<Rightarrow> string" where
  "replace_char c new s = concat (map (\<lambda>x. if x = c then new else [x]) s)"

definition backslash :: char where "backslash = CHR 0x5C"
definition quote_char :: char where "quote_char = CHR 0x22"
definition newline :: char where "newline = CHR 0x0A"

definition escape_label_value :: "string \<Rightarrow> string" where
  "escape_label_value v =
     replace_char quote_char [backslash, quote_char]
       (replace_char newline [backslash, CHR ''n''] (replace_char backslash [backslash, backslash] v))"

definition write_label :: "label \<Rightarrow> string" where
  "write_label l = lb_name l @ [CHR ''='', quote_char] @ escape_label_value (lb_value l) @ [quote_char]"

definition write_sample :: "'f float_ops \<Rightarrow> string \<Rightarrow> label list \<Rightarrow> 'f \<Rightarrow> string" where
  "write_sample F name labels v =
     name @ (if 0 < length labels then ''{'' @ join '','' (map write_label labels) @ ''}'' else []) @ '' '' @ fo_format F v @ [newline]"

definition with_le :: "string \<Rightarrow> label list \<Rightarrow> label list" where
  "with_le v labels = normalize_labels (labels @ [\<lparr>lb_name = ''le'', lb_value = v\<rparr>])"

definition write_histogram :: "'f float_ops \<Rightarrow> 'f histogram_sample \<Rightarrow> string" where
  "write_histogram F s =
     concat (map2 (\<lambda>upper c. write_sample F (hi_name s @ ''_bucket'') (with_le (fo_format F upper) (hi_labels s)) (fo_of_count F c))
       (hi_buckets s) (hi_counts s)) @
     write_sample F (hi_name s @ ''_bucket'') (with_le ''+Inf'' (hi_labels s)) (fo_of_count F (hi_count s)) @
     write_sample F (hi_name s @ ''_sum'') (hi_labels s) (hi_sum s) @
     write_sample F (hi_name s @ ''_count'') (hi_labels s) (fo_of_count F (hi_count s))"

text \<open>Sorted by name and then by the key of the labels: two stable sorts\<close>

definition sort_counters :: "'f counter_sample list \<Rightarrow> 'f counter_sample list" where
  "sort_counters = sort_key co_name \<circ> sort_key (labels_key \<circ> co_labels)"

definition sort_histograms :: "'f histogram_sample list \<Rightarrow> 'f histogram_sample list" where
  "sort_histograms = sort_key hi_name \<circ> sort_key (labels_key \<circ> hi_labels)"

definition normalize_gauges :: "'f gauge_sample list \<Rightarrow> 'f gauge_sample list" where
  "normalize_gauges gs =
     sort_key ga_name (sort_key (labels_key \<circ> ga_labels)
       (map (\<lambda>g. g\<lparr>ga_labels := normalize_labels (ga_labels g)\<rparr>) (filter (\<lambda>g. ga_name g \<noteq> []) gs)))"

datatype metric_kind = CounterKind | HistogramKind | GaugeKind

fun kind_name :: "metric_kind \<Rightarrow> string" where
  "kind_name CounterKind = ''counter''"
| "kind_name HistogramKind = ''histogram''"
| "kind_name GaugeKind = ''gauge''"

definition degraded_state_metric :: string where
  "degraded_state_metric = ''aap_config_server_degraded_state''"

definition descriptors :: "(string \<times> string \<times> metric_kind) list" where
  "descriptors =
     [(''aap_config_server_http_requests_total'', ''Total HTTP requests served by method, route template, and status code.'', CounterKind),
      (''aap_config_server_http_request_duration_seconds'',
       ''HTTP request latency in seconds by method, route template, and status code.'', HistogramKind),
      (''aap_config_server_reload_attempts_total'', ''Total config reload attempts by mode and outcome.'', CounterKind),
      (''aap_config_server_reload_duration_seconds'', ''Config reload duration in seconds by mode and outcome.'', HistogramKind),
      (''aap_config_server_git_operations_total'', ''Total Git operations by operation and outcome.'', CounterKind),
      (''aap_config_server_git_operation_duration_seconds'', ''Git operation duration in seconds by operation and outcome.'', HistogramKind),
      (''aap_config_server_watch_waits_total'', ''Total config watch waits by resource and outcome.'', CounterKind),
      (''aap_config_server_watch_wait_duration_seconds'', ''Config watch wait duration in seconds by resource and outcome.'', HistogramKind),
      (degraded_state_metric, ''Current degraded state by component, where 1 means degraded.'', GaugeKind)]"

definition render_prometheus :: "'f float_ops \<Rightarrow> 'f gauge_sample list \<Rightarrow> 'f metrics_registry \<Rightarrow> string" where
  "render_prometheus F gauges m =
     (let counters = sort_counters (map snd (me_counters m)); histograms = sort_histograms (map snd (me_histograms m));
          gauges = normalize_gauges gauges
      in concat (map (\<lambda>(name, help, kind).
           ''# HELP '' @ name @ '' '' @ help @ [newline] @ ''# TYPE '' @ name @ '' '' @ kind_name kind @ [newline] @
           (case kind of
              CounterKind \<Rightarrow> concat (map (\<lambda>s. write_sample F (co_name s) (co_labels s) (co_value s)) (filter (\<lambda>s. co_name s = name) counters))
            | HistogramKind \<Rightarrow> concat (map (write_histogram F) (filter (\<lambda>s. hi_name s = name) histograms))
            | GaugeKind \<Rightarrow> concat (map (\<lambda>s. write_sample F (ga_name s) (ga_labels s) (ga_value s)) (filter (\<lambda>s. ga_name s = name) gauges))))
         descriptors))"

definition degraded_gauge :: "'f float_ops \<Rightarrow> string \<Rightarrow> bool \<Rightarrow> 'f gauge_sample" where
  "degraded_gauge F component degraded =
     \<lparr>ga_name = degraded_state_metric, ga_labels = [\<lparr>lb_name = ''component'', lb_value = component\<rparr>],
      ga_value = fo_of_count F (if degraded then 1 else 0)\<rparr>"

definition prometheus_metrics :: "'f float_ops \<Rightarrow> 'f metrics_registry \<Rightarrow> http_request \<Rightarrow> http_writer \<Rightarrow> server_state \<Rightarrow> http_writer" where
  "prometheus_metrics F m r wr s =
     write_body (TextBody (render_prometheus F
         [degraded_gauge F ''store'' (ss_is_degraded (status_info (hs_store s))),
          degraded_gauge F ''app_registry'' (rs_is_degraded (cache_status (hs_registry s)))] m))
       (set_header ''Content-Type'' ''text/plain; version=0.0.4; charset=utf-8'' wr)"

end
