(* ===== verification/MetricsProps.thy ===== *)
theory MetricsProps
  imports Metrics
begin

text \<open>The Prometheus text can be read back whatever the label values are, and the histograms count their observations.\<close>

subsection \<open>Label values\<close>

text \<open>The reader of the text format: a label value up to its closing quote, which must be on the same line\<close>

definition unescape :: "char \<Rightarrow> char option" where
  "unescape c =
     (if c = backslash then Some backslash else if c = quote_char then Some quote_char else if c = CHR ''n'' then Some newline else None)"

fun read_value :: "string \<Rightarrow> (string \<times> string) option" where
  "read_value [] = None"
| "read_value (c # s) =
     (if c = quote_char then Some ([], s)
      else if c = newline then None
      else if c = backslash then
        (case s of
           [] \<Rightarrow> None
         | d # t \<Rightarrow>
             (case (unescape d, read_value t) of (Some x, Some (v, rest)) \<Rightarrow> Some (x # v, rest) | _ \<Rightarrow> None))
      else map_option (\<lambda>(v, rest). (c # v, rest)) (read_value s))"

lemmas special_chars = backslash_def quote_char_def newline_def

definition escape_one :: "char \<Rightarrow> string" where
  "escape_one c =
     (if c = backslash then [backslash, backslash] else if c = newline then [backslash, CHR ''n'']
      else if c = quote_char then [backslash, quote_char] else [c])"

lemma replace_char_simps [simp]:
  "replace_char c new [] = []" "replace_char c new (x # s) = (if x = c then new else [x]) @ replace_char c new s"
  "replace_char c new (s @ t) = replace_char c new s @ replace_char c new t"
  by (simp_all add: replace_char_def)

lemma escape_label_value_simps [simp]:
  "escape_label_value [] = []" "escape_label_value (c # v) = escape_one c @ escape_label_value v"
  by (simp_all add: escape_label_value_def escape_one_def special_chars)

lemma escape_one_line: "newline \<notin> set (escape_one c)"
  by (simp add: escape_one_def special_chars)

lemma read_escape_one: "read_value (escape_one c @ s) = map_option (\<lambda>(v, rest). (c # v, rest)) (read_value s)"
  by (cases "read_value s") (auto simp: escape_one_def unescape_def special_chars)

text \<open>The metrics can be read back whatever is measured: a label value with quotes, backslashes or line breaks, written
  as the code escapes it, is read back exactly by a reader of the Prometheus text format, which stops at the closing
  quote and leaves the rest of the line; so no value, not even a hostile one, ends its line or forges a label or a
  sample.\<close>
theorem label_value_roundtrip:
  "read_value (escape_label_value v @ quote_char # rest) = Some (v, rest) \<and> list_all (\<lambda>c. c \<noteq> newline) (escape_label_value v)"
proof (induction v)
  case Nil
  then show ?case by simp
next
  case (Cons c v)
  then show ?case using escape_one_line [of c] by (auto simp: read_escape_one list_all_iff)
qed

subsection \<open>Histograms\<close>

definition observations :: "string \<Rightarrow> (string \<times> label list \<times> 'f) list \<Rightarrow> 'f list" where
  "observations key events = map (\<lambda>(n, l, v). v) (filter (\<lambda>(n, l, v). sample_key n (normalize_labels l) = key) events)"

definition counts_of :: "'f float_ops \<Rightarrow> 'f list \<Rightarrow> 'f histogram_sample \<Rightarrow> bool" where
  "counts_of F vs s \<longleftrightarrow>
     hi_buckets s = fo_buckets F \<and> hi_count s = of_nat (length vs) \<and>
     hi_counts s = map (\<lambda>upper. of_nat (length (filter (\<lambda>v. fo_le F v upper) vs))) (fo_buckets F) \<and>
     hi_sum s = foldl (fo_add F) (fo_of_count F 0) vs"

lemma observe_counts: "counts_of F vs s \<Longrightarrow> counts_of F (vs @ [v]) (observe F v s)"
  by (auto simp: counts_of_def observe_def map2_map_map [symmetric] intro!: nth_equalityI)

lemma fresh_counts:
  "counts_of F [] \<lparr>hi_name = n, hi_labels = l, hi_buckets = fo_buckets F, hi_counts = map (\<lambda>_. 0) (fo_buckets F), hi_count = 0,
     hi_sum = fo_of_count F 0\<rparr>"
  by (simp add: counts_of_def)

definition recorded :: "'f float_ops \<Rightarrow> (string \<times> label list \<times> 'f) list \<Rightarrow> 'f metrics_registry" where
  "recorded F events = foldl (\<lambda>m (n, l, v). observe_histogram F n l v m) new_metrics_registry events"

text \<open>Histograms count what was observed: after any sequence of observations, the sample of a name and labels exists
  exactly when one of them had this key, its count is their number and its sum their sum, and the count of each bucket is
  the number of them that are at most its bound, all in the 64 bits of the counters.\<close>
theorem histograms_count_observations:
  "case mget (me_histograms (recorded F events)) key of
     None \<Rightarrow> observations key events = []
   | Some s \<Rightarrow> observations key events \<noteq> [] \<and>
       hi_buckets s = fo_buckets F \<and> hi_count s = of_nat (length (observations key events)) \<and>
       hi_counts s = map (\<lambda>upper. of_nat (length (filter (\<lambda>v. fo_le F v upper) (observations key events)))) (fo_buckets F) \<and>
       hi_sum s = foldl (fo_add F) (fo_of_count F 0) (observations key events)"
proof -
  have "case mget (me_histograms (recorded F events)) key of
      None \<Rightarrow> observations key events = [] | Some s \<Rightarrow> observations key events \<noteq> [] \<and> counts_of F (observations key events) s"
  proof (induction events rule: rev_induct)
    case Nil
    then show ?case by (simp add: recorded_def new_metrics_registry_def observations_def)
  next
    case (snoc e events)
    obtain n l v where e: "e = (n, l, v)" by (metis prod.collapse)
    let ?k = "sample_key n (normalize_labels l)"
    have r: "recorded F (events @ [e]) = observe_histogram F n l v (recorded F events)" by (simp add: recorded_def e)
    show ?case
    proof (cases "key = ?k")
      case False
      then have ob: "observations key (events @ [e]) = observations key events" by (simp add: observations_def e)
      have "mget (me_histograms (recorded F (events @ [e]))) key = mget (me_histograms (recorded F events)) key"
        using False by (simp add: r observe_histogram_def Let_def)
      then show ?thesis unfolding ob using snoc by simp
    next
      case True
      then have ob: "observations key (events @ [e]) = observations key events @ [v]" by (simp add: observations_def e)
      show ?thesis
      proof (cases "mget (me_histograms (recorded F events)) key")
        case None
        with snoc have "observations key events = []" by simp
        with None True ob show ?thesis using observe_counts [OF fresh_counts [of F n "normalize_labels l"], of v]
          by (simp add: r observe_histogram_def Let_def)
      next
        case (Some s)
        with snoc have "counts_of F (observations key events) s" by simp
        with Some True ob show ?thesis using observe_counts [of F "observations key events" s v] by (simp add: r observe_histogram_def Let_def)
      qed
    qed
  qed
  then show ?thesis by (auto simp: counts_of_def split: option.splits)
qed

end
