(* ===== verification/Mux.thy ===== *)
theory Mux
  imports Metrics RoutesProps
begin

text \<open>
  From a request on the wire to a handler: the patterns that \<open>Handler.Routes\<close> registers, the way the \<open>ServeMux\<close> of
  net/http takes a request to one of them, and \<open>instrumentHTTP\<close>, which counts what was answered and turns a
  panic into a 500. What net/http answers itself (no such route, wrong method, redirect) is a parameter.
\<close>

subsection \<open>URLs\<close>

definition hex_digit :: "char \<Rightarrow> nat option" where
  "hex_digit c =
     (let n = of_char c :: nat in
      if 48 \<le> n \<and> n \<le> 57 then Some (n - 48) else if 97 \<le> n \<and> n \<le> 102 then Some (n - 87)
      else if 65 \<le> n \<and> n \<le> 70 then Some (n - 55) else None)"

text \<open>\<open>url.PathUnescape\<close>, and \<open>url.QueryUnescape\<close> with \<open>plus\<close>; None is a bad escape\<close>

fun url_unescape :: "bool \<Rightarrow> string \<Rightarrow> string option" where
  "url_unescape qry [] = Some []"
| "url_unescape qry (c # s) =
     (if c = CHR ''%'' then
        (case s of
           a # b # t \<Rightarrow>
             (case (hex_digit a, hex_digit b, url_unescape qry t) of
                (Some x, Some y, Some u) \<Rightarrow> Some (char_of (16 * x + y) # u)
              | _ \<Rightarrow> None)
         | _ \<Rightarrow> None)
      else map_option ((#) (if qry \<and> c = CHR ''+'' then CHR '' '' else c)) (url_unescape qry s))"

text \<open>\<open>Query().Get\<close>: the first value of a name; pairs that do not parse are left out.\<close>

definition query_pair :: "string \<Rightarrow> (string \<times> string) option" where
  "query_pair p =
     (if p = [] \<or> CHR '';'' \<in> set p then None
      else (let (k, v) = (case cut_at CHR ''='' p of None \<Rightarrow> (p, []) | Some kv \<Rightarrow> kv) in
            case (url_unescape True k, url_unescape True v) of (Some k, Some v) \<Rightarrow> Some (k, v) | _ \<Rightarrow> None))"

definition query_get :: "string \<Rightarrow> string \<Rightarrow> string" where
  "query_get raw name =
     (case map_of (List.map_filter query_pair (split_on CHR ''&'' raw)) name of None \<Rightarrow> [] | Some v \<Rightarrow> v)"

subsection \<open>Patterns\<close>

datatype endpoint = Api route | MetricsEndpoint

definition route_patterns :: "(string \<times> endpoint) list" where
  "route_patterns =
     [(''GET /healthz'', Api RHealthz),
      (''GET /readyz'', Api RReadyz),
      (''GET /api/v1/status'', Api RStatus),
      (''GET /metrics'', MetricsEndpoint),
      (''GET /api/v1/orgs'', Api ROrgs),
      (''GET /api/v1/orgs/{org}/projects'', Api RProjects),
      (''GET /api/v1/orgs/{org}/projects/{project}/services'', Api RServices),
      (''GET /api/v1/orgs/{org}/projects/{project}/services/{service}/config'', Api RConfig),
      (''GET /api/v1/orgs/{org}/projects/{project}/services/{service}/config/watch'', Api RConfigWatch),
      (''GET /api/v1/orgs/{org}/projects/{project}/services/{service}/env_vars'', Api REnvVars),
      (''GET /api/v1/orgs/{org}/projects/{project}/services/{service}/env_vars/watch'', Api REnvVarsWatch),
      (''POST /api/v1/configs/batch'', Api RBatch),
      (''GET /api/v1/orgs/{org}/projects/{project}/services/{service}/history'', Api RHistory),
      (''GET /api/v1/orgs/{org}/projects/{project}/services/{service}/secrets'', Api RSecrets),
      (''POST /api/v1/admin/changes'', Api RPostChanges),
      (''POST /api/v1/admin/changes/revert'', Api RRevert),
      (''DELETE /api/v1/admin/changes'', Api RDelete),
      (''POST /api/v1/admin/reload'', Api RReload),
      (''POST /api/v1/admin/git/webhook'', Api RGitWebhook),
      (''POST /api/v1/admin/app-registry/webhook'', Api RRegistryWebhook)]"

definition pattern_method :: "string \<Rightarrow> string" where
  "pattern_method p = (case cut_at CHR '' '' p of None \<Rightarrow> [] | Some (m, path) \<Rightarrow> m)"

definition route_label :: "string \<Rightarrow> string" where
  "route_label p = (case cut_at CHR '' '' p of Some (m, path) \<Rightarrow> path | None \<Rightarrow> p)"

text \<open>A segment of a pattern: a literal, or a name in braces that takes any segment but a slash, which is also what
  the mux makes of the end of a path with a trailing slash\<close>

definition wildcard_name :: "string \<Rightarrow> string option" where
  "wildcard_name p = (if has_prefix p ''{'' then Some (takeWhile (\<lambda>c. c \<noteq> CHR ''}'') (tl p)) else None)"

fun match_segments :: "string list \<Rightarrow> string list \<Rightarrow> (string \<times> string) list option" where
  "match_segments [] [] = Some []"
| "match_segments (p # ps) (s # ss) =
     (case wildcard_name p of
        Some name \<Rightarrow> if s = ''/'' then None else map_option ((#) (name, s)) (match_segments ps ss)
      | None \<Rightarrow> if p = s then match_segments ps ss else None)"
| "match_segments _ _ = None"

definition pattern_segments :: "string \<Rightarrow> string list" where
  "pattern_segments p = tl (split_on CHR ''/'' (route_label p))"

subsection \<open>Dispatch\<close>

record wire_request =
  wq_method :: string
  wq_path :: string
  wq_query :: string
  wq_header :: "string \<Rightarrow> string"
  wq_body :: body_stream

text \<open>
  The mux looks at the escaped path. A path that \<open>cleanPath\<close> would change is redirected, whatever it names; a segment
  that does not unescape is taken as it is; a GET pattern answers HEAD too.
\<close>

definition clean_segments :: "string list \<Rightarrow> bool" where
  "clean_segments segs \<longleftrightarrow>
     segs \<noteq> [] \<and> list_all (\<lambda>x. x \<noteq> [] \<and> x \<noteq> ''.'' \<and> x \<noteq> ''..'') (butlast segs) \<and> last segs \<noteq> ''.'' \<and> last segs \<noteq> ''..''"

definition segment_value :: "string \<Rightarrow> string" where
  "segment_value s = (case url_unescape False s of None \<Rightarrow> s | Some u \<Rightarrow> u)"

definition method_matches :: "string \<Rightarrow> string \<Rightarrow> bool" where
  "method_matches pattern m \<longleftrightarrow> pattern_method pattern = m \<or> (pattern_method pattern = ''GET'' \<and> m = ''HEAD'')"

datatype dispatched =
    Matched string endpoint "(string \<times> string) list"
  | Redirected
  | NotAllowed
  | NoRoute

fun first_match :: "(string \<times> endpoint) list \<Rightarrow> (string \<Rightarrow> bool) \<Rightarrow> string list \<Rightarrow> (string \<times> endpoint \<times> (string \<times> string) list) option" where
  "first_match [] ok segs = None"
| "first_match ((p, e) # ps) ok segs =
     (case match_segments (pattern_segments p) segs of
        Some values \<Rightarrow> if ok p then Some (p, e, values) else first_match ps ok segs
      | None \<Rightarrow> first_match ps ok segs)"

definition dispatch :: "string \<Rightarrow> string \<Rightarrow> dispatched" where
  "dispatch m path =
     (case split_on CHR ''/'' path of
        [] # segs \<Rightarrow>
          if m \<noteq> ''CONNECT'' \<and> \<not> clean_segments segs then Redirected
          else
            (let values = map segment_value (butlast segs) @ [if last segs = [] then ''/'' else segment_value (last segs)] in
             case first_match route_patterns (\<lambda>p. method_matches p m) values of
               Some (p, e, vs) \<Rightarrow> Matched p e vs
             | None \<Rightarrow> if first_match route_patterns (\<lambda>p. True) values \<noteq> None then NotAllowed else NoRoute)
      | _ \<Rightarrow> if m = ''CONNECT'' then NoRoute else Redirected)"

definition path_value :: "(string \<times> string) list \<Rightarrow> string \<Rightarrow> string" where
  "path_value vs name = (case map_of vs name of None \<Rightarrow> [] | Some v \<Rightarrow> v)"

definition routed_request :: "wire_request \<Rightarrow> (string \<times> string) list \<Rightarrow> http_request" where
  "routed_request q vs =
     \<lparr>rq_method = wq_method q, rq_path = path_value vs, rq_query = query_get (wq_query q), rq_header = wq_header q, rq_body = wq_body q\<rparr>"

subsection \<open>Instrumentation\<close>

text \<open>A handler that may panic says so and leaves the writer as it was at the panic; \<open>d\<close> is the time that passed.\<close>

definition instrument_http ::
  "'f float_ops \<Rightarrow> string \<Rightarrow> (http_request \<Rightarrow> http_writer \<Rightarrow> 's \<Rightarrow> (bool \<times> http_writer \<times> 's) option) \<Rightarrow> http_request \<Rightarrow> duration \<Rightarrow>
   's \<times> 'f metrics_registry \<Rightarrow> (http_writer \<times> 's \<times> 'f metrics_registry) option" where
  "instrument_http F pattern next_handler r d = (\<lambda>(st, m).
     case next_handler r new_writer st of
       None \<Rightarrow> None
     | Some (panicked, wr, st) \<Rightarrow>
         (let wr = (if panicked \<and> hw_status wr = None then write_header 500 wr else wr)
          in Some (wr, st, record_http_request F (rq_method r) (route_label pattern) (int (status_code wr)) d m)))"

definition serve_route :: "'w handler \<Rightarrow> route \<Rightarrow> http_request \<Rightarrow> http_writer \<Rightarrow> 'w hst \<Rightarrow> (bool \<times> http_writer \<times> 'w hst) option" where
  "serve_route H rt r wr st = map_option (\<lambda>(wr, st). (False, wr, st)) (serve H rt r wr st)"

text \<open>The whole server: only \<open>/metrics\<close> is registered without instrumentation.\<close>

definition serve_wire ::
  "'f float_ops \<Rightarrow> 'w handler \<Rightarrow> (dispatched \<Rightarrow> http_writer) \<Rightarrow> wire_request \<Rightarrow> duration \<Rightarrow>
   'w hst \<times> 'f metrics_registry \<Rightarrow> (http_writer \<times> 'w hst \<times> 'f metrics_registry) option" where
  "serve_wire F H other q d = (\<lambda>(st, m).
     case dispatch (wq_method q) (wq_path q) of
       Matched p (Api rt) vs \<Rightarrow> instrument_http F p (serve_route H rt) (routed_request q vs) d (st, m)
     | Matched p MetricsEndpoint vs \<Rightarrow> Some (prometheus_metrics F m (routed_request q vs) new_writer (fst st), st, m)
     | x \<Rightarrow> Some (other x, st, m))"

end
