(* ===== verification/MuxProps.thy ===== *)
theory MuxProps
  imports Mux AgentClientProps
begin

text \<open>
  The routing table: no request has two handlers, every route is reached for every name that its client escapes, and
  the metrics of the requests have labels from a fixed set whatever the clients send.
\<close>

subsection \<open>One handler\<close>

definition may_overlap :: "string list \<Rightarrow> string list \<Rightarrow> bool" where
  "may_overlap ps qs = list_all2 (\<lambda>p q. wildcard_name p \<noteq> None \<or> wildcard_name q \<noteq> None \<or> p = q) ps qs"

definition may_conflict :: "string \<times> endpoint \<Rightarrow> string \<times> endpoint \<Rightarrow> bool" where
  "may_conflict x y \<longleftrightarrow>
     (pattern_method (fst x) = pattern_method (fst y) \<or> pattern_method (fst x) = ''HEAD'' \<or> pattern_method (fst y) = ''HEAD'') \<and>
     may_overlap (pattern_segments (fst x)) (pattern_segments (fst y))"

lemma matches_overlap:
  "match_segments ps ss = Some vs \<Longrightarrow> match_segments qs ss = Some us \<Longrightarrow> may_overlap ps qs"
proof (induction ps ss arbitrary: qs vs us rule: match_segments.induct)
  case (2 p ps s ss)
  then show ?case
    by (cases qs) (auto simp: may_overlap_def split: option.splits if_splits)
qed (auto simp: may_overlap_def elim: match_segments.elims)

lemma route_table: "sorted_wrt (\<lambda>x y. \<not> may_conflict x y) route_patterns"
  by code_simp

definition claims :: "string \<Rightarrow> string list \<Rightarrow> string \<times> endpoint \<Rightarrow> bool" where
  "claims m segs x \<longleftrightarrow> method_matches (fst x) m \<and> match_segments (pattern_segments (fst x)) segs \<noteq> None"

lemma claims_conflict: "claims m segs x \<Longrightarrow> claims m segs y \<Longrightarrow> may_conflict x y"
  by (auto simp: claims_def may_conflict_def method_matches_def intro: matches_overlap)

lemma at_most_one: "sorted_wrt (\<lambda>x y. \<not> (P x \<and> P y)) xs \<Longrightarrow> length (filter P xs) \<le> 1"
  by (induction xs) (auto simp: filter_empty_conv)

text \<open>No request is claimed by two patterns, so which of them the mux tries first does not matter.\<close>

theorem route_unambiguous: "length (filter (claims m segs) route_patterns) \<le> 1"
  by (rule at_most_one, rule sorted_wrt_mono_rel [OF _ route_table]) (use claims_conflict in blast)

lemma first_match_unique:
  assumes "length (filter (claims m segs) ps) \<le> 1" and "(p, e) \<in> set ps" and "method_matches p m"
    and "match_segments (pattern_segments p) segs = Some vs"
  shows "first_match ps (\<lambda>p. method_matches p m) segs = Some (p, e, vs)"
  using assms(1,2)
proof (induction ps)
  case (Cons x ps)
  obtain q f where x: "x = (q, f)" by (metis prod.collapse)
  show ?case
  proof (cases "claims m segs x")
    case True
    with Cons.prems(1) have "filter (claims m segs) ps = []" by simp
    then have "(p, e) \<notin> set ps" using assms(3,4) by (auto simp: filter_empty_conv claims_def)
    with Cons.prems(2) x have "q = p" "f = e" by auto
    then show ?thesis using x assms(3,4) by simp
  next
    case False
    then have "(p, e) \<in> set ps" using Cons.prems(2) assms(3,4) x by (auto simp: claims_def)
    then have "first_match ps (\<lambda>p. method_matches p m) segs = Some (p, e, vs)" using Cons False by simp
    with False x show ?thesis by (auto simp: claims_def split: option.split)
  qed
qed simp

subsection \<open>Every name reaches its route\<close>

lemma hex_digit_upper: "n < 16 \<Longrightarrow> hex_digit (upper_hex n) = Some n"
  by (auto simp: hex_digit_def upper_hex_def Let_def)

lemma url_unescape_path_escape: "url_unescape False (path_escape s) = Some s"
proof (induction s)
  case (Cons c s)
  show ?case
  proof (cases "path_unescaped c")
    case True
    then have "c \<noteq> CHR ''%''" using percent_escaped by metis
    with True Cons show ?thesis by (simp add: path_escape_def escape_char_def)
  next
    case False
    then have "path_escape (c # s) =
        CHR ''%'' # upper_hex (of_char c div 16) # upper_hex (of_char c mod 16) # path_escape s"
      by (simp add: path_escape_def escape_char_def Let_def)
    then show ?thesis using Cons by (simp add: hex_digit_upper of_char_div_16)
  qed
qed (simp add: path_escape_def)

lemma segment_value_escape [simp]: "segment_value (path_escape s) = s"
  by (simp add: segment_value_def url_unescape_path_escape)

text \<open>A name that \<open>cleanPath\<close> leaves alone and a wildcard takes\<close>

definition plain_name :: "string \<Rightarrow> bool" where
  "plain_name s \<longleftrightarrow> s \<noteq> [] \<and> s \<noteq> ''.'' \<and> s \<noteq> ''..'' \<and> s \<noteq> ''/''"

definition literal_ok :: "string \<Rightarrow> bool" where
  "literal_ok seg \<longleftrightarrow> plain_name seg \<and> CHR ''/'' \<notin> set seg \<and> segment_value seg = seg"

definition fill_segment :: "(string \<Rightarrow> string) \<Rightarrow> string \<Rightarrow> string" where
  "fill_segment v seg = (case wildcard_name seg of None \<Rightarrow> seg | Some n \<Rightarrow> path_escape (v n))"

definition route_path :: "string \<Rightarrow> (string \<Rightarrow> string) \<Rightarrow> string" where
  "route_path p v = ''/'' @ join ''/'' (map (fill_segment v) (pattern_segments p))"

definition values_of :: "(string \<Rightarrow> string) \<Rightarrow> string list \<Rightarrow> (string \<times> string) list" where
  "values_of v segs = map (\<lambda>n. (n, v n)) (List.map_filter wildcard_name segs)"

lemma pattern_literals:
  "list_all (\<lambda>x. pattern_segments (fst x) \<noteq> [] \<and> list_all (\<lambda>seg. wildcard_name seg \<noteq> None \<or> literal_ok seg) (pattern_segments (fst x)))
     route_patterns"
  by code_simp

lemma path_escape_plain: "plain_name s \<Longrightarrow> path_escape s \<noteq> [] \<and> path_escape s \<noteq> ''.'' \<and> path_escape s \<noteq> ''..''"
proof -
  have dots: "path_escape [] = []" "path_escape ''.'' = ''.''" "path_escape ''..'' = ''..''" by code_simp+
  assume "plain_name s"
  then show ?thesis unfolding plain_name_def using path_escape_inj dots by metis
qed

lemma fill_segment_ok:
  assumes "wildcard_name seg \<noteq> None \<or> literal_ok seg" and "\<And>n. plain_name (v n)"
  shows "fill_segment v seg \<noteq> []" "fill_segment v seg \<noteq> ''.''" "fill_segment v seg \<noteq> ''..''" "CHR ''/'' \<notin> set (fill_segment v seg)"
    "segment_value (fill_segment v seg) = (case wildcard_name seg of None \<Rightarrow> seg | Some n \<Rightarrow> v n)"
proof -
  have "fill_segment v seg \<noteq> [] \<and> fill_segment v seg \<noteq> ''.'' \<and> fill_segment v seg \<noteq> ''..'' \<and> CHR ''/'' \<notin> set (fill_segment v seg) \<and>
    segment_value (fill_segment v seg) = (case wildcard_name seg of None \<Rightarrow> seg | Some n \<Rightarrow> v n)"
  proof (cases "wildcard_name seg")
    case None
    with assms(1) show ?thesis by (simp add: fill_segment_def literal_ok_def plain_name_def)
  next
    case (Some n)
    with path_escape_plain [OF assms(2)] escape_no_slash show ?thesis by (simp add: fill_segment_def)
  qed
  then show "fill_segment v seg \<noteq> []" "fill_segment v seg \<noteq> ''.''" "fill_segment v seg \<noteq> ''..''" "CHR ''/'' \<notin> set (fill_segment v seg)"
    "segment_value (fill_segment v seg) = (case wildcard_name seg of None \<Rightarrow> seg | Some n \<Rightarrow> v n)" by blast+
qed

lemma clean_segmentsI:
  assumes "segs \<noteq> []" and "\<And>x. x \<in> set segs \<Longrightarrow> x \<noteq> [] \<and> x \<noteq> ''.'' \<and> x \<noteq> ''..''"
  shows "clean_segments segs"
  unfolding clean_segments_def list_all_iff using assms(1) assms(2) [OF in_set_butlastD] assms(2) [OF last_in_set [OF assms(1)]] by blast

lemma last_mapped: "xs \<noteq> [] \<Longrightarrow> last xs \<noteq> [] \<Longrightarrow> map f (butlast xs) @ [if last xs = [] then c else f (last xs)] = map f xs"
  by (induction xs) auto

lemma match_filled:
  assumes "list_all (\<lambda>seg. wildcard_name seg \<noteq> None \<or> literal_ok seg) segs" and "\<And>n. plain_name (v n)"
  shows "match_segments segs (map segment_value (map (fill_segment v) segs)) = Some (values_of v segs)"
  using assms(1)
proof (induction segs)
  case (Cons seg segs)
  have "v n \<noteq> ''/''" for n using assms(2) by (simp add: plain_name_def)
  with Cons show ?case
    using fill_segment_ok(5) [of seg v] assms(2) by (auto simp: values_of_def List.map_filter_simps split: option.splits)
qed (simp add: values_of_def List.map_filter_simps)

theorem dispatch_reaches_route:
  assumes "(p, e) \<in> set route_patterns" and "method_matches p m" and "\<And>n. plain_name (v n)"
  shows "dispatch m (route_path p v) = Matched p e (values_of v (pattern_segments p))"
proof -
  let ?segs = "pattern_segments p" and ?filled = "map (fill_segment v) (pattern_segments p)"
  have lit: "list_all (\<lambda>seg. wildcard_name seg \<noteq> None \<or> literal_ok seg) ?segs" and ne: "?segs \<noteq> []"
    using pattern_literals assms(1) by (auto simp: list_all_iff)
  have ok: "fill_segment v seg \<noteq> [] \<and> fill_segment v seg \<noteq> ''.'' \<and> fill_segment v seg \<noteq> ''..'' \<and> CHR ''/'' \<notin> set (fill_segment v seg)"
    if "seg \<in> set ?segs" for seg
    using fill_segment_ok(1-4) [of seg v] assms(3) lit that by (auto simp: list_all_iff)
  have split: "split_on CHR ''/'' (route_path p v) = [] # ?filled"
    unfolding route_path_def using split_on_join [of ?filled "CHR ''/''"] ne ok by auto
  have clean: "clean_segments ?filled"
  proof (rule clean_segmentsI)
    show "?filled \<noteq> []" using ne by simp
    show "x \<noteq> [] \<and> x \<noteq> ''.'' \<and> x \<noteq> ''..''" if "x \<in> set ?filled" for x
    proof -
      from that obtain seg where x: "x = fill_segment v seg" and seg: "seg \<in> set ?segs" unfolding set_map by (rule imageE)
      show ?thesis unfolding x using ok [OF seg] by argo
    qed
  qed
  have vals: "map segment_value (butlast ?filled) @ [if last ?filled = [] then ''/'' else segment_value (last ?filled)] = map segment_value ?filled"
    by (rule last_mapped) (use ne ok [OF last_in_set [OF ne]] in \<open>simp_all add: last_map\<close>)
  show ?thesis
    unfolding dispatch_def split Let_def list.case vals
    using clean first_match_unique [OF route_unambiguous assms(1,2) match_filled [OF lit assms(3)]] by simp
qed

subsection \<open>Request metrics\<close>

text \<open>The requests of a server one after the other, each with the time it took; None when one of them never returns\<close>

fun serve_requests ::
  "'f float_ops \<Rightarrow> 'w handler \<Rightarrow> (dispatched \<Rightarrow> http_writer) \<Rightarrow> (wire_request \<times> duration) list \<Rightarrow>
   'w hst \<times> 'f metrics_registry \<Rightarrow> ('w hst \<times> 'f metrics_registry) option" where
  "serve_requests F H other [] st = Some st"
| "serve_requests F H other ((q, d) # qs) st =
     (case serve_wire F H other q d st of None \<Rightarrow> None | Some (wr, st) \<Rightarrow> serve_requests F H other qs st)"

definition api_request :: "wire_request \<Rightarrow> bool" where
  "api_request q = (case dispatch (wq_method q) (wq_path q) of Matched p (Api rt) vs \<Rightarrow> True | _ \<Rightarrow> False)"

definition request_methods :: "string list" where
  "request_methods = [''GET'', ''HEAD'', ''POST'', ''DELETE'']"

definition request_labels :: "label list \<Rightarrow> bool" where
  "request_labels ls \<longleftrightarrow>
     map lb_name ls = [''code'', ''method'', ''route''] \<and> lb_value (ls ! 1) \<in> set request_methods \<and>
     lb_value (ls ! 2) \<in> set (map (route_label \<circ> fst) route_patterns)"

definition observed :: "'f metrics_registry \<Rightarrow> 64 word" where
  "observed m = sum_list (map (hi_count \<circ> snd) (me_histograms m))"

definition request_metrics_ok :: "'f metrics_registry \<Rightarrow> bool" where
  "request_metrics_ok m \<longleftrightarrow>
     list_all (\<lambda>(k, s). co_name s = ''aap_config_server_http_requests_total'' \<and> request_labels (co_labels s)) (me_counters m) \<and>
     list_all (\<lambda>(k, s). hi_name s = ''aap_config_server_http_request_duration_seconds'' \<and> request_labels (hi_labels s)) (me_histograms m)"

lemma set_mput: "set (mput k v m) \<subseteq> insert (k, v) (set m)"
  by (induction k v m rule: mput.induct) auto

lemma list_all_mput: "P (k, v) \<Longrightarrow> list_all P m \<Longrightarrow> list_all P (mput k v m)"
  unfolding list_all_iff using set_mput by fastforce

lemma sum_mput:
  fixes g :: "'v \<Rightarrow> 'a :: ab_group_add"
  shows "sum_list (map (g \<circ> snd) (mput k v m)) =
     sum_list (map (g \<circ> snd) m) - (case mget m k of None \<Rightarrow> 0 | Some u \<Rightarrow> g u) + g v"
  by (induction k v m rule: mput.induct) (auto simp: algebra_simps split: option.splits)

lemma observed_once: "observed (observe_histogram F name ls v m) = observed m + 1"
  by (auto simp: observed_def observe_histogram_def Let_def sum_mput observe_def split: option.split)

lemma observed_request [simp]: "observed (record_http_request F meth route code d m) = observed m + 1"
  by (simp add: record_http_request_def record_sample_def observed_once) (simp add: observed_def add_counter_def Let_def)

definition labels_of_request :: "string \<Rightarrow> string \<Rightarrow> int \<Rightarrow> label list" where
  "labels_of_request meth route code = \<lparr>lb_name = ''code'', lb_value = show_int code\<rparr> # two_labels ''method'' meth ''route'' route"

lemma normalize_request_labels: "normalize_labels (labels_of_request meth route code) = labels_of_request meth route code"
  unfolding normalize_labels_def labels_of_request_def two_labels_def by simp

lemma add_counter_series:
  assumes "list_all (\<lambda>(k, s). co_name s = name \<and> P (co_labels s)) (me_counters m)" and "P (normalize_labels ls)"
  shows "list_all (\<lambda>(k, s). co_name s = name \<and> P (co_labels s)) (me_counters (add_counter F name ls v m))"
    "me_histograms (add_counter F name ls v m) = me_histograms m"
proof -
  have old: "co_name s = name \<and> P (co_labels s)" if "mget (me_counters m) k = Some s" for k s
    using assms(1) mget_Some_in [OF that] by (auto simp: list_all_iff)
  show "list_all (\<lambda>(k, s). co_name s = name \<and> P (co_labels s)) (me_counters (add_counter F name ls v m))"
    using old assms by (auto simp: add_counter_def Let_def intro!: list_all_mput split: option.split)
qed (simp add: add_counter_def Let_def)

lemma observe_series:
  assumes "list_all (\<lambda>(k, s). hi_name s = name \<and> P (hi_labels s)) (me_histograms m)" and "P (normalize_labels ls)"
  shows "list_all (\<lambda>(k, s). hi_name s = name \<and> P (hi_labels s)) (me_histograms (observe_histogram F name ls v m))"
    "me_counters (observe_histogram F name ls v m) = me_counters m"
proof -
  have old: "hi_name s = name \<and> P (hi_labels s)" if "mget (me_histograms m) k = Some s" for k s
    using assms(1) mget_Some_in [OF that] by (auto simp: list_all_iff)
  show "list_all (\<lambda>(k, s). hi_name s = name \<and> P (hi_labels s)) (me_histograms (observe_histogram F name ls v m))"
    using old assms by (auto simp: observe_histogram_def observe_def Let_def intro!: list_all_mput split: option.split)
qed (simp add: observe_histogram_def Let_def)

lemma record_request_ok:
  assumes "request_metrics_ok m" and "request_labels (labels_of_request meth route code)" and "route \<noteq> []"
  shows "request_metrics_ok (record_http_request F meth route code d m)"
proof -
  have rec: "record_http_request F meth route code d m =
      record_sample F ''aap_config_server_http_requests_total'' ''aap_config_server_http_request_duration_seconds''
        (labels_of_request meth route code) d m"
    using assms(3) by (simp add: record_http_request_def labels_of_request_def)
  let ?C = "''aap_config_server_http_requests_total''" and ?H = "''aap_config_server_http_request_duration_seconds''"
    and ?ls = "labels_of_request meth route code"
  have ls: "request_labels (normalize_labels ?ls)" using assms(2) by (simp add: normalize_request_labels)
  let ?m1 = "add_counter F ?C ?ls (fo_of_count F 1) m"
  have m: "list_all (\<lambda>(k, s). co_name s = ?C \<and> request_labels (co_labels s)) (me_counters m)"
    "list_all (\<lambda>(k, s). hi_name s = ?H \<and> request_labels (hi_labels s)) (me_histograms m)"
    using assms(1) unfolding request_metrics_ok_def by simp_all
  note c = add_counter_series [OF m(1) ls, of F "fo_of_count F 1"]
  have "list_all (\<lambda>(k, s). hi_name s = ?H \<and> request_labels (hi_labels s)) (me_histograms ?m1)" unfolding c(2) by (rule m(2))
  from observe_series [OF this ls, of F "fo_seconds F d"] c(1) show ?thesis
    unfolding rec record_sample_def request_metrics_ok_def by simp
qed

lemma route_labels_ok:
  "list_all (\<lambda>x. route_label (fst x) \<noteq> [] \<and> pattern_method (fst x) \<in> set [''GET'', ''POST'', ''DELETE'']) route_patterns"
  by code_simp

lemma first_match_in: "first_match ps ok segs = Some (p, e, vs) \<Longrightarrow> (p, e) \<in> set ps \<and> ok p"
  by (induction ps ok segs rule: first_match.induct) (auto split: option.splits if_splits)

lemma dispatch_in: "dispatch m path = Matched p e vs \<Longrightarrow> (p, e) \<in> set route_patterns \<and> method_matches p m"
  by (auto simp: dispatch_def Let_def dest!: first_match_in split: list.splits if_splits option.splits)

lemma matched_labels:
  assumes "dispatch m path = Matched p e vs"
  shows "request_labels (labels_of_request m (route_label p) code) \<and> route_label p \<noteq> []"
proof -
  from dispatch_in [OF assms] have p: "(p, e) \<in> set route_patterns" and m: "method_matches p m" by simp_all
  from p route_labels_ok have l: "route_label p \<noteq> []" "pattern_method p \<in> set [''GET'', ''POST'', ''DELETE'']" by (auto simp: list_all_iff)
  with m have "m \<in> set request_methods" by (auto simp: method_matches_def request_methods_def)
  moreover have "route_label p \<in> set (map (route_label \<circ> fst) route_patterns)" using p by force
  ultimately show ?thesis using l(1) by (simp add: request_labels_def labels_of_request_def two_labels_def)
qed

lemma serve_wire_metrics:
  assumes "serve_wire F H other q d (st, m) = Some (wr, st', m')" and "request_metrics_ok m"
  shows "request_metrics_ok m' \<and> observed m' = observed m + of_bool (api_request q)"
proof (cases "dispatch (wq_method q) (wq_path q)")
  case (Matched p e vs)
  show ?thesis
  proof (cases e)
    case (Api rt)
    with Matched assms(1) obtain code where m': "m' = record_http_request F (wq_method q) (route_label p) code d m"
      by (auto simp: serve_wire_def instrument_http_def routed_request_def Let_def split: option.splits)
    show ?thesis
      using matched_labels [OF Matched] record_request_ok [OF assms(2)] Api Matched by (simp add: m' api_request_def)
  qed (use Matched assms in \<open>simp add: serve_wire_def api_request_def\<close>)
qed (use assms in \<open>simp_all add: serve_wire_def api_request_def\<close>)

text \<open>A panic is a 500 unless an answer was on its way, and it is counted with what the client got.\<close>

lemma panic_is_answered:
  assumes "next_handler r new_writer st = Some (True, wr, st')"
  shows "instrument_http F p next_handler r d (st, m) =
     (let code = (case hw_status wr of None \<Rightarrow> 500 | Some c \<Rightarrow> c) in
      Some (wr\<lparr>hw_status := Some code\<rparr>, st', record_http_request F (rq_method r) (route_label p) (int code) d m))"
  using assms by (cases wr) (auto simp: instrument_http_def status_code_def write_header_def Let_def split: option.split)


end
