(* ===== verification/AgentMain.thy ===== *)
theory AgentMain
  imports AgentConfig AgentKube
begin

text \<open>
  The agent's command (cmd/config-agent/main.go), which fetches once and reports what it could read, and
  \<open>RunLeaderElection\<close> of internal/agent/leader.go up to the elector of client-go, which is a parameter.
\<close>

subsection \<open>The command\<close>

datatype log_level = LevelDebug | LevelInfo | LevelWarn | LevelError

definition setup_logger :: "string \<Rightarrow> log_level" where
  "setup_logger level =
     (if level = ''debug'' then LevelDebug else if level = ''warn'' then LevelWarn
      else if level = ''error'' then LevelError else LevelInfo)"

text \<open>The client as the interface that the loop and the dry run read from; a fetch without an error has a snapshot.\<close>

definition snapshot_client_of :: "'w client_lib \<Rightarrow> client \<Rightarrow> 'w snapshot_client" where
  "snapshot_client_of C c =
     \<lparr>sc_fetch_config = (\<lambda>r w. apfst (map_sum id Some) (fetch_config C c r w)),
      sc_fetch_env_vars = (\<lambda>r rs w. apfst (map_sum id Some) (fetch_env_vars C c r rs w))\<rparr>"

text \<open>
  What the loop and the dry run rely on: \<open>SnapshotClient\<close> in Go may return a nil snapshot with a nil error, which the loop
  refuses and the dry run would dereference.
\<close>

locale snapshot_source =
  fixes S :: "'w snapshot_client"
  assumes config_present: "fst (sc_fetch_config S r w) \<noteq> Inr None"
    and env_vars_present: "fst (sc_fetch_env_vars S r rs w) \<noteq> Inr None"
begin

lemma dry_run_returns: "fst (run_dry_run (Some cfg) (Some S) w) \<noteq> None"
proof -
  obtain x w1 where c: "sc_fetch_config S (agent_service_ref cfg) w = (x, w1)" by (metis prod.collapse)
  obtain y w2 where v: "sc_fetch_env_vars S (agent_service_ref cfg) (ac_resolve_secrets cfg) w1 = (y, w2)" by (metis prod.collapse)
  from c v config_present [of "agent_service_ref cfg" w] env_vars_present [of "agent_service_ref cfg" "ac_resolve_secrets cfg" w1]
  show ?thesis by (auto simp: run_dry_run_def Let_def split: sum.split option.split)
qed

lemma fetch_failure:
  assumes "fe_client E = S" and "fetch_once E l w = (Inl e, w')"
  shows "(\<exists>w. fst (sc_fetch_config S (fc_ref (fl_cfg l)) w) = Inl e) \<or>
    (\<exists>w. fst (sc_fetch_env_vars S (fc_ref (fl_cfg l)) (fc_resolve_secrets (fl_cfg l)) w) = Inl e) \<or>
    (\<exists>m e'. fe_marshal_config E m = Inl e') \<or> (\<exists>v e'. fe_marshal_env_vars E v = Inl e')"
proof -
  obtain x w1 where c: "sc_fetch_config S (fc_ref (fl_cfg l)) w = (x, w1)" by (metis prod.collapse)
  obtain y w2 where v: "sc_fetch_env_vars S (fc_ref (fl_cfg l)) (fc_resolve_secrets (fl_cfg l)) w1 = (y, w2)" by (metis prod.collapse)
  have x: "x \<noteq> Inr None" and y: "y \<noteq> Inr None" using c v config_present env_vars_present by (metis fst_conv)+
  consider e' where "x = Inl e'" | cs e' where "x = Inr (Some cs)" "y = Inl e'" | cs es where "x = Inr (Some cs)" "y = Inr (Some es)"
    using x y by (cases x; cases y) auto
  then show ?thesis
  proof cases
    case 1
    with c assms have "fst (sc_fetch_config S (fc_ref (fl_cfg l)) w) = Inl e" by (simp add: fetch_once_def)
    then show ?thesis by blast
  next
    case 2
    with c v assms have "fst (sc_fetch_env_vars S (fc_ref (fl_cfg l)) (fc_resolve_secrets (fl_cfg l)) w1) = Inl e"
      by (simp add: fetch_once_def)
    then show ?thesis by blast
  next
    case 3
    with c v assms show ?thesis by (auto simp: fetch_once_def hash_json_def split: sum.splits)
  qed
qed

end

interpretation http: snapshot_source "snapshot_client_of C c" for C :: "'w client_lib" and c
proof (unfold_locales)
  show "fst (sc_fetch_config (snapshot_client_of C c) r w) \<noteq> Inr None" for r w
    by (cases "fetch_config C c r w"; cases "fst (fetch_config C c r w)") (simp_all add: snapshot_client_of_def)
  show "fst (sc_fetch_env_vars (snapshot_client_of C c) r rs w) \<noteq> Inr None" for r rs w
    by (cases "fetch_env_vars C c r rs w"; cases "fst (fetch_env_vars C c r rs w)") (simp_all add: snapshot_client_of_def)
qed

text \<open>
  \<open>main\<close>: the exit code, with what is logged when it is 0. \<open>lib\<close> makes the HTTP client with its timeout. The branch of a nil
  snapshot is not reached (\<open>http.dry_run_returns\<close>).
\<close>

definition agent_main ::
  "(duration \<Rightarrow> 'w client_lib) \<Rightarrow> go_parse \<Rightarrow> (string \<Rightarrow> goerr + go_url) \<Rightarrow> string list \<Rightarrow> getenv \<Rightarrow> 'w \<Rightarrow>
   (nat + dry_run_result) \<times> 'w" where
  "agent_main lib P parse args getenv w =
     (case load_agent_config P parse args (Some getenv) of
        Inl e \<Rightarrow> (Inl 2, w)
      | Inr cfg \<Rightarrow>
          (let C = lib (ac_http_timeout cfg) in
           case new_client C \<lparr>co_base_url = ac_config_server_url cfg, co_api_key = ac_api_key cfg, co_max_response_bytes = 0\<rparr> of
             Inl e \<Rightarrow> (Inl 2, w)
           | Inr c \<Rightarrow>
               (case run_dry_run (Some cfg) (Some (snapshot_client_of C c)) w of
                  (None, w) \<Rightarrow> (Inl 2, w)
                | (Some (Inl e), w) \<Rightarrow> (Inl 1, w)
                | (Some (Inr result), w) \<Rightarrow> (Inr result, w))))"

subsection \<open>Leader election\<close>

text \<open>The configuration handed to client-go: the lease lock, the times, and the callbacks as they are\<close>

record 'cb elector_config =
  ec_lock_namespace :: string
  ec_lock_name :: string
  ec_lock_identity :: string
  ec_lease_duration :: duration
  ec_renew_deadline :: duration
  ec_retry_period :: duration
  ec_release_on_cancel :: bool
  ec_name :: string
  ec_callbacks :: 'cb

definition elector_config_of :: "leader_config \<Rightarrow> 'cb \<Rightarrow> 'cb elector_config" where
  "elector_config_of cfg callbacks =
     \<lparr>ec_lock_namespace = lc_namespace cfg, ec_lock_name = lc_lease_name cfg, ec_lock_identity = lc_identity cfg,
      ec_lease_duration = lc_lease_duration cfg, ec_renew_deadline = lc_renew_deadline cfg, ec_retry_period = lc_retry_period cfg,
      ec_release_on_cancel = lc_release_on_cancel cfg, ec_name = lc_lease_name cfg, ec_callbacks = callbacks\<rparr>"

text \<open>
  \<open>new_elector\<close> is \<open>NewLeaderElector\<close>: an error, or the run of the elector, which returns when the context is done. The
  flags say whether there is a context and a client.
\<close>

definition run_leader_election ::
  "'w kube \<Rightarrow> ('cb elector_config \<Rightarrow> goerr + ('w \<Rightarrow> 'w)) \<Rightarrow> bool \<Rightarrow> bool \<Rightarrow> leader_config \<Rightarrow> 'cb \<Rightarrow> 'w \<Rightarrow> goerr option \<times> 'w" where
  "run_leader_election K new_elector has_ctx has_client cfg callbacks w =
     (if \<not> has_ctx then (Some (errf [''context is required'']), w)
      else if \<not> has_client then (Some (errf [''kubernetes client is required'']), w)
      else
        (let cfg = leader_normalized cfg in
         case validate_leader K cfg of
           Some e \<Rightarrow> (Some e, w)
         | None \<Rightarrow>
             (case new_elector (elector_config_of cfg callbacks) of
                Inl e \<Rightarrow> (Some (wrapf [''create leader elector''] e), w)
              | Inr run \<Rightarrow> (None, run w))))"

end
