(* ===== verification/AgentServer.thy ===== *)
theory AgentServer
  imports MuxProps FetchLoopProps SecretReads AgentMain AgentConfigProps
begin

text \<open>
  The agent against the server: the client of internal/agent/client.go whose requests are answered by the handlers of
  internal/handler through the routing table. What lies between them is net/http (which asks for gzip and undoes it)
  and encoding/json, whose round trip is the hypothesis \<open>json_laws\<close>.
\<close>

subsection \<open>The wire\<close>

definition body_bytes :: "'w handler \<Rightarrow> http_payload \<Rightarrow> bytes" where
  "body_bytes H b =
     (let encoded = (\<lambda>j. case hv_marshal (hn_env H) j of Inl e \<Rightarrow> [] | Inr data \<Rightarrow> data @ [newline]) in
      case b of NoBody \<Rightarrow> [] | TextBody s \<Rightarrow> s | JsonBody j \<Rightarrow> encoded j | GzipBody j \<Rightarrow> encoded j)"

definition wire_request_of :: "go_url \<Rightarrow> (string \<times> string) list \<Rightarrow> wire_request" where
  "wire_request_of url hdrs =
     \<lparr>wq_method = ''GET'', wq_path = url_raw_path url, wq_query = url_raw_query url,
      wq_header = (\<lambda>k. case map_of hdrs k of Some v \<Rightarrow> v | None \<Rightarrow> if k = ''Accept-Encoding'' then ''gzip'' else []),
      wq_body = \<lparr>bs_data = [], bs_err = None\<rparr>\<rparr>"

type_synonym ('w, 'f) net = "'w hst \<times> 'f metrics_registry"

definition exchange ::
  "'f float_ops \<Rightarrow> 'w handler \<Rightarrow> (dispatched \<Rightarrow> http_writer) \<Rightarrow> duration \<Rightarrow> go_url \<Rightarrow> (string \<times> string) list \<Rightarrow>
   ('w, 'f) net \<Rightarrow> (goerr + int \<times> (goerr + bytes)) \<times> ('w, 'f) net" where
  "exchange F H other d url hdrs n =
     (case serve_wire F H other (wire_request_of url hdrs) d n of
        None \<Rightarrow> (Inl (Sent CtxDeadlineExceeded), n)
      | Some (wr, n) \<Rightarrow> (Inr (int (status_code wr), Inr (body_bytes H (hw_body wr))), n))"

definition connected ::
  "'f float_ops \<Rightarrow> 'w handler \<Rightarrow> (dispatched \<Rightarrow> http_writer) \<Rightarrow> duration \<Rightarrow> ('w, 'f) net client_lib \<Rightarrow> ('w, 'f) net client_lib" where
  "connected F H other d C = C\<lparr>http_do := exchange F H other d\<rparr>"

text \<open>A client of a server at the root of its host, with a usable limit\<close>

definition root_client :: "('w, 'f) net client_lib \<Rightarrow> client \<Rightarrow> bool" where
  "root_client C c \<longleftrightarrow>
     trim_right_slashes (escaped_path C ((cl_base_url c)\<lparr>url_raw_query := [], url_fragment := []\<rparr>)) = [] \<and>
     0 < cl_max_response_bytes c \<and> cl_max_response_bytes c < 2 ^ 63 - 1"

subsection \<open>Requests\<close>

definition service_values :: "service_ref \<Rightarrow> string \<Rightarrow> string" where
  "service_values r n = (if n = ''org'' then ref_org r else if n = ''project'' then ref_project r else ref_service r)"

definition plain_ref :: "service_ref \<Rightarrow> bool" where
  "plain_ref r \<longleftrightarrow> plain_name (ref_org r) \<and> plain_name (ref_project r) \<and> plain_name (ref_service r)"

definition config_pattern :: string where
  "config_pattern = ''GET /api/v1/orgs/{org}/projects/{project}/services/{service}/config''"

definition env_vars_pattern :: string where
  "env_vars_pattern = ''GET /api/v1/orgs/{org}/projects/{project}/services/{service}/env_vars''"

lemma agent_patterns:
  "pattern_segments config_pattern =
     [''api'', ''v1'', ''orgs'', ''{org}'', ''projects'', ''{project}'', ''services'', ''{service}'', ''config'']"
  "pattern_segments env_vars_pattern =
     [''api'', ''v1'', ''orgs'', ''{org}'', ''projects'', ''{project}'', ''services'', ''{service}'', ''env_vars'']"
  "(config_pattern, Api RConfig) \<in> set route_patterns" "(env_vars_pattern, Api REnvVars) \<in> set route_patterns"
  "method_matches config_pattern ''GET''" "method_matches env_vars_pattern ''GET''"
  by code_simp+

lemma literal_segments:
  "map path_escape [''api'', ''v1'', ''orgs'', ''projects'', ''services'', ''config'', ''env_vars''] =
     [''api'', ''v1'', ''orgs'', ''projects'', ''services'', ''config'', ''env_vars'']"
  "map wildcard_name [''api'', ''v1'', ''orgs'', ''projects'', ''services'', ''config'', ''env_vars''] =
     [None, None, None, None, None, None, None]"
  "map wildcard_name [''{org}'', ''{project}'', ''{service}''] = [Some ''org'', Some ''project'', Some ''service'']"
  by code_simp+

lemma agent_paths:
  assumes "root_client C c"
  shows "url_raw_path (service_endpoint C c r ''config'') = route_path config_pattern (service_values r)"
    "url_raw_path (service_endpoint C c r ''env_vars'') = route_path env_vars_pattern (service_values r)"
  using assms literal_segments
  by (simp_all add: root_client_def service_endpoint_def join_url_path_def Let_def route_path_def agent_patterns fill_segment_def
      service_values_def)

lemma agent_values:
  "values_of (service_values r) (pattern_segments config_pattern) =
     [(''org'', ref_org r), (''project'', ref_project r), (''service'', ref_service r)]"
  "values_of (service_values r) (pattern_segments env_vars_pattern) =
     [(''org'', ref_org r), (''project'', ref_project r), (''service'', ref_service r)]"
  using literal_segments by (simp_all add: agent_patterns values_of_def service_values_def List.map_filter_simps)

lemma agent_dispatch:
  assumes "root_client C c" and "plain_ref r"
  shows "dispatch ''GET'' (url_raw_path (service_endpoint C c r ''config'')) =
      Matched config_pattern (Api RConfig) [(''org'', ref_org r), (''project'', ref_project r), (''service'', ref_service r)]"
    "dispatch ''GET'' (url_raw_path (service_endpoint C c r ''env_vars'')) =
      Matched env_vars_pattern (Api REnvVars) [(''org'', ref_org r), (''project'', ref_project r), (''service'', ref_service r)]"
proof -
  have plain: "plain_name (service_values r n)" for n using assms(2) by (simp add: plain_ref_def service_values_def)
  show "dispatch ''GET'' (url_raw_path (service_endpoint C c r ''config'')) =
      Matched config_pattern (Api RConfig) [(''org'', ref_org r), (''project'', ref_project r), (''service'', ref_service r)]"
    unfolding agent_paths [OF assms(1)] dispatch_reaches_route [OF agent_patterns(3,5) plain] agent_values ..
  show "dispatch ''GET'' (url_raw_path (service_endpoint C c r ''env_vars'')) =
      Matched env_vars_pattern (Api REnvVars) [(''org'', ref_org r), (''project'', ref_project r), (''service'', ref_service r)]"
    unfolding agent_paths [OF assms(1)] dispatch_reaches_route [OF agent_patterns(4,6) plain] agent_values ..
qed

definition agent_request :: "client \<Rightarrow> go_url \<Rightarrow> service_ref \<Rightarrow> http_request" where
  "agent_request c url r =
     routed_request (wire_request_of url (request_headers c))
       [(''org'', ref_org r), (''project'', ref_project r), (''service'', ref_service r)]"

lemma agent_request_path [simp]:
  "rq_path (agent_request c url r) ''org'' = ref_org r" "rq_path (agent_request c url r) ''project'' = ref_project r"
  "rq_path (agent_request c url r) ''service'' = ref_service r"
  by (simp_all add: agent_request_def routed_request_def path_value_def)

lemma agent_request_headers [simp]:
  "rq_header (agent_request c url r) ''If-None-Match'' = []"
  "rq_header (agent_request c url r) ''X-API-Key'' = []"
  "rq_header (agent_request c url r) ''Authorization'' = (if cl_api_key c = [] then [] else ''Bearer '' @ cl_api_key c)"
  "rq_method (agent_request c url r) = ''GET''"
  by (simp_all add: agent_request_def routed_request_def wire_request_of_def request_headers_def)

lemma endpoint_query: "url_raw_query (service_endpoint C c r suffix) = []"
  by (simp add: service_endpoint_def Let_def)

lemma query_get_empty [simp]: "query_get [] name = []"
  by (simp add: query_get_def query_pair_def List.map_filter_simps)

lemma resolve_pair: "List.map_filter query_pair (split_on CHR ''&'' ''resolve_secrets=true'') = [(''resolve_secrets'', ''true'')]"
  by code_simp

lemma query_get_resolve: "query_get ''resolve_secrets=true'' name = (if name = ''resolve_secrets'' then ''true'' else [])"
  unfolding query_get_def resolve_pair by simp

lemma agent_request_query:
  "rq_query (agent_request c url r) = query_get (url_raw_query url)"
  by (simp add: agent_request_def routed_request_def wire_request_of_def)

subsection \<open>Answers\<close>

lemma cacheable_answer:
  assumes "rq_header r ''If-None-Match'' = []"
  shows "hw_status (respond_cacheable_json H r etag v new_writer) = Some 200"
    "body_bytes H (hw_body (respond_cacheable_json H r etag v new_writer)) = body_bytes H (JsonBody v)"
  using assms
  by (auto simp: respond_cacheable_json_def if_none_match_def Let_def respond_json_def respond_gzip_json_def write_body_def write_header_def
      set_header_def add_vary_def new_writer_def body_bytes_def)

lemma exchange_route:
  assumes "dispatch ''GET'' (url_raw_path url) = Matched p (Api rt) vs"
    and "serve H rt (routed_request (wire_request_of url hdrs) vs) new_writer st = Some (wr, st')" and "hw_status wr = Some code"
  shows "exchange F H other d url hdrs (st, m) =
     (Inr (int code, Inr (body_bytes H (hw_body wr))), st',
      record_http_request F ''GET'' (route_label p) (int code) d m)"
proof -
  have req: "wq_method (wire_request_of url hdrs) = ''GET''" "wq_path (wire_request_of url hdrs) = url_raw_path url"
    "rq_method (routed_request (wire_request_of url hdrs) vs) = ''GET''"
    by (simp_all add: wire_request_of_def routed_request_def)
  show ?thesis
    using assms(2,3)
    by (simp add: exchange_def serve_wire_def req assms(1) instrument_http_def serve_route_def status_code_def Let_def)
qed

text \<open>
  What the agent makes of an answer: \<open>after\<close> is the time of a formatted one, \<open>reread\<close> and \<open>text\<close> what JSON makes of the values of
  a config (with \<open>UseNumber\<close> a number comes back as its text) and of a map of strings.
\<close>

record json_view =
  jv_time :: "string \<Rightarrow> gotime"
  jv_config :: "cmap \<Rightarrow> cmap"
  jv_strings :: "smap \<Rightarrow> smap"

definition metadata_read :: "go_lib \<Rightarrow> json_view \<Rightarrow> service_ref \<Rightarrow> string \<Rightarrow> gotime \<Rightarrow> agent_metadata" where
  "metadata_read L J r version t =
     \<lparr>am_org = ref_org r, am_project = ref_project r, am_service = ref_service r, am_version = version,
      am_updated_at = jv_time J (format_rfc3339 L t)\<rparr>"

definition ref_meta :: "go_lib \<Rightarrow> service_ref \<Rightarrow> string \<Rightarrow> gotime \<Rightarrow> json" where
  "ref_meta L r version t = config_meta L (ref_org r) (ref_project r) (ref_service r) version t"

definition json_laws :: "'w handler \<Rightarrow> ('w, 'f) net client_lib \<Rightarrow> json_view \<Rightarrow> bool" where
  "json_laws H C J \<longleftrightarrow>
     (\<forall>r version t m data.
        hv_marshal (hn_env H) (JObj [(''metadata'', ref_meta (hlib H) r version t), (''config'', JVal (CMap m))]) = Inr data \<longrightarrow>
        decode_config C (data @ [newline]) =
          Inr \<lparr>cs_metadata = metadata_read (hlib H) J r version t, cs_config = Some (jv_config J m)\<rparr>) \<and>
     (\<forall>r version t plain refs data.
        hv_marshal (hn_env H) (JObj [(''metadata'', ref_meta (hlib H) r version t),
          (''env_vars'', JObj [(''plain'', smap_json plain), (''secret_refs'', smap_json refs)])]) = Inr data \<longrightarrow>
        decode_env_vars C (data @ [newline]) =
          Inr \<lparr>es_metadata = metadata_read (hlib H) J r version t,
               es_env_vars = \<lparr>av_plain = jv_strings J (nz plain), av_secret_refs = jv_strings J (nz refs), av_secrets = []\<rparr>\<rparr>) \<and>
     (\<forall>r version t plain secrets data.
        hv_marshal (hn_env H) (JObj [(''metadata'', ref_meta (hlib H) r version t),
          (''env_vars'', JObj [(''plain'', smap_json plain), (''secrets'', smap_json secrets)])]) = Inr data \<longrightarrow>
        decode_env_vars C (data @ [newline]) =
          Inr \<lparr>es_metadata = metadata_read (hlib H) J r version t,
               es_env_vars = \<lparr>av_plain = jv_strings J (nz plain), av_secret_refs = [], av_secrets = jv_strings J (nz secrets)\<rparr>\<rparr>)"

definition fits :: "client \<Rightarrow> bytes \<Rightarrow> bool" where
  "fits c data \<longleftrightarrow> int (length data) < cl_max_response_bytes c"

lemma get_json_ok:
  assumes "root_client C c" and "http_do D url (request_headers c) n = (Inr (200, Inr (data @ [newline])), n')" and "fits c data"
  shows "get_json D c decode url n =
     (case decode (data @ [newline]) of Inl e \<Rightarrow> (Inl (wrapf [''decode config server response''] e), n') | Inr v \<Rightarrow> (Inr v, n'))"
proof -
  have "read_limited (Inr (data @ [newline])) (cl_max_response_bytes c) = Inr (data @ [newline])"
    using assms(1,3) read_limited_exact [of "cl_max_response_bytes c" "data @ [newline]"] by (simp add: root_client_def fits_def)
  then show ?thesis using assms(2) by (simp add: get_json_def)
qed

subsection \<open>What the agent reads\<close>

definition effective_config :: "service_data \<Rightarrow> cmap" where
  "effective_config d =
     (case (if sd_inherited_config d \<noteq> None then sd_inherited_config d else sd_config d) of None \<Rightarrow> [] | Some c \<Rightarrow> nz (sc_config c))"

definition effective_env :: "service_data \<Rightarrow> env_vars" where
  "effective_env d =
     (case served_env_vars True d of None \<Rightarrow> \<lparr>ev_plain = None, ev_secret_refs = None\<rparr> | Some c \<Rightarrow> ec_env c)"

definition counted :: "'f float_ops \<Rightarrow> string \<Rightarrow> int \<Rightarrow> duration \<Rightarrow> 'f metrics_registry \<Rightarrow> 'f metrics_registry" where
  "counted F p code = record_http_request F ''GET'' (route_label p) code"

lemma config_payload_body:
  "cp_body (config_payload_from_data L head d (ref_org r) (ref_project r) (ref_service r) True) =
     JObj [(''metadata'', ref_meta L r (cp_version (config_payload_from_data L head d (ref_org r) (ref_project r) (ref_service r) True)) (sd_updated_at d)),
       (''config'', JVal (CMap (effective_config d)))]"
  by (auto simp: config_payload_from_data_def Let_def ref_meta_def config_json_def effective_config_def nz_def split: option.split)

lemma connected_fields [simp]:
  "http_do (connected F H other t C) = exchange F H other t" "decode_config (connected F H other t C) = decode_config C"
  "decode_env_vars (connected F H other t C) = decode_env_vars C"
  "service_endpoint (connected F H other t C) = service_endpoint C"
  by (simp_all add: connected_def service_endpoint_def fun_eq_iff)

lemma agent_get:
  assumes "root_client C c"
    and "dispatch ''GET'' (url_raw_path url) = Matched p (Api rt) [(''org'', ref_org r), (''project'', ref_project r), (''service'', ref_service r)]"
    and "serve H rt (agent_request c url r) new_writer st = Some (wr, st')" and "hw_status wr = Some 200"
    and "body_bytes H (hw_body wr) = body_bytes H (JsonBody j)" and "hv_marshal (hn_env H) j = Inr data" and "fits c data"
    and "decode (data @ [newline]) = Inr v"
  shows "get_json (connected F H other t C) c decode url (st, m) = (Inr v, st', counted F p 200 t m)"
proof -
  have body: "body_bytes H (hw_body wr) = data @ [newline]" unfolding assms(5) by (simp add: body_bytes_def assms(6))
  have "exchange F H other t url (request_headers c) (st, m) = (Inr (200, Inr (data @ [newline])), st', counted F p 200 t m)"
    using exchange_route [OF assms(2) assms(3) [unfolded agent_request_def] assms(4), of F other t m] by (simp add: body counted_def)
  then show ?thesis
    using get_json_ok [OF assms(1) _ assms(7), of "connected F H other t C" url "(st, m)" "(st', counted F p 200 t m)" decode] assms(8) by simp
qed

lemma plain_ref_valid: "plain_ref r \<Longrightarrow> ref_normalized r = r \<Longrightarrow> validate_ref r = None"
proof -
  assume p: "plain_ref r" and n: "ref_normalized r = r"
  then have "trim_space (ref_org r) = ref_org r" "trim_space (ref_project r) = ref_project r" "trim_space (ref_service r) = ref_service r"
    unfolding ref_normalized_def by (metis service_ref.select_convs)+
  with p show ?thesis unfolding validate_ref_def Let_def n by (simp add: plain_ref_def plain_name_def)
qed

lemma json_lawsD:
  assumes "json_laws H C J"
  shows "hv_marshal (hn_env H) (JObj [(''metadata'', ref_meta (hlib H) r version t), (''config'', JVal (CMap m))]) = Inr data \<Longrightarrow>
      decode_config C (data @ [newline]) =
        Inr \<lparr>cs_metadata = metadata_read (hlib H) J r version t, cs_config = Some (jv_config J m)\<rparr>"
    "hv_marshal (hn_env H) (JObj [(''metadata'', ref_meta (hlib H) r version t),
        (''env_vars'', JObj [(''plain'', smap_json plain), (''secret_refs'', smap_json refs)])]) = Inr data \<Longrightarrow>
      decode_env_vars C (data @ [newline]) =
        Inr \<lparr>es_metadata = metadata_read (hlib H) J r version t,
             es_env_vars = \<lparr>av_plain = jv_strings J (nz plain), av_secret_refs = jv_strings J (nz refs), av_secrets = []\<rparr>\<rparr>"
    "hv_marshal (hn_env H) (JObj [(''metadata'', ref_meta (hlib H) r version t),
        (''env_vars'', JObj [(''plain'', smap_json plain), (''secrets'', smap_json secrets)])]) = Inr data \<Longrightarrow>
      decode_env_vars C (data @ [newline]) =
        Inr \<lparr>es_metadata = metadata_read (hlib H) J r version t,
             es_env_vars = \<lparr>av_plain = jv_strings J (nz plain), av_secret_refs = [], av_secrets = jv_strings J (nz secrets)\<rparr>\<rparr>"
  using assms unfolding json_laws_def by blast+

definition served :: "go_lib \<Rightarrow> store \<Rightarrow> service_data \<Rightarrow> service_ref \<Rightarrow> cacheable_read_payload \<times> cacheable_read_payload" where
  "served L s d r =
     (config_payload_from_data L (head_version s) d (ref_org r) (ref_project r) (ref_service r) True,
      env_vars_payload_from_data L (head_version s) d (ref_org r) (ref_project r) (ref_service r) True)"

lemma agent_fetches_config:
  assumes "root_client C c" and "plain_ref r" and "ref_normalized r = r" and "json_laws H C J"
    and "get_config (hs_store s) (ref_org r) (ref_project r) (ref_service r) = Inr d"
    and p: "p = fst (served (hlib H) (hs_store s) d r)" and "hv_marshal (hn_env H) (cp_body p) = Inr data" and "fits c data"
  shows "fetch_config (connected F H other t C) c r ((s, w), m) =
     (Inr \<lparr>cs_metadata = metadata_read (hlib H) J r (cp_version p) (sd_updated_at d), cs_config = Some (jv_config J (effective_config d))\<rparr>,
      (s, w), counted F config_pattern 200 t m)"
proof -
  let ?url = "service_endpoint C c r ''config''" let ?r = "agent_request c ?url r"
  let ?etag = "response_etag H ?r ''config'' (ref_org r) (ref_project r) (ref_service r) (cp_version p) (cp_updated_at p) True"
  have srv: "serve H RConfig ?r new_writer (s, w) = Some (respond_cacheable_json H ?r ?etag (cp_body p) new_writer, s, w)"
    using assms(5)
    by (simp add: get_config_handler_def parse_inherit_query_def agent_request_query endpoint_query write_config_response_def
        write_payload_def current_config_payload_def current_payload_def p served_def Let_def)
  have nm: "rq_header ?r ''If-None-Match'' = []" by simp
  have dec: "decode_config C (data @ [newline]) =
      Inr \<lparr>cs_metadata = metadata_read (hlib H) J r (cp_version p) (sd_updated_at d), cs_config = Some (jv_config J (effective_config d))\<rparr>"
    using assms(7) json_lawsD(1) [OF assms(4)] by (simp add: p served_def config_payload_body)
  show ?thesis
    using agent_get [where decode = "decode_config C", OF assms(1) agent_dispatch(1) [OF assms(1,2)] srv cacheable_answer [OF nm, of H ?etag "cp_body p"] assms(7,8) dec]
    by (simp add: fetch_config_def assms(3) plain_ref_valid [OF assms(2,3)])
qed

lemma env_payload_body:
  "cp_body (env_vars_payload_from_data L head d (ref_org r) (ref_project r) (ref_service r) True) =
     JObj [(''metadata'', ref_meta L r (cp_version (env_vars_payload_from_data L head d (ref_org r) (ref_project r) (ref_service r) True)) (sd_updated_at d)),
       (''env_vars'', JObj [(''plain'', smap_json (ev_plain (effective_env d))), (''secret_refs'', smap_json (ev_secret_refs (effective_env d)))])]"
  by (auto simp: env_vars_payload_from_data_def Let_def ref_meta_def env_vars_json_def effective_env_def served_env_vars_def split: option.split)

lemma agent_fetches_env_vars:
  assumes "root_client C c" and "plain_ref r" and "ref_normalized r = r" and "json_laws H C J"
    and "get_config (hs_store s) (ref_org r) (ref_project r) (ref_service r) = Inr d"
    and p: "p = snd (served (hlib H) (hs_store s) d r)" and "hv_marshal (hn_env H) (cp_body p) = Inr data" and "fits c data"
  shows "fetch_env_vars (connected F H other t C) c r False ((s, w), m) =
     (Inr \<lparr>es_metadata = metadata_read (hlib H) J r (cp_version p) (sd_updated_at d),
           es_env_vars = \<lparr>av_plain = jv_strings J (nz (ev_plain (effective_env d))),
                          av_secret_refs = jv_strings J (nz (ev_secret_refs (effective_env d))), av_secrets = []\<rparr>\<rparr>,
      (s, w), counted F env_vars_pattern 200 t m)"
proof -
  let ?url = "service_endpoint C c r ''env_vars''" let ?r = "agent_request c ?url r"
  let ?etag = "response_etag H ?r ''env_vars'' (ref_org r) (ref_project r) (ref_service r) (cp_version p) (cp_updated_at p) True"
  have srv: "serve H REnvVars ?r new_writer (s, w) = Some (respond_cacheable_json H ?r ?etag (cp_body p) new_writer, s, w)"
    using assms(5)
    by (simp add: get_env_vars_def parse_bool_query_def parse_inherit_query_def agent_request_query endpoint_query write_env_vars_response_def
        write_payload_def current_env_vars_payload_def current_payload_def p served_def Let_def)
  have nm: "rq_header ?r ''If-None-Match'' = []" by simp
  have dec: "decode_env_vars C (data @ [newline]) =
      Inr \<lparr>es_metadata = metadata_read (hlib H) J r (cp_version p) (sd_updated_at d),
           es_env_vars = \<lparr>av_plain = jv_strings J (nz (ev_plain (effective_env d))),
                          av_secret_refs = jv_strings J (nz (ev_secret_refs (effective_env d))), av_secrets = []\<rparr>\<rparr>"
    using assms(7) json_lawsD(2) [OF assms(4)] by (simp add: p served_def env_payload_body)
  show ?thesis
    using agent_get [where decode = "decode_env_vars C", OF assms(1) agent_dispatch(2) [OF assms(1,2)] srv cacheable_answer [OF nm, of H ?etag "cp_body p"] assms(7,8) dec]
    by (simp add: fetch_env_vars_def assms(3) plain_ref_valid [OF assms(2,3)])
qed

subsection \<open>Resolved secrets\<close>

definition resolving_url :: "('w, 'f) net client_lib \<Rightarrow> client \<Rightarrow> service_ref \<Rightarrow> go_url" where
  "resolving_url C c r = (service_endpoint C c r ''env_vars'')\<lparr>url_raw_query := ''resolve_secrets=true''\<rparr>"

lemma resolving_query: "rq_query (agent_request c (resolving_url C c r) r) name = (if name = ''resolve_secrets'' then ''true'' else [])"
  unfolding agent_request_query by (simp add: resolving_url_def query_get_resolve)

lemma resolving_parses:
  "parse_bool_query (agent_request c (resolving_url C c r) r) ''resolve_secrets'' = Inr True"
  "parse_inherit_query (agent_request c (resolving_url C c r) r) = Inr True"
  "trim_space (rq_query (agent_request c (resolving_url C c r) r) ''version'') = []"
  by (simp_all add: parse_bool_query_def parse_inherit_query_def resolving_query parse_bool_def)

lemma resolving_dispatch:
  assumes "root_client C c" and "plain_ref r"
  shows "dispatch ''GET'' (url_raw_path (resolving_url C c r)) =
      Matched env_vars_pattern (Api REnvVars) [(''org'', ref_org r), (''project'', ref_project r), (''service'', ref_service r)]"
  using agent_dispatch(2) [OF assms] by (simp add: resolving_url_def)

lemma bearer_scheme: "equal_fold ''Bearer'' ''bearer''"
  by code_simp

lemma agent_authorized: "authorized (agent_request c url r) key \<longleftrightarrow> cl_api_key c \<noteq> [] \<and> cl_api_key c = key"
  using bearer_scheme by (auto simp: authorized_def constant_time_equal_def cut_at_def)

lemma resolve_keeps_store: "resolve_env_secrets H org project service d ev (s, w) = (res, s', w') \<Longrightarrow> hs_store s' = hs_store s"
  by (auto simp: resolve_env_secrets_def resolve_with_metadata_def Let_def split: prod.splits sum.splits option.splits if_splits)

lemma agent_fetches_secrets:
  assumes "root_client C c" and "plain_ref r" and "ref_normalized r = r" and "json_laws H C J"
    and "get_config (hs_store s) (ref_org r) (ref_project r) (ref_service r) = Inr d" and "served_env_vars True d = Some ev"
    and "cl_api_key c = hn_api_key H" and "allow_rate_limited H SecretResolveGroup new_writer w = (None, w1)"
    and "hv_volume (hn_env H) = Some V" and "mounted V files" and "cache_ok (hs_volume s) (hs_mem s)"
    and "mounted_secrets files (vr_mount (hs_volume s)) (map_option ss_secrets (sd_secrets d)) (nz (ev_secret_refs (ec_env ev))) = Some secrets"
    and "hv_marshal (hn_env H) (resolved_answer H (agent_request c (resolving_url C c r) r) (hs_store s) d ev secrets) = Inr data" and "fits c data"
  shows "\<exists>s' w'. fetch_env_vars (connected F H other t C) c r True ((s, w), m) =
     (Inr \<lparr>es_metadata = metadata_read (hlib H) J r (head_version (hs_store s)) (sd_updated_at d),
           es_env_vars = \<lparr>av_plain = jv_strings J (nz (ev_plain (ec_env ev))), av_secret_refs = [], av_secrets = jv_strings J secrets\<rparr>\<rparr>,
      (s', w'), counted F env_vars_pattern 200 t m) \<and> hs_store s' = hs_store s"
proof -
  let ?url = "resolving_url C c r" let ?r = "agent_request c (resolving_url C c r) r"
  let ?answer = "resolved_answer H ?r (hs_store s) d ev secrets"
  have key: "authenticate (hn_api_key H) ?r new_writer = None"
    using assms(7) by (simp add: authenticate_def agent_authorized)
  have read: "get_config (hs_store s) (rq_path ?r ''org'') (rq_path ?r ''project'') (rq_path ?r ''service'') = Inr d" using assms(5) by simp
  obtain res s' w' where re: "resolve_env_secrets H (rq_path ?r ''org'') (rq_path ?r ''project'') (rq_path ?r ''service'') d ev (s, w1) = (res, s', w')"
    by (metis prod.collapse)
  have res: "res = Inr secrets" using resolve_env_secrets_mounted [OF assms(9-11) re] assms(12) by simp
  let ?wr = "respond_json 200 ?answer (no_store new_writer)"
  have srv: "serve H REnvVars ?r new_writer (s, w) = Some (?wr, s', w')"
    using resolving_route [OF key assms(8) resolving_parses read assms(6)] re res by simp
  have wr: "hw_status ?wr = Some 200" "body_bytes H (hw_body ?wr) = body_bytes H (JsonBody ?answer)"
    by (simp_all add: respond_json_def write_body_def write_header_def set_header_def no_store_def del_header_def new_writer_def)
  have dec: "decode_env_vars C (data @ [newline]) =
      Inr \<lparr>es_metadata = metadata_read (hlib H) J r (head_version (hs_store s)) (sd_updated_at d),
           es_env_vars = \<lparr>av_plain = jv_strings J (nz (ev_plain (ec_env ev))), av_secret_refs = [], av_secrets = jv_strings J (nz (Some secrets))\<rparr>\<rparr>"
    by (rule json_lawsD(3) [OF assms(4)]) (use assms(13) in \<open>simp add: resolved_answer_def ref_meta_def\<close>)
  have "fetch_env_vars (connected F H other t C) c r True ((s, w), m) =
      get_json (connected F H other t C) c (decode_env_vars C) ?url ((s, w), m)"
    by (simp add: fetch_env_vars_def assms(3) plain_ref_valid [OF assms(2,3)] resolving_url_def)
  with agent_get [where decode = "decode_env_vars C", OF assms(1) resolving_dispatch [OF assms(1,2)] srv wr assms(13,14) dec, of F other t m]
    resolve_keeps_store [OF re]
  show ?thesis by simp
qed

text \<open>Without the key of the server the agent gets an error and nothing happens.\<close>

lemma agent_without_key:
  assumes "root_client C c" and "plain_ref r" and "ref_normalized r = r" and "hn_api_key H \<noteq> []" and "cl_api_key c \<noteq> hn_api_key H"
  shows "\<exists>e. fetch_env_vars (connected F H other t C) c r True (st, m) = (Inl e, st, counted F env_vars_pattern 401 t m)"
proof -
  let ?url = "resolving_url C c r" let ?r = "agent_request c (resolving_url C c r) r"
  let ?wr = "respond_error_code 401 ''unauthorized'' ''missing or invalid API key'' new_writer"
  have "authenticate (hn_api_key H) ?r new_writer = Some ?wr"
    using assms(4,5) by (simp add: authenticate_def agent_authorized)
  then have srv: "serve H REnvVars ?r new_writer st = Some (?wr, st)"
    by (cases st) (simp add: get_env_vars_def resolving_parses Let_def)
  have wr: "hw_status ?wr = Some 401"
    by (simp add: respond_error_code_def respond_json_def write_body_def write_header_def set_header_def new_writer_def)
  have ex: "exchange F H other t ?url (request_headers c) (st, m) =
      (Inr (401, Inr (body_bytes H (hw_body ?wr))), st, counted F env_vars_pattern 401 t m)"
    using exchange_route [OF resolving_dispatch [OF assms(1,2)] srv [unfolded agent_request_def] wr, of F other t m] by (simp add: counted_def)
  have "fetch_env_vars (connected F H other t C) c r True (st, m) =
      get_json (connected F H other t C) c (decode_env_vars C) ?url (st, m)"
    by (simp add: fetch_env_vars_def assms(3) plain_ref_valid [OF assms(2,3)] resolving_url_def)
  then show ?thesis using ex by (auto simp: get_json_def split: sum.split)
qed

end
