(* ===== verification/AgentServerProps.thy ===== *)
theory AgentServerProps
  imports AgentServer
begin

text \<open>
  What an agent learns from a server, through client, wire, routing table and handlers: the properties of the two
  halves put together, with a sample codec for JSON on which they are evaluated.
\<close>


text \<open>The agent's command reports what the server serves: the version and the number of keys, nothing else.\<close>

lemma agent_command_reports_served:
  assumes "load_agent_config P parse args (Some getenv) = Inr cfg" and "\<not> ac_resolve_secrets cfg"
    and "lib (ac_http_timeout cfg) = connected F H other t C"
    and "new_client (connected F H other t C) \<lparr>co_base_url = ac_config_server_url cfg, co_api_key = ac_api_key cfg, co_max_response_bytes = 0\<rparr> = Inr c"
    and "root_client C c" and "json_laws H C J" and r: "r = agent_service_ref cfg" and "plain_ref r" and "ref_normalized r = r"
    and "get_config (hs_store s) (ref_org r) (ref_project r) (ref_service r) = Inr d"
    and p: "p = fst (served (hlib H) (hs_store s) d r)" and q: "q = snd (served (hlib H) (hs_store s) d r)"
    and "hv_marshal (hn_env H) (cp_body p) = Inr pdata" and "fits c pdata"
    and "hv_marshal (hn_env H) (cp_body q) = Inr qdata" and "fits c qdata"
  shows "\<exists>n. agent_main lib P parse args getenv ((s, w), m) =
     (Inr \<lparr>dr_ref = r, dr_version = (if cp_version p = [] then cp_version q else cp_version p),
           dr_config_updated = (jv_time J (format_rfc3339 (hlib H) (sd_updated_at d)) \<noteq> 0),
           dr_env_updated = (jv_time J (format_rfc3339 (hlib H) (sd_updated_at d)) \<noteq> 0),
           dr_config_keys = length (jv_config J (effective_config d)),
           dr_plain_env_vars = length (jv_strings J (nz (ev_plain (effective_env d)))),
           dr_secret_refs = length (jv_strings J (nz (ev_secret_refs (effective_env d)))),
           dr_resolved_secrets = 0, dr_resolve_secrets = False\<rparr>, (s, w), n)"
  using agent_fetches_config [OF assms(5,8,9,6,10) p assms(13,14), of F other t w]
    agent_fetches_env_vars [OF assms(5,8,9,6,10) q assms(15,16), of F other t w]
  by (simp add: agent_main_def assms(1-4) run_dry_run_def snapshot_client_of_def metadata_read_def Let_def flip: r)

text \<open>Exit code 2 is for settings that do not load, and for nothing else.\<close>

lemma agent_exit_codes:
  assumes "\<And>t. parse_url (lib t) = parse"
  shows "fst (agent_main lib P parse args getenv w) = Inl 2 \<longleftrightarrow> isl (load_agent_config P parse args (Some getenv))"
proof (cases "load_agent_config P parse args (Some getenv)")
  case (Inr cfg)
  let ?C = "lib (ac_http_timeout cfg)"
  from loaded_settings_work [of P ?C args "Some getenv" cfg] Inr assms
  obtain c where c: "new_client ?C \<lparr>co_base_url = ac_config_server_url cfg, co_api_key = ac_api_key cfg, co_max_response_bytes = 0\<rparr> = Inr c"
    by (cases "new_client ?C \<lparr>co_base_url = ac_config_server_url cfg, co_api_key = ac_api_key cfg, co_max_response_bytes = 0\<rparr>") auto
  obtain x w' where x: "run_dry_run (Some cfg) (Some (snapshot_client_of ?C c)) w = (Some x, w')"
    using http.dry_run_returns [of cfg ?C c w] by (cases "run_dry_run (Some cfg) (Some (snapshot_client_of ?C c)) w") auto
  then show ?thesis using Inr c by (cases x) (simp_all add: agent_main_def)
qed (simp add: agent_main_def)


subsection \<open>A codec\<close>

text \<open>
  A JSON codec for the answers whose values are all strings: the strings of an answer one after the other, each character
  behind an \<open>a\<close>, each string closed by a \<open>z\<close>.
\<close>

definition pack :: "string list \<Rightarrow> string" where
  "pack ss = concat (map (\<lambda>s. concat (map (\<lambda>c. [CHR ''a'', c]) s) @ ''z'') ss)"

fun unpack :: "string \<Rightarrow> string list" where
  "unpack [] = []"
| "unpack [c] = [[]]"
| "unpack (c # d # s) =
     (if c = CHR ''z'' then [] # unpack (d # s) else (case unpack s of [] \<Rightarrow> [] | w # ws \<Rightarrow> (d # w) # ws))"

lemma unpack_one: "unpack (concat (map (\<lambda>c. [CHR ''a'', c]) s) @ CHR ''z'' # rest) = s # unpack rest"
proof (induction s)
  case Nil
  then show ?case by (cases rest) simp_all
qed simp

lemma unpack_pack [simp]: "unpack (pack ss) = ss"
  by (induction ss) (simp_all add: pack_def unpack_one)

fun string_fields :: "(string \<times> json) list \<Rightarrow> string list option" where
  "string_fields [] = Some []"
| "string_fields ((k, JStr v) # fs) = map_option (\<lambda>ss. k # v # ss) (string_fields fs)"
| "string_fields _ = None"

fun string_values :: "cmap \<Rightarrow> string list option" where
  "string_values [] = Some []"
| "string_values ((k, CStr v) # fs) = map_option (\<lambda>ss. k # v # ss) (string_values fs)"
| "string_values _ = None"

fun pairs :: "string list \<Rightarrow> smap" where
  "pairs (k # v # ss) = (k, v) # pairs ss"
| "pairs _ = []"

lemma string_fields_smap: "string_fields (map (\<lambda>(k, v). (k, JStr v)) m) = Some (concat (map (\<lambda>(k, v). [k, v]) m))"
  by (induction m) auto

lemma pairs_concat: "pairs (concat (map (\<lambda>(k, v). [k, v]) m)) = m"
  by (induction m) auto

lemma string_values_pairs: "string_values m = Some ss \<Longrightarrow> map (\<lambda>(k, v). (k, CStr v)) (pairs ss) = m"
  by (induction m arbitrary: ss rule: string_values.induct) auto

text \<open>The two maps of an answer with env vars are packed into one string each.\<close>

fun sample_marshal :: "json \<Rightarrow> goerr + bytes" where
  "sample_marshal (JObj [(_, JObj meta), (_, JVal (CMap m))]) =
     (case (string_fields meta, string_values m) of
        (Some ss, Some vs) \<Rightarrow> Inr (pack [pack ss, pack vs]) | _ \<Rightarrow> Inl (errf [''unsupported'']))"
| "sample_marshal (JObj [(_, JObj meta), (_, JObj [(_, JObj plain), (name, JObj others)])]) =
     (case (string_fields meta, string_fields plain, string_fields others) of
        (Some ss, Some ps, Some ts) \<Rightarrow> Inr (pack [pack ss, name, pack ps, pack ts]) | _ \<Rightarrow> Inl (errf [''unsupported'']))"
| "sample_marshal _ = Inl (errf [''unsupported''])"

definition sample_metadata_of :: "string \<Rightarrow> agent_metadata" where
  "sample_metadata_of s =
     (let f = (\<lambda>k. case map_of (pairs (unpack s)) k of None \<Rightarrow> [] | Some v \<Rightarrow> v) in
      \<lparr>am_org = f ''org'', am_project = f ''project'', am_service = f ''service'', am_version = f ''version'',
       am_updated_at = int (length (f ''updated_at''))\<rparr>)"

definition sample_decode_config :: "bytes \<Rightarrow> goerr + config_snapshot" where
  "sample_decode_config data =
     (case unpack (butlast data) of
        [meta, vs] \<Rightarrow> Inr \<lparr>cs_metadata = sample_metadata_of meta, cs_config = Some (map (\<lambda>(k, v). (k, CStr v)) (pairs (unpack vs)))\<rparr>
      | _ \<Rightarrow> Inl (errf [''bad config'']))"

definition sample_decode_env_vars :: "bytes \<Rightarrow> goerr + env_vars_snapshot" where
  "sample_decode_env_vars data =
     (case unpack (butlast data) of
        [meta, name, ps, ts] \<Rightarrow>
          (let others = pairs (unpack ts) in
           Inr \<lparr>es_metadata = sample_metadata_of meta,
                es_env_vars = \<lparr>av_plain = pairs (unpack ps), av_secret_refs = (if name = ''secrets'' then [] else others),
                               av_secrets = (if name = ''secrets'' then others else [])\<rparr>\<rparr>)
      | _ \<Rightarrow> Inl (errf [''bad env vars'']))"

definition sample_view :: json_view where
  "sample_view = \<lparr>jv_time = (\<lambda>s. int (length s)), jv_config = id, jv_strings = id\<rparr>"

definition coding_handler :: "'w store_env \<Rightarrow> 'w vol_env option \<Rightarrow> 'w handler" where
  "coding_handler E V = (let H = sample_handler E V in H\<lparr>hn_env := (hn_env H)\<lparr>hv_marshal := sample_marshal\<rparr>\<rparr>)"

definition coding_client :: "('w, 'f) net client_lib" where
  "coding_client =
     \<lparr>parse_url = (\<lambda>s. Inl (errf [''unused''])), escaped_path = url_path, http_do = (\<lambda>u h n. (Inl (errf [''not connected'']), n)),
      decode_config = sample_decode_config, decode_env_vars = sample_decode_env_vars\<rparr>"

lemma sample_metadata_fields:
  "string_fields [(''org'', JStr a), (''project'', JStr b), (''service'', JStr c), (''version'', JStr d), (''updated_at'', JStr e)] =
     Some [''org'', a, ''project'', b, ''service'', c, ''version'', d, ''updated_at'', e]"
  by simp

lemma sample_metadata_read:
  "sample_metadata_of (pack [''org'', ref_org r, ''project'', ref_project r, ''service'', ref_service r, ''version'', version,
     ''updated_at'', format_rfc3339 L t]) = metadata_read L sample_view r version t"
  by (simp add: sample_metadata_of_def metadata_read_def sample_view_def)

lemma coding_laws: "json_laws (coding_handler E V) (coding_client :: ('w, 'f) net client_lib) sample_view"
proof -
  have marshal: "hv_marshal (hn_env (coding_handler E V)) = sample_marshal" by (simp add: coding_handler_def Let_def)
  show ?thesis
    unfolding json_laws_def marshal
    by (auto simp: coding_client_def ref_meta_def config_meta_def sample_decode_config_def sample_decode_env_vars_def sample_metadata_read
        smap_json_def string_fields_smap pairs_concat string_values_pairs sample_view_def split: option.splits)
qed

subsection \<open>Witnesses\<close>

text \<open>A service with a config and a secret, a client with a key, and floating point that only counts\<close>

definition agent_service :: service_data where
  "agent_service = secret_service\<lparr>sd_config := Some (sample_config ''a'')\<rparr>"

definition agent_store :: store where
  "agent_store = new_store\<lparr>st_snapshot := new_snapshot [(service_key ''o'' ''p'' ''s'', agent_service)] ''h''\<rparr>"

definition keyed_client :: "string \<Rightarrow> client" where
  "keyed_client key =
     \<lparr>cl_base_url = \<lparr>url_scheme = ''http'', url_host = ''h'', url_path = [], url_raw_path = [], url_raw_query = [], url_fragment = []\<rparr>,
      cl_api_key = key, cl_max_response_bytes = default_max_response_bytes\<rparr>"

definition count_floats :: "nat float_ops" where
  "count_floats = \<lparr>fo_add = (+), fo_le = (\<le>), fo_of_count = unat, fo_seconds = nat, fo_format = (\<lambda>n. []), fo_buckets = [1]\<rparr>"

type_synonym sample_net = "(string, nat) net"

abbreviation agent_handler :: "string handler" where
  "agent_handler \<equiv> coding_handler one_file_env (Some path_volume)"

definition agent_lib :: "sample_net client_lib" where
  "agent_lib = connected count_floats agent_handler (\<lambda>x. new_writer) 1 coding_client"

definition agent_env :: "sample_net fetch_env" where
  "agent_env =
     \<lparr>fe_client = snapshot_client_of agent_lib (keyed_client ''key''), fe_marshal_config = (\<lambda>m. Inr []), fe_marshal_env_vars = (\<lambda>v. Inr []),
      fe_sha256_hex = id, fe_handler = None, fe_timer = (\<lambda>d n. (None, n)), fe_ctx_err = (\<lambda>n. None)\<rparr>"

lemma keyed_root: "root_client (coding_client :: sample_net client_lib) (keyed_client key)"
  by (simp add: root_client_def coding_client_def keyed_client_def trim_right_slashes_def default_max_response_bytes_def)

lemma sample_ref_ok: "plain_ref sample_ref" "ref_normalized sample_ref = sample_ref"
  by code_simp+

lemma agent_service_found:
  "get_config (hs_store (server_at agent_store)) (ref_org sample_ref) (ref_project sample_ref) (ref_service sample_ref) = Inr agent_service"
  by (simp add: server_at_def get_config_def agent_store_def new_snapshot_def new_store_def sample_ref_def)

lemma agent_handler_fields:
  "hv_marshal (hn_env agent_handler) = sample_marshal" "hlib agent_handler = sample_lib" "hn_api_key agent_handler = ''key''"
  "hv_volume (hn_env agent_handler) = Some path_volume" "hn_limiters agent_handler = sample_limits"
  by (simp_all add: coding_handler_def sample_handler_def sample_http_env_def one_file_env_def Let_def)

lemma agent_effective:
  "effective_config agent_service = [(''raw'', CStr ''a'')]" "ev_plain (effective_env agent_service) = None"
  "ev_secret_refs (effective_env agent_service) = Some [(''PASS'', ''i'')]" "served_env_vars True agent_service = Some secret_env"
  by (simp_all add: effective_config_def effective_env_def served_env_vars_def agent_service_def secret_service_def empty_service_data_def
      sample_config_def secret_env_def)

lemma length_pack: "length (pack ss) = sum_list (map (\<lambda>s. 2 * length s + 1) ss)"
proof -
  have "length (concat (map (\<lambda>c. [CHR ''a'', c]) s)) = 2 * length s" for s :: string by (induction s) auto
  then show ?thesis by (induction ss) (auto simp: pack_def)
qed

lemma agent_bodies:
  assumes "served sample_lib (hs_store (server_at agent_store)) agent_service sample_ref = (p, q)"
  shows "\<exists>data. sample_marshal (cp_body p) = Inr data \<and> fits (keyed_client key) data"
    "\<exists>data. sample_marshal (cp_body q) = Inr data \<and> fits (keyed_client key) data"
    "cp_version p = ''h'' \<and> cp_version q = ''h''"
proof -
  have head: "head_version (hs_store (server_at agent_store)) = ''h''"
    by (simp add: server_at_def agent_store_def head_version_def new_snapshot_def)
  have p: "p = config_payload_from_data sample_lib ''h'' agent_service (ref_org sample_ref) (ref_project sample_ref) (ref_service sample_ref) True"
    and q: "q = env_vars_payload_from_data sample_lib ''h'' agent_service (ref_org sample_ref) (ref_project sample_ref) (ref_service sample_ref) True"
    using assms by (simp_all add: served_def head)
  show v: "cp_version p = ''h'' \<and> cp_version q = ''h''"
    by (simp add: p q config_payload_from_data_def env_vars_payload_from_data_def agent_service_def secret_service_def empty_service_data_def Let_def)
  note defs = ref_meta_def config_meta_def sample_ref_def sample_lib_def fits_def keyed_client_def default_max_response_bytes_def length_pack
  show "\<exists>data. sample_marshal (cp_body p) = Inr data \<and> fits (keyed_client key) data"
    using v unfolding p config_payload_body agent_effective by (simp add: defs)
  show "\<exists>data. sample_marshal (cp_body q) = Inr data \<and> fits (keyed_client key) data"
    using v unfolding q env_payload_body agent_effective by (simp add: smap_json_def defs)
qed



end
