(* ===== verification/Spec2Isabelle.thy ===== *)
theory Spec2Isabelle
  imports Prelude GoErr Parser Paths Inherit Sealed SecretWrites Store Samples StoreReload Changes ChangesProps
    Revert RevertProps StoreSystem Watch GoTime Debounce DebounceProps
    AgentClient AgentClientProps FetchLoop FetchLoopProps Render RenderProps Registry RegistryProps BootstrapProps
    GitRepo GitSample GitRepoProps GitContent SecretVolume VolumeProps GoFlag AgentConfig AgentConfigProps AgentKube AgentKubeProps
    ServerConfig ServerConfigProps Http Handler Routes HandlerSample Validators RoutesProps RouteSafety
    ReadProps WatchProps SecretReads WriteProps RepoStore Certificates Startup StartupProps Metrics MetricsProps
    Mux MuxProps AgentMain AgentServer AgentServerProps
begin

text \<open>
  The AAP Config Server and its Config Agent.

  The server keeps the configuration of services (org, project, service) that lives in a git repository: YAML files
  \<open>config.yaml\<close>, \<open>env_vars.yaml\<close>, \<open>secrets.yaml\<close> and sealed secrets per service, and \<open>_defaults/common.yaml\<close> files that
  a service inherits from the globe, its org and its project. It parses the whole repository into a snapshot in
  memory, serves it over HTTP with cache validators and a blocking watch, takes writes as commits that are pushed
  before the snapshot is replaced, and keeps the registry of apps of a console. The agent polls the server for one
  service, renders what it reads, writes it to Kubernetes and restarts the deployment behind a debouncer. Git is
  the source of truth: nearly every property below says what a reader may conclude from a version.

  Theories, in the order of the code; a theory with the suffix Props proves what its component promises.

  \<^item> Prelude: maps of Go as association lists with a locale of map laws, string and path helpers, sorting, and the
    locales of transition systems (\<open>step_system\<close>, \<open>monotone_system\<close>) which every component with a history
    interprets. GoErr, GoTime, GoFlag: internal/apperror with the error chain of package errors, times and int64
    durations, and the command line of package flag.
  \<^item> Parser (internal/parser), Paths (names and paths of internal/store/store.go and internal/gitops/repo.go), Inherit
    (the merge of defaults: \<open>deepMergeMap\<close>, \<open>mergeEnvVars\<close>, \<open>applyDefaultsInheritance\<close>).
  \<^item> Sealed, SecretWrites: internal/secret (sealed.go, types.go, apply.go, the encryptor of encrypt.go) and the secret part of
    a write in the store. SecretVolume, VolumeProps: the reader of mounted secrets (volume.go) on explicit memory cells,
    because plaintext is shared by reference and zeroed in place.
  \<^item> Store, StoreReload, Changes, ChangesProps, Revert, RevertProps, StoreSystem, Watch: internal/store/store.go. The
    record \<open>store\<close> is the struct: the snapshot behind its atomic pointer, the outcome of the last reload, and the number
    of times the version channel was closed. Reads, \<open>reload_unlocked\<close>, \<open>apply_changes\<close>, \<open>delete_changes\<close>, \<open>history\<close>,
    \<open>prepare_revert\<close> and \<open>apply_revert\<close> are the methods. The properties: a reload is all or nothing and serves exactly the
    files of the commit, versions of a resource name the commit that introduced it, every run of the store serves one
    commit, a failed write leaves the store alone, plaintext is destroyed on every path, a waiter misses no version
    (a step relation between the waiters and the operations of the store).
  \<^item> GitRepo, GitSample, GitRepoProps, GitContent: internal/gitops/repo.go on go-git: pull, the publish loop with its
    resets and retries, deletion, restoration, snapshot, reads at a commit, history. The local head never gets ahead of
    the remote, and the published commit is its parent with exactly the requested files.
  \<^item> Registry, RegistryProps, BootstrapProps: internal/registry (types.go, cache.go, bootstrap.go): a last-writer-wins
    register per app with watermarks and tombstones, and its startup loading.
  \<^item> ServerConfig, ServerConfigProps: internal/config/config.go.
  \<^item> Http, Handler, Routes, HandlerSample: internal/handler. \<open>http_writer\<close> is the \<open>statusRecorder\<close> with its headers; a handler
    is a function on request, writer, state of the server and world, and \<open>serve\<close> takes a route to its handler behind the
    checks that guard it. The watch is a partial function, since it waits as often as the store changes; on every schedule of
    reloads it ends (WatchProps). RoutesProps, RouteSafety, Validators, ReadProps, SecretReads, WriteProps: every answer is
    well formed, without the key nothing changes, equal ETags mean equal answers, a batch is the single reads, resolved
    secrets are the mounted files, and a posted config is what the next read answers.
  \<^item> RepoStore: the store on its git repository. The locale \<open>repository\<close> is what the store relies on, \<open>git_store\<close> a store on
    such a repository; the publish loop and the snapshot of GitRepo keep the contract (\<open>go_git\<close>, a sublocale), so that a
    config write answered 200 is published, changes nothing else and is served by every server that loads its commit.
  \<^item> Metrics, MetricsProps, Mux, MuxProps: internal/metrics with its endpoint, the patterns of \<open>Handler.Routes\<close> with the
    dispatch of the \<open>ServeMux\<close>, and \<open>instrumentHTTP\<close>: no request has two handlers, every escaped name reaches its route,
    every request is counted once.
  \<^item> Certificates: the certificate of the sealing controller (internal/secret/encrypt.go). Startup, StartupProps:
    cmd/config-server/main.go with internal/registry/client.go, the credentials of the repository (\<open>New\<close> and \<open>buildAuth\<close> of
    internal/gitops/repo.go) and internal/server/server.go.
  \<^item> Debounce, AgentClient, FetchLoop, Render, AgentConfig, AgentKube and their Props: internal/agent. The loop runs over
    a world that answers its fetches, its timers and its context. AgentMain: cmd/config-agent/main.go, which so far only fetches once and reports, and
    \<open>RunLeaderElection\<close>; the locale \<open>snapshot_source\<close> is what the loop and the dry run rely on of their client.
  \<^item> AgentServer, AgentServerProps: the agent's client with the server at the other end of the wire. One poll goes through
    URL escaping, dispatch, handler, ETag, compression and decoding, and yields what the store serves; secrets reach
    the agents with the key only.

  What is a parameter. go-git, the file system, yaml.v3, encoding/json, net/http, net/url, the number and time parsers
  of the standard library, the RSA sealing and the SHA-256 of the cryptographic library, client-go, fsnotify, the token
  bucket of golang.org/x/time/rate, the clock, sleeping and contexts are functions in records (\<open>go_lib\<close>, \<open>yaml_lib\<close>,
  \<open>git_repo\<close>, \<open>gogit\<close>, \<open>store_env\<close>, \<open>http_env\<close>, \<open>vol_env\<close>, \<open>kube\<close> and others) on an outside world \<open>'w\<close>; what a property needs
  of them is a named hypothesis, and its witness instantiates them with concrete functions (Samples, GitSample,
  HandlerSample and the sample definitions of the Props theories).

  Bounds and fuel. The publish loop has the three attempts of \<open>maxPushRetries\<close> and the bootstrap its
  configured attempts, both as structural recursion on the attempts left. Loops of the code that need not end (the watch,
  the poll loop of the agent) are \<open>partial_function (option)\<close>: that they end is a theorem about the world they
  run in (for the agent, once the context is done). Durations and times of the debouncer and of the backoffs
  wrap at 64 bits.

  The handlers of the model do not panic, \<open>instrument_http\<close> takes one that may. JSON between server and agent is \<open>json_laws\<close>,
  which a codec in AgentServerProps satisfies.

  Not modelled: what the listener does with connections, signals, the log, that reloads, git operations and watch waits
  call their recorders, and the leader election that client-go runs. Concurrency is modelled where the code relies on
  it: the watch protocol (Watch) and a store that other requests change while a handler waits; the handlers are otherwise
  atomic, which the mutexes of the store give for each of its methods but not for two calls in a row (Validators has what
  a reload between the two calls of a read does).
\<close>

end
